(* ===== verification/BTree.thy ===== *)
theory BTree
  imports Prelude
begin

text \<open>
  Rust's \<^verbatim>\<open>BTreeMap<String, V>\<close> (a VM's configuration, a JSON object, the options a journal
  restores) as an association list with strictly ascending keys, and \<^verbatim>\<open>BTreeSet<String>\<close> as such a
  list of keys. Iteration is in key order, and two maps are equal when their lists are. The locale
  \<open>ordered_map\<close> states what the clients rely on; it is interpreted on the list operations.
\<close>

type_synonym 'v bmap = "(string \<times> 'v) list"

section \<open>Operations\<close>

fun bt_get :: "'v bmap \<Rightarrow> string \<Rightarrow> 'v option" where
  "bt_get [] k = None"
| "bt_get ((k', v) # m) k = (if k = k' then Some v else bt_get m k)"

fun bt_insert :: "string \<Rightarrow> 'v \<Rightarrow> 'v bmap \<Rightarrow> 'v bmap" where
  "bt_insert k v [] = [(k, v)]"
| "bt_insert k v ((k', v') # m) =
     (if k < k' then (k, v) # (k', v') # m
      else if k = k' then (k, v) # m
      else (k', v') # bt_insert k v m)"

fun bt_remove :: "string \<Rightarrow> 'v bmap \<Rightarrow> 'v bmap" where
  "bt_remove k [] = []"
| "bt_remove k ((k', v') # m) = (if k = k' then m else (k', v') # bt_remove k m)"

definition bt_keys :: "'v bmap \<Rightarrow> string list" where
  "bt_keys m = map fst m"

definition bt_has :: "'v bmap \<Rightarrow> string \<Rightarrow> bool" where
  "bt_has m k \<longleftrightarrow> bt_get m k \<noteq> None"

definition bt_wf :: "'v bmap \<Rightarrow> bool" where
  "bt_wf m \<longleftrightarrow> sorted_wrt (<) (map fst m)"

text \<open>\<^verbatim>\<open>collect()\<close> into a map: later pairs replace earlier ones.\<close>

definition bt_of_list :: "(string \<times> 'v) list \<Rightarrow> 'v bmap" where
  "bt_of_list kvs = fold (\<lambda>(k, v). bt_insert k v) kvs []"

text \<open>\<^verbatim>\<open>collect()\<close> into a set.\<close>

definition set_of_list :: "string list \<Rightarrow> string list" where
  "set_of_list ks = map fst (bt_of_list (map (\<lambda>k. (k, ())) ks))"

section \<open>The map interface\<close>

locale ordered_map =
  fixes lookup :: "'m \<Rightarrow> 'k \<Rightarrow> 'v option"
    and insert :: "'k \<Rightarrow> 'v \<Rightarrow> 'm \<Rightarrow> 'm"
    and delete :: "'k \<Rightarrow> 'm \<Rightarrow> 'm"
    and empty :: 'm
    and wf :: "'m \<Rightarrow> bool"
  assumes lookup_empty: "lookup empty k = None"
    and lookup_insert: "wf m \<Longrightarrow> lookup (insert k v m) k' = (if k' = k then Some v else lookup m k')"
    and lookup_delete: "wf m \<Longrightarrow> lookup (delete k m) k' = (if k' = k then None else lookup m k')"
    and wf_empty: "wf empty"
    and wf_insert: "wf m \<Longrightarrow> wf (insert k v m)"
    and wf_delete: "wf m \<Longrightarrow> wf (delete k m)"
    and extensional: "wf m \<Longrightarrow> wf n \<Longrightarrow> (\<And>k. lookup m k = lookup n k) \<Longrightarrow> m = n"
begin

lemma insert_same: "wf m \<Longrightarrow> insert k v (insert k w m) = insert k v m"
  by (rule extensional) (simp_all add: lookup_insert wf_insert)

lemma insert_commute: "wf m \<Longrightarrow> k \<noteq> l \<Longrightarrow> insert k v (insert l w m) = insert l w (insert k v m)"
  by (rule extensional) (simp_all add: lookup_insert wf_insert)

lemma insert_idem: "wf m \<Longrightarrow> lookup m k = Some v \<Longrightarrow> insert k v m = m"
  by (rule extensional) (auto simp: lookup_insert wf_insert)

lemma delete_insert: "wf m \<Longrightarrow> lookup m k = None \<Longrightarrow> delete k (insert k v m) = m"
  by (rule extensional) (auto simp: lookup_insert lookup_delete wf_insert wf_delete)

lemma delete_absent: "wf m \<Longrightarrow> lookup m k = None \<Longrightarrow> delete k m = m"
  by (rule extensional) (auto simp: lookup_delete wf_delete)

lemma wf_fold_insert: "wf m \<Longrightarrow> wf (fold (\<lambda>(k, v). insert k v) kvs m)"
  by (induction kvs arbitrary: m) (auto simp: wf_insert)

lemma lookup_fold_insert:
  "wf m \<Longrightarrow> lookup (fold (\<lambda>(k, v). insert k v) kvs m) k =
     (case map_of (rev kvs) k of None \<Rightarrow> lookup m k | Some v \<Rightarrow> Some v)"
proof (induction kvs arbitrary: m)
  case Nil
  show ?case by simp
next
  case (Cons p kvs)
  then show ?case
    by (cases p) (simp add: wf_insert lookup_insert map_add_def split: option.splits)
qed

end

section \<open>The list implementation provides it\<close>

lemma bt_get_insert: "bt_get (bt_insert k v m) k' = (if k' = k then Some v else bt_get m k')"
  by (induction k v m rule: bt_insert.induct) auto

lemma bt_get_None_iff: "bt_get m k = None \<longleftrightarrow> k \<notin> set (bt_keys m)"
  by (induction m k rule: bt_get.induct) (auto simp: bt_keys_def)

lemma bt_get_in_set: "bt_get m k = Some v \<Longrightarrow> (k, v) \<in> set m"
  by (induction m k rule: bt_get.induct) (auto split: if_splits)

lemma bt_wf_Nil [simp]: "bt_wf []"
  by (simp add: bt_wf_def)

lemma bt_wf_Cons [simp]: "bt_wf (p # m) \<longleftrightarrow> (\<forall>k \<in> set (bt_keys m). fst p < k) \<and> bt_wf m"
  by (auto simp: bt_wf_def bt_keys_def)

lemma bt_keys_insert: "set (bt_keys (bt_insert k v m)) = insert k (set (bt_keys m))"
  by (induction k v m rule: bt_insert.induct) (auto simp: bt_keys_def)

lemma bt_keys_remove: "set (bt_keys (bt_remove k m)) \<subseteq> set (bt_keys m)"
  by (induction k m rule: bt_remove.induct) (auto simp: bt_keys_def)

lemma bt_wf_insert: "bt_wf m \<Longrightarrow> bt_wf (bt_insert k v m)"
  by (induction k v m rule: bt_insert.induct)
    (auto simp: bt_keys_insert, auto simp: bt_keys_def dest: order.strict_trans)

lemma bt_wf_remove: "bt_wf m \<Longrightarrow> bt_wf (bt_remove k m)"
  by (induction k m rule: bt_remove.induct) (use bt_keys_remove in fastforce)+

lemma bt_get_remove: "bt_wf m \<Longrightarrow> bt_get (bt_remove k m) k' = (if k' = k then None else bt_get m k')"
proof (induction k m rule: bt_remove.induct)
  case (2 k k'' v m)
  then show ?case
    by (cases "k = k''") (auto simp: bt_get_None_iff)
qed simp

lemma bt_get_eq_iff: "bt_wf m \<Longrightarrow> bt_get m k = Some v \<longleftrightarrow> (k, v) \<in> set m"
proof (induction m k rule: bt_get.induct)
  case (2 k' v' m k)
  then show ?case by (force simp: bt_keys_def)
qed simp

lemma bt_extensional: "bt_wf m \<Longrightarrow> bt_wf n \<Longrightarrow> (\<And>k. bt_get m k = bt_get n k) \<Longrightarrow> m = n"
proof (induction m arbitrary: n)
  case Nil
  then show ?case
    by (cases n) (auto, metis option.distinct(1))
next
  case (Cons p m)
  obtain k v where p: "p = (k, v)" by (cases p)
  obtain k' v' n' where n: "n = (k', v') # n'"
    using Cons.prems(3) [of k] p by (cases n) auto
  have k: "k = k'"
  proof (rule ccontr)
    assume ne: "k \<noteq> k'"
    have "bt_get n' k = Some v" "bt_get m k' = Some v'"
      using Cons.prems(3) [of k] Cons.prems(3) [of k'] ne p n by auto
    then have "k \<in> set (bt_keys n')" "k' \<in> set (bt_keys m)"
      by (metis bt_get_None_iff option.distinct(1))+
    with Cons.prems(1,2) p n have "k' < k" "k < k'" by auto
    then show False by simp
  qed
  have v: "v = v'" using Cons.prems(3) [of k] p n k by simp
  have "m = n'"
  proof (rule Cons.IH)
    show "bt_wf m" "bt_wf n'" using Cons.prems(1,2) n by simp_all
  next
    fix l
    show "bt_get m l = bt_get n' l"
    proof (cases "l = k")
      case True
      have "k \<notin> set (bt_keys m)" "k \<notin> set (bt_keys n')" using Cons.prems(1,2) p n k by auto
      then show ?thesis using True by (metis bt_get_None_iff)
    next
      case False
      then show ?thesis using Cons.prems(3) [of l] p n k by simp
    qed
  qed
  with p n k v show ?case by simp
qed

interpretation bt: ordered_map bt_get bt_insert bt_remove "[]" bt_wf
  by unfold_locales
    (simp_all add: bt_get_insert bt_get_remove bt_wf_insert bt_wf_remove bt_extensional)

section \<open>Consequences for maps and sets built from lists\<close>

lemma bt_wf_of_list [simp]: "bt_wf (bt_of_list kvs)"
  unfolding bt_of_list_def by (rule bt.wf_fold_insert) simp

lemma bt_get_of_list: "bt_get (bt_of_list kvs) k = map_of (rev kvs) k"
  unfolding bt_of_list_def by (simp add: bt.lookup_fold_insert split: option.splits)

lemma set_of_list_set [simp]: "set (set_of_list ks) = set ks"
proof -
  have "k \<in> set (set_of_list ks) \<longleftrightarrow> bt_get (bt_of_list (map (\<lambda>k. (k, ())) ks)) k \<noteq> None" for k
    by (simp add: set_of_list_def bt_get_None_iff bt_keys_def)
  also have "\<dots> k \<longleftrightarrow> k \<in> set ks" for k
    by (auto simp: bt_get_of_list map_of_eq_None_iff image_image simp flip: rev_map)
  finally show ?thesis by blast
qed

lemma set_of_list_sorted: "sorted_wrt (<) (set_of_list ks)"
  using bt_wf_of_list [of "map (\<lambda>k. (k, ())) ks"] by (simp add: set_of_list_def bt_wf_def)

lemma bt_has_insert: "bt_has (bt_insert k v m) k' \<longleftrightarrow> k' = k \<or> bt_has m k'"
  by (auto simp: bt_has_def bt_get_insert)

lemma bt_get_filter_keys:
  "bt_get (filter (\<lambda>(k, v). P k) m) k = (if P k then bt_get m k else None)"
  by (induction m) auto

end
