(* ===== verification/Json.thy ===== *)
theory Json
  imports Complex_Main BTree
begin

text \<open>
  JSON values as \<^verbatim>\<open>serde_json::Value\<close> holds them, and the lenient readers of
  \<^verbatim>\<open>hs-core/src/inventory.rs\<close> (\<open>py_str\<close>, \<open>truthy\<close>, \<open>text_or_none\<close>, \<open>integer_value\<close>).
  Objects are ordered maps (\<^verbatim>\<open>serde_json\<close> without \<^verbatim>\<open>preserve_order\<close>). A JSON number is an integer or
  a finite double, given by its exact rational value. The printed form of a double, an array or an
  object is \<^verbatim>\<open>serde_json\<close>'s own and is a parameter \<open>pr\<close> of the readers that need it.
\<close>

datatype json =
    JNull
  | JBool bool
  | JInt int
  | JFloat rat
  | JStr string
  | JArr "json list"
  | JObj "(string \<times> json) list"

text \<open>What the parser builds: every object with ascending keys, the last of equal keys kept.\<close>

fun json_norm :: "json \<Rightarrow> json" where
  "json_norm (JArr xs) = JArr (map json_norm xs)"
| "json_norm (JObj kvs) = JObj (bt_of_list (map (\<lambda>kv. (fst kv, json_norm (snd kv))) kvs))"
| "json_norm v = v"

section \<open>Readers of \<^verbatim>\<open>serde_json::Value\<close>\<close>

fun as_str :: "json \<Rightarrow> string option" where
  "as_str (JStr s) = Some s"
| "as_str _ = None"

fun as_array :: "json \<Rightarrow> json list option" where
  "as_array (JArr xs) = Some xs"
| "as_array _ = None"

fun as_object :: "json \<Rightarrow> json bmap option" where
  "as_object (JObj m) = Some m"
| "as_object _ = None"

fun as_bool :: "json \<Rightarrow> bool option" where
  "as_bool (JBool b) = Some b"
| "as_bool _ = None"

fun as_u64 :: "json \<Rightarrow> nat option" where
  "as_u64 (JInt n) = (if 0 \<le> n \<and> n < 2 ^ 64 then Some (nat n) else None)"
| "as_u64 _ = None"

fun as_f64 :: "json \<Rightarrow> rat option" where
  "as_f64 (JInt n) = Some (of_int n)"
| "as_f64 (JFloat x) = Some x"
| "as_f64 _ = None"

text \<open>\<^verbatim>\<open>Value::get\<close> with a key: \<open>None\<close> on anything but an object.\<close>

fun jget :: "json \<Rightarrow> string \<Rightarrow> json option" where
  "jget (JObj m) k = bt_get m k"
| "jget _ k = None"

text \<open>\<^verbatim>\<open>value[key]\<close> of a shared reference: \<open>Null\<close> when absent.\<close>

definition jidx :: "json \<Rightarrow> string \<Rightarrow> json" where
  "jidx v k = (case jget v k of None \<Rightarrow> JNull | Some x \<Rightarrow> x)"

text \<open>\<^verbatim>\<open>value[key] = x\<close> on an object.\<close>

fun jset :: "json \<Rightarrow> string \<Rightarrow> json \<Rightarrow> json" where
  "jset (JObj m) k x = JObj (bt_insert k x m)"
| "jset v k x = v"

definition get_str :: "json \<Rightarrow> string \<Rightarrow> string option" where
  "get_str v k = Option.bind (jget v k) as_str"

definition get_u64 :: "json \<Rightarrow> string \<Rightarrow> nat option" where
  "get_u64 v k = Option.bind (jget v k) as_u64"

text \<open>Building objects as \<^verbatim>\<open>json!\<close> does, and the conversions of scalars.\<close>

definition jobj :: "(string \<times> json) list \<Rightarrow> json" where
  "jobj kvs = JObj (bt_of_list kvs)"

definition jnat :: "nat \<Rightarrow> json" where
  "jnat n = JInt (int n)"

definition jopt :: "('a \<Rightarrow> json) \<Rightarrow> 'a option \<Rightarrow> json" where
  "jopt f x = (case x of None \<Rightarrow> JNull | Some a \<Rightarrow> f a)"

text \<open>A \<^verbatim>\<open>BTreeMap<String, String>\<close> as JSON.\<close>

definition jtexts :: "string bmap \<Rightarrow> json" where
  "jtexts m = JObj (map (\<lambda>(k, v). (k, JStr v)) m)"

section \<open>Python's readings of JSON scalars\<close>

definition dec_int :: "int \<Rightarrow> string" where
  "dec_int n = (if n < 0 then CHR ''-'' # dec (nat (- n)) else dec (nat n))"

fun py_str :: "(json \<Rightarrow> string) \<Rightarrow> json \<Rightarrow> string" where
  "py_str pr (JStr s) = s"
| "py_str pr JNull = ''None''"
| "py_str pr (JBool True) = ''True''"
| "py_str pr (JBool False) = ''False''"
| "py_str pr (JInt n) = dec_int n"
| "py_str pr v = pr v"

definition py_repr :: "string option \<Rightarrow> string" where
  "py_repr v = (case v of None \<Rightarrow> ''None'' | Some s \<Rightarrow> [CHR 0x27] @ s @ [CHR 0x27])"

fun truthy :: "json option \<Rightarrow> bool" where
  "truthy None = False"
| "truthy (Some JNull) = False"
| "truthy (Some (JBool b)) = b"
| "truthy (Some (JStr s)) = (s \<noteq> [])"
| "truthy (Some (JInt n)) = (n \<noteq> 0)"
| "truthy (Some (JFloat x)) = (x \<noteq> 0)"
| "truthy (Some (JArr xs)) = (xs \<noteq> [])"
| "truthy (Some (JObj m)) = (m \<noteq> [])"

definition text_or_none :: "(json \<Rightarrow> string) \<Rightarrow> json option \<Rightarrow> string option" where
  "text_or_none pr v = (if truthy v then Some (case v of None \<Rightarrow> [] | Some x \<Rightarrow> py_str pr x) else None)"

text \<open>\<^verbatim>\<open>f.trunc() as i64\<close>: rounds towards zero and saturates.\<close>

definition sat_i64 :: "int \<Rightarrow> int" where
  "sat_i64 n = max (- (2 ^ 63)) (min (2 ^ 63 - 1) n)"

definition trunc_rat :: "rat \<Rightarrow> int" where
  "trunc_rat x = (if x < 0 then \<lceil>x\<rceil> else \<lfloor>x\<rfloor>)"

fun integer_value :: "json option \<Rightarrow> int option" where
  "integer_value (Some (JInt n)) = Some (sat_i64 n)"
| "integer_value (Some (JFloat x)) = Some (sat_i64 (trunc_rat x))"
| "integer_value (Some (JBool b)) = Some (if b then 1 else 0)"
| "integer_value (Some (JStr s)) = parse_i64 (filter (\<lambda>c. c \<noteq> CHR ''_'') (trim s))"
| "integer_value _ = None"

definition non_negative :: "json option \<Rightarrow> nat option" where
  "non_negative v = Option.bind (integer_value v) (\<lambda>n. if 0 \<le> n then Some (nat n) else None)"

definition to_u32 :: "int \<Rightarrow> nat option" where
  "to_u32 n = (if 0 \<le> n \<and> n < int u32_bound then Some (nat n) else None)"

section \<open>Lemmas\<close>

lemma jidx_jset_same: "v = JObj m \<Longrightarrow> jidx (jset v k x) k = x"
  by (simp add: jidx_def bt_get_insert)

lemma jget_jobj: "jget (jobj kvs) k = map_of (rev kvs) k"
  by (simp add: jobj_def bt_get_of_list)

lemma get_str_eq_Some: "get_str v k = Some s \<longleftrightarrow> jget v k = Some (JStr s)"
proof -
  have "as_str x = Some s \<longleftrightarrow> x = JStr s" for x by (cases x) auto
  then show ?thesis by (auto simp: get_str_def Option.bind_eq_Some_conv)
qed

lemma as_u64_bound: "as_u64 v = Some n \<Longrightarrow> n < u64_bound"
  by (cases v) (auto simp: u64_bound_def split: if_splits)

lemma as_u64_jnat [simp]: "n < u64_bound \<Longrightarrow> as_u64 (jnat n) = Some n"
  by (auto simp: jnat_def u64_bound_def)

lemma jtexts_inject [simp]: "jtexts m = jtexts n \<longleftrightarrow> m = n"
  by (auto simp: jtexts_def inj_on_def dest!: map_injective)

lemma bt_get_jtexts: "bt_get (map (\<lambda>(k, v). (k, JStr v)) m) k = map_option JStr (bt_get m k)"
  by (induction m) auto

end
