(* ===== verification/Pve.thy ===== *)
theory Pve
  imports Json
begin

text \<open>
  Operations on Proxmox VE. The trait \<^verbatim>\<open>Pve\<close> (\<^verbatim>\<open>hs-core/src/pve.rs\<close>) is the boundary of the
  program: what answers a request is outside \<^verbatim>\<open>src/\<close>, so it is a parameter \<open>S\<close> of every operation
  and may answer anything, take any time and change the world in any way. An operation is a
  function of the state that returns a result and the next state. The state records every request
  with its answer in order (\<open>trace\<close>), the progress events sent to the job's observer (\<open>events\<close>) and
  the monotonic clock (\<open>clock\<close>, in milliseconds) that deadlines are measured on.

  The second half is a small logic of requests: \<open>only P m\<close> says that every request \<open>m\<close> ever sends
  satisfies \<open>P\<close>, \<open>at_most K n m\<close> that at most \<open>n\<close> of them are of kind \<open>K\<close>, and \<open>valid\<close> is a Hoare triple
  with a postcondition for success and one for failure.
\<close>

section \<open>Requests, errors, events\<close>

datatype request =
    Get (path: string) (fields: "(string \<times> string) list")
  | Post (path: string) (fields: "(string \<times> string) list")
  | Put (path: string) (fields: "(string \<times> string) list")
  | Delete (path: string) (fields: "(string \<times> string) list")

fun is_get :: "request \<Rightarrow> bool" where
  "is_get (Get p q) = True"
| "is_get _ = False"

fun is_delete :: "request \<Rightarrow> bool" where
  "is_delete (Delete p q) = True"
| "is_delete _ = False"

datatype pve_error =
    PveConfig string
  | Unreachable "(string \<times> string) list"
  | Unauthorized
  | Forbidden string
  | NodeUnreachable string
  | Api nat string
  | Response string

fun pve_error_text :: "pve_error \<Rightarrow> string" where
  "pve_error_text (PveConfig m) = ''invalid Proxmox client configuration: '' @ m"
| "pve_error_text (Unreachable fs) = ''no Proxmox endpoint is reachable''"
| "pve_error_text Unauthorized = ''Proxmox rejected the API token''"
| "pve_error_text (Forbidden m) = ''permission denied: '' @ m"
| "pve_error_text (NodeUnreachable m) = ''node unreachable: '' @ m"
| "pve_error_text (Api st m) = ''Proxmox error '' @ dec st @ '': '' @ m"
| "pve_error_text (Response m) = ''bad Proxmox response: '' @ m"

datatype core_error =
    Context string "core_error list"
  | PveErr pve_error
  | NotFound string
  | Invalid string
  | Refused string
  | Ambiguous string
  | Unusable string
  | OutsidePool string
  | Failed string
  | Busy string

fun error_text :: "core_error \<Rightarrow> string" where
  "error_text (Context m cs) = m"
| "error_text (PveErr e) = pve_error_text e"
| "error_text (NotFound m) = m"
| "error_text (Invalid m) = m"
| "error_text (Refused m) = m"
| "error_text (Ambiguous m) = m"
| "error_text (Unusable m) = m"
| "error_text (OutsidePool m) = m"
| "error_text (Failed m) = m"
| "error_text (Busy m) = m"

text \<open>\<^verbatim>\<open>CoreError::pve_error\<close>: a Proxmox cause, also under recovery context.\<close>

fun pve_error_of :: "core_error \<Rightarrow> pve_error option"
  and pve_error_in :: "core_error list \<Rightarrow> pve_error option" where
  "pve_error_of (PveErr e) = Some e"
| "pve_error_of (Context m cs) = pve_error_in cs"
| "pve_error_of _ = None"
| "pve_error_in [] = None"
| "pve_error_in (c # cs) = (case pve_error_of c of Some e \<Rightarrow> Some e | None \<Rightarrow> pve_error_in cs)"

datatype job_event =
    StepStarted string
  | StepFinished string bool
  | TaskStarted string string string "nat option"
  | TaskLog string "string list"
  | ProgressAt rat string
  | TaskFinished string string

section \<open>The outside world and the state of an operation\<close>

type_synonym answer = "pve_error + json"

text \<open>
  Everything an operation calls that is not under \<^verbatim>\<open>src/\<close>: \<open>call\<close> answers a request (with the time
  it took and the next world), \<open>pause\<close> is what happens in the world while the operation sleeps (and
  how much longer than asked the sleep took), \<open>print_json\<close> prints a JSON value, \<open>b64_decode\<close> decodes
  Base64 (to bytes; none for invalid text).
\<close>

record 'w ext =
  call :: "request \<Rightarrow> 'w \<Rightarrow> answer \<times> nat \<times> 'w"
  pause :: "nat \<Rightarrow> 'w \<Rightarrow> nat \<times> 'w"
  print_json :: "json \<Rightarrow> string"
  b64_decode :: "string \<Rightarrow> string option"

record 'w st =
  world :: 'w
  clock :: nat
  trace :: "(request \<times> answer) list"
  events :: "job_event list"

type_synonym ('w, 'a) op = "'w st \<Rightarrow> (core_error + 'a) \<times> 'w st"

definition returnE :: "'a \<Rightarrow> ('w, 'a) op" where
  "returnE a = (\<lambda>s. (Inr a, s))"

definition throwE :: "core_error \<Rightarrow> ('w, 'a) op" where
  "throwE e = (\<lambda>s. (Inl e, s))"

definition bindE :: "('w, 'a) op \<Rightarrow> ('a \<Rightarrow> ('w, 'b) op) \<Rightarrow> ('w, 'b) op" where
  "bindE m f = (\<lambda>s. case m s of (Inl e, s') \<Rightarrow> (Inl e, s') | (Inr a, s') \<Rightarrow> f a s')"

text \<open>A pure result inside an operation (\<^verbatim>\<open>?\<close> on a plain \<^verbatim>\<open>Result\<close>).\<close>

definition liftE :: "core_error + 'a \<Rightarrow> ('w, 'a) op" where
  "liftE r = (\<lambda>s. (r, s))"

text \<open>The outcome as a value, not propagated (\<^verbatim>\<open>let x = op.await;\<close>).\<close>

definition tryE :: "('w, 'a) op \<Rightarrow> ('w, core_error + 'a) op" where
  "tryE m = (\<lambda>s. case m s of (r, s') \<Rightarrow> (Inr r, s'))"

definition map_errE :: "(core_error \<Rightarrow> core_error) \<Rightarrow> ('w, 'a) op \<Rightarrow> ('w, 'a) op" where
  "map_errE f m = (\<lambda>s. case m s of (r, s') \<Rightarrow> (map_err f r, s'))"

definition unlessE :: "bool \<Rightarrow> core_error \<Rightarrow> ('w, unit) op" where
  "unlessE ok e = (if ok then returnE () else throwE e)"

fun mapM_E :: "('a \<Rightarrow> ('w, 'b) op) \<Rightarrow> 'a list \<Rightarrow> ('w, 'b list) op" where
  "mapM_E f [] = returnE []"
| "mapM_E f (x # xs) = bindE (f x) (\<lambda>y. bindE (mapM_E f xs) (\<lambda>ys. returnE (y # ys)))"

fun foldM_E :: "('s \<Rightarrow> 'a \<Rightarrow> ('w, 's) op) \<Rightarrow> 's \<Rightarrow> 'a list \<Rightarrow> ('w, 's) op" where
  "foldM_E f z [] = returnE z"
| "foldM_E f z (x # xs) = bindE (f z x) (\<lambda>z'. foldM_E f z' xs)"

text \<open>One request: the answer is parsed (normalised), recorded, and an error is \<^verbatim>\<open>CoreError::Pve\<close>.\<close>

definition answer_norm :: "answer \<Rightarrow> answer" where
  "answer_norm a = (case a of Inl e \<Rightarrow> Inl e | Inr v \<Rightarrow> Inr (json_norm v))"

definition api :: "'w ext \<Rightarrow> request \<Rightarrow> ('w, json) op" where
  "api S rq = (\<lambda>s. case call S rq (world s) of (a, dt, w) \<Rightarrow>
     (map_err PveErr (answer_norm a),
      s\<lparr>world := w, clock := clock s + dt, trace := trace s @ [(rq, answer_norm a)]\<rparr>))"

text \<open>A sleep takes at least the time asked for, and never no time at all.\<close>

definition sleep :: "'w ext \<Rightarrow> nat \<Rightarrow> ('w, unit) op" where
  "sleep S d = (\<lambda>s. case pause S d (world s) of (extra, w) \<Rightarrow>
     (Inr (), s\<lparr>world := w, clock := clock s + max 1 d + extra\<rparr>))"

definition nowE :: "('w, nat) op" where
  "nowE = (\<lambda>s. (Inr (clock s), s))"

definition emit :: "job_event \<Rightarrow> ('w, unit) op" where
  "emit ev = (\<lambda>s. (Inr (), s\<lparr>events := events s @ [ev]\<rparr>))"

definition step_started :: "string \<Rightarrow> ('w, unit) op" where
  "step_started name = emit (StepStarted name)"

definition step_finished :: "string \<Rightarrow> bool \<Rightarrow> ('w, unit) op" where
  "step_finished name ok = emit (StepFinished name ok)"

text \<open>\<^verbatim>\<open>tokio::time::timeout\<close>: an operation not done after \<open>d\<close> is given up at that moment.\<close>

definition within_time :: "nat \<Rightarrow> ('w, 'a) op \<Rightarrow> ('w, 'a option) op" where
  "within_time d m = (\<lambda>s. case m s of (r, s') \<Rightarrow>
     if clock s' \<le> clock s + d
     then ((case r of Inl e \<Rightarrow> Inl e | Inr a \<Rightarrow> Inr (Some a)), s')
     else (Inr None, s'\<lparr>clock := clock s + d\<rparr>))"

text \<open>
  The shape every step of an operation has: report the start, run it, report whether it worked,
  then propagate its failure.
\<close>

definition stepE :: "string \<Rightarrow> ('w, 'a) op \<Rightarrow> ('w, 'a) op" where
  "stepE name m =
     bindE (step_started name) (\<lambda>_.
     bindE (tryE m) (\<lambda>r.
     bindE (step_finished name (is_ok r)) (\<lambda>_.
     liftE r)))"

section \<open>Laws of the operations\<close>

lemma bindE_return [simp]: "bindE (returnE a) f = f a"
  by (simp add: bindE_def returnE_def)

lemma bindE_throw [simp]: "bindE (throwE e) f = throwE e"
  by (simp add: bindE_def throwE_def)

lemma bindE_return_right [simp]: "bindE m returnE = m"
  by (rule ext) (simp add: bindE_def returnE_def split: prod.splits sum.splits)

lemma bindE_assoc: "bindE (bindE m f) g = bindE m (\<lambda>x. bindE (f x) g)"
  by (rule ext) (simp add: bindE_def split: prod.splits sum.splits)

lemma liftE_simps [simp]: "liftE (Inr a) = returnE a" "liftE (Inl e) = throwE e"
  by (simp_all add: liftE_def returnE_def throwE_def)

lemma bindE_Inr [run_simps]:
  "bindE m f s = (Inr b, s'') \<longleftrightarrow> (\<exists>a s'. m s = (Inr a, s') \<and> f a s' = (Inr b, s''))"
  by (auto simp: bindE_def split: prod.splits sum.splits)

lemma bindE_InrE:
  assumes "bindE m f s = (Inr b, s')"
  obtains a s1 where "m s = (Inr a, s1)" and "f a s1 = (Inr b, s')"
  using assms by (auto simp: bindE_Inr)

lemma bindE_Inl [run_simps]:
  "bindE m f s = (Inl e, s'') \<longleftrightarrow>
     m s = (Inl e, s'') \<or> (\<exists>a s'. m s = (Inr a, s') \<and> f a s' = (Inl e, s''))"
  by (auto simp: bindE_def split: prod.splits sum.splits)

lemma returnE_run [run_simps]: "returnE a s = (Inr a, s)"
  by (simp add: returnE_def)

lemma throwE_run [run_simps]: "throwE e s = (Inl e, s)"
  by (simp add: throwE_def)

lemma map_errE_Inr: "map_errE f m s = (Inr a, s') \<longleftrightarrow> m s = (Inr a, s')"
  by (auto simp: map_errE_def map_err_def split: prod.splits sum.splits)

lemma liftE_run [run_simps]: "liftE r s = (r, s)"
  by (simp add: liftE_def)

lemma unlessE_run [run_simps]: "unlessE b e s = (if b then Inr () else Inl e, s)"
  by (simp add: unlessE_def returnE_run throwE_run)

lemma nowE_run [run_simps]: "nowE s = (Inr (clock s), s)"
  by (simp add: nowE_def)

lemma emit_run [run_simps]: "emit ev s = (Inr (), s\<lparr>events := events s @ [ev]\<rparr>)"
  by (simp add: emit_def)

lemma tryE_run [run_simps]: "tryE m s = (Inr (fst (m s)), snd (m s))"
  by (simp add: tryE_def split: prod.splits)

lemma foldM_invariant:
  assumes "foldM_E f z xs s = (Inr z', s')" and "I z"
    and "\<And>a x b s s'. x \<in> set xs \<Longrightarrow> I a \<Longrightarrow> f a x s = (Inr b, s') \<Longrightarrow> I b"
  shows "I z'"
  using assms
proof (induction xs arbitrary: z s)
  case Nil
  then show ?case by (simp add: returnE_run)
next
  case (Cons x xs)
  then obtain b s1 where "f z x s = (Inr b, s1)" "foldM_E f b xs s1 = (Inr z', s')" by (auto simp: bindE_Inr)
  with Cons show ?case by (metis list.set_intros)
qed

section \<open>A logic of requests\<close>

text \<open>Every request \<open>m\<close> sends, with the answer it got, satisfies \<open>P\<close>.\<close>

definition only :: "(request \<times> answer \<Rightarrow> bool) \<Rightarrow> ('w, 'a) op \<Rightarrow> bool" where
  "only P m \<longleftrightarrow> (\<forall>s. \<exists>t. trace (snd (m s)) = trace s @ t \<and> (\<forall>c \<in> set t. P c))"

definition at_most :: "(request \<Rightarrow> bool) \<Rightarrow> nat \<Rightarrow> ('w, 'a) op \<Rightarrow> bool" where
  "at_most K n m \<longleftrightarrow>
     (\<forall>s. \<exists>t. trace (snd (m s)) = trace s @ t \<and> length (filter (\<lambda>c. K (fst c)) t) \<le> n)"

text \<open>The requests a run of \<open>m\<close> from \<open>s\<close> adds to the trace.\<close>

definition sent :: "('w, 'a) op \<Rightarrow> 'w st \<Rightarrow> (request \<times> answer) list" where
  "sent m s = drop (length (trace s)) (trace (snd (m s)))"

definition requests :: "('w, 'a) op \<Rightarrow> 'w st \<Rightarrow> request list" where
  "requests m s = map fst (sent m s)"

definition read_only :: "('w, 'a) op \<Rightarrow> bool" where
  "read_only m \<longleftrightarrow> only (\<lambda>c. is_get (fst c)) m"

lemma onlyI: "(\<And>s. \<exists>t. trace (snd (m s)) = trace s @ t \<and> (\<forall>c \<in> set t. P c)) \<Longrightarrow> only P m"
  by (simp add: only_def)

lemma only_sent: "only P m \<Longrightarrow> c \<in> set (sent m s) \<Longrightarrow> P c"
  unfolding only_def sent_def by (metis append_eq_conv_conj)

lemma only_list_all: "only P m \<Longrightarrow> list_all P (sent m s)"
  unfolding list_all_iff using only_sent by blast

lemma only_requests: "only (\<lambda>c. P (fst c)) m \<Longrightarrow> list_all P (requests m s)"
  unfolding requests_def list_all_iff using only_sent by fastforce

lemma only_extends: "only P m \<Longrightarrow> trace (snd (m s)) = trace s @ sent m s"
  unfolding only_def sent_def by (metis append_eq_conv_conj)

lemma at_most_sent: "at_most K n m \<Longrightarrow> length (filter (\<lambda>c. K (fst c)) (sent m s)) \<le> n"
  unfolding at_most_def sent_def by (metis append_eq_conv_conj)

lemma only_mono: "only P m \<Longrightarrow> (\<And>c. P c \<Longrightarrow> Q c) \<Longrightarrow> only Q m"
  unfolding only_def by blast

lemma only_return [only_intro]: "only P (returnE a)"
  by (simp add: only_def run_simps)

lemma only_throw [only_intro]: "only P (throwE e)"
  by (simp add: only_def run_simps)

lemma only_lift [only_intro]: "only P (liftE r)"
  by (simp add: only_def run_simps)

lemma only_now [only_intro]: "only P nowE"
  by (simp add: only_def run_simps)

lemma only_emit [only_intro]: "only P (emit ev)"
  by (simp add: only_def run_simps)

lemma only_unless [only_intro]: "only P (unlessE b e)"
  by (simp add: only_def run_simps)

lemma only_sleep [only_intro]: "only P (sleep S d)"
  by (simp add: only_def sleep_def split: prod.splits)

lemma only_api [only_intro]: "(\<And>a. P (rq, a)) \<Longrightarrow> only P (api S rq)"
  by (auto simp: only_def api_def split: prod.splits)

lemma only_bind_known:
  assumes m: "only P m" and f: "\<And>a s s'. m s = (Inr a, s') \<Longrightarrow> only P (f a)"
  shows "only P (bindE m f)"
proof (rule onlyI)
  fix s
  obtain r s' where ms: "m s = (r, s')" by (cases "m s")
  with m obtain t where t: "trace s' = trace s @ t" "\<forall>c \<in> set t. P c"
    unfolding only_def by (metis snd_conv)
  show "\<exists>t. trace (snd (bindE m f s)) = trace s @ t \<and> (\<forall>c \<in> set t. P c)"
  proof (cases r)
    case (Inl e)
    with ms t show ?thesis by (auto simp: bindE_def)
  next
    case (Inr a)
    from f [of s a s'] ms Inr obtain t' where t': "trace (snd (f a s')) = trace s' @ t'" "\<forall>c \<in> set t'. P c"
      unfolding only_def by blast
    then have "trace (snd (bindE m f s)) = trace s @ (t @ t')" using ms t Inr by (simp add: bindE_def)
    with t t' show ?thesis by (metis Un_iff set_append)
  qed
qed

lemma only_bind [only_intro]: "only P m \<Longrightarrow> (\<And>a. only P (f a)) \<Longrightarrow> only P (bindE m f)"
  by (rule only_bind_known)

lemma only_try [only_intro]: "only P m \<Longrightarrow> only P (tryE m)"
  by (simp add: only_def tryE_run)

lemma only_map_err [only_intro]: "only P m \<Longrightarrow> only P (map_errE f m)"
  by (simp add: only_def map_errE_def split: prod.splits) (metis snd_conv)

lemma only_within_time [only_intro]: "only P m \<Longrightarrow> only P (within_time d m)"
  by (simp add: only_def within_time_def split: prod.splits) (metis snd_conv)

lemma only_step [only_intro]: "only P m \<Longrightarrow> only P (stepE n m)"
  unfolding stepE_def step_started_def step_finished_def by (intro only_intro)

lemma only_if [only_intro]:
  "(b \<Longrightarrow> only P m) \<Longrightarrow> (\<not> b \<Longrightarrow> only P m') \<Longrightarrow> only P (if b then m else m')"
  by simp

lemma only_case_option [only_intro]:
  "(x = None \<Longrightarrow> only P m) \<Longrightarrow> (\<And>a. x = Some a \<Longrightarrow> only P (f a)) \<Longrightarrow>
     only P (case x of None \<Rightarrow> m | Some a \<Rightarrow> f a)"
  by (cases x) simp_all

lemma only_case_sum [only_intro]:
  "(\<And>e. x = Inl e \<Longrightarrow> only P (f e)) \<Longrightarrow> (\<And>a. x = Inr a \<Longrightarrow> only P (g a)) \<Longrightarrow>
     only P (case x of Inl e \<Rightarrow> f e | Inr a \<Rightarrow> g a)"
  by (cases x) simp_all

lemma only_case_prod [only_intro]:
  "(\<And>a b. x = (a, b) \<Longrightarrow> only P (f a b)) \<Longrightarrow> only P (case x of (a, b) \<Rightarrow> f a b)"
  by (cases x) simp_all

lemma only_let [only_intro]: "only P (f x) \<Longrightarrow> only P (let a = x in f a)"
  by simp

lemma only_mapM [only_intro]: "(\<And>x. x \<in> set xs \<Longrightarrow> only P (f x)) \<Longrightarrow> only P (mapM_E f xs)"
proof (induction xs)
  case Nil
  show ?case by (simp add: only_return)
next
  case (Cons x xs)
  then show ?case by (simp del: bindE_return_right) (intro only_intro, auto)
qed

lemma only_foldM [only_intro]:
  "(\<And>z x. x \<in> set xs \<Longrightarrow> only P (f z x)) \<Longrightarrow> only P (foldM_E f z xs)"
proof (induction xs arbitrary: z)
  case Nil
  show ?case by (simp add: only_return)
next
  case (Cons x xs)
  then show ?case by simp (intro only_intro, auto)
qed

lemma at_most_only: "only (\<lambda>c. \<not> K (fst c)) m \<Longrightarrow> at_most K n m"
proof -
  assume "only (\<lambda>c. \<not> K (fst c)) m"
  then have "\<exists>t. trace (snd (m s)) = trace s @ t \<and> (\<forall>c \<in> set t. \<not> K (fst c))" for s
    by (simp add: only_def)
  then have "\<exists>t. trace (snd (m s)) = trace s @ t \<and> length (filter (\<lambda>c. K (fst c)) t) = 0" for s
    by (metis (no_types, lifting) filter_False list.size(3))
  then show ?thesis unfolding at_most_def by (metis le0)
qed

lemma at_most_api: "at_most K (Suc 0) (api S rq)"
  by (auto simp: at_most_def api_def split: prod.splits)

lemma at_most_bind:
  assumes m: "at_most K i m" and f: "\<And>a. at_most K j (f a)" and n: "i + j \<le> n"
  shows "at_most K n (bindE m f)"
  unfolding at_most_def
proof
  fix s
  obtain r s' where ms: "m s = (r, s')" by (cases "m s")
  with m obtain t where t: "trace s' = trace s @ t" "length (filter (\<lambda>c. K (fst c)) t) \<le> i"
    unfolding at_most_def by (metis snd_conv)
  show "\<exists>t. trace (snd (bindE m f s)) = trace s @ t \<and> length (filter (\<lambda>c. K (fst c)) t) \<le> n"
  proof (cases r)
    case (Inl e)
    then show ?thesis using ms t n by (auto simp: bindE_def)
  next
    case (Inr a)
    from f [of a] obtain t' where
      t': "trace (snd (f a s')) = trace s' @ t'" "length (filter (\<lambda>c. K (fst c)) t') \<le> j"
      unfolding at_most_def by blast
    then have "trace (snd (bindE m f s)) = trace s @ (t @ t')" using ms t Inr by (simp add: bindE_def)
    moreover have "length (filter (\<lambda>c. K (fst c)) (t @ t')) \<le> n" using t t' n by simp
    ultimately show ?thesis by blast
  qed
qed

lemma at_most_try: "at_most K n m \<Longrightarrow> at_most K n (tryE m)"
  by (simp add: at_most_def tryE_run)

lemma at_most_map_err: "at_most K n m \<Longrightarrow> at_most K n (map_errE f m)"
  by (simp add: at_most_def map_errE_def split: prod.splits) (metis snd_conv)

lemma at_most_step: "at_most K n m \<Longrightarrow> at_most K n (stepE name m)"
proof -
  assume m: "at_most K n m"
  have e: "at_most K 0 (emit ev)" for ev by (rule at_most_only) (rule only_emit)
  have l: "at_most K 0 (liftE r)" for r by (rule at_most_only) (rule only_lift)
  show ?thesis unfolding stepE_def step_started_def step_finished_def
    by (rule at_most_bind [OF e], rule at_most_bind [OF at_most_try [OF m]],
        rule at_most_bind [OF e], rule l, auto)
qed

section \<open>Hoare triples\<close>

definition valid :: "('w st \<Rightarrow> bool) \<Rightarrow> ('w, 'a) op \<Rightarrow> ('a \<Rightarrow> 'w st \<Rightarrow> bool) \<Rightarrow>
    (core_error \<Rightarrow> 'w st \<Rightarrow> bool) \<Rightarrow> bool" where
  "valid P m Q E \<longleftrightarrow>
     (\<forall>s. P s \<longrightarrow> (case m s of (Inr a, s') \<Rightarrow> Q a s' | (Inl e, s') \<Rightarrow> E e s'))"

lemma validI:
  "(\<And>s a s'. P s \<Longrightarrow> m s = (Inr a, s') \<Longrightarrow> Q a s') \<Longrightarrow>
   (\<And>s e s'. P s \<Longrightarrow> m s = (Inl e, s') \<Longrightarrow> E e s') \<Longrightarrow> valid P m Q E"
  by (auto simp: valid_def split: prod.splits sum.splits)

lemma valid_Inr: "valid P m Q E \<Longrightarrow> P s \<Longrightarrow> m s = (Inr a, s') \<Longrightarrow> Q a s'"
  by (auto simp: valid_def split: prod.splits sum.splits)

lemma valid_Inl: "valid P m Q E \<Longrightarrow> P s \<Longrightarrow> m s = (Inl e, s') \<Longrightarrow> E e s'"
  by (auto simp: valid_def split: prod.splits sum.splits)

lemma valid_bind:
  assumes "valid P m Q E" and "\<And>a. valid (Q a) (f a) R E"
  shows "valid P (bindE m f) R E"
  by (rule validI) (use assms in \<open>auto simp: bindE_Inr bindE_Inl dest: valid_Inr valid_Inl\<close>)

lemma at_most_bind_last:
  "only (\<lambda>c. \<not> K (fst c)) m \<Longrightarrow> (\<And>a. at_most K n (f a)) \<Longrightarrow> at_most K n (bindE m f)"
  by (rule at_most_bind [where i = 0 and j = n]) (auto intro: at_most_only)

lemma at_most_bind_first:
  "at_most K n m \<Longrightarrow> (\<And>a. only (\<lambda>c. \<not> K (fst c)) (f a)) \<Longrightarrow> at_most K n (bindE m f)"
  by (rule at_most_bind [where i = n and j = 0]) (auto intro: at_most_only)

section \<open>Requests controlled by the history\<close>

text \<open>
  \<open>ctl R P m Q\<close>: run from a state with \<open>P\<close>, every request \<open>c\<close> that \<open>m\<close> sends satisfies \<open>R h c\<close>, where \<open>h\<close>
  is everything sent and answered before it, and a success ends with \<open>Q\<close>.
\<close>

definition controlled :: "((request \<times> answer) list \<Rightarrow> request \<times> answer \<Rightarrow> bool) \<Rightarrow> 'w st \<Rightarrow> 'w st \<Rightarrow> bool" where
  "controlled R s s' \<longleftrightarrow>
     (\<exists>t. trace s' = trace s @ t \<and> (\<forall>i < length t. R (trace s @ take i t) (t ! i)))"

definition ctl :: "((request \<times> answer) list \<Rightarrow> request \<times> answer \<Rightarrow> bool) \<Rightarrow> ('w st \<Rightarrow> bool) \<Rightarrow> ('w, 'a) op \<Rightarrow>
    ('a \<Rightarrow> 'w st \<Rightarrow> bool) \<Rightarrow> bool" where
  "ctl R P m Q \<longleftrightarrow>
     (\<forall>s. P s \<longrightarrow> controlled R s (snd (m s)) \<and> (\<forall>a s'. m s = (Inr a, s') \<longrightarrow> Q a s'))"

lemma controlled_refl [simp]: "controlled R s s"
  by (simp add: controlled_def)

lemma controlled_trans:
  assumes "controlled R a b" and "controlled R b c"
  shows "controlled R a c"
proof -
  from assms obtain t u where t: "trace b = trace a @ t" "\<forall>i < length t. R (trace a @ take i t) (t ! i)"
    and u: "trace c = trace b @ u" "\<forall>i < length u. R (trace b @ take i u) (u ! i)"
    unfolding controlled_def by blast
  have "R (trace a @ take i (t @ u)) ((t @ u) ! i)" if "i < length (t @ u)" for i
  proof (cases "i < length t")
    case True
    then show ?thesis using t(2) by (simp add: nth_append)
  next
    case False
    then show ?thesis using t(1) u(2) that by (auto simp: nth_append)
  qed
  then show ?thesis using t(1) u(1) unfolding controlled_def by (intro exI [of _ "t @ u"]) simp
qed

lemma controlled_trace: "trace s' = trace s \<Longrightarrow> controlled R s s'"
  by (simp add: controlled_def)

lemma ctlI:
  "(\<And>s. P s \<Longrightarrow> controlled R s (snd (m s))) \<Longrightarrow> (\<And>s a s'. P s \<Longrightarrow> m s = (Inr a, s') \<Longrightarrow> Q a s') \<Longrightarrow> ctl R P m Q"
  by (simp add: ctl_def)

lemma ctl_weaken:
  "ctl R P m Q \<Longrightarrow> (\<And>s. P' s \<Longrightarrow> P s) \<Longrightarrow> (\<And>a s. Q a s \<Longrightarrow> Q' a s) \<Longrightarrow> ctl R P' m Q'"
  unfolding ctl_def by blast

lemma ctl_bind:
  assumes m: "ctl R P m M" and f: "\<And>a. ctl R (M a) (f a) Q"
  shows "ctl R P (bindE m f) Q"
proof (rule ctlI)
  fix s assume P: "P s"
  obtain r s1 where ms: "m s = (r, s1)" by fastforce
  have c: "controlled R s s1" using m P ms unfolding ctl_def by (metis snd_conv)
  show "controlled R s (snd (bindE m f s))"
  proof (cases r)
    case (Inl e)
    then show ?thesis using c ms by (simp add: bindE_def)
  next
    case (Inr a)
    then have "M a s1" using m P ms unfolding ctl_def by blast
    then have "controlled R s1 (snd (f a s1))" using f unfolding ctl_def by blast
    then show ?thesis using controlled_trans [OF c] ms Inr by (simp add: bindE_def)
  qed
next
  fix s b s' assume "P s" "bindE m f s = (Inr b, s')"
  then show "Q b s'" using m f unfolding ctl_def by (auto simp: bindE_Inr)
qed

lemma ctl_only:
  assumes "only P m" and "\<And>h c. P c \<Longrightarrow> R h c"
  shows "ctl R Pre m (\<lambda>a s'. \<exists>s. Pre s \<and> m s = (Inr a, s'))"
proof (rule ctlI)
  fix s
  obtain t where "trace (snd (m s)) = trace s @ t" "\<forall>c \<in> set t. P c"
    using assms(1) unfolding only_def by blast
  then show "controlled R s (snd (m s))" using assms(2) unfolding controlled_def by (metis nth_mem)
qed blast

lemma ctl_only_any: "only P m \<Longrightarrow> (\<And>h c. P c \<Longrightarrow> R h c) \<Longrightarrow> (\<And>a s. Q a s) \<Longrightarrow> ctl R Pre m Q"
  by (rule ctl_weaken [OF ctl_only [of P m R Pre]]) auto

lemma ctl_api:
  assumes "\<And>s a. Pre s \<Longrightarrow> R (trace s) (rq, a)"
  shows "ctl R Pre (api S rq) (\<lambda>v s'. \<exists>s. Pre s \<and> api S rq s = (Inr v, s'))"
  by (rule ctlI) (use assms in \<open>auto simp: controlled_def api_def split: prod.splits\<close>)

lemma ctl_step:
  assumes "ctl R Pre m Q" and "\<And>s ev. Pre s \<Longrightarrow> Pre (s\<lparr>events := events s @ [ev]\<rparr>)"
    and "\<And>a s ev. Q a s \<Longrightarrow> Q a (s\<lparr>events := events s @ [ev]\<rparr>)"
  shows "ctl R Pre (stepE name m) Q"
proof -
  have "ctl R Pre (step_started name) (\<lambda>_. Pre)"
    by (rule ctlI) (auto simp: step_started_def emit_run controlled_def assms(2))
  moreover have "ctl R Pre (tryE m) (\<lambda>r s'. case r of Inl _ \<Rightarrow> True | Inr a \<Rightarrow> Q a s')"
    using assms(1) unfolding ctl_def by (auto simp: tryE_run split: sum.splits) (metis prod.collapse)
  moreover have "ctl R (\<lambda>s'. case r of Inl _ \<Rightarrow> True | Inr a \<Rightarrow> Q a s')
      (bindE (step_finished name (is_ok r)) (\<lambda>_. liftE r)) Q" for r
    by (rule ctlI) (auto simp: step_finished_def bindE_def emit_run liftE_run controlled_def assms(3) split: sum.splits)
  ultimately show ?thesis unfolding stepE_def
    by (rule ctl_bind [OF _ ctl_bind])
qed

lemma ctl_map_err: "ctl R Pre m Q \<Longrightarrow> ctl R Pre (map_errE f m) Q"
  unfolding ctl_def map_errE_def map_err_def
  by (auto split: prod.splits sum.splits)

lemma ctl_controlled: "ctl R P m Q \<Longrightarrow> P s \<Longrightarrow> controlled R s (snd (m s))"
  by (simp add: ctl_def)

section \<open>Time\<close>

text \<open>No operation turns the clock back: what the measures of the polling loops rest on.\<close>

definition forward :: "('w, 'a) op \<Rightarrow> bool" where
  "forward m \<longleftrightarrow> (\<forall>s. clock s \<le> clock (snd (m s)))"

lemma forwardD: "forward m \<Longrightarrow> m s = (r, s') \<Longrightarrow> clock s \<le> clock s'"
  unfolding forward_def by (metis snd_conv)

lemma forward_basic [clock_intro]:
  "forward (returnE a)" "forward (throwE e)" "forward (liftE r)" "forward (unlessE b e)" "forward (emit ev)" "forward nowE"
  by (simp_all add: forward_def run_simps)

lemma forward_api [clock_intro]: "forward (api S rq)"
  by (auto simp: forward_def api_def split: prod.splits)

lemma forward_sleep [clock_intro]: "forward (sleep S d)"
  by (auto simp: forward_def sleep_def split: prod.splits)

lemma forward_bind [clock_intro]:
  assumes "forward m" and "\<And>a. forward (f a)"
  shows "forward (bindE m f)"
  unfolding forward_def bindE_def
  using assms by (auto split: prod.splits sum.splits dest: forwardD) (meson forward_def forwardD order_trans)

lemma forward_try [clock_intro]: "forward m \<Longrightarrow> forward (tryE m)"
  by (simp add: forward_def tryE_run)

lemma forward_case [clock_intro]:
  "forward m \<Longrightarrow> (\<And>a. forward (f a)) \<Longrightarrow> forward (case x of None \<Rightarrow> m | Some a \<Rightarrow> f a)"
  "(\<And>e. forward (g e)) \<Longrightarrow> (\<And>a. forward (f a)) \<Longrightarrow> forward (case y of Inl e \<Rightarrow> g e | Inr a \<Rightarrow> f a)"
  "forward m \<Longrightarrow> forward n \<Longrightarrow> forward (if b then m else n)"
  by (simp_all split: option.splits sum.splits)

end
