(* ===== verification/Tasks.thy ===== *)
theory Tasks
  imports Pve "HOL-Library.Monad_Syntax"
begin

text \<open>
  Proxmox tasks (\<^verbatim>\<open>hs-core/src/tasks.rs\<close>): retrying a call refused for a taken lock, following a
  task from its UPID to its end while its log is turned into events, and the scanner of transfer
  lines. Both polling loops are total functions: the log loop because the line number it has seen
  grows below \<open>2 ^ 64\<close>, the waiting loops because every round takes time and the deadline is fixed.
\<close>

section \<open>Waiting parameters and task results\<close>

record task_wait =
  poll :: nat
  timeout :: nat

definition up_to :: "nat \<Rightarrow> task_wait" where
  "up_to t = \<lparr>poll = 250, timeout = t\<rparr>"

record task_result =
  tr_upid :: string
  exitstatus :: string

definition task_ok :: "task_result \<Rightarrow> bool" where
  "task_ok r \<longleftrightarrow> exitstatus r = ''OK'' \<or> starts_with (exitstatus r) ''WARNINGS''"

definition is_lock_timeout :: "string \<Rightarrow> bool" where
  "is_lock_timeout text \<longleftrightarrow> contains text (''can'' @ [CHR 0x27] @ ''t lock file'') \<and> contains text ''got timeout''"

section \<open>Retrying while the VM is locked\<close>

definition LOCK_RETRY_LIMIT :: nat where "LOCK_RETRY_LIMIT = 120000"
definition LOCK_RETRY_PAUSE :: nat where "LOCK_RETRY_PAUSE = 5000"

text \<open>The clock is monotonic: an operation never ends before it began.\<close>

definition no_earlier :: "'w st \<Rightarrow> 'w st \<Rightarrow> 'w st" where
  "no_earlier s s' = s'\<lparr>clock := max (clock s) (clock s')\<rparr>"

function (sequential) retry_loop ::
  "'w ext \<Rightarrow> nat \<Rightarrow> nat \<Rightarrow> ('w, 'a) op \<Rightarrow> 'w st \<Rightarrow> (core_error + 'a) \<times> 'w st" where
  "retry_loop S pse deadline attempt s =
     (case attempt s of
        (Inr a, s') \<Rightarrow> (Inr a, no_earlier s s')
      | (Inl e, s') \<Rightarrow>
          (let s1 = no_earlier s s'
           in if is_lock_timeout (error_text e) \<and> clock s1 + pse < deadline
              then retry_loop S pse deadline attempt (snd (sleep S pse s1))
              else (Inl e, s1)))"
  by pat_completeness auto
termination
  by (relation "measure (\<lambda>(S, pse, deadline, attempt, s). deadline - clock s)")
    (auto simp: sleep_def no_earlier_def split: prod.splits)

declare retry_loop.simps [simp del]

definition retry_while_locked :: "'w ext \<Rightarrow> nat \<Rightarrow> ('w, 'a) op \<Rightarrow> ('w, 'a) op" where
  "retry_while_locked S pl attempt = (\<lambda>s.
     retry_loop S (if pl < 1000 then pl else LOCK_RETRY_PAUSE) (clock s + LOCK_RETRY_LIMIT) attempt s)"

section \<open>UPIDs\<close>

definition upid_fields :: "string \<Rightarrow> string list option" where
  "upid_fields u =
     (let fs = split_on (CHR '':'') u
      in if 8 \<le> length fs \<and> fs ! 0 = ''UPID'' \<and> fs ! 1 \<noteq> [] then Some fs else None)"

definition upid_node :: "string \<Rightarrow> string option" where
  "upid_node u = map_option (\<lambda>fs. fs ! 1) (upid_fields u)"

text \<open>\<^verbatim>\<open>{:?}\<close> of a string.\<close>

definition hex_digit :: "nat \<Rightarrow> char" where
  "hex_digit d = (if d < 10 then char_of (48 + d) else char_of (87 + d))"

definition debug_char :: "char \<Rightarrow> string" where
  "debug_char c =
     (if c = CHR 0x22 \<or> c = CHR 0x5C then [CHR 0x5C, c]
      else if c = CHR 0x0A then [CHR 0x5C, CHR ''n'']
      else if c = CHR 0x0D then [CHR 0x5C, CHR ''r'']
      else if c = CHR 0x09 then [CHR 0x5C, CHR ''t'']
      else if c = CHR 0x00 then [CHR 0x5C, CHR ''0'']
      else let n = (of_char c :: nat)
           in if n < 16 then [CHR 0x5C] @ ''u{'' @ [hex_digit n] @ ''}''
              else if n < 32 \<or> n = 127 then [CHR 0x5C] @ ''u{'' @ [hex_digit (n div 16), hex_digit (n mod 16)] @ ''}''
              else [c])"

definition debug_str :: "string \<Rightarrow> string" where
  "debug_str s = [CHR 0x22] @ concat (map debug_char s) @ [CHR 0x22]"

section \<open>Transfer lines\<close>

record transfer_progress =
  percent :: rat
  detail :: string

text \<open>The cursor \<^verbatim>\<open>Scanner\<close>: each step consumes a prefix of the text or fails.\<close>

definition sc_spaces :: "string \<Rightarrow> string option" where
  "sc_spaces s = (if length (trim_start s) < length s then Some (trim_start s) else None)"

definition sc_take :: "(char \<Rightarrow> bool) \<Rightarrow> string \<Rightarrow> (string \<times> string) option" where
  "sc_take accept s =
     (let taken = takeWhile accept s
      in if taken = [] then None else Some (taken, dropWhile accept s))"

definition sc_unit :: "string \<Rightarrow> (string \<times> string) option" where
  "sc_unit s =
     (let r1 = (case s of c # cs \<Rightarrow> if c \<in> {CHR ''K'', CHR ''M'', CHR ''G'', CHR ''T''} then cs else s | [] \<Rightarrow> s);
          r2 = (case r1 of c # cs \<Rightarrow> if c = CHR ''i'' then cs else r1 | [] \<Rightarrow> r1)
      in map_option (\<lambda>r. (take (length s - length r) s, r)) (strip_prefix r2 ''B''))"

definition is_num_char :: "char \<Rightarrow> bool" where
  "is_num_char c \<longleftrightarrow> is_digit c \<or> c = CHR ''.''"

text \<open>\<^verbatim>\<open>parse::<f64>()\<close> of digits and dots: at most one dot, at least one digit.\<close>

definition parse_decimal :: "string \<Rightarrow> rat option" where
  "parse_decimal s =
     (case split_on (CHR ''.'') s of
        [i] \<Rightarrow> if i \<noteq> [] \<and> list_all is_digit i then Some (of_nat (digits_val i)) else None
      | [i, f] \<Rightarrow>
          if i @ f \<noteq> [] \<and> list_all is_digit (i @ f)
          then Some (of_nat (digits_val (i @ f)) / of_nat (10 ^ length f)) else None
      | _ \<Rightarrow> None)"

definition transfer_at :: "string \<Rightarrow> (string \<times> string \<times> string \<times> string \<times> rat) option" where
  "transfer_at rest0 = do {
     r \<leftarrow> sc_spaces rest0;
     (cur, r) \<leftarrow> sc_take is_num_char r;
     r \<leftarrow> sc_spaces r;
     (cur_unit, r) \<leftarrow> sc_unit r;
     r \<leftarrow> sc_spaces r;
     r \<leftarrow> strip_prefix r ''of'';
     r \<leftarrow> sc_spaces r;
     (tot, r) \<leftarrow> sc_take is_num_char r;
     r \<leftarrow> sc_spaces r;
     (total_unit, r) \<leftarrow> sc_unit r;
     r \<leftarrow> sc_spaces r;
     r \<leftarrow> strip_prefix r ''('';
     (pct, r) \<leftarrow> sc_take is_num_char r;
     r \<leftarrow> strip_prefix r ''%)'';
     p \<leftarrow> parse_decimal pct;
     Some (cur, cur_unit, tot, total_unit, p) }"

text \<open>The texts after each non-overlapping occurrence of a non-empty pattern.\<close>

fun match_rests :: "string \<Rightarrow> string \<Rightarrow> string list" where
  "match_rests p [] = []"
| "match_rests p (c # cs) =
     (if starts_with (c # cs) p
      then drop (length p - 1) cs # match_rests p (drop (length p - 1) cs)
      else match_rests p cs)"

definition last_transfer :: "string \<Rightarrow> (string \<times> string \<times> string \<times> string \<times> rat) option" where
  "last_transfer text =
     (let ms = List.map_filter transfer_at (match_rests ''transferred'' text)
      in if ms = [] then None else Some (last ms))"

text \<open>\<^verbatim>\<open>TransferTracker::update\<close>: the tracker is the last percentage reported.\<close>

definition tracker_update :: "rat option \<Rightarrow> string \<Rightarrow> transfer_progress option \<times> rat option" where
  "tracker_update prev output =
     (case last_transfer output of
        None \<Rightarrow> (None, prev)
      | Some (cur, cur_unit, tot, total_unit, p) \<Rightarrow>
          let pct = max 0 (min 100 p)
          in if prev = Some pct then (None, prev)
             else (Some \<lparr>percent = pct,
                     detail = (if cur_unit = total_unit then cur @ '' / '' @ tot @ '' '' @ cur_unit
                               else cur @ '' '' @ cur_unit @ '' / '' @ tot @ '' '' @ total_unit)\<rparr>,
                   Some pct))"

section \<open>Reading a task's log\<close>

type_synonym 'k log_tracker = "'k \<Rightarrow> string \<Rightarrow> transfer_progress option \<times> 'k"

definition LOG_PAGE :: nat where "LOG_PAGE = 500"

definition placeholder :: "json list \<Rightarrow> bool" where
  "placeholder entries =
     (case entries of
        [e] \<Rightarrow> get_u64 e ''n'' = Some 1 \<and> get_str e ''t'' = Some ''no content''
      | _ \<Rightarrow> False)"

text \<open>The lines not seen yet, and the highest number among them.\<close>

fun scan_log :: "nat \<Rightarrow> json list \<Rightarrow> string list \<times> nat" where
  "scan_log seen [] = ([], seen)"
| "scan_log seen (entry # rest) =
     (let number = (case get_u64 entry ''n'' of None \<Rightarrow> 0 | Some n \<Rightarrow> n)
      in case get_str entry ''t'' of
           Some text \<Rightarrow>
             if seen < number then (let (ls, seen') = scan_log number rest in (text # ls, seen'))
             else scan_log seen rest
         | None \<Rightarrow> scan_log seen rest)"

definition log_request :: "string \<Rightarrow> string \<Rightarrow> nat \<Rightarrow> request" where
  "log_request node upid seen =
     Get (''/nodes/'' @ node @ ''/tasks/'' @ upid @ ''/log'') [(''start'', dec seen), (''limit'', dec LOG_PAGE)]"

definition status_request :: "string \<Rightarrow> string \<Rightarrow> request" where
  "status_request node upid = Get (''/nodes/'' @ node @ ''/tasks/'' @ upid @ ''/status'') []"

definition log_entries :: "json \<Rightarrow> json list" where
  "log_entries v = (case as_array v of None \<Rightarrow> [] | Some xs \<Rightarrow> xs)"

definition report_lines :: "'k log_tracker \<Rightarrow> string \<Rightarrow> string list \<Rightarrow> 'k \<Rightarrow> 'w st \<Rightarrow> 'k \<times> 'w st" where
  "report_lines tr upid ls k s =
     (let (pg, k') = tr k (join [CHR 0x0A] ls)
      in (k', s\<lparr>events := events s @
            (case pg of None \<Rightarrow> [] | Some p \<Rightarrow> [ProgressAt (percent p) (detail p)]) @ [TaskLog upid ls]\<rparr>))"

definition entry_number :: "json \<Rightarrow> nat" where
  "entry_number entry = (case get_u64 entry ''n'' of None \<Rightarrow> 0 | Some n \<Rightarrow> n)"

lemma entry_number_bound: "entry_number entry < u64_bound"
  by (auto simp: entry_number_def get_u64_def u64_bound_def Option.bind_eq_Some_conv
      dest!: as_u64_bound split: option.splits)

lemma scan_log_Cons:
  "scan_log seen (entry # rest) =
     (case get_str entry ''t'' of
        Some text \<Rightarrow>
          if seen < entry_number entry
          then (text # fst (scan_log (entry_number entry) rest), snd (scan_log (entry_number entry) rest))
          else scan_log seen rest
      | None \<Rightarrow> scan_log seen rest)"
  by (simp add: entry_number_def Let_def case_prod_beta split: option.splits)

declare scan_log.simps(2) [simp del]

lemma scan_log_bound: "seen < u64_bound \<Longrightarrow> snd (scan_log seen es) < u64_bound"
  by (induction es arbitrary: seen) (auto simp: scan_log_Cons entry_number_bound split: option.splits)

lemma scan_log_mono: "seen \<le> snd (scan_log seen es)"
proof (induction es arbitrary: seen)
  case (Cons entry rest)
  then show ?case
    by (auto simp: scan_log_Cons split: option.splits) (metis less_imp_le_nat order.trans)
qed simp

lemma scan_log_progress: "fst (scan_log seen es) \<noteq> [] \<Longrightarrow> seen < snd (scan_log seen es)"
proof (induction es arbitrary: seen)
  case (Cons entry rest)
  then show ?case
    by (auto simp: scan_log_Cons split: option.splits if_splits intro: order.strict_trans2 [OF _ scan_log_mono])
qed simp

function (sequential) log_loop ::
  "'w ext \<Rightarrow> 'k log_tracker \<Rightarrow> string \<Rightarrow> string \<Rightarrow> nat \<Rightarrow> 'k \<Rightarrow> 'w st \<Rightarrow>
     (core_error + nat \<times> 'k) \<times> 'w st" where
  "log_loop S tr node upid seen k s =
     (case api S (log_request node upid seen) s of
        (Inl e, s1) \<Rightarrow> (Inl e, s1)
      | (Inr v, s1) \<Rightarrow>
          (let entries = log_entries v
           in if placeholder entries then (Inr (seen, k), s1)
              else let (ls, seen') = scan_log seen entries
                   in if ls = [] then (Inr (seen', k), s1)
                      else let (k', s2) = report_lines tr upid ls k s1
                           in if length entries = LOG_PAGE \<and> seen < u64_bound
                              then log_loop S tr node upid seen' k' s2
                              else (Inr (seen', k'), s2)))"
  by pat_completeness auto
termination
proof (relation "measure (\<lambda>(S, tr, node, upid, seen, k, s). u64_bound - seen)", goal_cases)
  case 1
  show ?case by simp
next
  case (2 S tr node upid seen k s a s1 v x xa ls seen')
  then have "seen < seen'" "seen' < u64_bound"
    using scan_log_progress [of seen] scan_log_bound [of seen] by (metis fst_conv snd_conv)+
  then show ?case by simp
qed

declare log_loop.simps [simp del]

lemma api_clock: "clock s \<le> clock (snd (api S rq s))"
  by (auto simp: api_def split: prod.splits)

lemma report_lines_clock [simp]: "clock (snd (report_lines tr u ls k s)) = clock s"
  by (simp add: report_lines_def Let_def split: prod.splits)

lemma report_lines_trace [simp]: "trace (snd (report_lines tr u ls k s)) = trace s"
  by (simp add: report_lines_def Let_def split: prod.splits)

text \<open>Computation induction on the log loop for a fact about the first and the last state.\<close>

lemma log_loop_rel:
  assumes rfl: "\<And>s. R s s" and trans: "\<And>a b c. R a b \<Longrightarrow> R b c \<Longrightarrow> R a c"
    and req: "\<And>seen s. R s (snd (api S (log_request node upid seen) s))"
    and rep: "\<And>ls k s. R s (snd (report_lines tr upid ls k s))"
  shows "R s (snd (log_loop S tr node upid seen k s))"
  using req rep
proof (induction S tr node upid seen k s rule: log_loop.induct)
  case (1 S tr node upid seen k s)
  obtain r s1 where a: "api S (log_request node upid seen) s = (r, s1)" by fastforce
  have r1: "R s s1" using 1(2) [of s seen] a by simp
  show ?case
  proof (cases r)
    case (Inl e)
    then show ?thesis using a r1 by (simp add: log_loop.simps [of S])
  next
    case (Inr v)
    obtain ls seen' where sc: "scan_log seen (log_entries v) = (ls, seen')" by fastforce
    obtain k' s2 where rl: "report_lines tr upid ls k s1 = (k', s2)" by fastforce
    have r2: "R s s2" using 1(3) [of s1 ls k] rl r1 trans by (metis snd_conv)
    show ?thesis
    proof (cases "placeholder (log_entries v) \<or> ls = [] \<or> length (log_entries v) \<noteq> LOG_PAGE \<or> \<not> seen < u64_bound")
      case True
      then show ?thesis using a r1 r2 Inr sc rl by (auto simp: log_loop.simps [of S] Let_def)
    next
      case False
      then have "R s2 (snd (log_loop S tr node upid seen' k' s2))"
        using 1(1) [OF a [symmetric] Inr refl _ sc [symmetric] refl _ rl [symmetric] refl] 1(2,3) by simp
      then show ?thesis using False a r2 Inr sc rl trans by (auto simp: log_loop.simps [of S] Let_def)
    qed
  qed
qed

lemma log_loop_clock: "clock s \<le> clock (snd (log_loop S tr node upid seen k s))"
  by (rule log_loop_rel) (auto simp: api_clock)

definition R_only :: "(request \<times> answer \<Rightarrow> bool) \<Rightarrow> 'w st \<Rightarrow> 'w st \<Rightarrow> bool" where
  "R_only P s s' \<longleftrightarrow> (\<exists>t. trace s' = trace s @ t \<and> (\<forall>c \<in> set t. P c))"

lemma R_only_refl [simp]: "R_only P s s"
  by (simp add: R_only_def)

lemma R_only_trans: "R_only P a b \<Longrightarrow> R_only P b c \<Longrightarrow> R_only P a c"
  unfolding R_only_def by (metis Un_iff append.assoc set_append)

lemma only_R: "only P m \<longleftrightarrow> (\<forall>s. R_only P s (snd (m s)))"
  by (simp add: only_def R_only_def)

lemma only_log_loop [only_intro]:
  assumes "\<And>seen a. P (log_request node upid seen, a)"
  shows "only P (log_loop S tr node upid seen k)"
  unfolding only_R
proof
  fix s
  show "R_only P s (snd (log_loop S tr node upid seen k s))"
  proof (rule log_loop_rel [where R = "R_only P"])
    fix seen s
    show "R_only P s (snd (api S (log_request node upid seen) s))"
      using only_api [of P "log_request node upid seen" S] assms by (simp add: only_R)
  next
    fix a b c :: "'a st"
    assume "R_only P a b" "R_only P b c"
    then show "R_only P a c" by (rule R_only_trans)
  qed (simp_all add: R_only_def)
qed

section \<open>Waiting for a task\<close>

definition status_is_stopped :: "json \<Rightarrow> bool" where
  "status_is_stopped status \<longleftrightarrow> get_str status ''status'' = Some ''stopped''"

definition status_exit :: "json \<Rightarrow> string" where
  "status_exit status = (case get_str status ''exitstatus'' of None \<Rightarrow> ''unknown'' | Some x \<Rightarrow> x)"

definition not_finished :: "string \<Rightarrow> nat \<Rightarrow> core_error" where
  "not_finished u t = Failed (''Proxmox task '' @ u @ '' did not finish within '' @ dec (t div 1000) @ ''s'')"

function (sequential) wait_loop ::
  "'w ext \<Rightarrow> 'k log_tracker \<Rightarrow> string \<Rightarrow> string \<Rightarrow> task_wait \<Rightarrow> nat \<Rightarrow> nat \<Rightarrow> 'k \<Rightarrow> 'w st \<Rightarrow>
     (core_error + task_result \<times> 'k) \<times> 'w st" where
  "wait_loop S tr node upid wait deadline seen k s =
     (case api S (status_request node upid) s of
        (Inl e, s1) \<Rightarrow> (Inl e, s1)
      | (Inr status, s1) \<Rightarrow>
          (case log_loop S tr node upid seen k s1 of
             (Inl e, s2) \<Rightarrow> (Inl e, s2)
           | (Inr (seen', k'), s2) \<Rightarrow>
               if status_is_stopped status
               then (Inr (\<lparr>tr_upid = upid, exitstatus = status_exit status\<rparr>, k'),
                     s2\<lparr>events := events s2 @ [TaskFinished upid (status_exit status)]\<rparr>)
               else if deadline \<le> clock s2 then (Inl (not_finished upid (timeout wait)), s2)
               else wait_loop S tr node upid wait deadline seen' k' (snd (sleep S (poll wait) s2))))"
  by pat_completeness auto
termination
proof (relation "measure (\<lambda>(S, tr, node, upid, wait, deadline, seen, k, s). deadline - clock s)", goal_cases)
  case 1
  show ?case by simp
next
  case (2 S tr node upid wait deadline seen k s r s1 status r2 s2 x seen' k')
  have "clock s \<le> clock s1" using api_clock [of s S "status_request node upid"] 2(1) by (metis snd_conv)
  also have "\<dots> \<le> clock s2" using log_loop_clock [of s1 S tr node upid seen k] 2(3) by (metis snd_conv)
  finally show ?case using 2 by (auto simp: sleep_def split: prod.splits)
qed

declare wait_loop.simps [simp del]

definition invalid_task_id :: "string \<Rightarrow> core_error" where
  "invalid_task_id u = Unusable (''invalid task id '' @ debug_str u)"

definition wait_task_tracking ::
  "'w ext \<Rightarrow> 'k log_tracker \<Rightarrow> string \<Rightarrow> task_wait \<Rightarrow> 'k \<Rightarrow> ('w, task_result \<times> 'k) op" where
  "wait_task_tracking S tr upid wait k =
     bindE (liftE (ok_or (upid_fields upid) (invalid_task_id upid))) (\<lambda>fs.
     bindE (emit (TaskStarted (fs ! 1) upid (fs ! 5) (parse_uint u32_bound (fs ! 6)))) (\<lambda>_.
     (\<lambda>s. wait_loop S tr (fs ! 1) upid wait (clock s + timeout wait) 0 k s)))"

definition wait_task :: "'w ext \<Rightarrow> string \<Rightarrow> task_wait \<Rightarrow> ('w, task_result) op" where
  "wait_task S upid wait =
     bindE (wait_task_tracking S tracker_update upid wait None) (\<lambda>(r, k). returnE r)"

section \<open>What waiting does\<close>

lemma only_wait_loop [only_intro]:
  assumes st: "\<And>a. P (status_request node upid, a)" and lg: "\<And>seen a. P (log_request node upid seen, a)"
  shows "only P (wait_loop S tr node upid wait deadline seen k)"
  unfolding only_R
proof
  fix s
  show "R_only P s (snd (wait_loop S tr node upid wait deadline seen k s))"
    using st lg
  proof (induction S tr node upid wait deadline seen k s rule: wait_loop.induct)
    case (1 S tr node upid wait deadline seen k s)
    obtain r s1 where a: "api S (status_request node upid) s = (r, s1)" by fastforce
    have r1: "R_only P s s1"
      using only_api [of P "status_request node upid" S] 1(2) a by (metis only_R snd_conv)
    show ?case
    proof (cases r)
      case (Inl e)
      then show ?thesis using a r1 by (simp add: wait_loop.simps [of S])
    next
      case (Inr status)
      obtain q s2 where l: "log_loop S tr node upid seen k s1 = (q, s2)" by fastforce
      have "R_only P s1 s2"
        using only_log_loop [of P node upid S tr seen k] 1(3) l by (metis only_R snd_conv)
      with r1 have r2: "R_only P s s2" by (rule R_only_trans)
      show ?thesis
      proof (cases q)
        case (Inl e)
        then show ?thesis using a r2 Inr l by (simp add: wait_loop.simps [of S])
      next
        case q: (Inr x)
        obtain seen' k' where x: "x = (seen', k')" by fastforce
        have z: "R_only P s2 (snd (sleep S (poll wait) s2))"
          using only_sleep [of P S "poll wait"] by (simp add: only_R)
        show ?thesis
        proof (cases "status_is_stopped status \<or> deadline \<le> clock s2")
          case True
          then show ?thesis using a r2 Inr l q x
            by (auto simp: wait_loop.simps [of S] R_only_def)
        next
          case False
          then have "R_only P (snd (sleep S (poll wait) s2))
              (snd (wait_loop S tr node upid wait deadline seen' k' (snd (sleep S (poll wait) s2))))"
            using 1(1) [OF a [symmetric] Inr l [symmetric] q x [symmetric]] 1(2,3) by simp
          with z r2 have "R_only P s
              (snd (wait_loop S tr node upid wait deadline seen' k' (snd (sleep S (poll wait) s2))))"
            using R_only_trans by blast
          then show ?thesis using False a Inr l q x by (simp add: wait_loop.simps [of S])
        qed
      qed
    qed
  qed
qed

lemma only_wait_task_tracking [only_intro]:
  assumes "\<And>p q a. P (Get p q, a)"
  shows "only P (wait_task_tracking (S :: 'a ext) tr upid wait k)"
proof -
  have w: "only P (\<lambda>s :: 'a st. wait_loop S tr n upid wait (clock s + timeout wait) 0 k s)" for n
    unfolding only_R
  proof
    fix s :: "'a st"
    have "only P (wait_loop S tr n upid wait (clock s + timeout wait) 0 k)"
      by (rule only_wait_loop) (simp_all add: status_request_def log_request_def assms)
    then show "R_only P s (snd (wait_loop S tr n upid wait (clock s + timeout wait) 0 k s))"
      by (simp add: only_R)
  qed
  show ?thesis
    unfolding wait_task_tracking_def by (intro only_intro w)
qed

lemma only_wait_task [only_intro]: "(\<And>p q a. P (Get p q, a)) \<Longrightarrow> only P (wait_task S upid wait)"
  unfolding wait_task_def by (intro only_intro)

lemma wait_loop_result:
  "wait_loop S tr node upid wait deadline seen k s = (Inr (r, k'), s') \<Longrightarrow>
     (\<exists>evs. events s' = evs @ [TaskFinished upid (exitstatus r)]) \<and>
     (\<exists>status. (status_request node upid, Inr status) \<in> set (trace s') \<and>
        status_is_stopped status \<and> r = \<lparr>tr_upid = upid, exitstatus = status_exit status\<rparr>)"
proof (induction S tr node upid wait deadline seen k s rule: wait_loop.induct)
  case (1 S tr node upid wait deadline seen k s)
  obtain status s1 where a: "api S (status_request node upid) s = (Inr status, s1)"
    using 1(2) by (cases "api S (status_request node upid) s") (auto simp: wait_loop.simps [of S] split: sum.splits)
  obtain seen' k1 s2 where l: "log_loop S tr node upid seen k s1 = (Inr (seen', k1), s2)"
    using 1(2) a by (cases "log_loop S tr node upid seen k s1")
      (auto simp: wait_loop.simps [of S] split: sum.splits)
  have mem: "(status_request node upid, Inr status) \<in> set (trace s1)"
    using a by (auto simp: api_def map_err_def answer_norm_def split: prod.splits sum.splits)
  have "\<exists>t. trace s2 = trace s1 @ t"
    using only_log_loop [of "\<lambda>_. True" node upid S tr seen k] l by (metis only_def snd_conv)
  with mem have mem2: "(status_request node upid, Inr status) \<in> set (trace s2)" by auto
  show ?case
  proof (cases "status_is_stopped status")
    case True
    then show ?thesis using 1(2) a l mem2 by (auto simp: wait_loop.simps [of S])
  next
    case False
    then have "\<not> deadline \<le> clock s2" using 1(2) a l by (auto simp: wait_loop.simps [of S])
    then show ?thesis
      using 1(1) [OF a [symmetric] HOL.refl l [symmetric] HOL.refl HOL.refl] False 1(2) a l
      by (auto simp: wait_loop.simps [of S])
  qed
qed

lemma wait_task_Inr:
  assumes "wait_task S upid wait s = (Inr r, s')"
  obtains fs status evs where "upid_fields upid = Some fs"
    and "(status_request (fs ! 1) upid, Inr status) \<in> set (trace s')"
    and "status_is_stopped status" and "r = \<lparr>tr_upid = upid, exitstatus = status_exit status\<rparr>"
    and "events s' = evs @ [TaskFinished upid (exitstatus r)]"
proof -
  from assms obtain fs k where fs: "upid_fields upid = Some fs"
    and w: "wait_loop S tracker_update (fs ! 1) upid wait (clock s + timeout wait) 0 None
        (s\<lparr>events := events s @ [TaskStarted (fs ! 1) upid (fs ! 5) (parse_uint u32_bound (fs ! 6))]\<rparr>) = (Inr (r, k), s')"
    by (auto simp: wait_task_def wait_task_tracking_def bindE_Inr liftE_run emit_run returnE_run)
  from wait_loop_result [OF w] that fs show ?thesis by blast
qed

text \<open>Retrying sends nothing but what the attempt sends.\<close>

lemma only_retry [only_intro]:
  assumes "only P attempt"
  shows "only P (retry_while_locked S pl attempt)"
proof -
  have "R_only P s (snd (retry_loop S pse deadline attempt s))" for pse deadline s
    using assms
  proof (induction S pse deadline attempt s rule: retry_loop.induct)
    case (1 S pse deadline attempt s)
    obtain r s' where a: "attempt s = (r, s')" by fastforce
    then have "R_only P s s'" using 1(2) by (metis only_R snd_conv)
    then have r1: "R_only P s (no_earlier s s')" by (simp add: R_only_def no_earlier_def)
    show ?case
    proof (cases r)
      case (Inr x)
      then show ?thesis using a r1 by (simp add: retry_loop.simps [of S])
    next
      case (Inl e)
      let ?s2 = "snd (sleep S pse (no_earlier s s'))"
      have z: "R_only P s ?s2"
        using r1 by (auto simp: R_only_def sleep_def split: prod.splits)
      show ?thesis
      proof (cases "is_lock_timeout (error_text e) \<and> clock (no_earlier s s') + pse < deadline")
        case True
        then have "R_only P ?s2 (snd (retry_loop S pse deadline attempt ?s2))"
          using 1(1) [OF a [symmetric] Inl HOL.refl True 1(2)] by simp
        with z have "R_only P s (snd (retry_loop S pse deadline attempt ?s2))" by (rule R_only_trans)
        then show ?thesis using True Inl a by (simp add: retry_loop.simps [of S] Let_def)
      next
        case False
        then show ?thesis using Inl a r1 by (auto simp: retry_loop.simps [of S] Let_def)
      qed
    qed
  qed
  then show ?thesis by (simp add: only_R retry_while_locked_def)
qed

text \<open>
  A success is a success of the attempt, and the attempt is given up on an error that is not a lock
  timeout at once, on a lock timeout only when the time for retrying is used up.
\<close>

lemma retry_loop_result:
  "retry_loop S pse deadline attempt s = (r, s') \<Longrightarrow>
     \<exists>s0 s1. attempt s0 = (r, s1) \<and> s' = no_earlier s0 s1 \<and>
       (\<forall>e. r = Inl e \<and> is_lock_timeout (error_text e) \<longrightarrow> deadline \<le> clock s' + pse)"
proof (induction S pse deadline attempt s rule: retry_loop.induct)
  case (1 S pse deadline attempt s)
  obtain q s1 where a: "attempt s = (q, s1)" by fastforce
  show ?case
  proof (cases "\<exists>e. q = Inl e \<and> is_lock_timeout (error_text e) \<and> clock (no_earlier s s1) + pse < deadline")
    case True
    then obtain e where e: "q = Inl e" and c: "is_lock_timeout (error_text e) \<and> clock (no_earlier s s1) + pse < deadline"
      by blast
    have "retry_loop S pse deadline attempt (snd (sleep S pse (no_earlier s s1))) = (r, s')"
      using 1(2) a e c by (simp add: retry_loop.simps [of S _ _ _ s] Let_def)
    with 1(1) [OF a [symmetric] e HOL.refl c] show ?thesis by blast
  next
    case False
    then have "r = q" "s' = no_earlier s s1"
      using 1(2) a by (auto simp: retry_loop.simps [of S _ _ _ s] Let_def split: sum.splits if_splits)
    with a False show ?thesis by (metis linorder_not_le)
  qed
qed

section \<open>Every line of a log is reported once\<close>

text \<open>The page Proxmox answers a log request with, for a task whose log is \<open>ls\<close>.\<close>

definition log_entry :: "string list \<Rightarrow> nat \<Rightarrow> json" where
  "log_entry ls i = JObj [(''n'', JInt (int (Suc i))), (''t'', JStr (ls ! i))]"

definition log_page :: "string list \<Rightarrow> nat \<Rightarrow> json" where
  "log_page ls start =
     (if ls = [] then JArr [JObj [(''n'', JInt 1), (''t'', JStr ''no content'')]]
      else JArr (map (log_entry ls) [start..<min (start + LOG_PAGE) (length ls)]))"

definition log_server :: "'w ext \<Rightarrow> string \<Rightarrow> string \<Rightarrow> string list \<Rightarrow> bool" where
  "log_server S node upid ls \<longleftrightarrow>
     (\<forall>start w. fst (call S (log_request node upid start) w) = Inr (log_page ls start))"

definition reported :: "job_event list \<Rightarrow> string list" where
  "reported evs = concat (map (\<lambda>e. case e of TaskLog u ls \<Rightarrow> ls | _ \<Rightarrow> []) evs)"

lemma reported_append [simp]: "reported (a @ b) = reported a @ reported b"
  by (simp add: reported_def)

lemma n_less_t: "''n'' < ''t''"
  by (simp add: less_char_def)

lemma json_norm_entry [simp]: "json_norm (log_entry ls i) = log_entry ls i"
  using n_less_t by (auto simp: log_entry_def bt_of_list_def)

lemma scan_log_page:
  assumes "seen \<le> m" and "m < u64_bound"
  shows "scan_log seen (map (log_entry ls) [seen..<m]) = (map ((!) ls) [seen..<m], m)"
  using assms
proof (induction "m - seen" arbitrary: seen)
  case 0
  then show ?case by simp
next
  case (Suc d)
  then have lt: "seen < m" by linarith
  have n: "entry_number (log_entry ls seen) = Suc seen"
    using Suc.prems lt by (simp add: entry_number_def get_u64_def log_entry_def u64_bound_def)
  have t: "get_str (log_entry ls seen) ''t'' = Some (ls ! seen)"
    by (simp add: get_str_def log_entry_def)
  have "scan_log (Suc seen) (map (log_entry ls) [Suc seen..<m]) = (map ((!) ls) [Suc seen..<m], m)"
    using Suc lt by (intro Suc.hyps(1)) auto
  then show ?case using lt n t by (simp add: upt_conv_Cons scan_log_Cons)
qed

lemma report_lines_reported:
  "reported (events (snd (report_lines tr upid ls k s))) = reported (events s) @ ls"
  by (auto simp: report_lines_def reported_def Let_def split: prod.splits option.splits)

lemma api_events [simp]: "events (snd (api S rq s)) = events s"
  by (simp add: api_def split: prod.splits)

lemma api_fst: "fst (api S rq s) = map_err PveErr (answer_norm (fst (call S rq (world s))))"
  by (simp add: api_def split: prod.splits)

lemma map_nth_upt: "m \<le> length ls \<Longrightarrow> map ((!) ls) [i..<m] = take (m - i) (drop i ls)"
  by (rule nth_equalityI) (auto simp: less_diff_conv add.commute)

lemma log_loop_reports:
  assumes "log_server S node upid ls" and "ls \<noteq> []" and "ls \<noteq> [''no content'']"
    and "length ls < u64_bound" and "seen \<le> length ls"
  shows "\<exists>k' s'. log_loop S tr node upid seen k s = (Inr (length ls, k'), s') \<and>
    reported (events s') = reported (events s) @ drop seen ls"
  using assms
proof (induction S tr node upid seen k s rule: log_loop.induct)
  case (1 S tr node upid seen k s)
  let ?m = "min (seen + LOG_PAGE) (length ls)"
  let ?es = "map (log_entry ls) [seen..<?m]"
  obtain s1 where a: "api S (log_request node upid seen) s = (Inr (JArr ?es), s1)" and e1: "events s1 = events s"
  proof -
    have "fst (api S (log_request node upid seen) s) = Inr (JArr ?es)"
    proof -
      have "fst (call S (log_request node upid seen) (world s)) = Inr (JArr ?es)"
        using 1(2,3) by (simp add: log_server_def log_page_def)
      then show ?thesis by (simp add: api_fst answer_norm_def map_err_def)
    qed
    with that show ?thesis by (metis api_events prod.collapse)
  qed
  have ents: "log_entries (JArr ?es) = ?es" by (simp add: log_entries_def)
  have ph: "\<not> placeholder ?es"
  proof
    assume p: "placeholder ?es"
    then obtain e where es: "?es = [e]" by (auto simp: placeholder_def split: list.splits)
    then have "length ?es = 1" by simp
    then have m: "?m = Suc seen" by simp
    then have "e = log_entry ls seen" using es by simp
    with p es have z: "seen = 0" and "ls ! seen = ''no content''"
      by (auto simp: placeholder_def log_entry_def get_u64_def get_str_def split: if_splits)
    then have "ls ! 0 = ''no content''" by simp
    from m z have "length ls = 1" by (auto simp: LOG_PAGE_def)
    with \<open>ls ! 0 = ''no content''\<close> 1(4) show False by (cases ls) auto
  qed
  have sc: "scan_log seen ?es = (map ((!) ls) [seen..<?m], ?m)"
    using 1(5,6) by (intro scan_log_page) auto
  have lines: "map ((!) ls) [seen..<?m] = take (?m - seen) (drop seen ls)"
    by (rule map_nth_upt) simp
  show ?case
  proof (cases "seen = length ls")
    case True
    then show ?thesis using a ents ph sc e1 by (auto simp: log_loop.simps [of S])
  next
    case False
    then have lt: "seen < length ls" using 1(6) by simp
    then have ne: "map ((!) ls) [seen..<?m] \<noteq> []" by (auto simp: LOG_PAGE_def)
    obtain k' s2 where rl: "report_lines tr upid (map ((!) ls) [seen..<?m]) k s1 = (k', s2)" by fastforce
    have e2: "reported (events s2) = reported (events s) @ take (?m - seen) (drop seen ls)"
      using report_lines_reported [of tr upid "map ((!) ls) [seen..<?m]" k s1] rl e1 lines by simp
    show ?thesis
    proof (cases "seen + LOG_PAGE \<le> length ls")
      case True
      then have full: "length ?es = LOG_PAGE \<and> seen < u64_bound" using 1(5) by auto
      from 1(1) [OF a [symmetric] HOL.refl ents [symmetric] ph sc [symmetric] HOL.refl ne rl [symmetric] HOL.refl full
          1(2,3,4,5)]
      obtain k2 s3 where r: "log_loop S tr node upid ?m k' s2 = (Inr (length ls, k2), s3)"
        "reported (events s3) = reported (events s2) @ drop ?m ls" by auto
      have "take (?m - seen) (drop seen ls) @ drop ?m ls = drop seen ls"
        by (metis (no_types, lifting) add.commute append_take_drop_id drop_drop le_add1 le_add_diff_inverse2 min.absorb1 True)
      then show ?thesis
        using a ents ph sc ne rl full r e2 by (simp add: log_loop.simps [of S _ _ _ seen])
    next
      case False
      then have "length ?es \<noteq> LOG_PAGE" "?m = length ls" using lt by auto
      then show ?thesis
        using a ents ph sc ne rl e2 by (simp add: log_loop.simps [of S _ _ _ seen])
    qed
  qed
qed

end
