(* ===== verification/Inventory.thy ===== *)
theory Inventory
  imports Tasks
begin

text \<open>
  The server's configuration (\<^verbatim>\<open>hs-model/src/config.rs\<close>) and the cluster inventory and VM
  configuration helpers of \<^verbatim>\<open>hs-core/src/inventory.rs\<close>: tags, disk specifications, volume names,
  storage layouts, and the reads of resources, configurations and power states.
\<close>

section \<open>Configuration\<close>

record network =
  net_prefix :: string
  net_cidr :: nat
  net_gateway :: string
  net_dns :: "string list"

record cloud_init =
  snippet_storage :: string
  snippet_dir :: string

record user =
  user_name :: string
  uid :: nat
  gid :: nat

record config =
  cfg_node :: string
  gold_vmid :: "nat option"
  storage_layouts :: "string list bmap"
  root_disk :: string
  home_disk :: string
  default_home_size :: string
  cfg_network :: network
  cfg_cloud_init :: cloud_init
  cfg_user :: user
  repo_owner :: "string option"

type_synonym vm_cfg = "string bmap"

definition cfg_text :: "vm_cfg \<Rightarrow> string \<Rightarrow> string" where
  "cfg_text c k = (case bt_get c k of None \<Rightarrow> [] | Some v \<Rightarrow> v)"

section \<open>Tags\<close>

definition GOLD_TAG :: string where "GOLD_TAG = ''homestack-gold''"
definition WORKSPACE_TAG :: string where "WORKSPACE_TAG = ''homestack-ws''"
definition ALIEN_WORKSPACE_TAG :: string where "ALIEN_WORKSPACE_TAG = ''homestack-alien''"
definition REFRESH_LOCK_TAG :: string where "REFRESH_LOCK_TAG = ''homestack-lock''"
definition TEST_POOL :: string where "TEST_POOL = ''homestack-test''"
definition TEST_TAG :: string where "TEST_TAG = ''homestack-test''"
definition HOME_LABEL_PREFIX :: string where "HOME_LABEL_PREFIX = ''HS_HOME_''"

lemmas tag_defs = GOLD_TAG_def WORKSPACE_TAG_def ALIEN_WORKSPACE_TAG_def REFRESH_LOCK_TAG_def TEST_TAG_def

definition workspace_tags :: "string \<Rightarrow> string" where
  "workspace_tags pool = (if pool = TEST_POOL then WORKSPACE_TAG @ '';'' @ TEST_TAG else WORKSPACE_TAG)"

definition tag_items :: "string option \<Rightarrow> string list" where
  "tag_items v = filter (\<lambda>t. t \<noteq> [])
     (map trim (split_on (CHR '';'') (case v of None \<Rightarrow> [] | Some s \<Rightarrow> s)))"

definition parse_tags :: "string option \<Rightarrow> string list" where
  "parse_tags v = set_of_list (tag_items v)"

definition tag_list :: "string option \<Rightarrow> string list" where
  "tag_list v = fold (\<lambda>t ts. if t \<in> set ts then ts else ts @ [t]) (tag_items v) []"

definition has_tag :: "string option \<Rightarrow> string \<Rightarrow> bool" where
  "has_tag v t \<longleftrightarrow> t \<in> set (parse_tags v)"

section \<open>Disk specifications\<close>

definition disk_volume :: "string \<Rightarrow> string" where
  "disk_volume c = trim (hd (split_on (CHR '','') c))"

definition disk_storage :: "string option \<Rightarrow> string option" where
  "disk_storage c =
     (case c of
        None \<Rightarrow> None
      | Some s \<Rightarrow>
          if s = [] then None
          else (case split_once (disk_volume s) '':'' of
                  None \<Rightarrow> None
                | Some (st, _) \<Rightarrow> if st = [] then None else Some st))"

definition disk_options :: "string \<Rightarrow> (string \<times> string) list" where
  "disk_options c = List.map_filter (\<lambda>item. split_once item ''='') (tl (split_on (CHR '','') c))"

definition disk_option :: "string \<Rightarrow> string \<Rightarrow> string option" where
  "disk_option c key = map_option snd (List.find (\<lambda>(k, _). k = key) (disk_options c))"

definition slot_parts :: "string \<Rightarrow> (string \<times> nat) option" where
  "slot_parts slot =
     (let pre = takeWhile is_alpha slot; index = dropWhile is_alpha slot
      in if index \<noteq> [] \<and> list_all is_digit index
         then map_option (\<lambda>n. (pre, n)) (parse_uint u32_bound index) else None)"

definition attached_disk_volumes :: "vm_cfg \<Rightarrow> string list" where
  "attached_disk_volumes c =
     set_of_list (filter (\<lambda>v. contains v '':'' \<and> v \<noteq> ''none'')
       (map (\<lambda>(k, v). disk_volume v)
         (filter (\<lambda>(k, v). case slot_parts k of
              None \<Rightarrow> False
            | Some (p, _) \<Rightarrow> p \<in> {''ide'', ''sata'', ''scsi'', ''virtio'', ''efidisk'', ''tpmstate''}) c)))"

section \<open>Storage layouts\<close>

definition layout_name_for_node :: "string \<Rightarrow> string option" where
  "layout_name_for_node node =
     (let digits = rev (takeWhile is_digit (rev node));
          number = dropWhile (\<lambda>c. c = CHR ''0'') digits
      in if number = [] then None else Some (''homestack-storage-'' @ number))"

definition storage_ids_for_node :: "config \<Rightarrow> string \<Rightarrow> string list" where
  "storage_ids_for_node cfg node =
     (case Option.bind (layout_name_for_node node) (bt_get (storage_layouts cfg)) of
        None \<Rightarrow> [] | Some ids \<Rightarrow> ids)"

definition no_storages :: "string \<Rightarrow> core_error" where
  "no_storages node = Invalid (''No HomeStack storages are assigned to node '' @ py_repr (Some node) @
     (case layout_name_for_node node of None \<Rightarrow> [] | Some l \<Rightarrow> '' via '' @ l))"

definition storage_not_assigned :: "string \<Rightarrow> string \<Rightarrow> string list \<Rightarrow> core_error" where
  "storage_not_assigned storage node storages =
     Invalid (''Storage '' @ py_repr (Some storage) @ '' is not assigned to node '' @ py_repr (Some node) @
       ''; allowed HomeStack storages: '' @ join '', '' storages)"

definition resolve_homestack_storage :: "config \<Rightarrow> string \<Rightarrow> string option \<Rightarrow> core_error + string" where
  "resolve_homestack_storage cfg node requested =
     (let storages = storage_ids_for_node cfg node
      in case storages of
           [] \<Rightarrow> Inl (no_storages node)
         | dflt # _ \<Rightarrow>
             (case requested of
                None \<Rightarrow> Inr dflt
              | Some req \<Rightarrow>
                  (let storage = trim req
                   in if storage \<in> set storages then Inr storage
                      else Inl (storage_not_assigned storage node storages))))"

section \<open>Volume names and labels\<close>

record volume_ident =
  vi_volid :: string
  vi_vmid :: nat
  vi_role :: string
  vi_name :: string

definition strip_ext :: "string \<Rightarrow> string" where
  "strip_ext b =
     (case strip_suffix b ''.raw'' of
        Some x \<Rightarrow> x
      | None \<Rightarrow>
          (case strip_suffix b ''.qcow2'' of
             Some x \<Rightarrow> x
           | None \<Rightarrow> (case strip_suffix b ''.vmdk'' of Some x \<Rightarrow> x | None \<Rightarrow> b)))"

definition volume_name_char :: "char \<Rightarrow> bool" where
  "volume_name_char c \<longleftrightarrow> is_alnum c \<or> c = CHR ''_'' \<or> c = CHR ''.'' \<or> c = CHR ''-''"

definition volume_identity :: "string \<Rightarrow> volume_ident option" where
  "volume_identity volid = do {
     (_, path) \<leftarrow> split_once volid '':'';
     rest \<leftarrow> strip_prefix (strip_ext (last (split_on (CHR ''/'') path))) ''vm-'';
     (vmid, rest) \<leftarrow> split_once rest ''-hs-'';
     (if vmid = [] \<or> \<not> list_all is_digit vmid then None else do {
        (role, name) \<leftarrow> split_once rest ''-'';
        (if role \<noteq> ''root'' \<and> role \<noteq> ''home'' \<or> name = [] \<or> \<not> list_all volume_name_char name then None
         else map_option (\<lambda>n. \<lparr>vi_volid = volid, vi_vmid = n, vi_role = role, vi_name = name\<rparr>)
                (parse_uint u32_bound vmid)) }) }"

definition home_label :: "nat \<Rightarrow> core_error + string" where
  "home_label vmid =
     (let label = HOME_LABEL_PREFIX @ dec vmid
      in if 16 < length label
         then Inl (Invalid (''Home filesystem label is too long for ext4: '' @ label))
         else Inr label)"

definition size_factor :: "char \<Rightarrow> rat option" where
  "size_factor u =
     (if u = CHR ''K'' then Some (1 / (1024 * 1024))
      else if u = CHR ''M'' then Some (1 / 1024)
      else if u = CHR ''G'' then Some 1
      else if u = CHR ''T'' then Some 1024 else None)"

definition parse_disk_size_gb :: "string \<Rightarrow> rat option" where
  "parse_disk_size_gb c = do {
     item \<leftarrow> List.find (\<lambda>i. starts_with i ''size='') (split_on (CHR '','') c);
     value \<leftarrow> strip_prefix item ''size='';
     (if value = [] then None else do {
        let number = butlast value;
        (if number = [] \<or> \<not> list_all is_num_char number then None else do {
           factor \<leftarrow> size_factor (last value);
           n \<leftarrow> parse_decimal number;
           Some (n * factor) }) }) }"

section \<open>The volumes of a VM\<close>

record volume_entry =
  ve_slot :: string
  ve_role :: string
  ve_volume :: string
  ve_storage :: "string option"
  ve_size :: "string option"

definition slot_order :: "string \<Rightarrow> nat option" where
  "slot_order p =
     map_of [(''ide'', 0), (''sata'', 1), (''scsi'', 2), (''virtio'', 3), (''efidisk'', 4), (''tpmstate'', 5),
             (''unused'', 6)] p"

definition volume_role :: "config \<Rightarrow> bool \<Rightarrow> string \<Rightarrow> string \<Rightarrow> string \<Rightarrow> string" where
  "volume_role cfg managed slot_name p value =
     (if managed \<and> slot_name = root_disk cfg then ''root''
      else if managed \<and> slot_name = home_disk cfg then ''home''
      else if p = ''unused'' then ''unused''
      else if p = ''efidisk'' then ''efi''
      else if p = ''tpmstate'' then ''tpm''
      else if disk_option value ''media'' = Some ''cdrom'' \<and> contains (disk_volume value) ''cloudinit''
      then ''cloud-init'' else ''disk'')"

definition volume_entry_of :: "config \<Rightarrow> bool \<Rightarrow> string \<times> string \<Rightarrow> (nat list \<times> volume_entry) option" where
  "volume_entry_of cfg managed kv = do {
     let (slot_name, value) = kv;
     (p, index) \<leftarrow> slot_parts slot_name;
     order \<leftarrow> slot_order p;
     let vol = disk_volume value;
     (if vol = [] \<or> vol = ''none'' \<or> \<not> contains vol '':'' then None
      else Some ([order, index],
        \<lparr>ve_slot = slot_name, ve_role = volume_role cfg managed slot_name p value, ve_volume = vol,
         ve_storage = disk_storage (Some value), ve_size = disk_option value ''size''\<rparr>)) }"

definition vm_volume_inventory :: "vm_cfg \<Rightarrow> config \<Rightarrow> volume_entry list" where
  "vm_volume_inventory c cfg =
     map snd (sort_key fst
       (List.map_filter (volume_entry_of cfg (\<not> has_tag (bt_get c ''tags'') ALIEN_WORKSPACE_TAG)) c))"

section \<open>Reads of the cluster\<close>

record resource =
  r_vmid :: nat
  r_node :: string
  r_name :: "string option"
  r_status :: "string option"
  r_tags :: "string option"
  r_pool :: "string option"
  r_disk :: "nat option"
  r_maxdisk :: "nat option"

definition qemu_path :: "string \<Rightarrow> nat \<Rightarrow> string \<Rightarrow> string" where
  "qemu_path node vmid sub = ''/nodes/'' @ node @ ''/qemu/'' @ dec vmid @ sub"

definition not_array :: "string \<Rightarrow> core_error" where
  "not_array what = Unusable (what @ '' did not return a JSON array'')"

definition vms_request :: request where
  "vms_request = Get ''/cluster/resources'' [(''type'', ''vm'')]"

definition qemu_entry :: "json \<Rightarrow> (nat \<times> json bmap) option" where
  "qemu_entry item =
     (case item of
        JObj m \<Rightarrow>
          if Option.bind (bt_get m ''type'') as_str = Some ''qemu''
          then map_option (\<lambda>v. (v, bt_insert ''vmid'' (jnat v) m))
                 (Option.bind (integer_value (bt_get m ''vmid'')) to_u32)
          else None
      | _ \<Rightarrow> None)"

definition cluster_vm_maps :: "'w ext \<Rightarrow> ('w, (nat \<times> json bmap) list) op" where
  "cluster_vm_maps S =
     bindE (api S vms_request) (\<lambda>v.
       case v of
         JArr items \<Rightarrow> returnE (List.map_filter qemu_entry items)
       | _ \<Rightarrow> throwE (not_array ''Proxmox VM inventory''))"

definition resource_of :: "(json \<Rightarrow> string) \<Rightarrow> nat \<times> json bmap \<Rightarrow> resource" where
  "resource_of pr vm =
     (case vm of (vmid, m) \<Rightarrow>
       \<lparr>r_vmid = vmid,
        r_node = (case text_or_none pr (bt_get m ''node'') of None \<Rightarrow> [] | Some t \<Rightarrow> t),
        r_name = text_or_none pr (bt_get m ''name''),
        r_status = text_or_none pr (bt_get m ''status''),
        r_tags = text_or_none pr (bt_get m ''tags''),
        r_pool = text_or_none pr (bt_get m ''pool''),
        r_disk = None, r_maxdisk = None\<rparr>)"

definition cluster_vm_resources :: "'w ext \<Rightarrow> ('w, resource list) op" where
  "cluster_vm_resources S =
     bindE (cluster_vm_maps S) (\<lambda>vms. returnE (sort_key r_vmid (map (resource_of (print_json S)) vms)))"

definition find_vm :: "nat \<Rightarrow> resource list \<Rightarrow> resource option" where
  "find_vm vmid rs = List.find (\<lambda>r. r_vmid r = vmid) rs"

definition to_u64 :: "int \<Rightarrow> nat option" where
  "to_u64 n = (if 0 \<le> n \<and> n < int u64_bound then Some (nat n) else None)"

definition container_of :: "(json \<Rightarrow> string) \<Rightarrow> json \<Rightarrow> resource option" where
  "container_of pr item =
     (if get_str item ''type'' = Some ''lxc'' then
        map_option (\<lambda>v.
          \<lparr>r_vmid = v,
           r_node = (case text_or_none pr (jget item ''node'') of None \<Rightarrow> [] | Some t \<Rightarrow> t),
           r_name = text_or_none pr (jget item ''name''),
           r_status = text_or_none pr (jget item ''status''),
           r_tags = text_or_none pr (jget item ''tags''),
           r_pool = text_or_none pr (jget item ''pool''),
           r_disk = Option.bind (integer_value (jget item ''disk'')) to_u64,
           r_maxdisk = Option.bind (integer_value (jget item ''maxdisk'')) to_u64\<rparr>)
          (Option.bind (integer_value (jget item ''vmid'')) to_u32)
      else None)"

definition cluster_container_resources :: "'w ext \<Rightarrow> ('w, resource list) op" where
  "cluster_container_resources S =
     bindE (api S vms_request) (\<lambda>v.
       case v of
         JArr items \<Rightarrow> returnE (sort_key r_vmid (List.map_filter (container_of (print_json S)) items))
       | _ \<Rightarrow> throwE (not_array ''Proxmox VM inventory''))"

definition vm_config_request :: "string \<Rightarrow> nat \<Rightarrow> request" where
  "vm_config_request node vmid = Get (qemu_path node vmid ''/config'') []"

definition config_of :: "(json \<Rightarrow> string) \<Rightarrow> json bmap \<Rightarrow> vm_cfg" where
  "config_of pr m = map (\<lambda>(k, v). (k, if v = JNull then [] else py_str pr v)) m"

definition config_not_object :: "nat \<Rightarrow> string \<Rightarrow> core_error" where
  "config_not_object vmid node =
     Unusable (''Proxmox config for VM '' @ dec vmid @ '' on '' @ node @ '' did not return a JSON object'')"

definition vm_config :: "'w ext \<Rightarrow> string \<Rightarrow> nat \<Rightarrow> ('w, vm_cfg) op" where
  "vm_config S node vmid =
     bindE (api S (vm_config_request node vmid)) (\<lambda>v.
       case v of
         JObj m \<Rightarrow> returnE (config_of (print_json S) m)
       | _ \<Rightarrow> throwE (config_not_object vmid node))"

definition digest_field :: "string option \<Rightarrow> (string \<times> string) list" where
  "digest_field digest =
     (case digest of None \<Rightarrow> [] | Some d \<Rightarrow> if trim d = [] then [] else [(''digest'', trim d)])"

definition set_vm_config ::
  "'w ext \<Rightarrow> string \<Rightarrow> nat \<Rightarrow> (string \<times> string) list \<Rightarrow> string option \<Rightarrow> ('w, unit) op" where
  "set_vm_config S node vmid values digest =
     bindE (retry_while_locked S 1000
              (api S (Put (qemu_path node vmid ''/config'') (values @ digest_field digest)))) (\<lambda>_.
     returnE ())"

definition vm_status :: "'w ext \<Rightarrow> string \<Rightarrow> nat \<Rightarrow> ('w, string) op" where
  "vm_status S node vmid =
     bindE (tryE (api S (Get (qemu_path node vmid ''/status/current'') []))) (\<lambda>r.
     returnE (case r of
        Inl _ \<Rightarrow> ''absent''
      | Inr (JObj m) \<Rightarrow>
          (case text_or_none (print_json S) (bt_get m ''status'') of
             None \<Rightarrow> ''unknown''
           | Some t \<Rightarrow> if trim t = [] then ''unknown'' else trim t)
      | Inr _ \<Rightarrow> ''unknown''))"

definition objects_with :: "string \<Rightarrow> json list \<Rightarrow> json bmap list" where
  "objects_with key items =
     List.map_filter (\<lambda>item. case item of JObj m \<Rightarrow> if truthy (bt_get m key) then Some m else None | _ \<Rightarrow> None) items"

definition node_network :: "'w ext \<Rightarrow> string \<Rightarrow> ('w, json bmap list) op" where
  "node_network S node =
     bindE (api S (Get (''/nodes/'' @ node @ ''/network'') [])) (\<lambda>v.
       case v of
         JArr items \<Rightarrow> returnE (objects_with ''iface'' items)
       | _ \<Rightarrow> throwE (not_array (''Proxmox network inventory on '' @ node)))"

definition node_dns :: "'w ext \<Rightarrow> string \<Rightarrow> ('w, json bmap) op" where
  "node_dns S node =
     bindE (api S (Get (''/nodes/'' @ node @ ''/dns'') [])) (\<lambda>v.
       case v of
         JObj m \<Rightarrow> returnE m
       | _ \<Rightarrow> throwE (Unusable (''Proxmox DNS configuration on '' @ node @ '' did not return a JSON object'')))"

definition storage_definitions :: "'w ext \<Rightarrow> ('w, json bmap list) op" where
  "storage_definitions S =
     bindE (api S (Get ''/storage'' [])) (\<lambda>v.
       case v of
         JArr items \<Rightarrow> returnE (objects_with ''storage'' items)
       | _ \<Rightarrow> throwE (not_array ''Proxmox storage configuration''))"

section \<open>Requests of the reads\<close>

lemma only_case_json [only_intro]:
  "(\<And>xs. v = JArr xs \<Longrightarrow> only P (f xs)) \<Longrightarrow> (\<And>m. v = JObj m \<Longrightarrow> only P (g m)) \<Longrightarrow> only P m' \<Longrightarrow>
     only P (case v of JArr xs \<Rightarrow> f xs | JObj m \<Rightarrow> g m | _ \<Rightarrow> m')"
  "(\<And>xs. v = JArr xs \<Longrightarrow> only P (f xs)) \<Longrightarrow> only P m' \<Longrightarrow> only P (case v of JArr xs \<Rightarrow> f xs | _ \<Rightarrow> m')"
  "(\<And>m. v = JObj m \<Longrightarrow> only P (g m)) \<Longrightarrow> only P m' \<Longrightarrow> only P (case v of JObj m \<Rightarrow> g m | _ \<Rightarrow> m')"
  by (cases v; simp)+

lemma only_cluster_vm_maps [only_intro]: "(\<And>a. P (vms_request, a)) \<Longrightarrow> only P (cluster_vm_maps S)"
  unfolding cluster_vm_maps_def by (intro only_intro)

lemma only_cluster_vm_resources [only_intro]: "(\<And>a. P (vms_request, a)) \<Longrightarrow> only P (cluster_vm_resources S)"
  unfolding cluster_vm_resources_def by (intro only_intro)

lemma only_vm_config [only_intro]:
  "(\<And>a. P (vm_config_request node vmid, a)) \<Longrightarrow> only P (vm_config S node vmid)"
  unfolding vm_config_def by (intro only_intro)

lemma only_vm_status [only_intro]:
  "(\<And>a. P (Get (qemu_path node vmid ''/status/current'') [], a)) \<Longrightarrow> only P (vm_status S node vmid)"
  unfolding vm_status_def by (intro only_intro)

lemma only_set_vm_config [only_intro]:
  "(\<And>a. P (Put (qemu_path node vmid ''/config'') (values @ digest_field digest), a)) \<Longrightarrow>
     only P (set_vm_config S node vmid values digest)"
  unfolding set_vm_config_def by (intro only_intro)

lemma vms_request_get [simp]: "is_get vms_request" "\<not> is_delete vms_request"
  by (simp_all add: vms_request_def)

lemma vm_config_request_get [simp]: "is_get (vm_config_request n v)" "\<not> is_delete (vm_config_request n v)"
  by (simp_all add: vm_config_request_def)

section \<open>Well-formed configurations\<close>

lemma json_norm_obj_wf: "json_norm v = JObj m \<Longrightarrow> bt_wf m"
  by (cases v) auto

lemma api_Inr_norm: "api S rq s = (Inr v, s') \<Longrightarrow> \<exists>u. v = json_norm u"
  by (auto simp: api_def answer_norm_def map_err_def split: prod.splits sum.splits)

lemma config_of_wf: "bt_wf m \<Longrightarrow> bt_wf (config_of pr m)"
  by (simp add: config_of_def bt_wf_def case_prod_beta o_def)

lemma vm_config_Inr:
  "vm_config S node vmid s = (Inr c, s') \<longleftrightarrow>
     (\<exists>m. api S (vm_config_request node vmid) s = (Inr (JObj m), s') \<and> c = config_of (print_json S) m)"
proof -
  have "(case v of JObj m \<Rightarrow> returnE (config_of (print_json S) m) | _ \<Rightarrow> throwE e) s1 = (Inr c, s') \<longleftrightarrow>
      (\<exists>m. v = JObj m \<and> c = config_of (print_json S) m \<and> s1 = s')" for v e s1
    by (cases v) (auto simp: returnE_run throwE_run)
  then show ?thesis by (auto simp: vm_config_def bindE_Inr)
qed

lemma vm_config_wf: "vm_config S node vmid s = (Inr c, s') \<Longrightarrow> bt_wf c"
  by (auto simp: vm_config_Inr dest!: api_Inr_norm json_norm_obj_wf [OF sym] intro: config_of_wf)

lemma bt_get_config_of:
  "bt_get (config_of pr m) k = map_option (\<lambda>v. if v = JNull then [] else py_str pr v) (bt_get m k)"
  by (induction m) (auto simp: config_of_def)

section \<open>Tags and labels\<close>

lemma tag_items_trimmed: "t \<in> set (tag_items v) \<Longrightarrow> t \<noteq> []"
  by (simp add: tag_items_def)

lemma set_parse_tags: "set (parse_tags v) = set (tag_items v)"
  by (simp add: parse_tags_def)

lemma fold_dedup:
  "distinct ts0 \<Longrightarrow>
     distinct (fold (\<lambda>t ts. if t \<in> set ts then ts else ts @ [t]) xs ts0) \<and>
     set (fold (\<lambda>t ts. if t \<in> set ts then ts else ts @ [t]) xs ts0) = set ts0 \<union> set xs"
proof (induction xs arbitrary: ts0)
  case (Cons x xs)
  have "distinct (if x \<in> set ts0 then ts0 else ts0 @ [x])" using Cons.prems by simp
  from Cons.IH [OF this] show ?case by auto
qed simp

lemma tag_list_correct: "distinct (tag_list v) \<and> set (tag_list v) = set (parse_tags v)"
  using fold_dedup [of "[]" "tag_items v"] by (simp add: tag_list_def set_parse_tags)

lemma workspace_tags_roles:
  "has_tag (Some (workspace_tags pool)) WORKSPACE_TAG"
  "\<not> has_tag (Some (workspace_tags pool)) GOLD_TAG"
  "\<not> has_tag (Some (workspace_tags pool)) REFRESH_LOCK_TAG"
  "\<not> has_tag (Some (workspace_tags pool)) ALIEN_WORKSPACE_TAG"
  by (auto simp: has_tag_def set_parse_tags tag_items_def workspace_tags_def tag_defs trim_def
      trim_start_def trim_end_def is_ws_def)

lemma home_label_ok_iff: "(\<exists>l. home_label vmid = Inr l) \<longleftrightarrow> vmid < 10 ^ 8"
proof -
  have "length (dec vmid) \<le> 8 \<longleftrightarrow> vmid < 10 ^ 8"
    using length_dec_le [of vmid 8] length_dec_gt [of 8 vmid] by fastforce
  then show ?thesis by (auto simp: home_label_def HOME_LABEL_PREFIX_def Let_def)
qed

lemma home_label_inj: "home_label v = Inr l \<Longrightarrow> home_label w = Inr l \<Longrightarrow> v = w"
  by (auto simp: home_label_def Let_def split: if_splits)

section \<open>Storage resolution\<close>

lemma resolve_storage_assigned:
  "resolve_homestack_storage cfg node req = Inr st \<Longrightarrow> st \<in> set (storage_ids_for_node cfg node)"
  by (auto simp: resolve_homestack_storage_def Let_def split: list.splits option.splits if_splits)

lemma resolve_storage_default:
  "storage_ids_for_node cfg node = d # ds \<Longrightarrow> resolve_homestack_storage cfg node None = Inr d"
  by (simp add: resolve_homestack_storage_def)

section \<open>Disk specifications\<close>

lemma trim_no_ws: "(\<And>c. c \<in> set s \<Longrightarrow> \<not> is_ws c) \<Longrightarrow> trim s = s"
  by (simp add: trim_def trim_start_def trim_end_def dropWhile_eq_self_iff) (metis dropWhile_eq_self_iff
      hd_in_set rev_rev_ident set_rev)

lemma disk_volume_plain:
  "CHR '','' \<notin> set v \<Longrightarrow> (\<And>c. c \<in> set v \<Longrightarrow> \<not> is_ws c) \<Longrightarrow> disk_volume (v @ CHR '','' # opts) = v"
  by (simp add: disk_volume_def split_on_append trim_no_ws)

lemma disk_volume_no_comma: "CHR '','' \<notin> set (disk_volume c)"
proof -
  have "set (trim s) \<subseteq> set s" for s
    unfolding trim_def trim_start_def trim_end_def by (metis set_dropWhileD set_rev subsetI)
  moreover have "hd (split_on (CHR '','') c) \<in> set (split_on (CHR '','') c)" by (simp add: hd_in_set)
  ultimately show ?thesis using split_on_pieces unfolding disk_volume_def by blast
qed

lemma inventory_of_slot:
  assumes "bt_wf c" and "e \<in> set (vm_volume_inventory c cfg)"
  shows "\<exists>value. bt_get c (ve_slot e) = Some value \<and> ve_volume e = disk_volume value"
proof -
  from assms(2) obtain kv key where kv: "kv \<in> set c" and
    e: "volume_entry_of cfg (\<not> has_tag (bt_get c ''tags'') ALIEN_WORKSPACE_TAG) kv = Some (key, e)"
    by (auto simp: vm_volume_inventory_def List.map_filter_def)
  then have "ve_slot e = fst kv" "ve_volume e = disk_volume (snd kv)"
    by (auto simp: volume_entry_of_def Let_def Option.bind_eq_Some_conv split: prod.splits if_splits)
  moreover have "bt_get c (fst kv) = Some (snd kv)" using kv assms(1) by (simp add: bt_get_eq_iff)
  ultimately show ?thesis by simp
qed

end
