(* ===== verification/Description.thy ===== *)
theory Description
  imports Pve
begin

text \<open>
  The two blocks HomeStack keeps in a VM's \<^verbatim>\<open>description\<close> (\<^verbatim>\<open>hs-core/src/description.rs\<close>): the lease of a
  running job and the journal of an interrupted refresh, each an HTML comment between a start and
  an end marker, next to whatever text the owner wrote. The locale \<open>block_marker\<close> states what the
  surgery needs of a marker; it is interpreted for both markers, and \<open>two_markers\<close> for the pair, so
  that writing or removing one block is shown to leave the other one readable.
\<close>

section \<open>Finding and replacing a block\<close>

definition block_prefix :: string where
  "block_prefix = ''<!-- homestack-''"

definition cut_off :: "string \<Rightarrow> core_error" where
  "cut_off label = Unusable (''The '' @ label @ '' in the VM description is cut off'')"

definition find_block ::
  "string \<Rightarrow> string \<Rightarrow> string \<Rightarrow> string \<Rightarrow> core_error + ((nat \<times> nat) \<times> string) option" where
  "find_block description start_marker end_marker label =
     (case find_sub start_marker description of
        None \<Rightarrow> Inr None
      | Some start \<Rightarrow>
          let payload_start = start + length start_marker
          in case find_sub end_marker (drop payload_start description) of
               None \<Rightarrow> Inl (cut_off label)
             | Some off \<Rightarrow>
                 let payload = take off (drop payload_start description)
                 in if contains payload block_prefix then Inl (cut_off label)
                    else Inr (Some ((start, payload_start + off + length end_marker), payload)))"

text \<open>The text before and after a removed block: one adjacent line feed goes with the block.\<close>

definition join_removed :: "string \<Rightarrow> string \<Rightarrow> string" where
  "join_removed before after =
     (if before = [] then
        before @ (case strip_prefix after [CHR 0x0A] of None \<Rightarrow> after | Some t \<Rightarrow> t)
      else if after = [] \<or> starts_with after [CHR 0x0A] then
        (case strip_suffix before [CHR 0x0A] of None \<Rightarrow> before | Some t \<Rightarrow> t) @ after
      else before @ after)"

definition with_block ::
  "string \<Rightarrow> string \<Rightarrow> string \<Rightarrow> string \<Rightarrow> string option \<Rightarrow> core_error + string" where
  "with_block current start_marker end_marker label payload =
     bindR (find_block current start_marker end_marker label) (\<lambda>found.
       case payload of
         Some p \<Rightarrow>
           let block = start_marker @ p @ end_marker
           in (case found of
                 Some ((i, j), _) \<Rightarrow> Inr (take i current @ block @ drop j current)
               | None \<Rightarrow> Inr (current @ (if current = [] then [] else [CHR 0x0A]) @ block))
       | None \<Rightarrow>
           (case found of
              None \<Rightarrow> Inr current
            | Some ((i, j), _) \<Rightarrow> Inr (join_removed (take i current) (drop j current))))"

text \<open>The payload alone: what the readers of a block use of it.\<close>

definition block_payload :: "string \<Rightarrow> string \<Rightarrow> string \<Rightarrow> string \<Rightarrow> core_error + string option" where
  "block_payload d s e label =
     (case find_block d s e label of Inl x \<Rightarrow> Inl x | Inr r \<Rightarrow> Inr (map_option snd r))"

text \<open>The characters of standard Base64, which is how both blocks encode their payload.\<close>

definition is_b64 :: "char \<Rightarrow> bool" where
  "is_b64 c \<longleftrightarrow> is_alnum c \<or> c = CHR ''+'' \<or> c = CHR ''/'' \<or> c = CHR ''=''"

section \<open>Where a marker can start\<close>

definition no_start :: "string \<Rightarrow> string \<Rightarrow> string \<Rightarrow> bool" where
  "no_start m a y \<longleftrightarrow> (\<forall>i < length a. \<not> starts_with (drop i (a @ y)) m)"

lemma no_start_Nil [simp]: "no_start m [] y"
  by (simp add: no_start_def)

lemma no_start_append: "no_start m a (b @ y) \<Longrightarrow> no_start m b y \<Longrightarrow> no_start m (a @ b) y"
  unfolding no_start_def
proof (intro allI impI)
  fix i
  assume a: "\<forall>i<length a. \<not> starts_with (drop i (a @ b @ y)) m"
    and b: "\<forall>i<length b. \<not> starts_with (drop i (b @ y)) m" and i: "i < length (a @ b)"
  show "\<not> starts_with (drop i ((a @ b) @ y)) m"
  proof (cases "i < length a")
    case True
    with a show ?thesis by simp
  next
    case False
    with i have "i - length a < length b" by simp
    with b False show ?thesis by (auto simp: drop_append)
  qed
qed

lemma no_start_char:
  assumes "m \<noteq> []" and "hd m \<notin> set a"
  shows "no_start m a y"
  unfolding no_start_def
proof (intro allI impI)
  fix i assume i: "i < length a"
  then have "drop i (a @ y) = a ! i # drop (Suc i) (a @ y)"
    by (metis Cons_nth_drop_Suc length_append nth_append trans_less_add1)
  moreover have "a ! i \<noteq> hd m" using assms(2) i nth_mem by metis
  ultimately show "\<not> starts_with (drop i (a @ y)) m"
    using assms(1) by (cases m) (auto simp: starts_with_iff)
qed

lemma starts_with_cross:
  assumes "starts_with (u @ y) m" and "\<not> starts_with u m"
  shows "\<exists>m2. m = u @ m2 \<and> m2 \<noteq> [] \<and> starts_with y m2"
proof -
  from assms(1) obtain t where t: "u @ y = m @ t" by (auto simp: starts_with_iff)
  then consider us where "u = m @ us" | us where "u @ us = m" "y = us @ t"
    by (auto simp: append_eq_append_conv2)
  then show ?thesis
  proof cases
    case 1
    with assms(2) show ?thesis by simp
  next
    case 2
    with assms(2) show ?thesis by (auto simp: starts_with_iff)
  qed
qed

text \<open>
  No marker starts in \<open>a\<close> when none lies in \<open>a\<close> and none can run across the end of \<open>a\<close>: the next
  character does not occur in the marker's tail, or not followed by the character after it.
\<close>

lemma no_start_break:
  assumes f: "find_sub m a = None" and y: "y = [] \<or> hd y \<notin> set (tl m)"
  shows "no_start m a y"
  unfolding no_start_def
proof (intro allI impI notI)
  fix i assume i: "i < length a" and s: "starts_with (drop i (a @ y)) m"
  have n: "\<not> starts_with (drop i a) m" using f i by (auto simp: find_sub_eq_None)
  from s i have "starts_with (drop i a @ y) m" by simp
  from starts_with_cross [OF this n] obtain m2 where
    m2: "m = drop i a @ m2" "m2 \<noteq> []" "starts_with y m2" by blast
  then obtain c m3 where c: "m2 = c # m3" by (cases m2) auto
  with m2(3) have "y \<noteq> []" "hd y = c" by (auto simp: starts_with_iff)
  moreover have "c \<in> set (tl m)" using m2(1) c i by (cases "drop i a") auto
  ultimately show False using y by auto
qed

lemma no_start_break2:
  assumes f: "find_sub m a = None" and y: "y = c # d # y'"
    and pair: "\<And>u v. m = u @ c # v \<Longrightarrow> u \<noteq> [] \<Longrightarrow> v \<noteq> [] \<and> hd v \<noteq> d"
  shows "no_start m a y"
  unfolding no_start_def
proof (intro allI impI notI)
  fix i assume i: "i < length a" and s: "starts_with (drop i (a @ y)) m"
  have n: "\<not> starts_with (drop i a) m" using f i by (auto simp: find_sub_eq_None)
  from s i have "starts_with (drop i a @ y) m" by simp
  from starts_with_cross [OF this n] obtain m2 where
    m2: "m = drop i a @ m2" "m2 \<noteq> []" "starts_with y m2" by blast
  then obtain v where v: "m2 = c # v" using y by (cases m2) (auto simp: starts_with_iff)
  have "drop i a \<noteq> []" using i by simp
  with pair [of "drop i a" v] m2(1) v have "v \<noteq> []" "hd v \<noteq> d" by auto
  with m2(3) v y show False by (cases v) (auto simp: starts_with_iff)
qed

lemma no_start_last:
  assumes f: "find_sub m a = None" and l: "a = b @ [c]" and c: "c \<notin> set m"
  shows "no_start m a y"
  unfolding no_start_def
proof (intro allI impI notI)
  fix i assume i: "i < length a" and s: "starts_with (drop i (a @ y)) m"
  have n: "\<not> starts_with (drop i a) m" using f i by (auto simp: find_sub_eq_None)
  from s i have "starts_with (drop i a @ y) m" by simp
  from starts_with_cross [OF this n] obtain m2 where "m = drop i a @ m2" by blast
  moreover have "c \<in> set (drop i a)" using i l by simp
  ultimately show False using c by auto
qed

lemma no_start_prefix:
  assumes "no_start p a y" and "m = p @ m'"
  shows "no_start m a y"
  using assms unfolding no_start_def starts_with_iff by (metis append.assoc)

lemma find_sub_skip:
  "no_start m a y \<Longrightarrow> find_sub m (a @ y) = map_option (\<lambda>i. length a + i) (find_sub m y)"
proof (induction a)
  case Nil
  show ?case by (simp add: option.map_ident)
next
  case (Cons c a)
  have "\<not> starts_with (drop 0 ((c # a) @ y)) m"
    using Cons.prems unfolding no_start_def by blast
  moreover have "no_start m a y" using Cons.prems unfolding no_start_def by fastforce
  ultimately show ?case using Cons.IH by (simp add: option.map_comp o_def)
qed

lemma find_sub_append_Some: "find_sub m a = Some i \<Longrightarrow> find_sub m (a @ y) = Some i"
proof (induction m a arbitrary: i rule: find_sub.induct)
  case (1 p)
  then show ?case by (cases y) (auto simp: starts_with_def split: if_splits)
next
  case (2 p c cs)
  show ?case
  proof (cases "starts_with (c # cs) p")
    case True
    then have "starts_with ((c # cs) @ y) p" unfolding starts_with_iff by (metis append.assoc)
    with True 2 show ?thesis by auto
  next
    case False
    then obtain k where k: "find_sub p cs = Some k" "i = Suc k" using 2 by auto
    have "\<not> starts_with ((c # cs) @ y) p"
    proof
      assume "starts_with ((c # cs) @ y) p"
      from starts_with_cross [OF this False] obtain m2 where "p = (c # cs) @ m2" by blast
      moreover have "length p \<le> length cs"
        using find_sub_decomp [OF k(1)] by (metis le_add1 le_add2 length_append order.trans)
      ultimately show False by simp
    qed
    with False k 2 show ?thesis by auto
  qed
qed

section \<open>Reading a block out of composed text\<close>

lemma block_payload_eq:
  "block_payload d s e label =
     (case find_sub s d of
        None \<Rightarrow> Inr None
      | Some i \<Rightarrow>
          (case find_sub e (drop (i + length s) d) of
             None \<Rightarrow> Inl (cut_off label)
           | Some off \<Rightarrow>
               if contains (take off (drop (i + length s) d)) block_prefix then Inl (cut_off label)
               else Inr (Some (take off (drop (i + length s) d)))))"
  by (simp add: block_payload_def find_block_def Let_def split: option.splits)

lemma block_payload_skip: "no_start s a y \<Longrightarrow> block_payload (a @ y) s e label = block_payload y s e label"
  by (simp add: block_payload_eq find_sub_skip split: option.splits)

lemma block_payload_complete:
  assumes "find_sub s a = Some i" and "find_sub e (drop (i + length s) a) = Some off"
  shows "block_payload (a @ y) s e label = block_payload a s e label"
proof -
  have l: "i + length s \<le> length a"
    using assms(1) by (rule find_sub_le)
  have "off \<le> length (drop (i + length s) a)" using assms(2) by (simp add: find_sub_eq_Some)
  with l assms show ?thesis
    by (simp add: block_payload_eq find_sub_append_Some)
qed

section \<open>Markers\<close>

locale block_marker =
  fixes start_m end_m :: string
  assumes start_m: "\<exists>r. start_m = block_prefix @ r"
    and start_lt: "CHR ''<'' \<notin> set (tl start_m)"
    and start_nl: "CHR 0x0A \<notin> set start_m"
    and end_m: "end_m = '' -->''"
begin

lemma start_not_Nil [simp]: "start_m \<noteq> []"
  using start_m by (auto simp: block_prefix_def)

lemma hd_start [simp]: "hd start_m = CHR ''<''"
  using start_m by (auto simp: block_prefix_def)

lemma end_not_in_prefix:
  assumes t: "find_sub end_m t = None" and sep: "sep = [] \<or> sep = [CHR 0x0A]"
  shows "no_start end_m (t @ sep @ block_prefix) z"
proof -
  have "no_start end_m t (sep @ block_prefix @ z)"
    by (rule no_start_break [OF t]) (use sep in \<open>auto simp: block_prefix_def end_m\<close>)
  moreover have "no_start end_m (sep @ block_prefix) z"
  proof -
    have "no_start end_m sep (block_prefix @ z)"
      by (rule no_start_char) (use sep in \<open>auto simp: end_m\<close>)
    moreover have "no_start end_m block_prefix z"
      by (auto simp: no_start_def end_m block_prefix_def starts_with_def less_Suc_eq
          numeral_eq_Suc drop_Cons')
    ultimately show ?thesis by (rule no_start_append)
  qed
  ultimately show ?thesis using no_start_append [of end_m t "sep @ block_prefix" z] by simp
qed

lemma cut_by_other_block:
  assumes s: "find_sub start_m a = Some i" and e: "find_sub end_m (drop (i + length start_m) a) = None"
    and sep: "sep = [] \<or> sep = [CHR 0x0A]"
  shows "block_payload (a @ sep @ block_prefix @ z) start_m end_m label = Inl (cut_off label)"
proof -
  let ?t = "drop (i + length start_m) a"
  have l: "i + length start_m \<le> length a"
    using s by (rule find_sub_le)
  then have d: "drop (i + length start_m) (a @ sep @ block_prefix @ z) = (?t @ sep @ block_prefix) @ z"
    by simp
  have "find_sub end_m ((?t @ sep @ block_prefix) @ z) =
      map_option (\<lambda>k. length (?t @ sep @ block_prefix) + k) (find_sub end_m z)"
    by (rule find_sub_skip) (rule end_not_in_prefix [OF e sep])
  moreover have "contains (?t @ sep @ block_prefix @ w) block_prefix" for w
    unfolding contains_iff by (metis append.assoc)
  ultimately show ?thesis
    using s d by (simp add: block_payload_eq find_sub_append_Some split: option.splits)
qed

text \<open>A Base64 payload is read back from the block that holds it.\<close>

lemma payload_of_block:
  assumes p: "list_all is_b64 p" and a: "no_start start_m a (start_m @ p @ end_m @ b)"
  shows "find_block (a @ start_m @ p @ end_m @ b) start_m end_m label =
    Inr (Some ((length a, length a + length start_m + length p + length end_m), p))"
proof -
  have "no_start end_m p (end_m @ b)"
    by (rule no_start_char) (use p in \<open>auto simp: end_m list_all_iff is_b64_def is_alnum_def is_alpha_def
        is_lower_def is_upper_def is_digit_def less_eq_char_def\<close>)
  then have "find_sub end_m (p @ end_m @ b) = Some (length p)"
    by (simp add: find_sub_skip)
  moreover have "find_sub start_m (a @ start_m @ p @ end_m @ b) = Some (length a)"
    using find_sub_skip [OF a] by simp
  moreover have "\<not> contains p block_prefix"
    using p by (auto simp: contains_iff block_prefix_def list_all_iff is_b64_def is_alnum_def is_alpha_def
        is_lower_def is_upper_def is_digit_def less_eq_char_def)
  ultimately show ?thesis by (simp add: find_block_def Let_def)
qed

lemma find_block_decomp:
  assumes "find_block d start_m end_m label = Inr (Some ((i, j), q))"
  shows "\<exists>a b. d = a @ start_m @ q @ end_m @ b \<and> i = length a \<and> j = length a + length start_m + length q + length end_m
    \<and> \<not> contains q block_prefix \<and> find_sub start_m d = Some (length a)"
proof -
  from assms obtain off where s: "find_sub start_m d = Some i"
    and e: "find_sub end_m (drop (i + length start_m) d) = Some off"
    and q: "q = take off (drop (i + length start_m) d)" "\<not> contains q block_prefix"
    and j: "j = i + length start_m + off + length end_m"
    by (auto simp: find_block_def Let_def split: option.splits if_splits)
  let ?t = "drop (i + length start_m) d"
  have "off \<le> length ?t" using e by (simp add: find_sub_eq_Some)
  then have lq: "length q = off" using q by simp
  have "d = take i d @ start_m @ ?t" using find_sub_decomp [OF s] .
  moreover have "?t = q @ end_m @ drop (off + length end_m) ?t" using find_sub_decomp [OF e] q by simp
  moreover have "length (take i d) = i" using s by (simp add: find_sub_eq_Some)
  ultimately show ?thesis using j q s lq by (metis append.assoc)
qed

lemma no_start_before: "find_sub start_m a = None \<Longrightarrow> no_start start_m a (block_prefix @ z)"
  by (rule no_start_break) (use start_lt in \<open>auto simp: block_prefix_def\<close>)

lemma no_start_keep:
  assumes "find_sub start_m (a @ start_m @ y) = Some (length a)"
  shows "no_start start_m a (start_m @ z)"
proof -
  have "find_sub start_m a = None"
  proof (rule ccontr)
    assume "find_sub start_m a \<noteq> None"
    then obtain k where k: "find_sub start_m a = Some k" by blast
    then have "find_sub start_m (a @ start_m @ y) = Some k" by (rule find_sub_append_Some)
    with assms have "k = length a" by simp
    with find_sub_le [OF k] show False by simp
  qed
  then show ?thesis by (rule no_start_break) (use start_lt in auto)
qed

text \<open>Written, the block is read back.\<close>

lemma with_block_Some_find:
  assumes w: "with_block cur start_m end_m label (Some p) = Inr d" and p: "list_all is_b64 p"
  shows "\<exists>r. find_block d start_m end_m label = Inr (Some (r, p))"
proof (cases "find_block cur start_m end_m label")
  case (Inl e)
  with w show ?thesis by (simp add: with_block_def)
next
  case (Inr f)
  show ?thesis
  proof (cases f)
    case None
    let ?a = "cur @ (if cur = [] then [] else [CHR 0x0A])"
    have f: "find_sub start_m cur = None"
      using Inr None by (auto simp: find_block_def Let_def split: option.splits if_splits)
    have "no_start start_m ?a (start_m @ p @ end_m @ [])"
    proof (cases "cur = []")
      case False
      have "no_start start_m cur ([CHR 0x0A] @ start_m @ p @ end_m)"
        by (rule no_start_break [OF f]) (metis append_Cons list.sel(1) list.set_sel(2) start_nl start_not_Nil)
      moreover have "no_start start_m [CHR 0x0A] (start_m @ p @ end_m)"
        by (rule no_start_char) auto
      ultimately show ?thesis using False no_start_append by fastforce
    qed simp
    moreover have "d = ?a @ start_m @ p @ end_m @ []" using w Inr None by (simp add: with_block_def Let_def)
    ultimately show ?thesis using payload_of_block [OF p, of ?a "[]" label] by auto
  next
    case (Some x)
    then obtain i j q where x: "f = Some ((i, j), q)" by (cases x) auto
    obtain a b where ab: "cur = a @ start_m @ q @ end_m @ b" "i = length a"
      "j = length a + length start_m + length q + length end_m" "find_sub start_m cur = Some (length a)"
      using find_block_decomp Inr x by blast
    then have "no_start start_m a (start_m @ p @ end_m @ b)" using no_start_keep by metis
    moreover have "d = a @ start_m @ p @ end_m @ b" using w Inr x ab by (simp add: with_block_def Let_def)
    ultimately show ?thesis using payload_of_block [OF p] by auto
  qed
qed

text \<open>Added to text without one and removed again, the block leaves the text as it was.\<close>

lemma with_block_add_remove:
  assumes f: "find_block cur start_m end_m label = Inr None" and p: "list_all is_b64 p"
    and w: "with_block cur start_m end_m label (Some p) = Inr d"
  shows "with_block d start_m end_m label None = Inr cur"
proof -
  let ?sep = "if cur = [] then [] else [CHR 0x0A]"
  have d: "d = (cur @ ?sep) @ start_m @ p @ end_m @ []" using w f by (simp add: with_block_def Let_def)
  obtain r where r: "find_block d start_m end_m label = Inr (Some (r, p))"
    using with_block_Some_find [OF w p] by blast
  have n: "find_sub start_m cur = None"
    using f by (auto simp: find_block_def Let_def split: option.splits if_splits)
  have "no_start start_m (cur @ ?sep) (start_m @ p @ end_m @ [])"
  proof (cases "cur = []")
    case False
    have "no_start start_m cur ([CHR 0x0A] @ start_m @ p @ end_m)"
      by (rule no_start_break [OF n]) (metis append_Cons list.sel(1) list.set_sel(2) start_nl start_not_Nil)
    moreover have "no_start start_m [CHR 0x0A] (start_m @ p @ end_m)"
      by (rule no_start_char) auto
    ultimately show ?thesis using False no_start_append by fastforce
  qed simp
  then have "find_block d start_m end_m label = Inr (Some ((length (cur @ ?sep), length d), p))"
    using payload_of_block [OF p, of "cur @ ?sep" "[]" label] d by simp
  then show ?thesis
    by (auto simp: with_block_def join_removed_def d strip_suffix_eq_Some strip_suffix_def starts_with_def
        split: option.splits)
qed

end

section \<open>One block does not disturb the other\<close>

text \<open>A block with text \<open>a\<close> before and \<open>b\<close> after it begins or ends at a line boundary.\<close>

definition own_line :: "string \<Rightarrow> string \<Rightarrow> bool" where
  "own_line a b \<longleftrightarrow> a = [] \<or> last a = CHR 0x0A \<or> b = [] \<or> hd b = CHR 0x0A"

locale two_markers = fst: block_marker s1 e1 + snd: block_marker s2 e2
  for s1 e1 s2 e2 :: string +
  assumes apart: "\<not> starts_with (s1 @ z) s2"
begin

lemma no_start_in_block:
  assumes q: "\<not> contains q block_prefix"
  shows "no_start s2 (s1 @ q @ e1) b"
proof -
  have "no_start s2 s1 y" for y
  proof -
    obtain s1' where s1: "s1 = CHR ''<'' # s1'"
      using fst.hd_start fst.start_not_Nil by (metis list.collapse)
    have "no_start s2 [CHR ''<''] (s1' @ y)"
      using apart [of y] s1 by (simp add: no_start_def)
    moreover have "no_start s2 s1' y"
      by (rule no_start_char) (use fst.start_lt s1 in auto)
    ultimately show ?thesis using s1 no_start_append [of s2 "[CHR ''<'']" s1' y] by simp
  qed
  moreover have "no_start s2 q (e1 @ b)"
  proof -
    have "find_sub block_prefix q = None" using q by (simp add: contains_def)
    then have "no_start block_prefix q (e1 @ b)"
      by (rule no_start_break2 [where c = "CHR '' ''" and d = "CHR ''-''" and y' = "''->'' @ b"])
        (auto simp: fst.end_m block_prefix_def Cons_eq_append_conv)
    then show ?thesis using snd.start_m no_start_prefix by blast
  qed
  moreover have "no_start s2 e1 b"
    by (rule no_start_char) (auto simp: fst.end_m)
  ultimately show ?thesis by (metis append.assoc no_start_append)
qed

lemma block_start: "\<exists>z. s1 @ y = block_prefix @ z"
  using fst.start_m by auto

text \<open>
  What is read of the second block in text around a first block depends only on the text around it.
\<close>

lemma payload_around:
  assumes q: "\<not> contains q block_prefix" and q': "\<not> contains q' block_prefix"
  shows "block_payload (a @ s1 @ q @ e1 @ b) s2 e2 label = block_payload (a @ s1 @ q' @ e1 @ b) s2 e2 label"
proof (cases "find_sub s2 a")
  case None
  have "no_start s2 (a @ s1 @ r @ e1) b" if "\<not> contains r block_prefix" for r
    using no_start_append snd.no_start_before [OF None] no_start_in_block [OF that] block_start
    by (metis append.assoc)
  from block_payload_skip [OF this [OF q]] block_payload_skip [OF this [OF q']] show ?thesis by simp
next
  case (Some i)
  show ?thesis
  proof (cases "find_sub e2 (drop (i + length s2) a)")
    case None
    have "block_payload (a @ s1 @ r) s2 e2 label = Inl (cut_off label)" for r
      using snd.cut_by_other_block [OF Some None, of "[]"] block_start [of r] by force
    then show ?thesis by simp
  next
    case (Some off)
    then show ?thesis using block_payload_complete \<open>find_sub s2 a = Some i\<close> by metis
  qed
qed

lemma not_contains_b64: "list_all is_b64 p \<Longrightarrow> \<not> contains p block_prefix"
  by (auto simp: contains_iff block_prefix_def list_all_iff is_b64_def is_alnum_def is_alpha_def
      is_lower_def is_upper_def is_digit_def less_eq_char_def)

lemma write_keeps_other:
  assumes w: "with_block cur s1 e1 label (Some p) = Inr d" and p: "list_all is_b64 p"
  shows "block_payload d s2 e2 l2 = block_payload cur s2 e2 l2"
proof (cases "find_block cur s1 e1 label")
  case (Inl e)
  with w show ?thesis by (simp add: with_block_def)
next
  case (Inr f)
  show ?thesis
  proof (cases f)
    case (Some x)
    then obtain i j q where x: "f = Some ((i, j), q)" by (cases x) auto
    obtain a b where ab: "cur = a @ s1 @ q @ e1 @ b" "i = length a"
      "j = length a + length s1 + length q + length e1" "\<not> contains q block_prefix"
      using fst.find_block_decomp Inr x by blast
    have "d = a @ s1 @ p @ e1 @ b" using w Inr x ab by (simp add: with_block_def Let_def)
    then show ?thesis using payload_around [OF not_contains_b64 [OF p] ab(4)] ab(1) by simp
  next
    case None
    let ?sep = "if cur = [] then [] else [CHR 0x0A]"
    have d: "d = cur @ ?sep @ s1 @ p @ e1" using w Inr None by (simp add: with_block_def Let_def)
    have b: "no_start s2 (s1 @ p @ e1) []" by (rule no_start_in_block [OF not_contains_b64 [OF p]])
    show ?thesis
    proof (cases "find_sub s2 cur")
      case None
      have "no_start s2 (cur @ ?sep) (s1 @ p @ e1)"
      proof (rule no_start_append)
        show "no_start s2 cur (?sep @ s1 @ p @ e1)"
          using snd.start_nl fst.hd_start snd.start_lt
          by (intro no_start_break [OF None]) (auto dest: list.set_sel(2) [OF snd.start_not_Nil])
        show "no_start s2 ?sep (s1 @ p @ e1)" by (rule no_start_char) auto
      qed
      with b have "no_start s2 ((cur @ ?sep) @ s1 @ p @ e1) []"
        using no_start_append [of s2 "cur @ ?sep" "s1 @ p @ e1" "[]"] by simp
      from block_payload_skip [OF this] show ?thesis
        using d None by (simp add: block_payload_eq)
    next
      case (Some i)
      show ?thesis
      proof (cases "find_sub e2 (drop (i + length s2) cur)")
        case None
        have "cur \<noteq> []" using Some by (auto split: if_splits)
        then have "block_payload d s2 e2 l2 = Inl (cut_off l2)"
          using snd.cut_by_other_block [OF Some None, of "[CHR 0x0A]"] block_start [of "p @ e1"] d by force
        then show ?thesis using Some None by (simp add: block_payload_eq)
      next
        case (Some off)
        then show ?thesis using block_payload_complete \<open>find_sub s2 cur = Some i\<close> d by metis
      qed
    qed
  qed
qed

text \<open>
  Removing the first block: the text before and after it is joined, so the second block stays
  readable when the first one stood on a line of its own.
\<close>

lemma payload_after_removal:
  assumes q: "\<not> contains q block_prefix"
    and r: "block_payload (a @ s1 @ q @ e1 @ b) s2 e2 label = Inr x"
    and j: "no_start s2 a b \<or> find_sub s2 a \<noteq> None"
  shows "block_payload (a @ b) s2 e2 label = Inr x"
proof (cases "find_sub s2 a")
  case None
  have "no_start s2 (a @ s1 @ q @ e1) b"
    using no_start_append snd.no_start_before [OF None] no_start_in_block [OF q] block_start
    by (metis append.assoc)
  from block_payload_skip [OF this] have "block_payload b s2 e2 label = Inr x" using r by simp
  moreover have "no_start s2 a b" using j None by simp
  ultimately show ?thesis by (simp add: block_payload_skip)
next
  case (Some i)
  show ?thesis
  proof (cases "find_sub e2 (drop (i + length s2) a)")
    case None
    have "block_payload (a @ s1 @ q @ e1 @ b) s2 e2 label = Inl (cut_off label)"
      using snd.cut_by_other_block [OF Some None, of "[]"] block_start [of "q @ e1 @ b"] by force
    with r show ?thesis by simp
  next
    case (Some off)
    then show ?thesis using block_payload_complete [OF \<open>find_sub s2 a = Some i\<close> Some] r by simp
  qed
qed

lemma readable_cases:
  assumes "block_payload (a @ s1 @ z) s2 e2 label = Inr x"
  shows "find_sub s2 a = None \<or> (\<exists>i off. find_sub s2 a = Some i \<and> find_sub e2 (drop (i + length s2) a) = Some off)"
proof (rule ccontr)
  assume "\<not> ?thesis"
  then obtain i where i: "find_sub s2 a = Some i" "find_sub e2 (drop (i + length s2) a) = None" by auto
  have "block_payload (a @ s1 @ z) s2 e2 label = Inl (cut_off label)"
    using snd.cut_by_other_block [OF i, of "[]"] block_start [of z] by force
  with assms show False by simp
qed

lemma drop_newline:
  assumes c: "find_sub s2 (a @ [CHR 0x0A]) = None \<or>
      (\<exists>i off. find_sub s2 (a @ [CHR 0x0A]) = Some i \<and> find_sub e2 (drop (i + length s2) (a @ [CHR 0x0A])) = Some off)"
    and b: "b = [] \<or> hd b = CHR 0x0A"
  shows "block_payload (a @ [CHR 0x0A] @ b) s2 e2 label = block_payload (a @ b) s2 e2 label"
proof -
  have nl: "CHR 0x0A \<notin> set (tl s2)" using snd.start_nl by (meson list.set_sel(2) snd.start_not_Nil)
  have n1: "no_start s2 [CHR 0x0A] y" for y by (rule no_start_char) auto
  show ?thesis
  proof (cases "find_sub s2 a")
    case None
    have "no_start s2 (a @ [CHR 0x0A]) b"
      by (rule no_start_append [OF no_start_break [OF None] n1]) (use nl in simp)
    moreover have "no_start s2 a b" by (rule no_start_break [OF None]) (use nl b in auto)
    ultimately show ?thesis using block_payload_skip by (metis append.assoc)
  next
    case (Some i)
    then have i: "find_sub s2 (a @ [CHR 0x0A]) = Some i" by (rule find_sub_append_Some)
    have l: "i + length s2 \<le> length a" using Some by (rule find_sub_le)
    have "\<exists>off. find_sub e2 (drop (i + length s2) a) = Some off"
    proof (rule ccontr)
      assume "\<not> ?thesis"
      then have n: "find_sub e2 (drop (i + length s2) a) = None" by simp
      have "no_start e2 (drop (i + length s2) a) [CHR 0x0A]"
        by (rule no_start_break [OF n]) (simp add: snd.end_m)
      then have "find_sub e2 (drop (i + length s2) a @ [CHR 0x0A]) = None"
        by (simp add: find_sub_skip) (simp add: snd.end_m starts_with_def)
      with c i l show False by simp
    qed
    then show ?thesis using block_payload_complete [OF Some] by metis
  qed
qed

lemma remove_keeps_other:
  assumes w: "with_block cur s1 e1 label None = Inr d"
    and r: "block_payload cur s2 e2 l2 = Inr x"
    and own: "\<And>i j q. find_block cur s1 e1 label = Inr (Some ((i, j), q)) \<Longrightarrow>
      own_line (take i cur) (drop j cur)"
  shows "block_payload d s2 e2 l2 = Inr x"
proof (cases "find_block cur s1 e1 label")
  case (Inl e)
  with w show ?thesis by (simp add: with_block_def)
next
  case (Inr f)
  show ?thesis
  proof (cases f)
    case None
    with w r Inr show ?thesis by (simp add: with_block_def)
  next
    case (Some p)
    then obtain i j q where f: "f = Some ((i, j), q)" by (cases p) auto
    obtain a b where ab: "cur = a @ s1 @ q @ e1 @ b" "i = length a"
      "j = length a + length s1 + length q + length e1" "\<not> contains q block_prefix"
      using fst.find_block_decomp Inr f by blast
    have t: "take i cur = a" "drop j cur = b" using ab by simp_all
    then have d: "d = join_removed a b" using w Inr f by (simp add: with_block_def)
    have own': "own_line a b" using own Inr f t by blast
    have nl: "CHR 0x0A \<notin> set s2" by (rule snd.start_nl)
    then have nl': "CHR 0x0A \<notin> set (tl s2)" by (meson list.set_sel(2) snd.start_not_Nil)
    have ok: "block_payload (a @ b) s2 e2 l2 = Inr x" if "no_start s2 a b \<or> find_sub s2 a \<noteq> None"
      by (rule payload_after_removal [OF ab(4) r [unfolded ab(1)] that])
    show ?thesis
    proof (cases "a = []")
      case True
      with ok have "block_payload b s2 e2 l2 = Inr x" by simp
      moreover have "block_payload ([CHR 0x0A] @ y) s2 e2 l2 = block_payload y s2 e2 l2" for y
        by (rule block_payload_skip) (rule no_start_char, auto)
      ultimately show ?thesis using d True by (auto simp: join_removed_def split: option.splits)
    next
      case a: False
      show ?thesis
      proof (cases "b = [] \<or> hd b = CHR 0x0A")
        case b: True
        then have sb: "b = [] \<or> starts_with b [CHR 0x0A]" by (cases b) (auto simp: starts_with_def)
        show ?thesis
        proof (cases "strip_suffix a [CHR 0x0A]")
          case None
          then have db: "d = a @ b" using d a sb by (simp add: join_removed_def)
          moreover have "no_start s2 a b \<or> find_sub s2 a \<noteq> None"
            using no_start_break [of s2 a b] b nl' by (cases "find_sub s2 a") auto
          ultimately show ?thesis using ok by simp
        next
          case (Some a1)
          then have a1: "a = a1 @ [CHR 0x0A]" by (simp add: strip_suffix_eq_Some)
          have "d = a1 @ b" using d a sb Some by (simp add: join_removed_def)
          moreover have "no_start s2 a b \<or> find_sub s2 a \<noteq> None"
            using no_start_last [OF _ a1 nl] by (cases "find_sub s2 a") auto
          moreover have "block_payload (a @ b) s2 e2 l2 = block_payload (a1 @ b) s2 e2 l2"
          proof -
            have "block_payload (a @ s1 @ q @ e1 @ b) s2 e2 l2 = Inr x" using r ab(1) by simp
            from readable_cases [OF this] show ?thesis
              using drop_newline [OF _ b, of a1 l2] a1 by simp
          qed
          ultimately show ?thesis using ok by simp
        qed
      next
        case b: False
        then have "last a = CHR 0x0A" using own' a by (auto simp: own_line_def)
        then have a1: "a = butlast a @ [CHR 0x0A]" using a by (metis append_butlast_last_id)
        have "\<not> starts_with b [CHR 0x0A]" using b by (cases b) (auto simp: starts_with_def)
        then have "d = a @ b" using d a b by (simp add: join_removed_def)
        moreover have "no_start s2 a b \<or> find_sub s2 a \<noteq> None"
          using no_start_last [OF _ a1 nl] by (cases "find_sub s2 a") auto
        ultimately show ?thesis using ok by simp
      qed
    qed
  qed
qed

end

end
