(* ===== verification/Lease.thy ===== *)
theory Lease
  imports Inventory Description
begin

text \<open>
  The lock between server instances (\<^verbatim>\<open>hs-core/src/lease.rs\<close>): a lease in the VM's \<^verbatim>\<open>description\<close>,
  written and removed with the \<^verbatim>\<open>digest\<close> of the configuration it was checked against. The encoding of
  a lease (\<^verbatim>\<open>serde_json\<close> and \<^verbatim>\<open>base64\<close>) is a parameter \<open>C\<close>; \<open>codec_ok\<close> states what is relied on: decoding
  inverts encoding, and the text is Base64.
\<close>

section \<open>Leases\<close>

record lease =
  l_instance :: string
  l_job :: string
  l_operation :: string
  acquired_at :: nat
  expires_at :: nat

record codec =
  enc :: "lease \<Rightarrow> string"
  decd :: "string \<Rightarrow> lease option"

record holder =
  h_instance :: string
  h_job :: string
  h_operation :: string
  h_now :: nat
  h_ttl :: nat
  h_running :: "string \<Rightarrow> bool"

record acquisition =
  acq_vmid :: nat
  acq_before :: vm_cfg
  acq_after :: vm_cfg
  acq_lease :: lease

definition LEASE_TTL :: nat where "LEASE_TTL = 2 * 60 * 60"
definition LEASE_START :: string where "LEASE_START = ''<!-- homestack-lease: ''"
definition LEASE_END :: string where "LEASE_END = '' -->''"
definition DESCRIPTION_MAX :: nat where "DESCRIPTION_MAX = 8192"
definition ATTEMPTS :: nat where "ATTEMPTS = 5"
definition lease_label :: string where "lease_label = ''HomeStack lease''"

definition lease_not_valid :: core_error where
  "lease_not_valid = Unusable ''The HomeStack lease in the VM description is not valid''"

definition read_lease :: "codec \<Rightarrow> vm_cfg \<Rightarrow> core_error + lease option" where
  "read_lease C vm_cfg =
     bindR (find_block (cfg_text vm_cfg ''description'') LEASE_START LEASE_END lease_label) (\<lambda>found.
       case found of
         None \<Rightarrow> Inr None
       | Some (_, payload) \<Rightarrow>
           (case decd C (trim payload) of None \<Rightarrow> Inl lease_not_valid | Some l \<Rightarrow> Inr (Some l)))"

definition description_with :: "codec \<Rightarrow> string \<Rightarrow> lease option \<Rightarrow> core_error + string" where
  "description_with C current l =
     with_block current LEASE_START LEASE_END lease_label (map_option (enc C) l)"

definition busy :: "nat \<Rightarrow> lease \<Rightarrow> nat \<Rightarrow> core_error" where
  "busy vmid l now =
     Busy (''VM '' @ dec vmid @ '' is busy: instance '' @ l_instance l @ '' runs '' @ l_operation l @
       '' (job '' @ l_job l @ ''); its lease ends in '' @ dec ((expires_at l - now + 59) div 60) @
       '' min unless that job ends first.'')"

definition check :: "nat \<Rightarrow> lease option \<Rightarrow> holder \<Rightarrow> core_error + unit" where
  "check vmid lease h =
     (case lease of
        None \<Rightarrow> Inr ()
      | Some l \<Rightarrow>
          (let own = (l_instance l = h_instance h)
           in if own \<and> (l_job l = h_job h \<or> \<not> h_running h (l_job l)) \<or> expires_at l \<le> h_now h
              then Inr () else Inl (busy vmid l (h_now h))))"

definition node_of :: "'w ext \<Rightarrow> nat \<Rightarrow> ('w, string option) op" where
  "node_of S vmid =
     bindE (cluster_vm_resources S) (\<lambda>rs. returnE (map_option r_node (find_vm vmid rs)))"

fun lost_race :: "core_error \<Rightarrow> bool" where
  "lost_race (PveErr e) = contains (pve_error_text e) ''checksum mismatch''"
| "lost_race _ = False"

definition check_free :: "'w ext \<Rightarrow> codec \<Rightarrow> nat \<Rightarrow> holder \<Rightarrow> ('w, unit) op" where
  "check_free S C vmid h =
     bindE (node_of S vmid) (\<lambda>node.
       case node of
         None \<Rightarrow> returnE ()
       | Some n \<Rightarrow>
           bindE (vm_config S n vmid) (\<lambda>vm_cfg.
           bindE (liftE (read_lease C vm_cfg)) (\<lambda>l.
           liftE (check vmid l h))))"

section \<open>Acquiring\<close>

definition new_lease :: "holder \<Rightarrow> lease" where
  "new_lease h =
     \<lparr>l_instance = h_instance h, l_job = h_job h, l_operation = h_operation h,
      acquired_at = h_now h, expires_at = h_now h + h_ttl h\<rparr>"

definition lease_too_long :: "nat \<Rightarrow> core_error" where
  "lease_too_long vmid =
     Failed (''The HomeStack lease does not fit in the description of VM '' @ dec vmid @ '' ('' @
       dec DESCRIPTION_MAX @ '' characters at most)'')"

text \<open>What one round decides on the configuration it read: the description to write, or why not.\<close>

definition acquire_prepare :: "codec \<Rightarrow> nat \<Rightarrow> holder \<Rightarrow> lease \<Rightarrow> vm_cfg \<Rightarrow> core_error + string" where
  "acquire_prepare C vmid h l vm_cfg =
     bindR (read_lease C vm_cfg) (\<lambda>found.
     bindR (check vmid found h) (\<lambda>_.
     bindR (description_with C (cfg_text vm_cfg ''description'') (Some l)) (\<lambda>d.
     if DESCRIPTION_MAX < char_count d then Inl (lease_too_long vmid) else Inr d)))"

definition kept_changing :: "nat \<Rightarrow> core_error" where
  "kept_changing vmid =
     Busy (''VM '' @ dec vmid @ '' is busy: its configuration kept changing while its lease was written.'')"

fun acquire_loop ::
  "'w ext \<Rightarrow> codec \<Rightarrow> string \<Rightarrow> nat \<Rightarrow> holder \<Rightarrow> lease \<Rightarrow> nat \<Rightarrow> ('w, acquisition) op" where
  "acquire_loop S C node vmid h l 0 = throwE (kept_changing vmid)"
| "acquire_loop S C node vmid h l (Suc n) =
     bindE (vm_config S node vmid) (\<lambda>vm_cfg.
     bindE (liftE (acquire_prepare C vmid h l vm_cfg)) (\<lambda>d.
     bindE (tryE (set_vm_config S node vmid [(''description'', d)] (bt_get vm_cfg ''digest''))) (\<lambda>r.
       case r of
         Inr _ \<Rightarrow>
           bindE (vm_config S node vmid) (\<lambda>after.
           returnE \<lparr>acq_vmid = vmid, acq_before = vm_cfg, acq_after = after, acq_lease = l\<rparr>)
       | Inl e \<Rightarrow> if lost_race e then acquire_loop S C node vmid h l n else throwE e)))"

definition acquire :: "'w ext \<Rightarrow> codec \<Rightarrow> nat \<Rightarrow> holder \<Rightarrow> ('w, acquisition option) op" where
  "acquire S C vmid h =
     bindE (node_of S vmid) (\<lambda>node.
       case node of
         None \<Rightarrow> returnE None
       | Some n \<Rightarrow>
           bindE (acquire_loop S C n vmid h (new_lease h) ATTEMPTS) (\<lambda>a. returnE (Some a)))"

section \<open>Releasing\<close>

definition not_removed :: "nat \<Rightarrow> core_error" where
  "not_removed vmid =
     Failed (''The lease of VM '' @ dec vmid @ '' could not be removed: its configuration kept changing.'')"

definition description_fields :: "string \<Rightarrow> (string \<times> string) list" where
  "description_fields d = (if d = [] then [(''delete'', ''description'')] else [(''description'', d)])"

definition holds :: "lease option \<Rightarrow> string \<Rightarrow> string \<Rightarrow> bool" where
  "holds l inst job = (case l of None \<Rightarrow> False | Some x \<Rightarrow> l_instance x = inst \<and> l_job x = job)"

fun release_loop :: "'w ext \<Rightarrow> codec \<Rightarrow> nat \<Rightarrow> string \<Rightarrow> string \<Rightarrow> nat \<Rightarrow> ('w, unit) op" where
  "release_loop S C vmid inst job 0 = throwE (not_removed vmid)"
| "release_loop S C vmid inst job (Suc n) =
     bindE (node_of S vmid) (\<lambda>node.
       case node of
         None \<Rightarrow> returnE ()
       | Some nd \<Rightarrow>
           bindE (vm_config S nd vmid) (\<lambda>vm_cfg.
           bindE (liftE (read_lease C vm_cfg)) (\<lambda>l.
             if \<not> holds l inst job then returnE ()
             else
               bindE (liftE (description_with C (cfg_text vm_cfg ''description'') None)) (\<lambda>d.
               bindE (tryE (set_vm_config S nd vmid (description_fields d) (bt_get vm_cfg ''digest''))) (\<lambda>r.
                 case r of
                   Inr _ \<Rightarrow> returnE ()
                 | Inl e \<Rightarrow> if lost_race e then release_loop S C vmid inst job n else throwE e)))))"

definition release :: "'w ext \<Rightarrow> codec \<Rightarrow> nat \<Rightarrow> string \<Rightarrow> string \<Rightarrow> ('w, unit) op" where
  "release S C vmid inst job = release_loop S C vmid inst job ATTEMPTS"

section \<open>The lease marker\<close>

interpretation lease_marker: block_marker LEASE_START LEASE_END
  by unfold_locales (auto simp: LEASE_START_def LEASE_END_def block_prefix_def)

lemma trim_b64: "list_all is_b64 p \<Longrightarrow> trim p = p"
  by (rule trim_no_ws) (auto simp: list_all_iff is_ws_def is_b64_def is_alnum_def is_alpha_def
      is_lower_def is_upper_def is_digit_def less_eq_char_def)

text \<open>What is relied on of \<^verbatim>\<open>serde_json\<close> and \<^verbatim>\<open>base64\<close>: a lease is read back, and the text is Base64.\<close>

definition codec_ok :: "codec \<Rightarrow> bool" where
  "codec_ok C \<longleftrightarrow> (\<forall>l. decd C (enc C l) = Some l \<and> list_all is_b64 (enc C l))"

lemma read_written:
  assumes C: "codec_ok C" and w: "description_with C cur (Some l) = Inr d"
    and c: "cfg_text vm_cfg ''description'' = d"
  shows "read_lease C vm_cfg = Inr (Some l)"
proof -
  have b: "list_all is_b64 (enc C l)" using C by (simp add: codec_ok_def)
  obtain r where "find_block d LEASE_START LEASE_END lease_label = Inr (Some (r, enc C l))"
    using lease_marker.with_block_Some_find [OF _ b] w unfolding description_with_def by force
  then show ?thesis using c C b by (simp add: read_lease_def trim_b64 codec_ok_def)
qed

lemma add_remove:
  assumes "codec_ok C" and "find_block cur LEASE_START LEASE_END lease_label = Inr None"
    and "description_with C cur (Some l) = Inr d"
  shows "description_with C d None = Inr cur"
  using lease_marker.with_block_add_remove [OF assms(2), of "enc C l" d] assms(1,3)
  by (simp add: description_with_def codec_ok_def)

text \<open>When a lease lets a holder work on the VM.\<close>

lemma check_ok_iff:
  "check vmid lease h = Inr () \<longleftrightarrow>
     (\<forall>l. lease = Some l \<longrightarrow>
        expires_at l \<le> h_now h \<or>
        (l_instance l = h_instance h \<and> (l_job l = h_job h \<or> \<not> h_running h (l_job l))))"
  by (auto simp: check_def Let_def split: option.splits)

lemma acquire_prepare_Inr:
  "acquire_prepare C vmid h l vm_cfg = Inr d \<longleftrightarrow>
     (\<exists>found. read_lease C vm_cfg = Inr found \<and> check vmid found h = Inr ()) \<and>
     description_with C (cfg_text vm_cfg ''description'') (Some l) = Inr d \<and> char_count d \<le> DESCRIPTION_MAX"
  unfolding acquire_prepare_def bindR_eq_Inr by (auto simp: not_less split: if_splits)

section \<open>Requests of the lease operations\<close>

lemma only_node_of [only_intro]: "(\<And>a. P (vms_request, a)) \<Longrightarrow> only P (node_of S vmid)"
  unfolding node_of_def by (intro only_intro)

lemma read_only_check_free: "read_only (check_free S C vmid h)"
  unfolding read_only_def check_free_def by (intro only_intro) simp_all

definition config_write :: "string \<Rightarrow> nat \<Rightarrow> (string \<times> string) list \<Rightarrow> request \<Rightarrow> bool" where
  "config_write node vmid fs rq \<longleftrightarrow> rq = Put (qemu_path node vmid ''/config'') fs"

definition lease_write :: "nat \<Rightarrow> request \<Rightarrow> bool" where
  "lease_write vmid rq \<longleftrightarrow>
     (\<exists>node d dg. rq = Put (qemu_path node vmid ''/config'') (description_fields d @ digest_field dg) \<or>
        rq = Put (qemu_path node vmid ''/config'') ([(''description'', d)] @ digest_field dg))"

lemma lease_writeI [simp]:
  "lease_write vmid (Put (qemu_path node vmid ''/config'') (description_fields d @ digest_field dg))"
  "lease_write vmid (Put (qemu_path node vmid ''/config'') ((''description'', d) # digest_field dg))"
  unfolding lease_write_def by auto

lemma only_acquire_loop:
  assumes g: "\<And>a rq. is_get rq \<Longrightarrow> P (rq, a)" and w: "\<And>a rq. lease_write vmid rq \<Longrightarrow> P (rq, a)"
  shows "only P (acquire_loop S C node vmid h l n)"
proof (induction n)
  case 0
  show ?case by (simp only: acquire_loop.simps) (rule only_throw)
next
  case (Suc n)
  then show ?case unfolding acquire_loop.simps
    by (intro only_intro) (simp_all add: g w)
qed

lemma only_release_loop:
  assumes g: "\<And>a rq. is_get rq \<Longrightarrow> P (rq, a)" and w: "\<And>a rq. lease_write vmid rq \<Longrightarrow> P (rq, a)"
  shows "only P (release_loop S C vmid inst job n)"
proof (induction n)
  case 0
  show ?case by (simp only: release_loop.simps) (rule only_throw)
next
  case (Suc n)
  then show ?case unfolding release_loop.simps
    by (intro only_intro) (simp_all add: g w)
qed

text \<open>What a successful acquisition was checked against.\<close>

lemma acquire_loop_Inr:
  "acquire_loop S C node vmid h l n s = (Inr a, s') \<Longrightarrow>
     acq_vmid a = vmid \<and> acq_lease a = l \<and>
     (\<exists>d ans. acquire_prepare C vmid h l (acq_before a) = Inr d \<and>
        (Put (qemu_path node vmid ''/config'')
           ([(''description'', d)] @ digest_field (bt_get (acq_before a) ''digest'')), Inr ans) \<in> set (trace s'))"
proof (induction n arbitrary: s)
  case 0
  then show ?case by (simp add: throwE_run)
next
  case (Suc n)
  from Suc.prems obtain c s1 d where c: "vm_config S node vmid s = (Inr c, s1)"
    and d: "acquire_prepare C vmid h l c = Inr d"
    by (auto simp: bindE_Inr liftE_run)
  obtain r s2 where r: "set_vm_config S node vmid [(''description'', d)] (bt_get c ''digest'') s1 = (r, s2)"
    by fastforce
  from Suc.prems c d r have k: "(case r of
         Inr _ \<Rightarrow> bindE (vm_config S node vmid) (\<lambda>after.
           returnE \<lparr>acq_vmid = vmid, acq_before = c, acq_after = after, acq_lease = l\<rparr>)
       | Inl e \<Rightarrow> if lost_race e then acquire_loop S C node vmid h l n else throwE e) s2 = (Inr a, s')"
    by (simp add: bindE_Inr liftE_run tryE_run)
  show ?case
  proof (cases r)
    case (Inl e)
    with k Suc.IH show ?thesis by (auto simp: throwE_run split: if_splits)
  next
    case (Inr u)
    let ?rq = "Put (qemu_path node vmid ''/config'') ([(''description'', d)] @ digest_field (bt_get c ''digest''))"
    from r Inr obtain v where v: "retry_while_locked S 1000 (api S ?rq) s1 = (Inr v, s2)"
      by (auto simp: set_vm_config_def bindE_Inr returnE_run)
    then obtain s0 s3 where a: "api S ?rq s0 = (Inr v, s3)" "s2 = no_earlier s0 s3"
      using retry_loop_result unfolding retry_while_locked_def by blast
    then have "(?rq, Inr v) \<in> set (trace s2)"
      by (auto simp: api_def no_earlier_def map_err_def answer_norm_def split: prod.splits sum.splits)
    moreover from k Inr obtain after where
      "vm_config S node vmid s2 = (Inr after, s')" and
      a: "a = \<lparr>acq_vmid = vmid, acq_before = c, acq_after = after, acq_lease = l\<rparr>"
      by (auto simp: bindE_Inr returnE_run)
    moreover have "\<exists>t. trace s' = trace s2 @ t"
      using only_vm_config [of "\<lambda>_. True" node vmid S] \<open>vm_config S node vmid s2 = (Inr after, s')\<close>
      by (metis only_def snd_conv)
    ultimately show ?thesis using d by auto
  qed
qed

text \<open>A VM that does not hold the job's lease is left alone.\<close>

lemma release_foreign:
  assumes "release_loop S C vmid inst job (Suc n) s = (r, s')"
    and "node_of S vmid s = (Inr (Some nd), s1)" and "vm_config S nd vmid s1 = (Inr c, s2)"
    and "read_lease C c = Inr l" and "\<not> holds l inst job"
  shows "r = Inr () \<and> s' = s2"
  using assms by (simp add: bindE_def liftE_run returnE_run)

end
