(* ===== verification/Samples.thy ===== *)
theory Samples
  imports Lease
begin

text \<open>
  Concrete instances of the parameters, for the witnesses: an encoding of leases that satisfies
  \<open>codec_ok\<close>, written with letters, digits and \<^verbatim>\<open>+\<close> only.
\<close>

definition nibble :: "nat \<Rightarrow> char" where
  "nibble n = char_of (97 + n)"

fun letters :: "string \<Rightarrow> string" where
  "letters [] = []"
| "letters (c # cs) = nibble (of_char c div 16) # nibble (of_char c mod 16) # letters cs"

fun unletters :: "string \<Rightarrow> string" where
  "unletters (a # b # cs) = char_of (16 * (of_char a - 97) + (of_char b - (97::nat))) # unletters cs"
| "unletters _ = []"

lemma nibble_value: "n < 16 \<Longrightarrow> of_char (nibble n) = 97 + n"
  by (simp add: nibble_def)

lemma unletters_letters [simp]: "unletters (letters s) = s"
proof (induction s)
  case (Cons c s)
  have "(of_char c :: nat) div 16 < 16" using of_char_less [of c] by (simp add: less_mult_imp_div_less)
  then show ?case using Cons by (simp add: nibble_value)
qed simp

lemma is_lower_nibble: "n < 16 \<Longrightarrow> is_lower (nibble n)"
  by (simp add: is_lower_def less_eq_char_def nibble_value)

lemma letters_lower: "list_all is_lower (letters s)"
proof (induction s)
  case (Cons c s)
  have "(of_char c :: nat) div 16 < 16" using of_char_less [of c] by (simp add: less_mult_imp_div_less)
  then show ?case using Cons by (simp add: is_lower_nibble)
qed simp

definition sample_enc :: "lease \<Rightarrow> string" where
  "sample_enc l =
     letters (l_instance l) @ CHR ''+'' # letters (l_job l) @ CHR ''+'' # letters (l_operation l) @
     CHR ''+'' # dec (acquired_at l) @ CHR ''+'' # dec (expires_at l)"

definition sample_dec :: "string \<Rightarrow> lease option" where
  "sample_dec s =
     (case split_on CHR ''+'' s of
        [a, b, c, d, e] \<Rightarrow>
          Some \<lparr>l_instance = unletters a, l_job = unletters b, l_operation = unletters c,
            acquired_at = digits_val d, expires_at = digits_val e\<rparr>
      | _ \<Rightarrow> None)"

definition sample_codec :: codec where
  "sample_codec = \<lparr>enc = sample_enc, decd = sample_dec\<rparr>"

lemma plus_notin: "CHR ''+'' \<notin> set (letters s)" "CHR ''+'' \<notin> set (dec n)"
  using letters_lower [of s] set_dec [of "CHR ''+''" n]
  by (auto simp: list_all_iff is_lower_def is_digit_def less_eq_char_def)

lemma sample_codec_ok: "codec_ok sample_codec"
proof -
  have "sample_dec (sample_enc l) = Some l" for l
    by (cases l) (simp add: sample_dec_def sample_enc_def split_on_append split_on_no_sep plus_notin)
  moreover have "list_all is_b64 (letters s)" for s
    using letters_lower [of s] by (auto simp: list_all_iff is_b64_def is_alnum_def is_alpha_def)
  moreover have "list_all is_b64 (dec n)" for n
    using set_dec [of _ n] by (auto simp: list_all_iff is_b64_def is_alnum_def)
  ultimately show ?thesis by (simp add: codec_ok_def sample_codec_def sample_enc_def is_b64_def)
qed

end
