(* ===== verification/Lease_Protocol.thy ===== *)
theory Lease_Protocol
  imports Samples
begin

text \<open>
  Any number of jobs of any number of server instances compete for one VM. Each job runs the rounds
  of \<open>acquire\<close>: it reads the configuration and decides with \<open>acquire_prepare\<close> (the code's own function),
  then writes with the digest of what it read; later it releases as \<open>release\<close> does. Reads and writes of
  different jobs, edits by others, crashes and the passing of time interleave arbitrarily. The
  digest is a function \<open>D\<close> of the configuration; Proxmox refuses a write whose digest is not the
  current one (\<^verbatim>\<open>assert_if_modified\<close>), and different configurations have different digests.
\<close>

type_synonym proc = "string \<times> string"

datatype pc =
    Starting
  | Decided vm_cfg string lease
  | Holding lease
  | Ended

record lease_sys =
  vm :: vm_cfg
  pcs :: "proc \<Rightarrow> pc"
  time :: nat

definition owner :: "lease \<Rightarrow> proc" where
  "owner l = (l_instance l, l_job l)"

fun before_lease :: "pc \<Rightarrow> bool" where
  "before_lease Starting = True"
| "before_lease (Decided c d l) = True"
| "before_lease _ = False"

text \<open>The jobs an instance runs now: those that have not ended.\<close>

definition runs :: "lease_sys \<Rightarrow> string \<Rightarrow> string \<Rightarrow> bool" where
  "runs s inst job \<longleftrightarrow> pcs s (inst, job) \<noteq> Ended"

text \<open>
  The holder a job asks as: its clock reading \<open>t\<close> may be older than the time of the read, and it
  knows the jobs its own instance runs.
\<close>

definition holder_of :: "lease_sys \<Rightarrow> proc \<Rightarrow> string \<Rightarrow> nat \<Rightarrow> nat \<Rightarrow> holder" where
  "holder_of s p oper t ttl =
     \<lparr>h_instance = fst p, h_job = snd p, h_operation = oper, h_now = t, h_ttl = ttl,
      h_running = runs s (fst p)\<rparr>"

text \<open>
  A configuration with no second block behind the lease: edits of the VM by others leave the lease
  as it is and do not add one.
\<close>

definition single_block :: "codec \<Rightarrow> vm_cfg \<Rightarrow> bool" where
  "single_block C c \<longleftrightarrow> bt_wf c \<and>
     (case description_with C (cfg_text c ''description'') None of
        Inl _ \<Rightarrow> True
      | Inr d \<Rightarrow> find_block d LEASE_START LEASE_END lease_label = Inr None)"

text \<open>What Proxmox stores for the fields \<open>description_fields\<close> of a release.\<close>

definition put_description :: "string \<Rightarrow> vm_cfg \<Rightarrow> vm_cfg" where
  "put_description d c = (if d = [] then bt_remove ''description'' c else bt_insert ''description'' d c)"

inductive lease_step :: "codec \<Rightarrow> (vm_cfg \<Rightarrow> 'd) \<Rightarrow> nat \<Rightarrow> lease_sys \<Rightarrow> lease_sys \<Rightarrow> bool"
  for C D vmid where
  wait: "time s \<le> t \<Longrightarrow> lease_step C D vmid s (s\<lparr>time := t\<rparr>)"
| decide: "pcs s p = Starting \<Longrightarrow> t \<le> time s \<Longrightarrow>
     acquire_prepare C vmid (holder_of s p oper t ttl) (new_lease (holder_of s p oper t ttl)) (vm s) = Inr d \<Longrightarrow>
     lease_step C D vmid s
       (s\<lparr>pcs := (pcs s)(p := Decided (vm s) d (new_lease (holder_of s p oper t ttl)))\<rparr>)"
| refuse: "pcs s p = Starting \<Longrightarrow> lease_step C D vmid s (s\<lparr>pcs := (pcs s)(p := Ended)\<rparr>)"
| write_ok: "pcs s p = Decided c d l \<Longrightarrow> D c = D (vm s) \<Longrightarrow>
     lease_step C D vmid s
       (s\<lparr>vm := bt_insert ''description'' d (vm s), pcs := (pcs s)(p := Holding l)\<rparr>)"
| write_lost: "pcs s p = Decided c d l \<Longrightarrow> D c \<noteq> D (vm s) \<Longrightarrow>
     lease_step C D vmid s (s\<lparr>pcs := (pcs s)(p := Starting)\<rparr>)"
| drop_lease: "pcs s p = Holding l \<Longrightarrow> read_lease C (vm s) = Inr found \<Longrightarrow> holds found (fst p) (snd p) \<Longrightarrow>
     description_with C (cfg_text (vm s) ''description'') None = Inr d \<Longrightarrow>
     lease_step C D vmid s
       (s\<lparr>vm := put_description d (vm s), pcs := (pcs s)(p := Ended)\<rparr>)"
| leave: "pcs s p = Holding l \<Longrightarrow> lease_step C D vmid s (s\<lparr>pcs := (pcs s)(p := Ended)\<rparr>)"
| crash: "lease_step C D vmid s (s\<lparr>pcs := (\<lambda>p. if fst p = inst then Ended else pcs s p)\<rparr>)"
| edit: "read_lease C c = read_lease C (vm s) \<Longrightarrow> single_block C c \<Longrightarrow> lease_step C D vmid s (s\<lparr>vm := c\<rparr>)"

inductive lease_reachable :: "codec \<Rightarrow> (vm_cfg \<Rightarrow> 'd) \<Rightarrow> nat \<Rightarrow> lease_sys \<Rightarrow> bool"
  for C D vmid where
  init: "(\<And>p. pcs s p = Starting) \<Longrightarrow> single_block C (vm s) \<Longrightarrow> read_lease C (vm s) = Inr None \<Longrightarrow>
     lease_reachable C D vmid s"
| step: "lease_reachable C D vmid s \<Longrightarrow> lease_step C D vmid s s' \<Longrightarrow> lease_reachable C D vmid s'"

inductive_cases lease_stepE: "lease_step C D vmid s s'"

section \<open>The invariant\<close>

lemma single_block_iff:
  "single_block C c \<longleftrightarrow> bt_wf c \<and>
     (\<forall>d. description_with C (cfg_text c ''description'') None = Inr d \<longrightarrow>
        find_block d LEASE_START LEASE_END lease_label = Inr None)"
  by (auto simp: single_block_def split: sum.splits)

text \<open>
  The lease in the VM belongs to a job past its write; an unexpired holder's lease is the one in the
  VM; and what a job decided on held no lease that could still be in force.
\<close>

definition lease_inv :: "codec \<Rightarrow> lease_sys \<Rightarrow> bool" where
  "lease_inv C s \<longleftrightarrow>
     single_block C (vm s) \<and>
     (\<forall>l. read_lease C (vm s) = Inr (Some l) \<longrightarrow> \<not> before_lease (pcs s (owner l))) \<and>
     (\<forall>p l. pcs s p = Holding l \<longrightarrow>
        owner l = p \<and> (time s < expires_at l \<longrightarrow> read_lease C (vm s) = Inr (Some l))) \<and>
     (\<forall>p c d l. pcs s p = Decided c d l \<longrightarrow>
        owner l = p \<and> description_with C (cfg_text c ''description'') (Some l) = Inr d \<and>
        (\<forall>l'. read_lease C c = Inr (Some l') \<longrightarrow> pcs s (owner l') = Ended \<or> expires_at l' \<le> time s))"

lemma owner_new_lease [simp]: "owner (new_lease (holder_of s p oper t ttl)) = p"
  by (simp add: owner_def new_lease_def holder_of_def)

lemma read_lease_description:
  "cfg_text c ''description'' = cfg_text c' ''description'' \<Longrightarrow> read_lease C c = read_lease C c'"
  by (simp add: read_lease_def)

lemma cfg_text_insert [simp]:
  "cfg_text (bt_insert k v c) k' = (if k' = k then v else cfg_text c k')"
  by (simp add: cfg_text_def bt_get_insert)

lemma cfg_text_put_description: "bt_wf c \<Longrightarrow> cfg_text (put_description d c) ''description'' = d"
  by (simp add: put_description_def cfg_text_def bt_get_insert bt_get_remove)

lemma bt_wf_put_description: "bt_wf c \<Longrightarrow> bt_wf (put_description d c)"
  by (simp add: put_description_def bt_wf_insert bt_wf_remove)

lemma single_block_removed:
  assumes "single_block C c" and "description_with C (cfg_text c ''description'') None = Inr d"
  shows "single_block C (put_description d c)" "read_lease C (put_description d c) = Inr None"
proof -
  have f: "find_block d LEASE_START LEASE_END lease_label = Inr None" and w: "bt_wf c"
    using assms by (simp_all add: single_block_iff)
  then show "read_lease C (put_description d c) = Inr None"
    by (simp add: read_lease_def cfg_text_put_description)
  show "single_block C (put_description d c)"
    using f w
    by (simp add: single_block_iff description_with_def with_block_def cfg_text_put_description bt_wf_put_description)
qed

lemma single_block_written:
  assumes C: "codec_ok C" and c: "single_block C c"
    and w: "description_with C (cfg_text c ''description'') (Some l) = Inr d"
  shows "single_block C (bt_insert ''description'' d c)"
proof -
  let ?cur = "cfg_text c ''description''"
  have b: "list_all is_b64 (enc C l)" using C by (simp add: codec_ok_def)
  have wf: "bt_wf c" using c by (simp add: single_block_iff)
  obtain f where f: "find_block ?cur LEASE_START LEASE_END lease_label = Inr f"
    using w by (cases "find_block ?cur LEASE_START LEASE_END lease_label")
      (auto simp: description_with_def with_block_def)
  show ?thesis
  proof (cases f)
    case None
    then have "description_with C d None = Inr ?cur" using add_remove [OF C _ w] f by simp
    then show ?thesis using f None wf by (simp add: single_block_iff bt_wf_insert)
  next
    case (Some x)
    then obtain i j q where x: "f = Some ((i, j), q)" by (cases x) auto
    obtain a b' where ab: "?cur = a @ LEASE_START @ q @ LEASE_END @ b'" "i = length a"
      "j = length a + length LEASE_START + length q + length LEASE_END"
      "find_sub LEASE_START ?cur = Some (length a)"
      using lease_marker.find_block_decomp f x by blast
    have "d = a @ LEASE_START @ enc C l @ LEASE_END @ b'"
      using w f x ab by (simp add: description_with_def with_block_def Let_def)
    moreover have "no_start LEASE_START a (LEASE_START @ enc C l @ LEASE_END @ b')"
      using lease_marker.no_start_keep ab by metis
    ultimately have "description_with C d None = Inr (join_removed a b')"
      using lease_marker.payload_of_block [OF b, of a b' lease_label]
      by (simp add: description_with_def with_block_def)
    moreover have "description_with C ?cur None = Inr (join_removed a b')"
      using f x ab by (simp add: description_with_def with_block_def)
    ultimately show ?thesis using c by (simp add: single_block_iff bt_wf_insert)
  qed
qed

lemma decided_no_live_lease:
  assumes inv: "lease_inv C s" and st: "pcs s p = Starting" and t: "t \<le> time s"
    and a: "acquire_prepare C vmid (holder_of s p oper t ttl) l (vm s) = Inr d"
    and r: "read_lease C (vm s) = Inr (Some l')"
  shows "pcs s (owner l') = Ended \<or> expires_at l' \<le> time s"
proof -
  from a r have c: "check vmid (Some l') (holder_of s p oper t ttl) = Inr ()"
    by (auto simp: acquire_prepare_Inr)
  have nb: "\<not> before_lease (pcs s (owner l'))" using inv r by (simp add: lease_inv_def)
  from c consider "expires_at l' \<le> t" | "owner l' = p" | "fst (owner l') = fst p" "\<not> runs s (fst p) (l_job l')"
    by (auto simp: check_ok_iff holder_of_def owner_def)
  then show ?thesis
  proof cases
    case 1
    then show ?thesis using t by simp
  next
    case 2
    then show ?thesis using nb st by simp
  next
    case 3
    then show ?thesis by (simp add: runs_def owner_def)
  qed
qed

lemma lease_step_inv:
  assumes C: "codec_ok C" and D: "inj D" and st: "lease_step C D vmid s s'" and inv: "lease_inv C s"
  shows "lease_inv C s'"
  using st
proof cases
  case (wait t)
  then show ?thesis using inv unfolding lease_inv_def by (simp, meson le_trans less_le_trans)
next
  case (decide p t oper ttl d)
  from inv have "description_with C (cfg_text (vm s) ''description'') (Some (new_lease (holder_of s p oper t ttl))) = Inr d"
    using decide(4) by (simp add: acquire_prepare_Inr)
  moreover have "pcs s (owner l') = Ended \<or> expires_at l' \<le> time s" if "read_lease C (vm s) = Inr (Some l')" for l'
    using decided_no_live_lease [OF inv decide(2,3,4) that] .
  moreover have "owner l' \<noteq> p" if "read_lease C (vm s) = Inr (Some l')" for l'
    using inv that decide(2) by (auto simp: lease_inv_def)
  moreover have "(owner l' \<noteq> p \<and> pcs s (owner l') = Ended) \<or> expires_at l' \<le> time s"
    if "pcs s q = Decided c' d' l2" "read_lease C c' = Inr (Some l')" for q c' d' l2 l'
    using inv that decide(2) unfolding lease_inv_def by (metis pc.distinct(5))
  ultimately show ?thesis using inv decide(1,2) unfolding lease_inv_def
    by (simp add: fun_upd_def) metis
next
  case (refuse p)
  then show ?thesis using inv unfolding lease_inv_def by (simp add: fun_upd_def) metis
next
  case (write_ok p c d l)
  have c: "c = vm s" using write_ok(3) D by (simp add: inj_eq)
  have dec: "owner l = p" "description_with C (cfg_text c ''description'') (Some l) = Inr d"
    "\<And>l'. read_lease C c = Inr (Some l') \<Longrightarrow> pcs s (owner l') = Ended \<or> expires_at l' \<le> time s"
    using inv write_ok(2) unfolding lease_inv_def by blast+
  have rd: "read_lease C (bt_insert ''description'' d (vm s)) = Inr (Some l)"
    by (rule read_written [OF C dec(2)]) simp
  have sb: "single_block C (bt_insert ''description'' d (vm s))"
    using single_block_written [OF C] inv dec(2) c unfolding lease_inv_def by blast
  have dead: "\<not> time s < expires_at l'" if "pcs s q = Holding l'" "q \<noteq> p" for q l'
  proof
    assume "time s < expires_at l'"
    with that(1) inv have "read_lease C (vm s) = Inr (Some l')" "owner l' = q"
      unfolding lease_inv_def by blast+
    with dec(3) c that(1) \<open>time s < expires_at l'\<close> show False by fastforce
  qed
  show ?thesis using inv write_ok(1,2) rd sb dead dec(1) unfolding lease_inv_def
    by (simp add: fun_upd_def) (metis pc.distinct before_lease.simps)
next
  case (write_lost p c d l)
  have "owner l' \<noteq> p" if "read_lease C (vm s) = Inr (Some l')" for l'
    using inv that write_lost(2) by (auto simp: lease_inv_def)
  then show ?thesis using inv write_lost(1,2) unfolding lease_inv_def by (simp add: fun_upd_def) (metis pc.distinct before_lease.simps)
next
  case (drop_lease p l found d)
  have sb: "single_block C (put_description d (vm s))"
    "read_lease C (put_description d (vm s)) = Inr None"
    using single_block_removed inv drop_lease(5) unfolding lease_inv_def by blast+
  obtain x where x: "found = Some x" "owner x = p"
    using drop_lease(4) by (cases found) (auto simp: holds_def owner_def)
  have dead: "\<not> time s < expires_at l'" if "pcs s q = Holding l'" "q \<noteq> p" for q l'
  proof
    assume "time s < expires_at l'"
    with that(1) inv have "read_lease C (vm s) = Inr (Some l')" "owner l' = q"
      unfolding lease_inv_def by blast+
    with drop_lease(3) x that show False by simp
  qed
  show ?thesis using inv drop_lease(1,2) sb dead unfolding lease_inv_def
    by (simp add: fun_upd_def) (metis pc.distinct before_lease.simps)
next
  case (leave p l)
  then show ?thesis using inv unfolding lease_inv_def by (simp add: fun_upd_def) metis
next
  case (crash inst)
  then show ?thesis using inv unfolding lease_inv_def by simp metis
next
  case (edit c)
  then show ?thesis using inv unfolding lease_inv_def by auto
qed

lemma lease_reachable_inv: "lease_reachable C D vmid s \<Longrightarrow> codec_ok C \<Longrightarrow> inj D \<Longrightarrow> lease_inv C s"
proof (induction rule: lease_reachable.induct)
  case (init s)
  then show ?case by (simp add: lease_inv_def)
next
  case (step s s')
  then show ?case using lease_step_inv by blast
qed

section \<open>Mutual exclusion\<close>


definition sample_start :: lease_sys where
  "sample_start = \<lparr>vm = [], pcs = (\<lambda>p. Starting), time = 100\<rparr>"

definition sample_lease :: lease where
  "sample_lease = \<lparr>l_instance = ''i1'', l_job = ''j1'', l_operation = ''resize'',
     acquired_at = 100, expires_at = 160\<rparr>"

definition sample_description :: string where
  "sample_description = LEASE_START @ sample_enc sample_lease @ LEASE_END"

lemma sample_new_lease:
  "new_lease (holder_of s (''i1'', ''j1'') ''resize'' 100 60) = sample_lease"
  by (simp add: new_lease_def holder_of_def sample_lease_def)

lemma sample_prepare: "acquire_prepare sample_codec 101 h sample_lease [] = Inr sample_description"
proof -
  have "char_count sample_description \<le> DESCRIPTION_MAX" by code_simp
  moreover have "description_with sample_codec [] (Some sample_lease) = Inr sample_description" by code_simp
  moreover have "read_lease sample_codec [] = Inr None" by code_simp
  moreover have "cfg_text [] ''description'' = []" by code_simp
  ultimately show ?thesis by (simp add: acquire_prepare_Inr check_ok_iff)
qed

definition sample_held :: lease_sys where
  "sample_held = \<lparr>vm = [(''description'', sample_description)],
     pcs = (\<lambda>p. Starting)((''i1'', ''j1'') := Holding sample_lease), time = 100\<rparr>"

lemma sample_held_reachable: "lease_reachable sample_codec id 101 sample_held"
proof -
  let ?s1 = "sample_start\<lparr>pcs := (pcs sample_start)((''i1'', ''j1'') := Decided [] sample_description sample_lease)\<rparr>"
  have single: "single_block sample_codec []" by code_simp
  have none: "read_lease sample_codec [] = Inr None" by code_simp
  have 0: "lease_reachable sample_codec id 101 sample_start"
    by (rule lease_reachable.init) (simp_all add: sample_start_def single none)
  have "lease_step sample_codec id 101 sample_start
      (sample_start\<lparr>pcs := (pcs sample_start)((''i1'', ''j1'') := Decided (vm sample_start) sample_description
        (new_lease (holder_of sample_start (''i1'', ''j1'') ''resize'' 100 60)))\<rparr>)"
    by (rule lease_step.decide) (simp_all add: sample_new_lease sample_prepare sample_start_def)
  then have 1: "lease_reachable sample_codec id 101 ?s1"
    using 0 lease_reachable.step by (simp add: sample_new_lease sample_start_def) blast
  have "lease_step sample_codec id 101 ?s1 (?s1\<lparr>vm := bt_insert ''description'' sample_description (vm ?s1),
      pcs := (pcs ?s1)((''i1'', ''j1'') := Holding sample_lease)\<rparr>)"
    by (rule lease_step.write_ok) (simp_all add: sample_start_def)
  with 1 have "lease_reachable sample_codec id 101 (?s1\<lparr>vm := bt_insert ''description'' sample_description (vm ?s1),
      pcs := (pcs ?s1)((''i1'', ''j1'') := Holding sample_lease)\<rparr>)"
    by (rule lease_reachable.step)
  then show ?thesis by (simp add: sample_held_def sample_start_def)
qed


end
