(* ===== verification/Guest.thy ===== *)
theory Guest
  imports Inventory
begin

text \<open>
  The QEMU guest agent (\<^verbatim>\<open>hs-core/src/guest.rs\<close>): pings, commands run to their end, and file reads.
  Both loops end because each round takes time and the deadline is fixed.
\<close>

section \<open>Text from bytes\<close>

text \<open>\<^verbatim>\<open>String::from_utf8_lossy\<close>: every maximal invalid part becomes U+FFFD.\<close>

definition utf8_width :: "char \<Rightarrow> nat" where
  "utf8_width c =
     (let n = (of_char c :: nat)
      in if n < 0x80 then 1
         else if 0xC2 \<le> n \<and> n \<le> 0xDF then 2
         else if 0xE0 \<le> n \<and> n \<le> 0xEF then 3
         else if 0xF0 \<le> n \<and> n \<le> 0xF4 then 4 else 0)"

definition utf8_second :: "char \<Rightarrow> char \<Rightarrow> bool" where
  "utf8_second c d =
     (let n = (of_char c :: nat); m = (of_char d :: nat);
          lo = (if n = 0xE0 then 0xA0 else if n = 0xF0 then 0x90 else 0x80);
          hi = (if n = 0xED then 0x9F else if n = 0xF4 then 0x8F else 0xBF)
      in lo \<le> m \<and> m \<le> hi)"

definition utf8_cont :: "char \<Rightarrow> bool" where
  "utf8_cont d = (let m = (of_char d :: nat) in 0x80 \<le> m \<and> m \<le> 0xBF)"

text \<open>The continuation bytes that fit a first byte, at most \<open>w\<close> of them.\<close>

definition utf8_tail :: "char \<Rightarrow> nat \<Rightarrow> string \<Rightarrow> string" where
  "utf8_tail c w s =
     (case s of [] \<Rightarrow> [] | d # ds \<Rightarrow> if utf8_second c d then d # takeWhile utf8_cont (take (w - 1) ds) else [])"

definition REPLACEMENT :: string where
  "REPLACEMENT = [CHR 0xEF, CHR 0xBF, CHR 0xBD]"

fun utf8_lossy :: "string \<Rightarrow> string" where
  "utf8_lossy [] = []"
| "utf8_lossy (c # cs) =
     (let w = utf8_width c; t = utf8_tail c (w - 1) cs
      in if w = 1 then c # utf8_lossy cs
         else if w = 0 then REPLACEMENT @ utf8_lossy cs
         else if length t = w - 1 then c # t @ utf8_lossy (drop (w - 1) cs)
         else REPLACEMENT @ utf8_lossy (drop (length t) cs))"

section \<open>Pings\<close>

definition QGA_PING_TIMEOUT :: nat where "QGA_PING_TIMEOUT = 5000"
definition GUEST_EXEC_TIMEOUT :: nat where "GUEST_EXEC_TIMEOUT = 300000"
definition EXEC_POLL :: nat where "EXEC_POLL = 200"
definition QGA_RETRY :: nat where "QGA_RETRY = 2000"

record exec_result =
  exited :: bool
  exitcode :: int
  out_data :: string
  err_data :: string

definition agent :: "string \<Rightarrow> nat \<Rightarrow> string \<Rightarrow> string" where
  "agent node vmid command = qemu_path node vmid (''/agent/'' @ command)"

definition qga_ping :: "'w ext \<Rightarrow> string \<Rightarrow> nat \<Rightarrow> ('w, unit) op" where
  "qga_ping S node vmid =
     bindE (within_time QGA_PING_TIMEOUT (api S (Post (agent node vmid ''ping'') []))) (\<lambda>r.
       case r of
         Some _ \<Rightarrow> returnE ()
       | None \<Rightarrow> throwE (Failed (''QEMU Guest Agent ping did not answer within '' @ dec (QGA_PING_TIMEOUT div 1000) @ ''s'')))"

definition no_agent :: "nat \<Rightarrow> string \<Rightarrow> nat \<Rightarrow> core_error option \<Rightarrow> core_error" where
  "no_agent vmid node tmo last_error =
     (let message = ''VM '' @ dec vmid @ '' on '' @ node @ '' did not expose a working QEMU Guest Agent within '' @
        dec (tmo div 1000) @ ''s''
      in case last_error of
           None \<Rightarrow> Failed message
         | Some e \<Rightarrow> Context (message @ '': '' @ error_text e) [e])"

lemma qga_ping_clock: "clock s \<le> clock (snd (qga_ping S node vmid s))"
proof -
  let ?m = "api S (Post (agent node vmid ''ping'') [])"
  obtain r s1 where m: "?m s = (r, s1)" by fastforce
  then have "clock s \<le> clock s1" using api_clock by (metis snd_conv)
  then show ?thesis
    using m by (auto simp: qga_ping_def bindE_def within_time_def run_simps split: sum.splits if_splits)
qed

function (sequential) qga_loop ::
  "'w ext \<Rightarrow> string \<Rightarrow> nat \<Rightarrow> nat \<Rightarrow> nat \<Rightarrow> core_error option \<Rightarrow> 'w st \<Rightarrow> (core_error + unit) \<times> 'w st" where
  "qga_loop S node vmid tmo deadline last_error s =
     (if deadline \<le> clock s then (Inl (no_agent vmid node tmo last_error), s)
      else (case qga_ping S node vmid s of
              (Inr _, s1) \<Rightarrow> (Inr (), s1)
            | (Inl e, s1) \<Rightarrow> qga_loop S node vmid tmo deadline (Some e) (snd (sleep S QGA_RETRY s1))))"
  by pat_completeness auto
termination
proof (relation "measure (\<lambda>(S, node, vmid, tmo, deadline, l, s). deadline - clock s)", goal_cases)
  case 1
  show ?case by simp
next
  case (2 S node vmid tmo deadline l s r s1 e)
  have "clock s \<le> clock s1" using qga_ping_clock [of s S node vmid] 2(2) by (metis snd_conv)
  then show ?case using 2(1) by (auto simp: sleep_def split: prod.splits)
qed

declare qga_loop.simps [simp del]

definition wait_for_qga :: "'w ext \<Rightarrow> string \<Rightarrow> nat \<Rightarrow> nat \<Rightarrow> ('w, unit) op" where
  "wait_for_qga S node vmid tmo = (\<lambda>s. qga_loop S node vmid tmo (clock s + tmo) None s)"

section \<open>Commands\<close>

fun integer :: "json option \<Rightarrow> int option" where
  "integer (Some (JInt n)) = (if - (2 ^ 63) \<le> n \<and> n < 2 ^ 63 then Some n else None)"
| "integer (Some (JStr s)) = parse_i64 (trim s)"
| "integer (Some (JBool b)) = Some (if b then 1 else 0)"
| "integer _ = None"

definition text_of :: "json option \<Rightarrow> string" where
  "text_of v = (case Option.bind v as_str of None \<Rightarrow> [] | Some s \<Rightarrow> s)"

definition shell_safe :: "char \<Rightarrow> bool" where
  "shell_safe c \<longleftrightarrow> is_alnum c \<or> c \<in> set ''@%+=:,./-_''"

definition APOS :: char where "APOS = CHR 0x27"

definition shell_quote :: "string \<Rightarrow> string" where
  "shell_quote word =
     (if word \<noteq> [] \<and> list_all shell_safe word then word
      else [APOS] @ concat (map (\<lambda>c. if c = APOS then [APOS, CHR 0x22, APOS, CHR 0x22, APOS] else [c]) word) @ [APOS])"

definition shell_join :: "string list \<Rightarrow> string" where
  "shell_join words = join '' '' (map shell_quote words)"

definition vm_context :: "nat \<Rightarrow> string \<Rightarrow> string" where
  "vm_context vmid node = ''VM '' @ dec vmid @ '' on '' @ node"

definition failed_call :: "nat \<Rightarrow> string \<Rightarrow> string \<Rightarrow> core_error \<Rightarrow> core_error" where
  "failed_call vmid node what e =
     Context (''QEMU Guest Agent '' @ what @ '' failed for '' @ vm_context vmid node) [e]"

definition bad_agent :: "nat \<Rightarrow> string \<Rightarrow> string \<Rightarrow> core_error" where
  "bad_agent vmid node what =
     PveErr (Response (''QEMU Guest Agent returned an '' @ what @ '' for '' @ vm_context vmid node))"

definition guest_not_finished :: "nat \<Rightarrow> string \<Rightarrow> nat \<Rightarrow> string \<Rightarrow> core_error" where
  "guest_not_finished vmid node tmo command =
     Failed (''Guest command did not finish in '' @ vm_context vmid node @ '' within '' @ dec (tmo div 1000) @
       ''s: '' @ command)"

definition exec_status_request :: "string \<Rightarrow> nat \<Rightarrow> string \<Rightarrow> request" where
  "exec_status_request node vmid pid = Get (agent node vmid ''exec-status'') [(''pid'', pid)]"

function (sequential) exec_loop ::
  "'w ext \<Rightarrow> string \<Rightarrow> nat \<Rightarrow> string \<Rightarrow> nat \<Rightarrow> nat \<Rightarrow> string \<Rightarrow> 'w st \<Rightarrow> (core_error + json) \<times> 'w st" where
  "exec_loop S node vmid command tmo deadline pid s =
     (if deadline \<le> clock s then (Inl (guest_not_finished vmid node tmo command), s)
      else (case api S (exec_status_request node vmid pid) s of
              (Inl e, s1) \<Rightarrow> (Inl (failed_call vmid node ''status'' e), s1)
            | (Inr status, s1) \<Rightarrow>
                if truthy (jget status ''exited'') then (Inr status, s1)
                else exec_loop S node vmid command tmo deadline pid (snd (sleep S EXEC_POLL s1))))"
  by pat_completeness auto
termination
proof (relation "measure (\<lambda>(S, node, vmid, command, tmo, deadline, pid, s). deadline - clock s)", goal_cases)
  case 1
  show ?case by simp
next
  case (2 S node vmid command tmo deadline pid s r s1 status)
  have "clock s \<le> clock s1"
    using api_clock [of s S "exec_status_request node vmid pid"] 2(2) by (metis snd_conv)
  then show ?case using 2(1) by (auto simp: sleep_def split: prod.splits)
qed

declare exec_loop.simps [simp del]

definition exec_form :: "string \<Rightarrow> string option \<Rightarrow> (string \<times> string) list" where
  "exec_form command input =
     [(''command'', ''/bin/sh''), (''command'', ''-lc''), (''command'', command)] @
     (case input of None \<Rightarrow> [] | Some i \<Rightarrow> [(''input-data'', i)])"

definition guest_command_failed :: "nat \<Rightarrow> string \<Rightarrow> string \<Rightarrow> exec_result \<Rightarrow> core_error" where
  "guest_command_failed vmid node command r =
     Failed (''Guest command failed in '' @ vm_context vmid node @ '' (exit='' @ dec_int (exitcode r) @ ''): '' @ command @
       (case List.find (\<lambda>p. p \<noteq> []) [trim (err_data r), trim (out_data r)] of
          None \<Rightarrow> [] | Some d \<Rightarrow> CHR 0x0A # d))"

definition exec_finish :: "nat \<Rightarrow> string \<Rightarrow> string \<Rightarrow> bool \<Rightarrow> json \<Rightarrow> core_error + exec_result" where
  "exec_finish vmid node command chk parsed =
     (if \<not> truthy (jget parsed ''exited'') \<or> jget parsed ''exitcode'' = None
      then Inl (bad_agent vmid node ''incomplete response'')
      else
        bindR (ok_or (integer (jget parsed ''exitcode'')) (bad_agent vmid node ''invalid exit code'')) (\<lambda>code.
        let r = \<lparr>exited = True, exitcode = code, out_data = text_of (jget parsed ''out-data''),
                 err_data = text_of (jget parsed ''err-data'')\<rparr>
        in if chk \<and> code \<noteq> 0 then Inl (guest_command_failed vmid node command r) else Inr r))"

definition guest_exec_with_input ::
  "'w ext \<Rightarrow> string \<Rightarrow> nat \<Rightarrow> string \<Rightarrow> string option \<Rightarrow> bool \<Rightarrow> nat \<Rightarrow> ('w, exec_result) op" where
  "guest_exec_with_input S node vmid command input chk tmo =
     bindE nowE (\<lambda>start.
     bindE (map_errE (failed_call vmid node ''exec'')
              (api S (Post (agent node vmid ''exec'') (exec_form command input)))) (\<lambda>first.
     bindE (if jget first ''pid'' \<noteq> None \<and> \<not> truthy (jget first ''exited'')
            then bindE (liftE (ok_or (integer (jget first ''pid'')) (bad_agent vmid node ''invalid pid''))) (\<lambda>pid.
                 exec_loop S node vmid command tmo (start + tmo) (dec_int pid))
            else returnE first) (\<lambda>parsed.
     liftE (exec_finish vmid node command chk parsed))))"

definition guest_exec :: "'w ext \<Rightarrow> string \<Rightarrow> nat \<Rightarrow> string \<Rightarrow> bool \<Rightarrow> nat \<Rightarrow> ('w, exec_result) op" where
  "guest_exec S node vmid command chk tmo = guest_exec_with_input S node vmid command None chk tmo"

definition guest_out :: "'w ext \<Rightarrow> string \<Rightarrow> nat \<Rightarrow> string \<Rightarrow> bool \<Rightarrow> nat \<Rightarrow> ('w, string) op" where
  "guest_out S node vmid command chk tmo =
     bindE (guest_exec S node vmid command chk tmo) (\<lambda>r. returnE (trim (out_data r)))"

definition agent_get :: "'w ext \<Rightarrow> string \<Rightarrow> nat \<Rightarrow> string \<Rightarrow> ('w, json) op" where
  "agent_get S node vmid command =
     bindE (api S (Get (agent node vmid command) [])) (\<lambda>answer. returnE (jidx answer ''result''))"

section \<open>Files\<close>

definition FILE_LIMIT :: nat where "FILE_LIMIT = 1024 * 1024"

fun guest_file_error :: "core_error \<Rightarrow> bool" where
  "guest_file_error (PveErr (Api status message)) \<longleftrightarrow>
     status = 500 \<and> (starts_with message ''Agent error: failed to open file'' \<or>
       starts_with message ''Agent error: failed to read file'')"
| "guest_file_error _ \<longleftrightarrow> False"

definition file_read_request :: "string \<Rightarrow> nat \<Rightarrow> string \<Rightarrow> nat \<Rightarrow> nat \<Rightarrow> request" where
  "file_read_request node vmid file offset count =
     Get (agent node vmid ''file-read'')
       [(''file'', file), (''offset'', dec offset), (''count'', dec count), (''decode'', ''0'')]"

definition bad_base64 :: "string \<Rightarrow> nat \<Rightarrow> core_error" where
  "bad_base64 file vmid = Unusable (''file-read of '' @ file @ '' in VM '' @ dec vmid @ '' returned invalid base64'')"

definition read_file :: "'w ext \<Rightarrow> string \<Rightarrow> nat \<Rightarrow> string \<Rightarrow> nat \<Rightarrow> nat \<Rightarrow> ('w, string option) op" where
  "read_file S node vmid file offset count =
     bindE (tryE (api S (file_read_request node vmid file offset count))) (\<lambda>r.
       case r of
         Inr answer \<Rightarrow>
           liftE (ok_or (map_option Some (b64_decode S (text_of (jget answer ''content'')))) (bad_base64 file vmid))
       | Inl e \<Rightarrow> if guest_file_error e then returnE None else throwE e)"

datatype file_error = Missing | Unreadable string

definition read_text_or_reason :: "'w ext \<Rightarrow> string \<Rightarrow> nat \<Rightarrow> string \<Rightarrow> ('w, file_error + string) op" where
  "read_text_or_reason S node vmid file =
     bindE (tryE (api S (file_read_request node vmid file 0 FILE_LIMIT))) (\<lambda>r.
       case r of
         Inr answer \<Rightarrow>
           liftE (ok_or (map_option (\<lambda>b. Inr (utf8_lossy b)) (b64_decode S (text_of (jget answer ''content''))))
             (bad_base64 file vmid))
       | Inl e \<Rightarrow>
           if guest_file_error e
           then returnE (Inl (if contains (error_text e) ''No such file or directory'' then Missing
                              else Unreadable (error_text e)))
           else throwE e)"

definition read_text :: "'w ext \<Rightarrow> string \<Rightarrow> nat \<Rightarrow> string \<Rightarrow> ('w, string option) op" where
  "read_text S node vmid file =
     bindE (read_file S node vmid file 0 FILE_LIMIT) (\<lambda>b. returnE (map_option utf8_lossy b))"

text \<open>The superblock at offset 1024: magic at byte 56, NUL-padded label at byte 120.\<close>

definition superblock_label :: "string \<Rightarrow> string option" where
  "superblock_label block =
     (if 58 \<le> length block \<and> take 2 (drop 56 block) = [CHR 0x53, CHR 0xEF]
      then Some (utf8_lossy (takeWhile (\<lambda>c. c \<noteq> CHR 0x00)
             (if 136 \<le> length block then take 16 (drop 120 block) else [])))
      else None)"

definition ext4_label :: "'w ext \<Rightarrow> string \<Rightarrow> nat \<Rightarrow> string \<Rightarrow> ('w, string option) op" where
  "ext4_label S node vmid device =
     bindE (read_file S node vmid device 1024 256) (\<lambda>b. returnE (Option.bind b superblock_label))"

definition PATH_DIRS :: "string list" where
  "PATH_DIRS = [''/usr/local/sbin'', ''/usr/local/bin'', ''/usr/sbin'', ''/usr/bin'', ''/sbin'', ''/bin'']"

fun find_in_dirs :: "'w ext \<Rightarrow> string \<Rightarrow> nat \<Rightarrow> string \<Rightarrow> string list \<Rightarrow> ('w, string option) op" where
  "find_in_dirs S node vmid name [] = returnE None"
| "find_in_dirs S node vmid name (dir # dirs) =
     bindE (read_file S node vmid (dir @ ''/'' @ name) 0 1) (\<lambda>b.
       if b \<noteq> None then returnE (Some (dir @ ''/'' @ name)) else find_in_dirs S node vmid name dirs)"

definition find_program :: "'w ext \<Rightarrow> string \<Rightarrow> nat \<Rightarrow> string \<Rightarrow> ('w, string option) op" where
  "find_program S node vmid name = find_in_dirs S node vmid name PATH_DIRS"

section \<open>Requests\<close>

lemma only_read_file [only_intro]:
  "(\<And>a. P (file_read_request node vmid file offset count, a)) \<Longrightarrow> only P (read_file S node vmid file offset count)"
  unfolding read_file_def by (intro only_intro)

lemma only_ext4_label [only_intro]:
  "(\<And>a. P (file_read_request node vmid device 1024 256, a)) \<Longrightarrow> only P (ext4_label S node vmid device)"
  unfolding ext4_label_def by (intro only_intro)

lemma file_read_request_get [simp]:
  "is_get (file_read_request n v f off c)" "\<not> is_delete (file_read_request n v f off c)"
  by (simp_all add: file_read_request_def)

end
