(* ===== verification/Address.thy ===== *)
theory Address
  imports Inventory "HOL-Library.Word"
begin

unbundle bit_operations_syntax

text \<open>
  VMIDs and addresses (\<^verbatim>\<open>hs-model/src/address.rs\<close>): an address is four octets, \<^verbatim>\<open>u32::from\<close> is a 32-bit
  word, and the masks are bit operations on it.
\<close>

record ipv4 =
  oct1 :: nat
  oct2 :: nat
  oct3 :: nat
  oct4 :: nat

text \<open>\<^verbatim>\<open>Ipv4Addr::from_str\<close>: four decimal numbers below 256, without leading zeros.\<close>

definition parse_octet :: "string \<Rightarrow> nat option" where
  "parse_octet s =
     (if s \<noteq> [] \<and> length s \<le> 3 \<and> list_all is_digit s \<and> \<not> (hd s = CHR ''0'' \<and> 1 < length s) \<and> digits_val s < 256
      then Some (digits_val s) else None)"

definition parse_ipv4 :: "string \<Rightarrow> ipv4 option" where
  "parse_ipv4 s =
     (case split_on (CHR ''.'') s of
        [a, b, c, d] \<Rightarrow>
          (case (parse_octet a, parse_octet b, parse_octet c, parse_octet d) of
             (Some w, Some x, Some y, Some z) \<Rightarrow> Some \<lparr>oct1 = w, oct2 = x, oct3 = y, oct4 = z\<rparr>
           | _ \<Rightarrow> None)
      | _ \<Rightarrow> None)"

definition print_ipv4 :: "ipv4 \<Rightarrow> string" where
  "print_ipv4 a = dec (oct1 a) @ ''.'' @ dec (oct2 a) @ ''.'' @ dec (oct3 a) @ ''.'' @ dec (oct4 a)"

definition octets_ok :: "ipv4 \<Rightarrow> bool" where
  "octets_ok a \<longleftrightarrow> oct1 a < 256 \<and> oct2 a < 256 \<and> oct3 a < 256 \<and> oct4 a < 256"

definition ip_word :: "ipv4 \<Rightarrow> 32 word" where
  "ip_word a = word_of_nat (((oct1 a * 256 + oct2 a) * 256 + oct3 a) * 256 + oct4 a)"

definition vmid_of_address :: "ipv4 \<Rightarrow> nat" where
  "vmid_of_address a = oct3 a * 1000 + oct4 a"

text \<open>\<^verbatim>\<open>u32::MAX.checked_shl(32 - cidr).unwrap_or(0)\<close>; none for a prefix longer than 32 bits.\<close>

definition net_mask :: "nat \<Rightarrow> 32 word option" where
  "net_mask cidr =
     (if 32 < cidr then None else Some (if 32 - cidr < 32 then push_bit (32 - cidr) (- 1) else 0))"

definition in_network :: "32 word \<Rightarrow> 32 word \<Rightarrow> 32 word \<Rightarrow> bool" where
  "in_network m gw ip =
     (let start = gw AND m in ip AND m = start \<and> ip \<noteq> start \<and> ip \<noteq> (start OR (NOT m)))"

definition candidate :: "nat \<Rightarrow> string \<Rightarrow> ipv4 \<Rightarrow> ipv4 option" where
  "candidate vmid pre gw =
     (if 2 \<le> vmid \<and> vmid \<le> 254 then parse_ipv4 (pre @ ''.'' @ dec vmid)
      else let third = vmid div 1000; fourth = vmid mod 1000
           in if vmid < 1000 \<or> 255 < third \<or> \<not> (1 \<le> fourth \<and> fourth \<le> 254) then None
              else Some \<lparr>oct1 = oct1 gw, oct2 = oct2 gw, oct3 = third, oct4 = fourth\<rparr>)"

definition address_of :: "nat \<Rightarrow> network \<Rightarrow> ipv4 option" where
  "address_of vmid network =
     (case parse_ipv4 (net_gateway network) of
        None \<Rightarrow> None
      | Some gw \<Rightarrow>
          (case candidate vmid (net_prefix network) gw of
             None \<Rightarrow> None
           | Some address \<Rightarrow>
               (case net_mask (net_cidr network) of
                  None \<Rightarrow> None
                | Some m \<Rightarrow> if in_network m (ip_word gw) (ip_word address) then Some address else None)))"

definition expected_ip :: "config \<Rightarrow> nat \<Rightarrow> string option" where
  "expected_ip cfg vmid = map_option print_ipv4 (address_of vmid (cfg_network cfg))"

section \<open>Printing and parsing\<close>

lemma digit_char_0: "d < 10 \<Longrightarrow> digit_char d = CHR ''0'' \<longleftrightarrow> d = 0"
proof
  assume "d < 10" "digit_char d = CHR ''0''"
  then show "d = 0" using digit_val_char [of d] by (simp add: digit_val_def)
next
  show "d = 0 \<Longrightarrow> digit_char d = CHR ''0''" by (simp add: digit_char_def) code_simp
qed

lemma hd_dec: "0 < n \<Longrightarrow> hd (dec n) \<noteq> CHR ''0''"
proof (induction n rule: dec.induct)
  case (1 n)
  show ?case
  proof (cases "n < 10")
    case True
    then show ?thesis using 1(2) by (subst dec.simps) (simp add: digit_char_0)
  next
    case False
    then show ?thesis using 1(1) by (subst dec.simps) (simp add: div_greater_zero_iff)
  qed
qed

lemma parse_octet_dec: "n < 256 \<Longrightarrow> parse_octet (dec n) = Some n"
proof -
  assume n: "n < 256"
  then have "length (dec n) \<le> 3" by (intro length_dec_le) auto
  moreover have "\<not> (hd (dec n) = CHR ''0'' \<and> 1 < length (dec n))"
  proof (cases "n = 0")
    case True
    then show ?thesis by (subst dec.simps) simp
  next
    case False
    then show ?thesis using hd_dec by simp
  qed
  ultimately show ?thesis using n by (simp add: parse_octet_def)
qed

lemma dot_notin_dec: "CHR ''.'' \<notin> set (dec n)"
  using set_dec by (fastforce simp: is_digit_iff)

lemma parse_print_ipv4: "octets_ok a \<Longrightarrow> parse_ipv4 (print_ipv4 a) = Some a"
  by (simp add: parse_ipv4_def print_ipv4_def octets_ok_def split_on_append split_on_no_sep dot_notin_dec
      parse_octet_dec)

lemma parse_octet_less: "parse_octet s = Some n \<Longrightarrow> n < 256"
  by (auto simp: parse_octet_def split: if_splits)

lemma parse_ipv4_ok: "parse_ipv4 s = Some a \<Longrightarrow> octets_ok a"
  by (auto simp: parse_ipv4_def octets_ok_def dest: parse_octet_less split: list.splits option.splits)

section \<open>VMIDs and addresses\<close>

lemma split_on_snoc: "c \<notin> set b \<Longrightarrow> split_on c (a @ c # b) = split_on c a @ [b]"
  by (induction a) (auto simp: split_on_no_sep split: list.splits)

lemma candidate_legacy:
  assumes "candidate vmid pre gw = Some a" and "2 \<le> vmid" and "vmid \<le> 254"
  shows "octets_ok a \<and> oct4 a = vmid"
proof -
  have p: "parse_ipv4 (pre @ ''.'' @ dec vmid) = Some a" using assms by (simp add: candidate_def)
  have "split_on CHR ''.'' (pre @ ''.'' @ dec vmid) = split_on CHR ''.'' pre @ [dec vmid]"
    using split_on_snoc [OF dot_notin_dec, of pre vmid] by simp
  then have "oct4 a = vmid"
    using p assms parse_octet_dec [of vmid]
    by (auto simp: parse_ipv4_def split: list.splits option.splits)
  then show ?thesis using p parse_ipv4_ok by blast
qed

lemma candidate_split:
  assumes "candidate vmid pre gw = Some a" and "254 < vmid" and "octets_ok gw"
  shows "1000 \<le> vmid \<and> octets_ok a \<and> vmid_of_address a = vmid \<and> oct1 a = oct1 gw \<and> oct2 a = oct2 gw \<and>
    1 \<le> oct4 a \<and> oct4 a \<le> 254"
  using assms by (auto simp: candidate_def Let_def octets_ok_def vmid_of_address_def split: if_splits)

lemma candidate_range: "candidate vmid pre gw = Some a \<Longrightarrow> 2 \<le> vmid"
  by (auto simp: candidate_def Let_def split: if_splits)

lemma address_of_Some:
  "address_of vmid n = Some a \<longleftrightarrow>
     (\<exists>gw m. parse_ipv4 (net_gateway n) = Some gw \<and> candidate vmid (net_prefix n) gw = Some a \<and>
        net_mask (net_cidr n) = Some m \<and> in_network m (ip_word gw) (ip_word a))"
  by (auto simp: address_of_def split: option.splits)


definition sample_network :: network where
  "sample_network = \<lparr>net_prefix = ''192.168.1'', net_cidr = 16, net_gateway = ''192.168.1.1'', net_dns = []\<rparr>"


end
