(* ===== verification/Status.thy ===== *)
theory Status
  imports Guest Address
begin

text \<open>
  The part of \<^verbatim>\<open>hs-core/src/status.rs\<close> that lifecycle operations rest on: storage capacities, the
  usage of a home filesystem, orphaned volumes, the resolution of a workspace by VMID or name and
  the checks every lifecycle operation starts with. A double is its exact rational value.
\<close>

section \<open>Capacities\<close>

definition status_resources :: "resource list \<Rightarrow> config \<Rightarrow> resource list" where
  "status_resources rs cfg =
     filter (\<lambda>r. Some (r_vmid r) = gold_vmid cfg \<or> has_tag (r_tags r) WORKSPACE_TAG \<or>
       has_tag (r_tags r) ALIEN_WORKSPACE_TAG) rs"

record capacity =
  cap_name :: string
  total_bytes :: "nat option"
  used_bytes :: "nat option"
  available_bytes :: "nat option"
  cap_percent :: "rat option"

definition u64_value :: "json option \<Rightarrow> nat option" where
  "u64_value v = non_negative v"

definition storage_capacity :: "string \<Rightarrow> json bmap \<Rightarrow> capacity" where
  "storage_capacity name data =
     (let total = u64_value (bt_get data ''total''); used = u64_value (bt_get data ''used'')
      in \<lparr>cap_name = name, total_bytes = total, used_bytes = used,
          available_bytes = (case u64_value (bt_get data ''avail'') of
             Some n \<Rightarrow> Some n | None \<Rightarrow> u64_value (bt_get data ''available'')),
          cap_percent = (case (total, used) of
             (Some t, Some u) \<Rightarrow> if t \<noteq> 0 then Some (100 * of_nat u / of_nat t) else None
           | _ \<Rightarrow> None)\<rparr>)"

text \<open>\<^verbatim>\<open>df\<close>'s percentage: rounded up, over 128-bit intermediates.\<close>

definition div_ceil :: "nat \<Rightarrow> nat \<Rightarrow> nat" where
  "div_ceil a b = (a + b - 1) div b"

definition df_percent :: "nat \<Rightarrow> nat \<Rightarrow> nat" where
  "df_percent used avail =
     (let total = used + avail in if total = 0 then 0
      else let p = div_ceil (used * 100) total in if p < u64_bound then p else 100)"

section \<open>The home filesystem\<close>

record home_usage =
  size_bytes :: "nat option"
  hu_used_bytes :: "nat option"
  free_bytes :: "nat option"
  free_percent :: "rat option"

record home_filesystem =
  hf_mount :: string
  hf_used :: "nat option"
  hf_total :: "nat option"
  hf_total_privileged :: "nat option"

definition home_label_device :: "json \<Rightarrow> string option" where
  "home_label_device fs =
     (if get_str fs ''type'' \<noteq> Some ''ext4'' then None
      else map_option (\<lambda>name. if starts_with name ''/dev/'' then name else ''/dev/'' @ name) (get_str fs ''name''))"

definition device_label ::
  "'w ext \<Rightarrow> string \<Rightarrow> nat \<Rightarrow> string option bmap \<Rightarrow> string \<Rightarrow> ('w, string option \<times> string option bmap) op" where
  "device_label S node vmid labels device =
     (case bt_get labels device of
        Some l \<Rightarrow> returnE (l, labels)
      | None \<Rightarrow>
          bindE (tryE (ext4_label S node vmid device)) (\<lambda>r.
          let l = (case r of Inl _ \<Rightarrow> None | Inr x \<Rightarrow> x)
          in returnE (l, bt_insert device l labels)))"

text \<open>The one mounted filesystem with the label; none when two carry it.\<close>

fun match_filesystems ::
  "'w ext \<Rightarrow> string \<Rightarrow> nat \<Rightarrow> string \<Rightarrow> string option bmap \<Rightarrow> (json \<times> string) option \<Rightarrow> json list \<Rightarrow>
     ('w, (json \<times> string) option) op" where
  "match_filesystems S node vmid expected labels matched [] = returnE matched"
| "match_filesystems S node vmid expected labels matched (fs # fss) =
     (case home_label_device fs of
        None \<Rightarrow> match_filesystems S node vmid expected labels matched fss
      | Some device \<Rightarrow>
          bindE (device_label S node vmid labels device) (\<lambda>(l, labels').
            if l = Some expected
            then (if matched \<noteq> None then returnE None
                  else match_filesystems S node vmid expected labels' (Some (fs, device)) fss)
            else match_filesystems S node vmid expected labels' matched fss))"

definition filesystem_of :: "(json \<Rightarrow> string) \<Rightarrow> json \<times> string \<Rightarrow> home_filesystem option" where
  "filesystem_of pr m =
     (case m of (fs, device) \<Rightarrow>
       map_option (\<lambda>mountpoint.
         \<lparr>hf_mount = device @ '' '' @ (case jget fs ''type'' of None \<Rightarrow> [] | Some t \<Rightarrow> py_str pr t) @ '' '' @ mountpoint,
          hf_used = u64_value (jget fs ''used-bytes''), hf_total = u64_value (jget fs ''total-bytes''),
          hf_total_privileged = u64_value (jget fs ''total-bytes-privileged'')\<rparr>)
         (get_str fs ''mountpoint''))"

definition find_home_filesystem :: "'w ext \<Rightarrow> string \<Rightarrow> nat \<Rightarrow> ('w, home_filesystem option) op" where
  "find_home_filesystem S node vmid =
     bindE (tryE (api S (Get (qemu_path node vmid ''/agent/get-fsinfo'') []))) (\<lambda>info.
       case info of
         Inl _ \<Rightarrow> returnE None
       | Inr v \<Rightarrow>
           (case home_label vmid of
              Inl _ \<Rightarrow> returnE None
            | Inr expected \<Rightarrow>
                (case Option.bind (jget v ''result'') as_array of
                   None \<Rightarrow> returnE None
                 | Some fss \<Rightarrow>
                     bindE (match_filesystems S node vmid expected [] None fss) (\<lambda>m.
                     returnE (Option.bind m (filesystem_of (print_json S)))))))"

text \<open>\<^verbatim>\<open>(gb * 1024^3) as u64\<close>: truncated and saturated.\<close>

definition gib_bytes :: "rat \<Rightarrow> nat" where
  "gib_bytes gb = min (u64_bound - 1) (nat \<lfloor>gb * 1024 ^ 3\<rfloor>)"

definition sized :: "string \<Rightarrow> home_usage" where
  "sized opt =
     \<lparr>size_bytes = map_option gib_bytes (parse_disk_size_gb opt), hu_used_bytes = None, free_bytes = None,
      free_percent = None\<rparr>"

definition workspace_home_usage :: "'w ext \<Rightarrow> string \<Rightarrow> nat \<Rightarrow> string \<Rightarrow> string \<Rightarrow> ('w, home_usage) op" where
  "workspace_home_usage S node vmid status home_cfg =
     (let usage = sized home_cfg
      in if status \<noteq> ''running'' then returnE usage
         else bindE (find_home_filesystem S node vmid) (\<lambda>f.
           case f of
             None \<Rightarrow> returnE usage
           | Some fs \<Rightarrow>
               (case (hf_used fs, hf_total fs) of
                  (Some used, Some tot) \<Rightarrow>
                    returnE \<lparr>size_bytes = Some (case hf_total_privileged fs of Some t \<Rightarrow> t | None \<Rightarrow> tot),
                      hu_used_bytes = Some used, free_bytes = Some (tot - used),
                      free_percent = Some (max 0 (100 - of_nat (df_percent used (tot - used))))\<rparr>
                | _ \<Rightarrow> returnE usage)))"

section \<open>Resolving workspaces\<close>

definition name_char :: "char \<Rightarrow> bool" where
  "name_char c \<longleftrightarrow> is_alnum c \<or> c = CHR ''.'' \<or> c = CHR ''-''"

definition valid_name :: "string \<Rightarrow> bool" where
  "valid_name n \<longleftrightarrow> length n \<le> 63 \<and> n \<noteq> [] \<and> is_alpha (hd n) \<and> list_all name_char n"

definition bad_name :: string where
  "bad_name = ''Invalid VM name. Use 1-63 characters: letters, digits, dot and hyphen; the first character must be a letter.''"

definition quoted :: "string \<Rightarrow> string" where
  "quoted s = [CHR 0x27] @ s @ [CHR 0x27]"

fun name_matches ::
  "'w ext \<Rightarrow> string \<Rightarrow> nat list \<times> nat list \<Rightarrow> (nat \<times> json bmap) list \<Rightarrow> ('w, nat list \<times> nat list) op" where
  "name_matches S text acc [] = returnE acc"
| "name_matches S text (found, other) ((vmid, item) # items) =
     (if map_option (py_str (print_json S)) (bt_get item ''name'') \<noteq> Some text
      then name_matches S text (found, other) items
      else
        let node = (case bt_get item ''node'' of
              None \<Rightarrow> [] | Some n \<Rightarrow> if truthy (Some n) then py_str (print_json S) n else [])
        in if node = [] then name_matches S text (found, other) items
           else bindE (vm_config S node vmid) (\<lambda>c.
             if has_tag (bt_get c ''tags'') WORKSPACE_TAG \<or> has_tag (bt_get c ''tags'') ALIEN_WORKSPACE_TAG
             then name_matches S text (found @ [vmid], other) items
             else name_matches S text (found, other @ [vmid]) items))"

definition resolve_matches :: "string \<Rightarrow> nat list \<times> nat list \<Rightarrow> core_error + nat" where
  "resolve_matches text r =
     (case r of
        ([vmid], _) \<Rightarrow> Inr vmid
      | ([], vmid # _) \<Rightarrow>
          Inl (Refused (''VM name '' @ quoted text @ '' exists but is not a HomeStack workspace (VMID '' @ dec vmid @ '').''))
      | ([], []) \<Rightarrow> Inl (NotFound (''No HomeStack workspace named '' @ quoted text @ '' exists.''))
      | (many, _) \<Rightarrow>
          Inl (Ambiguous (''Workspace name '' @ quoted text @ '' is ambiguous; matching VMIDs: '' @
            join '', '' (map dec (sort many)))))"

definition resolve_workspace_target :: "'w ext \<Rightarrow> string \<Rightarrow> ('w, nat) op" where
  "resolve_workspace_target S target =
     (let text = trim target
      in if text \<noteq> [] \<and> list_all is_digit text
         then liftE (ok_or (parse_uint u32_bound text) (Invalid (''Invalid workspace target '' @ quoted text @ ''.'')))
         else
           bindE (unlessE (valid_name text) (Invalid (''Invalid workspace target '' @ quoted text @
             ''. Use a numeric VMID or a workspace name whose first character is a letter.''))) (\<lambda>_.
           bindE (cluster_vm_maps S) (\<lambda>vms.
           bindE (name_matches S text ([], []) vms) (\<lambda>r. liftE (resolve_matches text r)))))"

record existing_workspace =
  ew_vmid :: nat
  ew_name :: string
  ew_node :: string
  ew_status :: string
  ew_config :: vm_cfg
  ew_root_volume :: string
  ew_root_storage :: "string option"
  ew_home_volume :: string
  ew_home_storage :: "string option"
  ew_home_label :: string
  ew_home_usage :: home_usage

definition no_vm :: "nat \<Rightarrow> core_error" where
  "no_vm vmid = NotFound (''VMID '' @ dec vmid @ '' does not exist'')"

definition vm_msg :: "nat \<Rightarrow> string \<Rightarrow> string" where
  "vm_msg vmid m = ''VM '' @ dec vmid @ m"

text \<open>The checks on the configuration read: name, root volume, home volume, label.\<close>

definition existing_disks :: "config \<Rightarrow> nat \<Rightarrow> vm_cfg \<Rightarrow> core_error + string \<times> string \<times> string \<times> string" where
  "existing_disks cfg vmid c =
     (let tags = bt_get c ''tags''; name = trim (cfg_text c ''name'');
          root_cfg = cfg_text c (root_disk cfg); home_cfg = cfg_text c (home_disk cfg);
          serial = disk_option home_cfg ''serial''
      in
      bindR (require (\<not> has_tag tags ALIEN_WORKSPACE_TAG) (Refused (vm_msg vmid ('' has forbidden workspace role tag '' @
        quoted ALIEN_WORKSPACE_TAG @ ''; lifecycle operations require native '' @ quoted WORKSPACE_TAG @ ''.'')))) (\<lambda>_.
      bindR (require (has_tag tags WORKSPACE_TAG) (Refused (vm_msg vmid ('' is not a HomeStack workspace: required tag '' @
        quoted WORKSPACE_TAG @ '' is missing.'')))) (\<lambda>_.
      bindR (require (name \<noteq> []) (Unusable (vm_msg vmid '' has no name''))) (\<lambda>_.
      bindR (require (valid_name name) (Unusable bad_name)) (\<lambda>_.
      bindR (require (root_cfg \<noteq> []) (Unusable (vm_msg vmid ('' has no disposable root disk '' @ root_disk cfg)))) (\<lambda>_.
      bindR (require (home_cfg \<noteq> []) (Unusable (vm_msg vmid ('' has no persistent home disk '' @ home_disk cfg)))) (\<lambda>_.
      bindR (home_label vmid) (\<lambda>expected.
      bindR (require (disk_volume root_cfg \<noteq> disk_volume home_cfg) (Unusable (vm_msg vmid ('' root disk '' @
        root_disk cfg @ '' and persistent home '' @ home_disk cfg @ '' reference the same volume '' @
        quoted (disk_volume root_cfg))))) (\<lambda>_.
      bindR (require (serial = Some expected) (Unusable (vm_msg vmid ('' '' @ home_disk cfg @ '' serial is '' @
        py_repr serial @ '', expected '' @ quoted expected)))) (\<lambda>_.
      Inr (name, disk_volume root_cfg, disk_volume home_cfg, expected)))))))))))"

definition resolve_existing_workspace :: "'w ext \<Rightarrow> config \<Rightarrow> nat \<Rightarrow> ('w, existing_workspace) op" where
  "resolve_existing_workspace S cfg vmid =
     bindE (unlessE (Some vmid \<noteq> gold_vmid cfg)
       (Refused (''Refusing lifecycle operation on Gold VM '' @ dec vmid))) (\<lambda>_.
     bindE (cluster_vm_resources S) (\<lambda>rs.
     bindE (liftE (ok_or (find_vm vmid rs) (no_vm vmid))) (\<lambda>r.
     bindE (unlessE (r_node r \<noteq> []) (Unusable (vm_msg vmid '' has no node in cluster inventory''))) (\<lambda>_.
     bindE (case r_status r of Some st \<Rightarrow> returnE st | None \<Rightarrow> vm_status S (r_node r) vmid) (\<lambda>status.
     bindE (vm_config S (r_node r) vmid) (\<lambda>c.
     bindE (liftE (existing_disks cfg vmid c)) (\<lambda>(name, root, home, label).
     bindE (workspace_home_usage S (r_node r) vmid status (cfg_text c (home_disk cfg))) (\<lambda>usage.
     returnE \<lparr>ew_vmid = vmid, ew_name = name, ew_node = r_node r, ew_status = status, ew_config = c,
       ew_root_volume = root, ew_root_storage = disk_storage (Some (cfg_text c (root_disk cfg))),
       ew_home_volume = home, ew_home_storage = disk_storage (Some (cfg_text c (home_disk cfg))),
       ew_home_label = label, ew_home_usage = usage\<rparr>))))))))"

section \<open>Lemmas\<close>

lemma df_percent_le: "df_percent used avail \<le> 100"
proof (cases "used + avail = 0")
  case True
  then show ?thesis by (simp add: df_percent_def)
next
  case False
  let ?t = "used + avail"
  have "used * 100 + ?t \<le> 101 * ?t" and "0 < ?t" using False by auto
  then have "used * 100 + ?t - 1 < 101 * ?t" by linarith
  then have "div_ceil (used * 100) ?t < 101"
    unfolding div_ceil_def using False by (simp add: less_mult_imp_div_less)
  then show ?thesis using False by (simp add: df_percent_def Let_def)
qed

lemma only_match_filesystems [only_intro]:
  assumes "\<And>d a. P (file_read_request node vmid d 1024 256, a)"
  shows "only P (match_filesystems S node vmid expected labels matched fss)"
proof (induction fss arbitrary: labels matched)
  case Nil
  show ?case by (simp add: only_return)
next
  case (Cons fs fss)
  show ?case unfolding match_filesystems.simps device_label_def
    by (intro only_intro Cons.IH assms)
qed

lemma only_home_usage [only_intro]:
  assumes g: "\<And>p q a. P (Get p q, a)"
  shows "only P (workspace_home_usage S node vmid status home_cfg)"
  unfolding workspace_home_usage_def find_home_filesystem_def Let_def
  by (intro only_intro) (simp_all add: g file_read_request_def only_return split: option.splits)

lemma only_existing [only_intro]:
  assumes g: "\<And>p q a. P (Get p q, a)"
  shows "only P (resolve_existing_workspace S cfg vmid)"
  unfolding resolve_existing_workspace_def
  by (intro only_intro) (simp_all add: g vms_request_def vm_config_request_def)

lemma existing_disks_Inr:
  "existing_disks cfg vmid c = Inr (name, rootv, homev, label) \<longleftrightarrow>
     \<not> has_tag (bt_get c ''tags'') ALIEN_WORKSPACE_TAG \<and> has_tag (bt_get c ''tags'') WORKSPACE_TAG \<and>
     name = trim (cfg_text c ''name'') \<and> valid_name name \<and> cfg_text c (root_disk cfg) \<noteq> [] \<and>
     cfg_text c (home_disk cfg) \<noteq> [] \<and> home_label vmid = Inr label \<and>
     rootv = disk_volume (cfg_text c (root_disk cfg)) \<and> homev = disk_volume (cfg_text c (home_disk cfg)) \<and>
     rootv \<noteq> homev \<and> disk_option (cfg_text c (home_disk cfg)) ''serial'' = Some label"
  by (auto simp: existing_disks_def Let_def valid_name_def)

lemma existing_Inr:
  assumes "resolve_existing_workspace S cfg vmid s = (Inr w, s')"
  shows "ew_vmid w = vmid \<and> gold_vmid cfg \<noteq> Some vmid \<and> ew_node w \<noteq> [] \<and>
    existing_disks cfg vmid (ew_config w) = Inr (ew_name w, ew_root_volume w, ew_home_volume w, ew_home_label w)"
  using assms
  by (auto simp: resolve_existing_workspace_def bindE_Inr liftE_run unlessE_run returnE_run split: if_splits)

end
