(* ===== verification/Vm_Power.thy ===== *)
theory Vm_Power
  imports Inventory
begin

text \<open>
  Starting and stopping VMs (\<^verbatim>\<open>hs-core/src/power.rs\<close>) and the admission check of a target storage
  (\<^verbatim>\<open>hs-core/src/capacity.rs\<close>).
\<close>

section \<open>Starting\<close>

definition START_TIMEOUT_SECS :: nat where "START_TIMEOUT_SECS = 300"
definition SHUTDOWN_TIMEOUT_SECS :: nat where "SHUTDOWN_TIMEOUT_SECS = 90"
definition LISTED_STOPPED_TIMEOUT :: nat where "LISTED_STOPPED_TIMEOUT = 30000"
definition LISTED_STOPPED_POLL :: nat where "LISTED_STOPPED_POLL = 1000"

definition upid :: "'w ext \<Rightarrow> json \<Rightarrow> core_error + string" where
  "upid S answer =
     ok_or (as_str answer) (Unusable (''Proxmox did not return a task id: '' @ print_json S answer))"

definition task_failed :: "string \<Rightarrow> nat \<Rightarrow> string \<Rightarrow> string \<Rightarrow> core_error" where
  "task_failed task vmid node exit =
     Failed (''Proxmox task '' @ task @ '' for VM '' @ dec vmid @ '' on '' @ node @ '' failed: '' @ exit)"

definition start_vm :: "'w ext \<Rightarrow> string \<Rightarrow> nat \<Rightarrow> task_wait \<Rightarrow> ('w, unit) op" where
  "start_vm S node vmid wait =
     retry_while_locked S (poll wait)
       (bindE (api S (Post (qemu_path node vmid ''/status/start'') [])) (\<lambda>answer.
        bindE (liftE (upid S answer)) (\<lambda>u.
        bindE (wait_task S u wait) (\<lambda>result.
        if task_ok result then returnE ()
        else throwE (task_failed ''qmstart'' vmid node (exitstatus result))))))"

section \<open>Stopping\<close>

definition listed_status :: "nat \<Rightarrow> resource list \<Rightarrow> string option" where
  "listed_status vmid rs = Option.bind (find_vm vmid rs) r_status"

definition still_listed :: "nat \<Rightarrow> core_error" where
  "still_listed vmid =
     Failed (''VM '' @ dec vmid @ '' is stopped, but the cluster still lists it as running after '' @
       dec (LISTED_STOPPED_TIMEOUT div 1000) @ ''s'')"

lemma case_array_state:
  "snd ((case v of JArr items \<Rightarrow> returnE (g items) | _ \<Rightarrow> throwE e) s1) = s1"
  by (cases v) (simp_all add: run_simps)

lemma cluster_vm_resources_clock: "clock s \<le> clock (snd (cluster_vm_resources S s))"
proof -
  have "snd (cluster_vm_maps S s) = snd (api S vms_request s)"
    unfolding cluster_vm_maps_def bindE_def by (simp add: case_array_state split: prod.splits sum.splits)
  then have "snd (cluster_vm_resources S s) = snd (api S vms_request s)"
    unfolding cluster_vm_resources_def bindE_def by (auto simp: run_simps split: prod.splits sum.splits)
  then show ?thesis by (simp add: api_clock)
qed

function (sequential) listed_loop :: "'w ext \<Rightarrow> nat \<Rightarrow> nat \<Rightarrow> 'w st \<Rightarrow> (core_error + unit) \<times> 'w st" where
  "listed_loop S vmid deadline s =
     (case cluster_vm_resources S s of
        (Inl e, s1) \<Rightarrow> (Inl e, s1)
      | (Inr rs, s1) \<Rightarrow>
          if listed_status vmid rs \<noteq> Some ''running'' then (Inr (), s1)
          else if deadline \<le> clock s1 then (Inl (still_listed vmid), s1)
          else listed_loop S vmid deadline (snd (sleep S LISTED_STOPPED_POLL s1)))"
  by pat_completeness auto
termination
proof (relation "measure (\<lambda>(S, vmid, deadline, s). deadline - clock s)", goal_cases)
  case 1
  show ?case by simp
next
  case (2 S vmid deadline s r s1 rs)
  have "clock s \<le> clock s1" using cluster_vm_resources_clock [of s S] 2(1) by (metis snd_conv)
  then show ?case using 2 by (auto simp: sleep_def split: prod.splits)
qed

declare listed_loop.simps [simp del]

definition wait_listed_stopped :: "'w ext \<Rightarrow> nat \<Rightarrow> ('w, unit) op" where
  "wait_listed_stopped S vmid = (\<lambda>s. listed_loop S vmid (clock s + LISTED_STOPPED_TIMEOUT) s)"

definition shutdown_attempt :: "'w ext \<Rightarrow> string \<Rightarrow> nat \<Rightarrow> nat \<Rightarrow> nat \<Rightarrow> ('w, bool) op" where
  "shutdown_attempt S node vmid timeout_secs pl =
     bindE (api S (Post (qemu_path node vmid ''/status/shutdown'') [(''timeout'', dec timeout_secs)])) (\<lambda>answer.
     bindE (liftE (upid S answer)) (\<lambda>u.
     bindE (tryE (wait_task S u \<lparr>poll = pl, timeout = (timeout_secs + 30) * 1000\<rparr>)) (\<lambda>r.
       case r of
         Inr result \<Rightarrow>
           if is_lock_timeout (exitstatus result)
           then throwE (task_failed ''qmshutdown'' vmid node (exitstatus result))
           else returnE (task_ok result)
       | Inl e \<Rightarrow> (case e of Failed _ \<Rightarrow> returnE False | _ \<Rightarrow> throwE e))))"

definition unexpected_status :: "nat \<Rightarrow> string \<Rightarrow> core_error" where
  "unexpected_status vmid status =
     Failed (''VM '' @ dec vmid @ '' has unexpected status '' @ py_repr (Some status) @ ''; refusing shutdown'')"

definition not_clean :: "nat \<Rightarrow> string \<Rightarrow> string \<Rightarrow> core_error" where
  "not_clean vmid node status =
     Failed (''VM '' @ dec vmid @ '' did not shut down cleanly on '' @ node @ ''. Current status: '' @ status @
       ''. HomeStack will not force-stop it automatically.'')"

definition shutdown_vm :: "'w ext \<Rightarrow> string \<Rightarrow> nat \<Rightarrow> nat \<Rightarrow> task_wait \<Rightarrow> ('w, unit) op" where
  "shutdown_vm S node vmid timeout_secs wait =
     bindE (vm_status S node vmid) (\<lambda>status.
       if status = ''stopped'' then returnE ()
       else if status \<noteq> ''running'' then throwE (unexpected_status vmid status)
       else
         bindE (retry_while_locked S (poll wait) (shutdown_attempt S node vmid timeout_secs (poll wait))) (\<lambda>ok.
         bindE (vm_status S node vmid) (\<lambda>final_status.
         if \<not> ok \<or> final_status \<noteq> ''stopped'' then throwE (not_clean vmid node final_status)
         else wait_listed_stopped S vmid)))"

section \<open>Free space\<close>

definition storage_status_request :: "string \<Rightarrow> string \<Rightarrow> request" where
  "storage_status_request node storage = Get (''/nodes/'' @ node @ ''/storage/'' @ storage @ ''/status'') []"

definition enabled :: "json \<Rightarrow> string \<Rightarrow> bool" where
  "enabled status key \<longleftrightarrow> jidx status key = JBool True \<or> jidx status key = JInt 1"

definition target_storage :: "string \<Rightarrow> string \<Rightarrow> string" where
  "target_storage storage target = storage @ '' on '' @ target"

definition require_space :: "'w ext \<Rightarrow> string \<Rightarrow> string \<Rightarrow> nat \<Rightarrow> ('w, json) op" where
  "require_space S target storage required =
     bindE (api S (storage_status_request target storage)) (\<lambda>status.
     bindE (unlessE (enabled status ''active'' \<and> enabled status ''enabled'')
       (Refused (''Target storage '' @ target_storage storage target @ '' is disabled or inactive''))) (\<lambda>_.
     bindE (unlessE (case as_str (jidx status ''content'') of
                       None \<Rightarrow> False | Some c \<Rightarrow> ''images'' \<in> set (split_on (CHR '','') c))
       (Refused (''Target storage '' @ target_storage storage target @ '' does not support VM images''))) (\<lambda>_.
     bindE (liftE (ok_or (as_u64 (jidx status ''avail''))
       (Refused (''Cannot determine available space on target storage '' @ target_storage storage target)))) (\<lambda>available.
     bindE (unlessE (required \<le> available)
       (Refused (''Not enough free space on target storage '' @ target_storage storage target @ '': requires '' @
          dec required @ '' bytes, available '' @ dec available @ '' bytes''))) (\<lambda>_.
     returnE (jobj [(''required_bytes'', jnat required), (''available_bytes'', jnat available)]))))))"

section \<open>Requests\<close>

lemma only_start_vm [only_intro]:
  assumes "\<And>p q a. P (Get p q, a)" and "\<And>a. P (Post (qemu_path node vmid ''/status/start'') [], a)"
  shows "only P (start_vm S node vmid wait)"
  unfolding start_vm_def by (intro only_intro) (simp_all add: assms)

lemma only_listed [only_intro]:
  assumes "\<And>p q a. P (Get p q, a)"
  shows "only P (wait_listed_stopped S vmid)"
proof -
  have r: "only P (cluster_vm_resources S)" for S :: "'w ext"
    by (rule only_cluster_vm_resources) (simp add: vms_request_def assms)
  have "R_only P s (snd (listed_loop S vmid deadline s))" for deadline s
  proof (induction S vmid deadline s rule: listed_loop.induct)
    case (1 S vmid deadline s)
    obtain q s1 where q: "cluster_vm_resources S s = (q, s1)" by fastforce
    have r1: "R_only P s s1" using r [of S] q by (metis only_R snd_conv)
    then have z: "R_only P s (snd (sleep S LISTED_STOPPED_POLL s1))"
      by (auto simp: R_only_def sleep_def split: prod.splits)
    show ?case
    proof (cases q)
      case (Inl e)
      then show ?thesis using q r1 by (simp add: listed_loop.simps [of S])
    next
      case (Inr rs)
      then show ?thesis
        using q r1 1 [OF q [symmetric] Inr] z R_only_trans [OF z] by (simp add: listed_loop.simps [of S])
    qed
  qed
  then show ?thesis by (simp add: only_R wait_listed_stopped_def)
qed

lemma only_case_failed [only_intro]:
  "(\<And>m. e = Failed m \<Longrightarrow> only P (f m)) \<Longrightarrow> only P g \<Longrightarrow> only P (case e of Failed m \<Rightarrow> f m | _ \<Rightarrow> g)"
  by (cases e) simp_all

lemma only_shutdown_vm [only_intro]:
  assumes g: "\<And>p q a. P (Get p q, a)"
    and "\<And>a. P (Post (qemu_path node vmid ''/status/shutdown'') [(''timeout'', dec timeout_secs)], a)"
  shows "only P (shutdown_vm S node vmid timeout_secs wait)"
  unfolding shutdown_vm_def shutdown_attempt_def
  by (intro only_intro) (simp_all add: assms)

lemma only_require_space [only_intro]:
  "(\<And>a. P (storage_status_request target storage, a)) \<Longrightarrow> only P (require_space S target storage n)"
  unfolding require_space_def by (intro only_intro)

lemma storage_status_request_get [simp]: "is_get (storage_status_request n st)" "\<not> is_delete (storage_status_request n st)"
  by (simp_all add: storage_status_request_def)

text \<open>Admission: a success is a storage that takes images and has the space asked for.\<close>

lemma require_space_Inr:
  assumes "require_space S target storage required s = (Inr v, s')"
  obtains status available where
    "api S (storage_status_request target storage) s = (Inr status, s')"
    "enabled status ''active''" "enabled status ''enabled''"
    "as_u64 (jidx status ''avail'') = Some available" "required \<le> available"
    "v = jobj [(''required_bytes'', jnat required), (''available_bytes'', jnat available)]"
  using assms that
  by (auto simp: require_space_def bindE_Inr liftE_run unlessE_run returnE_run ok_or_def
      split: option.splits if_splits)

text \<open>A shutdown that succeeds left the VM stopped: its last two reads say so.\<close>

lemma listed_loop_Inr:
  "listed_loop S vmid deadline s = (Inr (), s') \<Longrightarrow>
     \<exists>s0 rs. cluster_vm_resources S s0 = (Inr rs, s') \<and> listed_status vmid rs \<noteq> Some ''running''"
proof (induction S vmid deadline s rule: listed_loop.induct)
  case (1 S vmid deadline s)
  obtain rs s1 where r: "cluster_vm_resources S s = (Inr rs, s1)"
    using 1(2) by (auto simp: listed_loop.simps [of S] split: prod.splits sum.splits)
  show ?case
  proof (cases "listed_status vmid rs = Some ''running'' \<and> \<not> deadline \<le> clock s1")
    case True
    then show ?thesis using 1(1) [OF r [symmetric] HOL.refl] 1(2) r by (simp add: listed_loop.simps [of S _ _ s])
  next
    case False
    then have "listed_status vmid rs \<noteq> Some ''running''" "s1 = s'"
      using 1(2) r by (auto simp: listed_loop.simps [of S _ _ s] split: if_splits)
    then show ?thesis using r by blast
  qed
qed

end
