(* ===== verification/Gold_Config.thy ===== *)
theory Gold_Config
  imports Inventory
begin

text \<open>
  Readings of a VM configuration shared by the operations that clone Gold: the first part of
  \<^verbatim>\<open>hs-core/src/gold.rs\<close> (slots, NICs, boot order) and \<^verbatim>\<open>is_volume_slot\<close> of
  \<^verbatim>\<open>hs-core/src/create_transfer.rs\<close>.
\<close>

definition no_gold :: core_error where
  "no_gold = Refused ''Gold is not configured; select a Gold VM before creating or refreshing workspaces''"

definition configured_gold :: "config \<Rightarrow> core_error + nat" where
  "configured_gold cfg = ok_or (gold_vmid cfg) no_gold"

definition lower_char :: "char \<Rightarrow> char" where
  "lower_char c = (if is_upper c then char_of ((of_char c :: nat) + 32) else c)"

definition upper_char :: "char \<Rightarrow> char" where
  "upper_char c = (if is_lower c then char_of ((of_char c :: nat) - 32) else c)"

definition agent_enabled :: "string option \<Rightarrow> bool" where
  "agent_enabled v =
     (let text = trim (case v of None \<Rightarrow> [] | Some s \<Rightarrow> s)
      in text = ''1'' \<or>
         (\<exists>t \<in> set (split_on (CHR '','') text). map lower_char (trim t) \<in> {''enabled=1'', ''enabled=true''}))"

definition is_numbered :: "string \<Rightarrow> string \<Rightarrow> bool" where
  "is_numbered key pre =
     (case strip_prefix key pre of None \<Rightarrow> False | Some index \<Rightarrow> index \<noteq> [] \<and> list_all is_digit index)"

definition is_disk_slot :: "string \<Rightarrow> bool" where
  "is_disk_slot slot \<longleftrightarrow> (\<exists>p \<in> set [''ide'', ''sata'', ''scsi'', ''virtio'']. is_numbered slot p)"

definition is_volume_slot :: "string \<Rightarrow> bool" where
  "is_volume_slot slot \<longleftrightarrow> is_disk_slot slot \<or> (\<exists>p \<in> set [''efidisk'', ''tpmstate'']. is_numbered slot p)"

definition cloud_init_slots :: "vm_cfg \<Rightarrow> string list" where
  "cloud_init_slots c =
     map fst (filter (\<lambda>(slot, v). is_disk_slot slot \<and> contains (disk_volume v) ''cloudinit'' \<and>
       disk_option v ''media'' = Some ''cdrom'') c)"

definition extra_data_disks :: "vm_cfg \<Rightarrow> string \<Rightarrow> string list" where
  "extra_data_disks c root_slot =
     map fst (filter (\<lambda>(slot, v). is_disk_slot slot \<and> slot \<noteq> root_slot \<and> slot \<notin> set (cloud_init_slots c) \<and>
       disk_volume v \<noteq> [] \<and> disk_volume v \<noteq> ''none'') c)"

definition extra_nics :: "vm_cfg \<Rightarrow> string list" where
  "extra_nics c =
     map fst (filter (\<lambda>(key, v).
       (case strip_prefix key ''net'' of
          None \<Rightarrow> False
        | Some index \<Rightarrow> index \<noteq> [] \<and> is_digit (hd index) \<and> hd index \<noteq> CHR ''0'' \<and> list_all is_digit index) \<and>
       trim v \<noteq> []) c)"

definition is_hex :: "char \<Rightarrow> bool" where
  "is_hex c \<longleftrightarrow> is_digit c \<or> (CHR ''a'' \<le> c \<and> c \<le> CHR ''f'') \<or> (CHR ''A'' \<le> c \<and> c \<le> CHR ''F'')"

definition is_mac :: "string \<Rightarrow> bool" where
  "is_mac text \<longleftrightarrow>
     length text = 17 \<and> length (split_on (CHR '':'') text) = 6 \<and>
     list_all (\<lambda>p. length p = 2 \<and> list_all is_hex p) (split_on (CHR '':'') text)"

text \<open>\<^verbatim>\<open>split\<close> at every character that cannot be part of a MAC.\<close>

definition mac_tokens :: "string \<Rightarrow> string list" where
  "mac_tokens s = split_on (CHR '' '') (map (\<lambda>c. if is_hex c \<or> c = CHR '':'' then c else CHR '' '') s)"

definition nic_mac :: "string \<Rightarrow> string option" where
  "nic_mac item =
     (case split_once (trim item) ''='' of
        None \<Rightarrow> None
      | Some (key, v) \<Rightarrow> if key \<in> {''virtio'', ''e1000'', ''rtl8139''} \<and> is_mac v then Some v else None)"

definition extract_mac :: "string \<Rightarrow> string option" where
  "extract_mac net0 =
     map_option (map upper_char)
       (case List.map_filter nic_mac (split_on (CHR '','') net0) of
          m # _ \<Rightarrow> Some m
        | [] \<Rightarrow> List.find is_mac (mac_tokens net0))"

definition boot_order_contains_disk :: "string \<Rightarrow> string \<Rightarrow> bool" where
  "boot_order_contains_disk boot disk =
     (case List.find (\<lambda>(k, _). k = ''order'') (List.map_filter (\<lambda>i. split_once i ''='') (split_on (CHR '','') boot)) of
        None \<Rightarrow> False
      | Some (_, order) \<Rightarrow> disk \<in> set (split_on (CHR '';'') order))"

end
