(* ===== verification/Sample_Pve.thy ===== *)
theory Sample_Pve
  imports Inventory
begin

text \<open>
  A small concrete endpoint for the witnesses: every answer takes a millisecond and is computed from
  a state of the example's own.
\<close>

definition machine :: "('w \<Rightarrow> request \<Rightarrow> answer \<times> 'w) \<Rightarrow> 'w ext" where
  "machine f =
     \<lparr>call = (\<lambda>rq w. case f w rq of (a, w') \<Rightarrow> (a, 1, w')), pause = (\<lambda>d w. (0, w)),
      print_json = (\<lambda>v. ''?''), b64_decode = (\<lambda>s. Some s)\<rparr>"

definition start_state :: "'w \<Rightarrow> 'w st" where
  "start_state w = \<lparr>world = w, clock = 0, trace = [], events = []\<rparr>"

definition sample_config :: config where
  "sample_config =
     \<lparr>cfg_node = ''pve1'', gold_vmid = Some 9000, storage_layouts = [(''homestack-storage-1'', [''fast'', ''slow''])],
      root_disk = ''scsi0'', home_disk = ''scsi1'', default_home_size = ''20G'',
      cfg_network = \<lparr>net_prefix = ''192.168.1'', net_cidr = 16, net_gateway = ''192.168.1.1'', net_dns = []\<rparr>,
      cfg_cloud_init = \<lparr>snippet_storage = ''local'', snippet_dir = ''/var/lib/vz/snippets''\<rparr>,
      cfg_user = \<lparr>user_name = ''ann'', uid = 1000, gid = 1000\<rparr>, repo_owner = None\<rparr>"

text \<open>One stopped workspace, VM 101 on \<^verbatim>\<open>pve1\<close>, until it is deleted (the state is whether it is).\<close>

definition sample_vm_config :: "(string \<times> json) list" where
  "sample_vm_config =
     [(''digest'', JStr ''d1''), (''name'', JStr ''ws''), (''scsi0'', JStr ''fast:vm-101-disk-0,size=32G''),
      (''scsi1'', JStr ''fast:vm-101-hs-home-ann,serial=HS_HOME_101,size=20G''), (''tags'', JStr ''homestack-ws'')]"

definition sample_listing :: "bool \<Rightarrow> json" where
  "sample_listing gone =
     JArr (if gone then [] else
       [JObj [(''type'', JStr ''qemu''), (''vmid'', JInt 101), (''node'', JStr ''pve1''), (''name'', JStr ''ws''),
              (''status'', JStr ''stopped''), (''tags'', JStr ''homestack-ws''), (''pool'', JStr ''hs'')]])"

definition sample_upid :: string where
  "sample_upid = ''UPID:pve1:0:0:0:task:101:hs:''"

definition sample_volume :: "string \<Rightarrow> json" where
  "sample_volume v =
     JObj [(''volid'', JStr v), (''vmid'', JInt 101), (''format'', JStr ''raw''), (''size'', JInt 1)]"

definition sample_answer :: "bool \<Rightarrow> string \<Rightarrow> json" where
  "sample_answer gone p =
     (if p = ''/cluster/resources'' then sample_listing gone
      else if p = ''/nodes/pve1/qemu/101/config'' then JObj sample_vm_config
      else if p = ''/pools/hs'' then
        JObj [(''members'', JArr [JObj [(''vmid'', JInt 101), (''type'', JStr ''qemu''), (''node'', JStr ''pve1'')]])]
      else if p = ''/nodes/pve1/qemu'' then JArr [JObj [(''vmid'', JInt 101)]]
      else if p = ''/nodes/pve1/qemu/101/pending'' then JArr []
      else if p = ''/nodes/pve1/qemu/101/snapshot'' then JArr [JObj [(''name'', JStr ''current'')]]
      else if p = ''/nodes/pve1/qemu/101/status/current'' then
        JObj [(''status'', JStr ''stopped''), (''ha'', JObj [(''managed'', JInt 0)])]
      else if p = ''/nodes/pve1/replication'' then JArr []
      else if p = ''/storage'' then
        JArr [JObj [(''storage'', JStr ''fast''), (''content'', JStr ''images''), (''type'', JStr ''lvmthin'')]]
      else if p = ''/nodes/pve1/storage/fast/status'' then JObj [(''active'', JInt 1), (''enabled'', JInt 1)]
      else if p = ''/nodes/pve1/storage/fast/content'' then
        JArr (if gone then [] else map sample_volume [''fast:vm-101-disk-0'', ''fast:vm-101-hs-home-ann''])
      else if p = ''/nodes/pve1/tasks/'' @ sample_upid @ ''/status'' then
        JObj [(''status'', JStr ''stopped''), (''exitstatus'', JStr ''OK'')]
      else if p = ''/nodes/pve1/tasks/'' @ sample_upid @ ''/log'' then JArr []
      else JNull)"

fun sample_serve :: "bool \<Rightarrow> request \<Rightarrow> answer \<times> bool" where
  "sample_serve gone (Get p q) = (Inr (sample_answer gone p), gone)"
| "sample_serve gone (Post p q) = (Inr (JStr sample_upid), gone)"
| "sample_serve gone (Put p q) = (Inr JNull, gone)"
| "sample_serve gone (Delete p q) = (Inr (JStr sample_upid), True)"

section \<open>Running an operation on a concrete endpoint\<close>

text \<open>
  \<open>gives w m a w'\<close>: from every state in world \<open>w\<close>, \<open>m\<close> succeeds with \<open>a\<close> and leaves world \<open>w'\<close>. The rules
  evaluate an operation step by step, so that only small values are computed at a time.
\<close>

definition gives :: "'w \<Rightarrow> ('w, 'a) op \<Rightarrow> 'a \<Rightarrow> 'w \<Rightarrow> bool" where
  "gives w m a w' \<longleftrightarrow> (\<forall>s. world s = w \<longrightarrow> (\<exists>s'. m s = (Inr a, s') \<and> world s' = w'))"

lemma gives_run: "gives w m a w' \<Longrightarrow> world s = w \<Longrightarrow> \<exists>s'. m s = (Inr a, s') \<and> world s' = w'"
  by (simp add: gives_def)

lemma gives_return: "gives w (returnE a) a w"
  by (simp add: gives_def returnE_run)

lemma gives_lift: "r = Inr a \<Longrightarrow> gives w (liftE r) a w"
  by (simp add: gives_def returnE_run)

lemma gives_unless: "b \<Longrightarrow> gives w (unlessE b e) () w"
  by (simp add: gives_def unlessE_run)

lemma gives_bind: "gives w m a w1 \<Longrightarrow> gives w1 (f a) b w2 \<Longrightarrow> gives w (bindE m f) b w2"
  unfolding gives_def by (metis bindE_Inr)

lemma gives_emit: "gives w (emit ev) () w"
  by (simp add: gives_def emit_run)

lemma gives_try: "gives w m a w' \<Longrightarrow> gives w (tryE m) (Inr a) w'"
  by (auto simp: gives_def tryE_run)

lemma gives_step: "gives w m a w' \<Longrightarrow> gives w (stepE name m) a w'"
  unfolding stepE_def step_started_def step_finished_def
  by (rule gives_bind [OF gives_emit], rule gives_bind [OF gives_try], assumption,
      rule gives_bind [OF gives_emit], rule gives_lift, rule refl)

lemma gives_api:
  assumes "f w rq = (Inr v, w')"
  shows "gives w (api (machine f) rq) (json_norm v) w'"
  using assms by (simp add: gives_def api_def machine_def answer_norm_def map_err_def)

lemma gives_map_err: "gives w m a w' \<Longrightarrow> gives w (map_errE g m) a w'"
  by (fastforce simp: gives_def map_errE_def map_err_def)

lemma gives_foldM_Nil: "gives w (foldM_E f z []) z w"
  by (simp add: gives_return)

lemma gives_foldM_Cons:
  "gives w (f z x) z1 w1 \<Longrightarrow> gives w1 (foldM_E f z1 xs) z2 w2 \<Longrightarrow> gives w (foldM_E f z (x # xs)) z2 w2"
  unfolding foldM_E.simps by (rule gives_bind)

text \<open>The value of a pure result that is known to be a success.\<close>

definition the_ok :: "'e + 'a \<Rightarrow> 'a" where
  "the_ok r = (case r of Inr a \<Rightarrow> a | Inl _ \<Rightarrow> undefined)"

lemma gives_lift_ok: "is_ok r \<Longrightarrow> gives w (liftE r) (the_ok r) w"
  by (cases r) (simp_all add: the_ok_def gives_return)

lemma gives_eval: "gives w m a w' \<Longrightarrow> a = b \<Longrightarrow> gives w m b w'"
  by simp

text \<open>What the sample endpoint answers to a read.\<close>

definition ans :: "bool \<Rightarrow> string \<Rightarrow> json" where
  "ans gone p = json_norm (sample_answer gone p)"

lemma sample_get: "gives gone (api (machine sample_serve) (Get p q)) (ans gone p) gone"
  unfolding ans_def by (rule gives_api) simp

definition sample_resource :: resource where
  "sample_resource =
     \<lparr>r_vmid = 101, r_node = ''pve1'', r_name = Some ''ws'', r_status = Some ''stopped'', r_tags = Some ''homestack-ws'',
      r_pool = Some ''hs'', r_disk = None, r_maxdisk = None\<rparr>"

definition sample_cfg :: vm_cfg where
  "sample_cfg = map (\<lambda>(k, v). (k, the (as_str v))) sample_vm_config"

lemma sample_vms: "gives False (cluster_vm_resources (machine sample_serve)) [sample_resource] False"
proof -
  have v: "ans False ''/cluster/resources'' = JArr (the (as_array (ans False ''/cluster/resources'')))" by code_simp
  have "gives False (cluster_vm_maps (machine sample_serve))
      (List.map_filter qemu_entry (the (as_array (ans False ''/cluster/resources'')))) False"
    unfolding cluster_vm_maps_def vms_request_def
    by (rule gives_bind [OF sample_get], subst v) (simp add: gives_return)
  then show ?thesis unfolding cluster_vm_resources_def
    by (rule gives_bind) (rule gives_eval [OF gives_return], code_simp)
qed

lemma sample_vm_cfg: "gives False (vm_config (machine sample_serve) ''pve1'' 101) sample_cfg False"
proof -
  have p: "vm_config_request ''pve1'' 101 = Get ''/nodes/pve1/qemu/101/config'' []" by code_simp
  have v: "ans False ''/nodes/pve1/qemu/101/config'' = JObj sample_vm_config" by code_simp
  have c: "config_of (print_json (machine sample_serve)) sample_vm_config = sample_cfg" by code_simp
  show ?thesis unfolding vm_config_def p
    by (rule gives_bind [OF sample_get], subst v) (simp add: c gives_return)
qed

lemma sample_vms_gone: "gives True (cluster_vm_resources (machine sample_serve)) [] True"
proof -
  have v: "ans True ''/cluster/resources'' = JArr []" by code_simp
  have "gives True (cluster_vm_maps (machine sample_serve)) [] True"
    unfolding cluster_vm_maps_def vms_request_def
    by (rule gives_bind [OF sample_get], subst v) (simp add: gives_return List.map_filter_simps)
  then show ?thesis unfolding cluster_vm_resources_def
    by (rule gives_bind) (simp add: gives_return)
qed

text \<open>
  Waiting for a task of an endpoint that answers reads by a function of its state, when the task has
  finished and logged nothing.
\<close>

definition task_path :: "string \<Rightarrow> string" where
  "task_path what = ''/nodes/pve1/tasks/'' @ sample_upid @ what"

definition finished_task :: "('w \<Rightarrow> string \<Rightarrow> json) \<Rightarrow> 'w \<Rightarrow> bool" where
  "finished_task A w \<longleftrightarrow> json_norm (A w (task_path ''/log'')) = JArr [] \<and>
     status_is_stopped (json_norm (A w (task_path ''/status''))) \<and>
     status_exit (json_norm (A w (task_path ''/status''))) = ''OK''"

definition serves :: "('w \<Rightarrow> request \<Rightarrow> answer \<times> 'w) \<Rightarrow> ('w \<Rightarrow> string \<Rightarrow> json) \<Rightarrow> bool" where
  "serves f A \<longleftrightarrow> (\<forall>w p q. f w (Get p q) = (Inr (A w p), w))"

lemma gives_get: "serves f A \<Longrightarrow> gives w (api (machine f) (Get p q)) (json_norm (A w p)) w"
  unfolding serves_def by (rule gives_api) simp

lemma gives_wait_tracking:
  assumes get: "serves f A" and fin: "finished_task A w"
  shows "gives w (wait_task_tracking (machine f) tr sample_upid wait k) (\<lparr>tr_upid = sample_upid, exitstatus = ''OK''\<rparr>, k) w"
proof -
  have fs: "upid_fields sample_upid = Some (split_on (CHR '':'') sample_upid)"
    and n: "split_on (CHR '':'') sample_upid ! 1 = ''pve1''" by code_simp+
  have l: "\<exists>s'. log_loop (machine f) tr ''pve1'' sample_upid seen k s = (Inr (seen, k), s') \<and> world s' = w"
    if w: "world s = w" for seen k s
  proof -
    have "log_request ''pve1'' sample_upid seen = Get (task_path ''/log'') [(''start'', dec seen), (''limit'', dec LOG_PAGE)]"
      by (simp add: log_request_def task_path_def)
    then have "gives w (api (machine f) (log_request ''pve1'' sample_upid seen)) (JArr []) w"
      using gives_get [OF get] fin unfolding finished_task_def by metis
    from gives_run [OF this w] show ?thesis
      by (subst log_loop.simps) (auto simp: log_entries_def placeholder_def)
  qed
  have wl: "\<exists>s'. wait_loop (machine f) tr ''pve1'' sample_upid wait deadline seen k s =
      (Inr (\<lparr>tr_upid = sample_upid, exitstatus = ''OK''\<rparr>, k), s') \<and> world s' = w"
    if "world s = w" for deadline seen k s
  proof -
    have "status_request ''pve1'' sample_upid = Get (task_path ''/status'') []"
      by (simp add: status_request_def task_path_def)
    then have "gives w (api (machine f) (status_request ''pve1'' sample_upid)) (json_norm (A w (task_path ''/status''))) w"
      using gives_get [OF get] by metis
    from gives_run [OF this that] obtain s1 where
      p: "api (machine f) (status_request ''pve1'' sample_upid) s = (Inr (json_norm (A w (task_path ''/status''))), s1)" "world s1 = w"
      by blast
    from l [OF p(2), of seen k] obtain s2 where "log_loop (machine f) tr ''pve1'' sample_upid seen k s1 = (Inr (seen, k), s2)"
      "world s2 = w" by blast
    with p fin show ?thesis by (subst wait_loop.simps) (simp add: finished_task_def)
  qed
  show ?thesis
    unfolding wait_task_tracking_def fs
    by (rule gives_bind [OF gives_lift], simp, rule gives_bind [OF gives_emit])
      (simp add: gives_def n [simplified] wl)
qed

lemma gives_wait_task:
  assumes "serves f A" and "finished_task A w"
  shows "gives w (wait_task (machine f) sample_upid wait) \<lparr>tr_upid = sample_upid, exitstatus = ''OK''\<rparr> w"
  unfolding wait_task_def by (rule gives_bind [OF gives_wait_tracking [OF assms]]) (simp add: gives_return)

text \<open>The tasks of the sample endpoint have finished when they are first asked about.\<close>

lemma sample_wait_task:
  "gives gone (wait_task (machine sample_serve) sample_upid wait) \<lparr>tr_upid = sample_upid, exitstatus = ''OK''\<rparr> gone"
proof -
  have "finished_task sample_answer True" "finished_task sample_answer False" by code_simp+
  then have "finished_task sample_answer gone" by (cases gone) simp_all
  then show ?thesis by (rule gives_wait_task [rotated]) (simp add: serves_def)
qed

text \<open>A retried operation that succeeds at once.\<close>

lemma gives_retry: "gives w m a w' \<Longrightarrow> gives w (retry_while_locked S pl m) a w'"
  unfolding gives_def retry_while_locked_def
  by (subst retry_loop.simps) (fastforce simp: no_earlier_def)

lemma gives_status:
  assumes "gives w (api S (Get (qemu_path node vmid ''/status/current'') [])) v w" and "v = JObj m"
    and "bt_get m ''status'' = Some (JStr st)" and "trim st = st" and "st \<noteq> []"
  shows "gives w (vm_status S node vmid) st w"
  unfolding vm_status_def
  by (rule gives_bind [OF gives_try [OF assms(1)]]) (simp add: assms(2-5) text_or_none_def gives_return)

lemma gives_vms:
  assumes "gives w (api S vms_request) (JArr items) w"
  shows "gives w (cluster_vm_resources S) (sort_key r_vmid (map (resource_of (print_json S)) (List.map_filter qemu_entry items))) w"
  unfolding cluster_vm_resources_def cluster_vm_maps_def
  by (rule gives_bind [OF gives_bind [OF assms]], simp, rule gives_return, rule gives_return)

lemma gives_config:
  assumes "gives w (api S (vm_config_request node vmid)) (JObj m) w"
  shows "gives w (vm_config S node vmid) (config_of (print_json S) m) w"
  unfolding vm_config_def by (rule gives_bind [OF assms]) (simp add: gives_return)

end
