(* ===== verification/Lifecycle.thy ===== *)
theory Lifecycle
  imports Status Vm_Power Gold_Config Sample_Pve
begin

text \<open>
  What the operations of \<^verbatim>\<open>hs-core/src/lifecycle.rs\<close> share: names and sizes, the role and pool checks,
  tasks started with \<^verbatim>\<open>POST\<close> or \<^verbatim>\<open>DELETE\<close>, readings of a plan, and the power operation. A Rust panic
  is the outcome \<open>None\<close> of the function that panics.
\<close>

unbundle bit_operations_syntax

section \<open>Names, addresses and sizes\<close>

record verify_timeouts =
  vt_agent :: nat
  vt_cloud_init :: nat

record timing =
  tm_poll :: nat
  tm_verify :: verify_timeouts

definition wait_for :: "timing \<Rightarrow> nat \<Rightarrow> task_wait" where
  "wait_for t seconds = \<lparr>poll = tm_poll t, timeout = seconds * 1000\<rparr>"

definition validate_name :: "string \<Rightarrow> core_error + unit" where
  "validate_name name = require (valid_name name) (Invalid bad_name)"

definition ipv4_of_word :: "32 word \<Rightarrow> ipv4" where
  "ipv4_of_word w =
     (let n = unat w
      in \<lparr>oct1 = n div 256 ^ 3, oct2 = n div 256 ^ 2 mod 256, oct3 = n div 256 mod 256, oct4 = n mod 256\<rparr>)"

definition network_text :: "network \<Rightarrow> string" where
  "network_text n =
     (case parse_ipv4 (net_gateway n) of
        Some gw \<Rightarrow>
          print_ipv4 (ipv4_of_word (ip_word gw AND (case net_mask (net_cidr n) of None \<Rightarrow> 0 | Some m \<Rightarrow> m))) @
          ''/'' @ dec (net_cidr n)
      | None \<Rightarrow> net_prefix n @ ''.0/'' @ dec (net_cidr n))"

definition no_address :: "network \<Rightarrow> nat \<Rightarrow> core_error" where
  "no_address n vmid =
     Invalid (''VMID '' @ dec vmid @ '' has no address in the network '' @ network_text n @
       '': VMIDs 2..254 are '' @ net_prefix n @
       ''.<vmid>, and from 1000 the VMID is the last two octets of the address (101010 is .101.10).'')"

definition derive_ip :: "config \<Rightarrow> nat \<Rightarrow> core_error + string" where
  "derive_ip cfg vmid =
     (case address_of vmid (cfg_network cfg) of
        Some a \<Rightarrow> Inr (print_ipv4 a)
      | None \<Rightarrow> Inl (no_address (cfg_network cfg) vmid))"

definition bad_home_size :: core_error where
  "bad_home_size =
     Invalid ''Home size must be an integer number of MiB, GiB or TiB, for example 500M, 20G or 1T''"

definition checked_mul :: "nat \<Rightarrow> nat \<Rightarrow> nat option" where
  "checked_mul a b = (if a * b < u64_bound then Some (a * b) else None)"

definition checked_add :: "nat \<Rightarrow> nat \<Rightarrow> nat option" where
  "checked_add a b = (if a + b < u64_bound then Some (a + b) else None)"

definition size_mib :: "nat \<Rightarrow> string \<Rightarrow> core_error + nat" where
  "size_mib v unit_s =
     (if unit_s = ''M'' then Inr v
      else if unit_s = ''G'' then ok_or (checked_mul v 1024) bad_home_size
      else if unit_s = ''T'' then ok_or (checked_mul v (1024 * 1024)) bad_home_size
      else Inl bad_home_size)"

text \<open>
  \<^verbatim>\<open>text.split_at(text.len() - 1)\<close> panics when the last byte continues a UTF-8 character: the outcome
  \<open>None\<close>.
\<close>

definition parse_home_size :: "string \<Rightarrow> (core_error + string \<times> nat) option" where
  "parse_home_size requested =
     (let text = map upper_char (trim requested)
      in if text \<noteq> [] \<and> utf8_cont (last text) then None
         else
           let number = butlast text; unit_s = (if text = [] then [] else [last text])
           in Some (
             if number = [] \<or> hd number = CHR ''0'' \<or> \<not> list_all is_digit number then Inl bad_home_size
             else
               bindR (ok_or (parse_uint u64_bound number) bad_home_size) (\<lambda>v.
               bindR (size_mib v unit_s) (\<lambda>mib. Inr (text, mib)))))"

definition user_char :: "char \<Rightarrow> bool" where
  "user_char c \<longleftrightarrow> is_alnum c \<or> c = CHR ''_'' \<or> c = CHR ''-''"

definition home_volume_name :: "nat \<Rightarrow> string \<Rightarrow> core_error + string" where
  "home_volume_name vmid user =
     (if user \<noteq> [] \<and> length user \<le> 32 \<and> is_alpha (hd user) \<and> list_all user_char user
      then Inr (''vm-'' @ dec vmid @ ''-hs-home-'' @ user)
      else Inl (Invalid (''Cannot derive persistent home volume name from user '' @ py_repr (Some user))))"

definition occupancy_risk :: "rat option \<Rightarrow> string" where
  "occupancy_risk p =
     (case p of
        Some x \<Rightarrow> if x \<le> 10 then ''low'' else if x \<le> 50 then ''warning'' else ''danger''
      | None \<Rightarrow> ''danger'')"

section \<open>Roles and pools\<close>

definition tag_failed :: "nat \<Rightarrow> string \<Rightarrow> core_error" where
  "tag_failed vmid m = Failed (vm_msg vmid ('' tag verification failed: '' @ m))"

definition verify_workspace_role_tags :: "nat \<Rightarrow> vm_cfg \<Rightarrow> core_error + unit" where
  "verify_workspace_role_tags vmid c =
     (let tags = parse_tags (bt_get c ''tags'')
      in
      bindR (require (WORKSPACE_TAG \<in> set tags) (tag_failed vmid (quoted WORKSPACE_TAG @ '' is missing''))) (\<lambda>_.
      bindR (require (GOLD_TAG \<notin> set tags) (tag_failed vmid (''inherited '' @ quoted GOLD_TAG))) (\<lambda>_.
      require (set tags \<subseteq> {WORKSPACE_TAG, REFRESH_LOCK_TAG, TEST_TAG})
        (tag_failed vmid (''expected '' @ quoted WORKSPACE_TAG @ '' with optional '' @ quoted REFRESH_LOCK_TAG @
          '' and '' @ quoted TEST_TAG @ '', got ['' @ join '', '' (map quoted tags) @ '']'')))))"

definition require_gold_tag :: "nat \<Rightarrow> vm_cfg \<Rightarrow> core_error + unit" where
  "require_gold_tag vmid c =
     (let tags = bt_get c ''tags''
      in
      bindR (require (\<not> has_tag tags ALIEN_WORKSPACE_TAG) (Refused (''Configured Gold VM '' @ dec vmid @
        '' has forbidden workspace role tag '' @ quoted ALIEN_WORKSPACE_TAG @ ''.''))) (\<lambda>_.
      require (has_tag tags GOLD_TAG) (Refused (''Configured Gold VM '' @ dec vmid @
        '' is missing required tag '' @ quoted GOLD_TAG @ ''.''))))"

definition vm_pool :: "'w ext \<Rightarrow> nat \<Rightarrow> ('w, string option) op" where
  "vm_pool S vmid =
     bindE (cluster_vm_maps S) (\<lambda>vms.
     bindE (liftE (ok_or (List.find (\<lambda>(i, _). i = vmid) vms) (no_vm vmid))) (\<lambda>(_, m).
     returnE (text_or_none (print_json S) (bt_get m ''pool''))))"

definition outside_pool :: "nat \<Rightarrow> string \<Rightarrow> string option \<Rightarrow> core_error" where
  "outside_pool vmid pool found =
     OutsidePool (vm_msg vmid ('' is not in pool '' @ pool @
       (case found of None \<Rightarrow> [] | Some p \<Rightarrow> '' (it is in '' @ p @ '')'') @
       ''; HomeStack changes only the VMs of its pool''))"

definition require_pool :: "'w ext \<Rightarrow> nat \<Rightarrow> string \<Rightarrow> ('w, unit) op" where
  "require_pool S vmid pool =
     bindE (vm_pool S vmid) (\<lambda>found. unlessE (found = Some pool) (outside_pool vmid pool found))"

definition require_bridge_use :: "'w ext \<Rightarrow> nat \<Rightarrow> vm_cfg \<Rightarrow> ('w, unit) op" where
  "require_bridge_use S gold gold_cfg =
     bindE (liftE (ok_or (disk_option (cfg_text gold_cfg ''net0'') ''bridge'')
       (Failed (''Gold VM '' @ dec gold @ '' net0 has no bridge'')))) (\<lambda>bridge.
     bindE (tryE (api S (Get ''/cluster/sdn/vnets'' []))) (\<lambda>vnets.
     let zone = (case vnets of
           Inr (JArr vs) \<Rightarrow>
             Option.bind (List.find (\<lambda>v. get_str v ''vnet'' = Some bridge) vs) (\<lambda>v. get_str v ''zone'')
         | _ \<Rightarrow> None);
         sdn_path = ''/sdn/zones/'' @ (case zone of None \<Rightarrow> ''localnetwork'' | Some z \<Rightarrow> z) @ ''/'' @ bridge
     in
     bindE (api S (Get ''/access/permissions'' [(''path'', sdn_path)])) (\<lambda>granted.
     unlessE (case Option.bind (jget granted sdn_path) as_object of
                None \<Rightarrow> False | Some privileges \<Rightarrow> bt_has privileges ''SDN.Use'')
       (Refused (''The server's Proxmox token lacks SDN.Use on '' @ sdn_path @
         '', the bridge of Gold's net0; reinstall HomeStack (Settings > General > Reinstall HomeStack)'')))))"

section \<open>Tasks\<close>

definition what_failed :: "string \<Rightarrow> string \<Rightarrow> core_error" where
  "what_failed what exit = Failed (what @ '' failed: '' @ exit)"

definition run_task :: "'w ext \<Rightarrow> request \<Rightarrow> string \<Rightarrow> task_wait \<Rightarrow> ('w, unit) op" where
  "run_task S rq what wait =
     bindE (api S rq) (\<lambda>answer.
     bindE (liftE (upid S answer)) (\<lambda>u.
     bindE (wait_task S u wait) (\<lambda>result.
     unlessE (task_ok result) (what_failed what (exitstatus result)))))"

definition post_task ::
  "'w ext \<Rightarrow> string \<Rightarrow> (string \<times> string) list \<Rightarrow> string \<Rightarrow> task_wait \<Rightarrow> ('w, unit) op" where
  "post_task S p form what wait = retry_while_locked S (poll wait) (run_task S (Post p form) what wait)"

definition sent_once :: "core_error \<Rightarrow> core_error" where
  "sent_once e =
     Context (error_text e @ ''. DELETE was sent once and will not be retried. Inspect the VM, storage and task outcome explicitly before reviewing a new destroy plan.'') [e]"

definition delete_task ::
  "'w ext \<Rightarrow> string \<Rightarrow> (string \<times> string) list \<Rightarrow> string \<Rightarrow> task_wait \<Rightarrow> ('w, unit) op" where
  "delete_task S p query what wait = map_errE sent_once (run_task S (Delete p query) what wait)"

section \<open>Plans\<close>

definition plan_lacks :: "string \<Rightarrow> core_error" where
  "plan_lacks key = Invalid (''The plan has no '' @ key)"

definition plan_text :: "json \<Rightarrow> string \<Rightarrow> core_error + string" where
  "plan_text plan key = ok_or (get_str plan key) (plan_lacks key)"

definition plan_number :: "json \<Rightarrow> string \<Rightarrow> core_error + nat" where
  "plan_number plan key = ok_or (get_u64 plan key) (plan_lacks key)"

definition vmid_of :: "json \<Rightarrow> core_error + nat" where
  "vmid_of plan =
     bindR (plan_number plan ''vmid'') (\<lambda>n.
       if n < u32_bound then Inr n else Inl (Invalid ''The plan's VMID is out of range''))"

section \<open>Power\<close>

definition bad_gold_roles :: "nat \<Rightarrow> core_error" where
  "bad_gold_roles vmid = Refused (''Gold VM '' @ dec vmid @ '' has invalid role or lock tags'')"

definition gold_template :: "nat \<Rightarrow> core_error" where
  "gold_template vmid = Refused (''Gold VM '' @ dec vmid @ '' is a template and cannot be powered on or off'')"

definition plan_power ::
  "'w ext \<Rightarrow> config \<Rightarrow> string \<Rightarrow> string \<Rightarrow> nat \<Rightarrow> bool \<Rightarrow> ('w, json) op" where
  "plan_power S cfg pool0 gold_pool vmid start =
     (let gold = (gold_vmid cfg = Some vmid); pool = (if gold then gold_pool else pool0)
      in
      bindE (require_pool S vmid pool) (\<lambda>_.
      bindE (if gold then
          bindE (cluster_vm_resources S) (\<lambda>rs.
          bindE (liftE (ok_or (find_vm vmid rs) (NotFound (''Gold VM '' @ dec vmid @ '' does not exist'')))) (\<lambda>r.
          bindE (vm_config S (r_node r) vmid) (\<lambda>c.
          let tags = bt_get c ''tags'' in
          bindE (unlessE (has_tag tags GOLD_TAG \<and> \<not> has_tag tags WORKSPACE_TAG \<and>
              \<not> has_tag tags ALIEN_WORKSPACE_TAG \<and> \<not> has_tag tags REFRESH_LOCK_TAG) (bad_gold_roles vmid)) (\<lambda>_.
          bindE (unlessE (bt_get c ''template'' \<noteq> Some ''1'') (gold_template vmid)) (\<lambda>_.
          bindE (vm_status S (r_node r) vmid) (\<lambda>status.
          returnE (r_name r, r_node r, status)))))))
        else
          bindE (resolve_existing_workspace S cfg vmid) (\<lambda>w. returnE (Some (ew_name w), ew_node w, ew_status w)))
      (\<lambda>(name, node, status).
      returnE (jobj
        [(''command'', JStr (if start then ''start'' else ''stop'')),
         (''vmid'', jnat vmid), (''name'', jopt JStr name), (''node'', JStr node), (''pool'', JStr pool),
         (''status'', JStr status), (''role'', JStr (if gold then ''GOLD'' else ''WS'')),
         (''ip'', if gold then JNull else (case derive_ip cfg vmid of Inl _ \<Rightarrow> JNull | Inr a \<Rightarrow> JStr a))]))))"

definition power_changed :: core_error where
  "power_changed = Refused ''VM identity or placement changed after power confirmation; generate a new plan''"

definition power_event :: "json \<Rightarrow> bool \<Rightarrow> string" where
  "power_event role start =
     (if as_str role = Some ''GOLD'' then (if start then ''gold.started'' else ''gold.stopped'')
      else if start then ''workspace.started'' else ''workspace.stopped'')"

text \<open>\<^verbatim>\<open>plan.as_object().cloned().unwrap_or_default()\<close> with some entries set.\<close>

definition plan_result :: "json \<Rightarrow> (string \<times> json) list \<Rightarrow> json" where
  "plan_result plan kvs =
     JObj (fold (\<lambda>(k, v) m. bt_insert k v m) kvs (case as_object plan of None \<Rightarrow> [] | Some m \<Rightarrow> m))"

definition power_vm ::
  "'w ext \<Rightarrow> config \<Rightarrow> string \<Rightarrow> string \<Rightarrow> json \<Rightarrow> timing \<Rightarrow> ('w, json) op" where
  "power_vm S cfg pool gold_pool plan timing =
     bindE (liftE (vmid_of plan)) (\<lambda>vmid.
     bindE (liftE (plan_text plan ''node'')) (\<lambda>node.
     let start = (get_str plan ''command'' = Some ''start'') in
     bindE (plan_power S cfg pool gold_pool vmid start) (\<lambda>current.
     bindE (unlessE (jidx current ''node'' = jidx plan ''node'' \<and> jidx current ''role'' = jidx plan ''role'' \<and>
       jidx current ''pool'' = jidx plan ''pool'') power_changed) (\<lambda>_.
     bindE (stepE (if start then ''Start'' else ''Shutdown'')
       (if start then
          bindE (vm_status S node vmid) (\<lambda>status.
            if status = ''running'' then returnE ()
            else start_vm S node vmid (wait_for timing START_TIMEOUT_SECS))
        else shutdown_vm S node vmid SHUTDOWN_TIMEOUT_SECS (wait_for timing 600))) (\<lambda>_.
     bindE (vm_status S node vmid) (\<lambda>status.
     returnE (plan_result plan
       [(''status'', JStr status), (''event'', JStr (power_event (jidx current ''role'') start))])))))))"

section \<open>Requests\<close>

lemma only_require_pool [only_intro]: "(\<And>a. P (vms_request, a)) \<Longrightarrow> only P (require_pool S vmid pool)"
  unfolding require_pool_def vm_pool_def by (intro only_intro)

lemma only_run_task [only_intro]:
  assumes "\<And>p q a. P (Get p q, a)" and "\<And>a. P (rq, a)"
  shows "only P (run_task S rq what wait)"
  unfolding run_task_def by (intro only_intro) (simp_all add: assms)

lemma only_post_task [only_intro]:
  assumes "\<And>p q a. P (Get p q, a)" and "\<And>a. P (Post p form, a)"
  shows "only P (post_task S p form what wait)"
  unfolding post_task_def by (intro only_intro) (simp_all add: assms)

lemma only_delete_task [only_intro]:
  assumes "\<And>p q a. P (Get p q, a)" and "\<And>a. P (Delete p query, a)"
  shows "only P (delete_task S p query what wait)"
  unfolding delete_task_def by (intro only_intro) (simp_all add: assms)

lemma only_plan_power [only_intro]:
  assumes "\<And>p q a. P (Get p q, a)"
  shows "only P (plan_power S cfg pool gold_pool vmid start)"
  unfolding plan_power_def Let_def
  by (intro only_intro) (simp_all add: assms vms_request_def vm_config_request_def)

text \<open>The DELETE of a task goes out once: nothing retries it.\<close>

lemma delete_task_once: "at_most is_delete (Suc 0) (delete_task S p query what wait)"
proof -
  have w: "at_most is_delete 0 (bindE (liftE (upid S a)) (\<lambda>u. bindE (wait_task S u wait) (\<lambda>r.
      unlessE (task_ok r) (what_failed what (exitstatus r)))))" for a
    by (rule at_most_only) (intro only_intro, simp)
  show ?thesis unfolding delete_task_def run_task_def
    by (rule at_most_map_err, rule at_most_bind [OF at_most_api w]) simp
qed

section \<open>Power\<close>

text \<open>What a power operation may send to change a VM: a start or a graceful shutdown.\<close>

definition power_request :: "string \<Rightarrow> nat \<Rightarrow> bool \<Rightarrow> request \<Rightarrow> bool" where
  "power_request node vmid start rq \<longleftrightarrow> is_get rq \<or>
     (if start then rq = Post (qemu_path node vmid ''/status/start'') []
      else rq = Post (qemu_path node vmid ''/status/shutdown'') [(''timeout'', dec SHUTDOWN_TIMEOUT_SECS)])"

lemma power_request_get [simp]: "is_get rq \<Longrightarrow> power_request node vmid start rq"
  by (simp add: power_request_def)

lemma only_power_vm:
  assumes "vmid_of plan = Inr vmid" and "plan_text plan ''node'' = Inr node"
  shows "only (\<lambda>c. power_request node vmid (get_str plan ''command'' = Some ''start'') (fst c))
    (power_vm S cfg pool gold_pool plan timing)"
  unfolding power_vm_def Let_def assms liftE_simps bindE_return
  by (intro only_intro) (simp_all add: power_request_def)

lemma power_vm_bad_plan:
  "vmid_of plan = Inl e \<or> (\<exists>v. vmid_of plan = Inr v) \<and> plan_text plan ''node'' = Inl e \<Longrightarrow>
     power_vm S cfg pool gold_pool plan timing = throwE e"
  by (auto simp: power_vm_def)

section \<open>Sizes and names\<close>

lemma parse_home_size_panics:
  "parse_home_size s = None \<longleftrightarrow> map upper_char (trim s) \<noteq> [] \<and> utf8_cont (last (map upper_char (trim s)))"
  by (simp add: parse_home_size_def Let_def)

lemma parse_home_size_Some_Inr:
  assumes "parse_home_size s = Some (Inr (text, mib))"
  obtains number u v where "text = number @ [u]" "number \<noteq> []" "list_all is_digit number" "hd number \<noteq> CHR ''0''"
    "parse_uint u64_bound number = Some v" "size_mib v [u] = Inr mib"
proof -
  let ?t = "map upper_char (trim s)"
  have t: "text = ?t" "butlast ?t \<noteq> []" "list_all is_digit (butlast ?t)" "hd (butlast ?t) \<noteq> CHR ''0''"
    and "\<exists>v. parse_uint u64_bound (butlast ?t) = Some v \<and> size_mib v (if ?t = [] then [] else [last ?t]) = Inr mib"
    using assms by (auto simp: parse_home_size_def Let_def split: if_splits)
  moreover have "?t \<noteq> []" using t(2) by auto
  ultimately show ?thesis using that [of "butlast ?t" "last ?t"] by auto
qed

lemma size_mib_bound: "v < u64_bound \<Longrightarrow> size_mib v u = Inr mib \<Longrightarrow> mib < u64_bound \<and> v \<le> mib"
  by (auto simp: size_mib_def checked_mul_def ok_or_def split: if_splits option.splits)

lemma find_sub_fresh: "p \<noteq> [] \<Longrightarrow> hd p \<notin> set a \<Longrightarrow> find_sub p (a @ p @ b) = Some (length a)"
proof (induction a)
  case Nil
  then show ?case by (cases p) (auto simp: starts_with_def)
next
  case (Cons x a)
  then have "\<not> starts_with (x # a @ p @ b) p" by (cases p) (auto simp: starts_with_def)
  then show ?case using Cons by simp
qed

lemma split_once_fresh: "p \<noteq> [] \<Longrightarrow> hd p \<notin> set a \<Longrightarrow> split_once (a @ p @ b) p = Some (a, b)"
  by (simp add: split_once_def find_sub_fresh)

lemma strip_ext_plain:
  assumes "CHR ''.'' \<notin> set n" and "ext \<in> {[], ''.raw'', ''.qcow2'', ''.vmdk''}"
  shows "strip_ext (n @ ext) = n"
proof -
  have no: "strip_suffix (n @ e) x = None"
    if "x \<in> {''.raw'', ''.qcow2'', ''.vmdk''}" "e \<in> {[], ''.raw'', ''.qcow2'', ''.vmdk''}" "x \<noteq> e" for x e
  proof (rule ccontr)
    assume "strip_suffix (n @ e) x \<noteq> None"
    then obtain t where t: "n @ e = t @ x" by (auto simp: strip_suffix_eq_Some)
    have "split_on CHR ''.'' (n @ e) = (if e = [] then [n] else [n, tl e])"
      using that(2) assms(1) split_on_append [OF assms(1), of "tl e"]
      by (auto simp: split_on_no_sep)
    moreover have "split_on CHR ''.'' (t @ x) = split_on CHR ''.'' t @ [tl x]"
      using that(1) split_on_snoc [of "CHR ''.''" "tl x" t] by auto
    ultimately have "e \<noteq> [] \<and> tl e = tl x" using t by (auto split: if_splits)
    then show False using that by auto
  qed
  have yes: "strip_suffix (n @ e) e = Some n" for e by (simp add: strip_suffix_eq_Some)
  show ?thesis
    using assms(2) no [of "''.raw''" ext] no [of "''.qcow2''" ext] no [of "''.vmdk''" ext] yes [of ext]
    by (auto simp: strip_ext_def)
qed

lemma home_volume_name_Inr:
  "home_volume_name vmid user = Inr n \<longleftrightarrow>
     n = ''vm-'' @ dec vmid @ ''-hs-home-'' @ user \<and> user \<noteq> [] \<and> length user \<le> 32 \<and> is_alpha (hd user) \<and>
     list_all user_char user"
  by (auto simp: home_volume_name_def)

lemma hyphen_notin_dec: "CHR ''-'' \<notin> set (dec n)"
  using set_dec by (fastforce simp: is_digit_iff)

lemma volume_name_rest:
  assumes "vmid < u32_bound" and "user \<noteq> []" and "list_all user_char user"
  shows "split_once (dec vmid @ ''-hs-'' @ ''home-'' @ user) ''-hs-'' = Some (dec vmid, ''home-'' @ user)"
    "split_once (''home-'' @ user) ''-'' = Some (''home'', user)"
    "list_all volume_name_char user"
proof -
  show "split_once (dec vmid @ ''-hs-'' @ ''home-'' @ user) ''-hs-'' = Some (dec vmid, ''home-'' @ user)"
    by (rule split_once_fresh) (simp_all add: hyphen_notin_dec)
  show "split_once (''home-'' @ user) ''-'' = Some (''home'', user)"
    using split_once_fresh [of "''-''" "''home''" user] by simp
  show "list_all volume_name_char user"
    using assms(3) by (auto simp: list_all_iff user_char_def volume_name_char_def)
qed

text \<open>
  Home volumes are recognised: the volume name derived for a VM's home, on any storage, with or
  without the directory and the image extension of file storages, is read back as the home of that
  VM and user.
\<close>

theorem home_volume_identity:
  assumes "home_volume_name vmid user = Inr name" and "vmid < u32_bound"
    and "CHR '':'' \<notin> set storage" and "dir = [] \<or> (\<exists>d. dir = d @ ''/'')"
    and "ext \<in> {[], ''.raw'', ''.qcow2'', ''.vmdk''}"
  shows "volume_identity (storage @ '':'' @ dir @ name @ ext) =
     Some \<lparr>vi_volid = storage @ '':'' @ dir @ name @ ext, vi_vmid = vmid, vi_role = ''home'', vi_name = user\<rparr>"
proof -
  have n: "name = ''vm-'' @ dec vmid @ ''-hs-home-'' @ user" "user \<noteq> []" "list_all user_char user"
    using assms(1) by (auto simp: home_volume_name_Inr)
  have c: "CHR ''.'' \<notin> set name" "CHR ''/'' \<notin> set name"
    using n dot_notin_dec [of vmid] set_dec [of "CHR ''/''" vmid]
    by (auto simp: list_all_iff user_char_def is_alnum_def is_alpha_def is_lower_def is_upper_def is_digit_def less_eq_char_def)
  have slash: "CHR ''/'' \<notin> set (name @ ext)" using c assms(5) by auto
  have "last (split_on (CHR ''/'') (dir @ name @ ext)) = name @ ext"
    using assms(4) slash split_on_snoc [OF slash] by (auto simp: split_on_no_sep)
  then have b: "strip_ext (last (split_on (CHR ''/'') (dir @ name @ ext))) = name"
    using strip_ext_plain [OF c(1) assms(5)] by simp
  have s: "split_once (storage @ '':'' @ dir @ name @ ext) '':'' = Some (storage, dir @ name @ ext)"
    by (rule split_once_fresh) (simp_all add: assms(3))
  show ?thesis unfolding volume_identity_def s
    using b volume_name_rest [OF assms(2) n(2,3)] n(1,2) assms(2)
    by (simp add: strip_prefix_def starts_with_def)
qed

theorem home_volume_identity_witness:
  "volume_identity ''local:101/vm-101-hs-home-ann.qcow2'' =
     Some \<lparr>vi_volid = ''local:101/vm-101-hs-home-ann.qcow2'', vi_vmid = 101, vi_role = ''home'', vi_name = ''ann''\<rparr>"
proof -
  have "home_volume_name 101 ''ann'' = Inr ''vm-101-hs-home-ann''" by code_simp
  from home_volume_identity [OF this, of "''local''" "''101/''" "''.qcow2''"] show ?thesis
    by (simp add: u32_bound_def)
qed

text \<open>
  C33. Home sizes: a size that is accepted is a positive number with a unit, its value in MiB is
  that number times the unit and fits in 64 bits, and the accepted text is accepted again with the
  same value.
\<close>

theorem parse_home_size_value:
  assumes "parse_home_size requested = Some (Inr (text, mib))"
  shows "parse_home_size text = Some (Inr (text, mib)) \<and> mib < u64_bound \<and>
    (\<exists>number u. text = number @ [u] \<and> list_all is_digit number \<and>
       mib = digits_val number * (if u = CHR ''M'' then 1 else if u = CHR ''G'' then 1024 else 1024 * 1024) \<and>
       u \<in> {CHR ''M'', CHR ''G'', CHR ''T''})"
proof -
  obtain number u v where t: "text = number @ [u]" "number \<noteq> []" "list_all is_digit number"
    "hd number \<noteq> CHR ''0''" and v: "parse_uint u64_bound number = Some v" and m: "size_mib v [u] = Inr mib"
    using assms by (rule parse_home_size_Some_Inr)
  have vd: "v = digits_val number" "v < u64_bound"
    using v t(3) parse_uint_bound [OF v] t(2)
    by (auto simp: parse_uint_def Let_def is_digit_iff split: list.splits if_splits)
  have u: "u \<in> {CHR ''M'', CHR ''G'', CHR ''T''}"
    "mib = v * (if u = CHR ''M'' then 1 else if u = CHR ''G'' then 1024 else 1024 * 1024)"
    using m by (auto simp: size_mib_def checked_mul_def ok_or_def split: if_splits option.splits)
  have ws: "\<not> is_ws c \<and> upper_char c = c" if "c \<in> set text" for c
    using that t(1,3) u(1)
    by (auto simp: list_all_iff is_digit_def is_ws_def upper_char_def is_lower_def less_eq_char_def)
  have tt: "map upper_char (trim text) = text"
    using trim_no_ws [of "text"] ws by (simp add: map_idI)
  have "\<not> utf8_cont u" using u(1) by (auto simp: utf8_cont_def Let_def)
  then have "parse_home_size text = Some (Inr (text, mib))"
    using t v m unfolding parse_home_size_def tt Let_def by simp
  then show ?thesis using t u vd size_mib_bound [OF vd(2) m] by auto
qed

lemma upper_20g: "map upper_char ''20g'' = ''20G''"
  by code_simp

theorem parse_home_size_value_witness: "parse_home_size ''20G'' = Some (Inr (''20G'', 20480))"
proof -
  have "trim '' 20g '' = ''20g''" by code_simp
  moreover have "\<not> utf8_cont CHR ''G''" by code_simp
  ultimately have "parse_home_size '' 20g '' = Some (Inr (''20G'', 20480))"
    unfolding parse_home_size_def
    by (simp only: upper_20g) (simp add: Let_def parse_uint_def is_digit_def less_eq_char_def digits_val_def digit_val_def
        u64_bound_def size_mib_def checked_mul_def)
  from parse_home_size_value [OF this] show ?thesis by simp
qed


text \<open>
  C35. Power: starting and stopping a VM sends nothing that changes it but starts, or graceful
  shutdowns, of the VM on the node its plan names. It never forces a stop and never writes or
  deletes, whatever Proxmox answers.
\<close>

theorem power_vm_requests:
  assumes "vmid_of plan = Inr vmid" and "plan_text plan ''node'' = Inr node"
  shows "list_all (\<lambda>rq. is_get rq \<or>
      (if get_str plan ''command'' = Some ''start'' then rq = Post (qemu_path node vmid ''/status/start'') []
       else rq = Post (qemu_path node vmid ''/status/shutdown'') [(''timeout'', dec SHUTDOWN_TIMEOUT_SECS)]))
    (requests (power_vm S cfg pool gold_pool plan timing) s)"
  using only_requests [OF only_power_vm [OF assms], of S cfg pool gold_pool timing s]
  by (simp add: power_request_def)

definition sample_timing :: timing where
  "sample_timing = \<lparr>tm_poll = 1000, tm_verify = \<lparr>vt_agent = 1000, vt_cloud_init = 1000\<rparr>\<rparr>"

definition sample_power_plan :: json where
  "sample_power_plan =
     jobj [(''command'', JStr ''start''), (''vmid'', JInt 101), (''node'', JStr ''pve1''), (''role'', JStr ''WS''),
           (''pool'', JStr ''hs'')]"

theorem power_vm_requests_witness:
  "list_all (\<lambda>rq. is_get rq \<or> rq = Post (qemu_path ''pve1'' 101 ''/status/start'') [])
    (requests (power_vm (machine sample_serve) sample_config ''hs'' ''gold'' sample_power_plan sample_timing)
       (start_state False))"
proof -
  have "vmid_of sample_power_plan = Inr 101" "plan_text sample_power_plan ''node'' = Inr ''pve1''"
    "get_str sample_power_plan ''command'' = Some ''start''" by code_simp+
  with power_vm_requests [OF this(1,2), of "machine sample_serve" sample_config "''hs''" "''gold''"
      sample_timing "start_state False"] show ?thesis by simp
qed

end
