(* ===== verification/Destroy.thy ===== *)
theory Destroy
  imports Lifecycle Samples
begin

text \<open>
  Destroying a workspace: the ownership review of \<^verbatim>\<open>hs-core/src/workspace_destroy.rs\<close> and the destroy
  operations of \<^verbatim>\<open>hs-core/src/lifecycle.rs\<close>. Plans and identities are JSON values, as in the code.
\<close>

section \<open>Readings that refuse\<close>

definition refused :: "string \<Rightarrow> core_error" where
  "refused why =
     Refused (''Workspace destroy refused: '' @ why @ ''. Resolve the condition and review a new plan.'')"

definition d_text :: "json \<Rightarrow> string \<Rightarrow> core_error + string" where
  "d_text v key =
     (case as_str (jidx v key) of
        None \<Rightarrow> Inl (refused (''missing '' @ key))
      | Some s \<Rightarrow> if trim s = [] then Inl (refused (''missing '' @ key)) else Inr s)"

definition d_array :: "json \<Rightarrow> string \<Rightarrow> core_error + json list" where
  "d_array v what = ok_or (as_array v) (refused (''incomplete '' @ what @ '' inventory''))"

text \<open>A set-valued field with its members in order.\<close>

definition sort_members :: "json \<Rightarrow> string \<Rightarrow> json" where
  "sort_members entry key =
     (case jget entry key of
        Some (JStr v) \<Rightarrow> jset entry key (JStr (join '','' (sort (split_on (CHR '','') v))))
      | _ \<Rightarrow> entry)"

definition storage_identity :: "json \<Rightarrow> core_error + json bmap" where
  "storage_identity v =
     bindR (d_array v ''storage configuration'') (\<lambda>entries.
     fold_res (\<lambda>stores entry.
       bindR (d_text entry ''storage'') (\<lambda>i.
         if bt_has stores i then Inl (refused ''duplicate storage identity'')
         else Inr (bt_insert i (sort_members (sort_members entry ''content'') ''nodes'') stores))) [] entries)"

definition placement :: "'w ext \<Rightarrow> nat \<Rightarrow> string \<Rightarrow> ('w, string) op" where
  "placement S vmid pool =
     bindE (cluster_vm_resources S) (\<lambda>rs.
       case filter (\<lambda>r. r_vmid r = vmid) rs of
         [] \<Rightarrow> throwE (refused ''VM missing from cluster inventory'')
       | r # rest \<Rightarrow>
           if rest \<noteq> [] \<or> r_node r = [] then throwE (refused ''ambiguous VM placement'')
           else if r_pool r \<noteq> Some pool then throwE (OutsidePool (vm_msg vmid ('' is not in pool '' @ pool)))
           else returnE (r_node r))"

definition require_membership :: "'w ext \<Rightarrow> string \<Rightarrow> string \<Rightarrow> nat \<Rightarrow> ('w, unit) op" where
  "require_membership S node pool vmid =
     bindE (api S (Get (''/pools/'' @ pool) [])) (\<lambda>membership.
     bindE (liftE (d_array (jidx membership ''members'') ''pool member'')) (\<lambda>all_members.
     bindE (unlessE (case filter (\<lambda>v. as_u64 (jidx v ''vmid'') = Some vmid) all_members of
                       [m] \<Rightarrow> jidx m ''type'' = JStr ''qemu'' \<and> jidx m ''node'' = JStr node
                     | _ \<Rightarrow> False)
       (refused ''VM placement conflicts with explicit pool membership'')) (\<lambda>_.
     bindE (api S (Get (''/nodes/'' @ node @ ''/qemu'') [])) (\<lambda>local_vms.
     bindE (liftE (d_array local_vms ''node VM'')) (\<lambda>entries.
     unlessE (length (filter (\<lambda>v. as_u64 (jidx v ''vmid'') = Some vmid) entries) = 1)
       (refused ''VM missing or ambiguous in node inventory''))))))"

section \<open>The disks of the configuration\<close>

definition forbidden_key :: "string \<Rightarrow> bool" where
  "forbidden_key k \<longleftrightarrow> starts_with k ''unused'' \<or>
     k \<in> set [''lock'', ''args'', ''hookscript'', ''vmstate'', ''parent'', ''snapstate'', ''pending'', ''snapshots'',
              ''special-sections'']"

definition exact_volume :: "string \<Rightarrow> bool" where
  "exact_volume v =
     (case split_once v '':'' of None \<Rightarrow> False | Some (s, n) \<Rightarrow> s \<noteq> [] \<and> n \<noteq> [] \<and> n \<noteq> ''cloudinit'')"

fun check_options :: "string list \<Rightarrow> string list \<Rightarrow> core_error + unit" where
  "check_options seen [] = Inr ()"
| "check_options seen (opt # opts) =
     (case split_once opt ''='' of
        None \<Rightarrow> Inl (refused ''invalid disk options'')
      | Some (key, _) \<Rightarrow>
          if key \<in> set seen \<or> key = ''import-from'' then Inl (refused ''ambiguous or unresolved disk options'')
          else check_options (key # seen) opts)"

definition disk_identity :: "string \<Rightarrow> string \<Rightarrow> volume_entry \<Rightarrow> json" where
  "disk_identity slot spec e =
     jobj [(''slot'', JStr slot), (''role'', JStr (ve_role e)), (''volume'', JStr (disk_volume spec)),
       (''storage'', jopt JStr (ve_storage e)), (''config'', JStr spec),
       (''serial'', jopt JStr (disk_option spec ''serial''))]"

definition disk_step ::
  "volume_entry list \<Rightarrow> string list \<times> json list \<Rightarrow> string \<times> string \<Rightarrow> core_error + string list \<times> json list" where
  "disk_step inventory acc kv =
     (case (acc, kv) of ((seen, result), (slot, spec)) \<Rightarrow>
       bindR (ok_or (List.find (\<lambda>e. ve_slot e = slot) inventory) (refused (''incomplete disk '' @ slot))) (\<lambda>e.
       bindR (require (exact_volume (disk_volume spec) \<and> disk_volume spec \<notin> set seen)
         (refused (''missing or ambiguous exact volume ID for '' @ slot))) (\<lambda>_.
       bindR (require (ve_role e \<in> set [''root'', ''home'', ''efi'', ''tpm'', ''cloud-init''])
         (refused (''unexpected disk '' @ slot))) (\<lambda>_.
       bindR (require (\<not> (ve_role e \<in> set [''root'', ''home''] \<and> disk_option spec ''media'' \<noteq> None))
         (refused (''unsupported root/home media at '' @ slot))) (\<lambda>_.
       bindR (check_options [] (tl (split_on (CHR '','') spec))) (\<lambda>_.
       Inr (disk_volume spec # seen, result @ [disk_identity slot spec e])))))))"

definition has_role :: "string \<Rightarrow> json list \<Rightarrow> bool" where
  "has_role role ds \<longleftrightarrow> (\<exists>d \<in> set ds. jidx d ''role'' = JStr role)"

definition disks :: "vm_cfg \<Rightarrow> config \<Rightarrow> nat \<Rightarrow> core_error + json" where
  "disks c cfg vmid =
     (let tags = bt_get c ''tags''
      in
      bindR (require (\<not> has_tag tags ALIEN_WORKSPACE_TAG) (refused ''forbidden workspace role tag homestack-alien'')) (\<lambda>_.
      bindR (verify_workspace_role_tags vmid c) (\<lambda>_.
      bindR (require (\<not> has_tag tags GOLD_TAG \<and> \<not> has_tag tags REFRESH_LOCK_TAG)
        (refused ''Gold or unresolved refresh role'')) (\<lambda>_.
      bindR (for_each (\<lambda>k. require (trim (cfg_text c k) \<noteq> []) (refused (''missing configuration identity '' @ k)))
        [''name'', ''digest'', root_disk cfg, home_disk cfg]) (\<lambda>_.
      bindR (for_each (\<lambda>k. require (case bt_get c k of None \<Rightarrow> True | Some v \<Rightarrow> v = ''0'') (refused (''VM is '' @ k)))
        [''template'', ''protection'']) (\<lambda>_.
      bindR (for_each (\<lambda>k. require (\<not> forbidden_key k) (refused (''unsupported configuration '' @ k))) (bt_keys c)) (\<lambda>_.
      bindR (fold_res (disk_step (vm_volume_inventory c cfg)) ([], []) (filter (\<lambda>(k, _). is_volume_slot k) c)) (\<lambda>(_, result).
      bindR (require (has_role ''root'' result \<and> has_role ''home'' result) (refused ''root/home disk mapping is incomplete'')) (\<lambda>_.
      bindR (home_label vmid) (\<lambda>label.
      bindR (require (disk_option (cfg_text c (home_disk cfg)) ''serial'' = Some label) (refused ''unexpected home serial'')) (\<lambda>_.
      Inr (JArr result))))))))))))"

section \<open>The review\<close>

definition no_pending :: "json \<Rightarrow> core_error + unit" where
  "no_pending entry =
     bindR (d_text entry ''key'') (\<lambda>_.
     require (jget entry ''pending'' = None \<and>
         (case jget entry ''delete'' of None \<Rightarrow> True | Some v \<Rightarrow> as_u64 v = Some 0))
       (refused ''pending configuration changes''))"

definition expected_volumes :: "json list \<Rightarrow> string list" where
  "expected_volumes ds = set_of_list (List.map_filter (\<lambda>d. as_str (jidx d ''volume'')) ds)"

definition file_storage :: "json \<Rightarrow> bool" where
  "file_storage store =
     (case as_str (jidx store ''type'') of
        None \<Rightarrow> False
      | Some t \<Rightarrow> t \<in> set [''dir'', ''nfs'', ''cifs'', ''cephfs'', ''glusterfs'', ''btrfs''])"

definition review_entry ::
  "nat \<Rightarrow> string list \<Rightarrow> json \<Rightarrow> string \<Rightarrow> json bmap \<Rightarrow> json \<Rightarrow> core_error + json bmap" where
  "review_entry vmid expected store i volumes entry =
     bindR (d_text entry ''volid'') (\<lambda>volid.
     bindR (ok_or (as_u64 (jidx entry ''vmid'')) (refused ''volume ownership unavailable'')) (\<lambda>owner.
       if owner \<noteq> vmid then
         (if volid \<in> set expected then Inl (refused (''volume '' @ volid @ '' owned by another VM'')) else Inr volumes)
       else if volid \<notin> set expected \<or> \<not> starts_with volid (i @ '':'') \<or> bt_has volumes volid
       then Inl (refused (''unexpected detached or ambiguous volume '' @ volid))
       else
         bindR (ok_or (as_object entry) (refused ''invalid volume identity'')) (\<lambda>m.
         let attributes = bt_remove ''used'' m;
             identity = JObj (if file_storage store then bt_remove ''ctime'' attributes else attributes)
         in bindR (d_text identity ''format'') (\<lambda>_. Inr (bt_insert volid identity volumes)))))"

definition image_store :: "string \<Rightarrow> json \<Rightarrow> core_error + bool" where
  "image_store node store =
     bindR (d_text store ''content'') (\<lambda>content.
     Inr (''images'' \<in> set (split_on (CHR '','') content) \<and> as_u64 (jidx store ''disable'') \<noteq> Some 1 \<and>
       (case as_str (jidx store ''nodes'') of
          None \<Rightarrow> True | Some ns \<Rightarrow> node \<in> set (split_on (CHR '','') ns))))"

definition storage_content_request :: "string \<Rightarrow> string \<Rightarrow> request" where
  "storage_content_request node storage =
     Get (''/nodes/'' @ node @ ''/storage/'' @ storage @ ''/content'') [(''content'', ''images'')]"

definition review_store ::
  "'w ext \<Rightarrow> string \<Rightarrow> nat \<Rightarrow> string list \<Rightarrow> json bmap \<times> json bmap \<Rightarrow> json \<Rightarrow> ('w, json bmap \<times> json bmap) op" where
  "review_store S node vmid expected acc store =
     (case acc of (stores, volumes) \<Rightarrow>
       bindE (liftE (d_text store ''storage'')) (\<lambda>i.
       bindE (liftE (image_store node store)) (\<lambda>wanted.
         if \<not> wanted then returnE (stores, volumes)
         else
           bindE (unlessE (\<not> bt_has stores i) (refused ''duplicate storage identity'')) (\<lambda>_.
           bindE (api S (Get (''/nodes/'' @ node @ ''/storage/'' @ i @ ''/status'') [])) (\<lambda>state.
           bindE (unlessE (as_u64 (jidx state ''active'') = Some 1 \<and> as_u64 (jidx state ''enabled'') = Some 1)
             (refused (''storage '' @ i @ '' inventory unavailable''))) (\<lambda>_.
           bindE (api S (storage_content_request node i)) (\<lambda>content.
           bindE (liftE (d_array content ''storage volume'')) (\<lambda>entries.
           bindE (liftE (fold_res (review_entry vmid expected store i) volumes entries)) (\<lambda>volumes'.
           returnE (bt_insert i store stores, volumes')))))))))) "

definition review_identity ::
  "nat \<Rightarrow> string \<Rightarrow> string \<Rightarrow> vm_cfg \<Rightarrow> json \<Rightarrow> json \<Rightarrow> json bmap \<Rightarrow> json bmap \<Rightarrow> json" where
  "review_identity vmid node pool c status ds stores volumes =
     jobj [(''vmid'', jnat vmid), (''name'', JStr (cfg_text c ''name'')), (''node'', JStr node), (''pool'', JStr pool),
       (''role'', JStr WORKSPACE_TAG), (''status'', jidx status ''status''), (''config'', jtexts c), (''disks'', ds),
       (''storage'', JObj stores), (''volumes'', JObj volumes), (''snapshots'', JArr []),
       (''pending_changes'', JArr []), (''replication'', JArr []), (''ha_managed'', JBool False)]"

definition power_known :: "json \<Rightarrow> bool" where
  "power_known status \<longleftrightarrow> as_str (jidx status ''status'') \<in> {Some ''running'', Some ''stopped''}"

definition ha_unmanaged :: "json \<Rightarrow> bool" where
  "ha_unmanaged status \<longleftrightarrow> jidx (jidx status ''ha'') ''managed'' \<in> {JInt 0, JBool False}"

definition review_guards :: "'w ext \<Rightarrow> string \<Rightarrow> nat \<Rightarrow> ('w, json) op" where
  "review_guards S node vmid =
     bindE (api S (Get (qemu_path node vmid ''/pending'') [])) (\<lambda>pending.
     bindE (liftE (d_array pending ''pending configuration'')) (\<lambda>pendings.
     bindE (liftE (for_each no_pending pendings)) (\<lambda>_.
     bindE (api S (Get (qemu_path node vmid ''/snapshot'') [])) (\<lambda>snaps.
     bindE (liftE (d_array snaps ''snapshot'')) (\<lambda>snapshots.
     bindE (unlessE (list_all (\<lambda>v. as_str (jidx v ''name'') = Some ''current'') snapshots \<and> length snapshots \<le> 1)
       (refused ''snapshots or incomplete snapshot identity'')) (\<lambda>_.
     bindE (api S (Get (qemu_path node vmid ''/status/current'') [])) (\<lambda>status.
     bindE (unlessE (power_known status) (refused ''unknown power state'')) (\<lambda>_.
     bindE (unlessE (ha_unmanaged status) (refused ''managed or unknown HA state'')) (\<lambda>_.
     bindE (api S (Get (''/nodes/'' @ node @ ''/replication'') [(''guest'', dec vmid)])) (\<lambda>replication.
     bindE (liftE (d_array replication ''replication'')) (\<lambda>jobs.
     bindE (unlessE (jobs = []) (refused ''replication jobs'')) (\<lambda>_.
     returnE status))))))))))))"

definition review_unchanged ::
  "'w ext \<Rightarrow> string \<Rightarrow> string \<Rightarrow> nat \<Rightarrow> json bmap \<Rightarrow> json \<Rightarrow> vm_cfg \<Rightarrow> ('w, unit) op" where
  "review_unchanged S node pool vmid storage status c =
     bindE (placement S vmid pool) (\<lambda>node'.
     bindE (unlessE (node' = node) (refused ''VM placement changed while reading inventory'')) (\<lambda>_.
     bindE (require_membership S node pool vmid) (\<lambda>_.
     bindE (api S (Get ''/storage'' [])) (\<lambda>raw.
     bindE (liftE (storage_identity raw)) (\<lambda>storage'.
     bindE (unlessE (storage' = storage) (refused ''storage backend configuration changed while reading inventory'')) (\<lambda>_.
     bindE (api S (Get (qemu_path node vmid ''/status/current'') [])) (\<lambda>final_status.
     bindE (unlessE (jidx final_status ''status'' = jidx status ''status'' \<and> jidx final_status ''ha'' = jidx status ''ha'')
       (refused ''power or HA state changed while reading inventory'')) (\<lambda>_.
     bindE (vm_config S node vmid) (\<lambda>c'.
     unlessE (c' = c) (refused ''configuration changed while reading inventory''))))))))))"

definition review :: "'w ext \<Rightarrow> config \<Rightarrow> string \<Rightarrow> nat \<Rightarrow> ('w, json) op" where
  "review S cfg pool vmid =
     bindE (unlessE (gold_vmid cfg \<noteq> Some vmid \<and> pool \<noteq> []) (refused ''Gold VM or missing workspace pool'')) (\<lambda>_.
     bindE (placement S vmid pool) (\<lambda>node.
     bindE (vm_config S node vmid) (\<lambda>c.
     bindE (liftE (disks c cfg vmid)) (\<lambda>ds.
     bindE (require_membership S node pool vmid) (\<lambda>_.
     bindE (review_guards S node vmid) (\<lambda>status.
     bindE (api S (Get ''/storage'' [])) (\<lambda>raw.
     bindE (liftE (storage_identity raw)) (\<lambda>storage.
     bindE (liftE (d_array ds ''disk'')) (\<lambda>dlist.
     let expected = expected_volumes dlist in
     bindE (foldM_E (review_store S node vmid expected) ([], []) (map snd storage)) (\<lambda>(stores, volumes).
     bindE (unlessE (length volumes = length expected)
       (refused ''exact disk volumes missing from authoritative storage inventory'')) (\<lambda>_.
     bindE (review_unchanged S node pool vmid storage status c) (\<lambda>_.
     returnE (review_identity vmid node pool c status ds stores volumes)))))))))))))"

section \<open>Validation against the reviewed plan\<close>

definition role_consistent :: "json \<Rightarrow> json \<Rightarrow> core_error + unit" where
  "role_consistent plan disk =
     (case as_str (jidx disk ''role'') of
        Some role \<Rightarrow>
          if role = ''root'' \<or> role = ''home'' then
            bindR (for_each (\<lambda>(suffix, field).
               require (jget plan (role @ ''_'' @ suffix) = jget disk field)
                 (refused (''inconsistent reviewed '' @ role @ '' '' @ suffix)))
               [(''disk'', ''slot''), (''volume'', ''volume''), (''storage'', ''storage'')]) (\<lambda>_.
            require (role = ''home'' \<longrightarrow> jget plan ''home_label'' = jget disk ''serial'')
              (refused ''inconsistent reviewed home serial''))
          else Inr ()
      | None \<Rightarrow> Inr ())"

definition changed_keys :: "json \<Rightarrow> json \<Rightarrow> core_error + string list" where
  "changed_keys current reviewed =
     bindR (ok_or (as_object current) (refused ''invalid current identity'')) (\<lambda>m.
     Inr (filter (\<lambda>k. jidx current k \<noteq> jidx reviewed k) (bt_keys m)))"

definition reviewed_identity :: "json \<Rightarrow> core_error + json" where
  "reviewed_identity plan =
     (case jget plan ''destructive_identity'' of
        Some (JObj m) \<Rightarrow> Inr (JObj m)
      | _ \<Rightarrow> Inl (refused ''reviewed destructive identity missing''))"

definition plan_consistent :: "json \<Rightarrow> json \<Rightarrow> core_error + unit" where
  "plan_consistent plan reviewed =
     bindR (for_each (\<lambda>k. require (jget plan k = jget reviewed k) (refused (''incomplete or inconsistent reviewed '' @ k)))
       [''vmid'', ''name'', ''node'', ''pool'', ''status'']) (\<lambda>_.
     bindR (require (jidx plan ''command'' = JStr ''destroy'') (refused ''missing destroy command'')) (\<lambda>_.
     bindR (d_array (jidx reviewed ''disks'') ''reviewed disk'') (\<lambda>ds.
     for_each (role_consistent plan) ds)))"

definition same_identity :: "json \<Rightarrow> json \<Rightarrow> bool \<Rightarrow> core_error + unit" where
  "same_identity current reviewed stopped =
     bindR (require (stopped \<longrightarrow> jidx current ''status'' = JStr ''stopped'') (refused ''VM is not confirmed stopped'')) (\<lambda>_.
     let current' = (if stopped then jset current ''status'' (jidx reviewed ''status'') else current)
     in if current' = reviewed then Inr ()
        else bindR (changed_keys current' reviewed) (\<lambda>ks. Inl (refused (''reviewed identity changed in '' @ join '', '' ks))))"

definition validate :: "'w ext \<Rightarrow> config \<Rightarrow> string \<Rightarrow> json \<Rightarrow> bool \<Rightarrow> ('w, unit) op" where
  "validate S cfg pool plan stopped =
     bindE (liftE (vmid_of plan)) (\<lambda>vmid.
     bindE (review S cfg pool vmid) (\<lambda>current.
     bindE (liftE (reviewed_identity plan)) (\<lambda>reviewed.
     bindE (liftE (plan_consistent plan reviewed)) (\<lambda>_.
     liftE (same_identity current reviewed stopped)))))"

definition disk_remains :: core_error where
  "disk_remains =
     Failed ''VM DELETE finished but a reviewed disk still exists. Inspect storage explicitly; destruction will not be retried.''"

definition confirm_absent :: "'w ext \<Rightarrow> json \<Rightarrow> ('w, unit) op" where
  "confirm_absent S plan =
     (let identity = jidx plan ''destructive_identity''
      in
      bindE (liftE (d_text identity ''node'')) (\<lambda>node.
      bindE (liftE (ok_or (as_object (jidx identity ''storage'')) (refused ''missing reviewed storage''))) (\<lambda>stores.
      bindE (liftE (ok_or (as_object (jidx identity ''volumes'')) (refused ''missing reviewed volumes''))) (\<lambda>volumes.
      bindE (mapM_E (\<lambda>storage.
        bindE (api S (storage_content_request node storage)) (\<lambda>content.
        bindE (liftE (d_array content ''post-destroy volume'')) (\<lambda>entries.
        liftE (for_each (\<lambda>entry. bindR (d_text entry ''volid'') (\<lambda>volid.
          require (\<not> bt_has volumes volid) disk_remains)) entries)))) (bt_keys stores)) (\<lambda>_.
      returnE ())))))"

section \<open>Planning\<close>

definition python_node_files :: "config \<Rightarrow> nat \<Rightarrow> string \<Rightarrow> vm_cfg \<Rightarrow> string list" where
  "python_node_files cfg vmid name c =
     (if \<not> contains (cfg_text c ''cicustom'') (''snippets/homestack-'' @ name @ ''-'') then []
      else
        let dir = rev (dropWhile (\<lambda>x. x = CHR ''/'') (rev (snippet_dir (cfg_cloud_init cfg))))
        in map (\<lambda>kind. dir @ ''/homestack-'' @ name @ ''-'' @ kind @ ''.yaml'') [''user'', ''vendor'', ''network'', ''meta''] @
           [dir @ ''/homestack-vm'' @ dec vmid @ ''-refresh.json''])"

definition em_dash :: string where
  "em_dash = [CHR 0xE2, CHR 0x80, CHR 0x94]"

definition usage_percent :: "home_usage \<Rightarrow> rat option" where
  "usage_percent u =
     (case (size_bytes u, hu_used_bytes u) of
        (Some sz, Some used) \<Rightarrow> if 0 < sz then Some (100 * of_nat used / of_nat sz) else None
      | _ \<Rightarrow> None)"

definition changed_while_planning :: core_error where
  "changed_while_planning = Refused ''Workspace changed while planning destruction; review a new plan''"

definition destroy_plan :: "config \<Rightarrow> string \<Rightarrow> nat \<Rightarrow> existing_workspace \<Rightarrow> json \<Rightarrow> json" where
  "destroy_plan cfg pool vmid info identity =
     (let size_gib = (\<lambda>key. jopt JFloat (Option.bind (bt_get (ew_config info) key) parse_disk_size_gb));
          dash = (\<lambda>x. case x of None \<Rightarrow> em_dash | Some t \<Rightarrow> t)
      in jobj
       [(''command'', JStr ''destroy''), (''vmid'', jnat vmid), (''name'', JStr (ew_name info)),
        (''node'', JStr (ew_node info)), (''pool'', JStr pool), (''status'', jidx identity ''status''),
        (''destructive_identity'', identity),
        (''ip'', case derive_ip cfg vmid of Inl _ \<Rightarrow> JNull | Inr a \<Rightarrow> JStr a),
        (''root_disk'', JStr (root_disk cfg)), (''root_storage'', JStr (dash (ew_root_storage info))),
        (''root_volume'', JStr (ew_root_volume info)), (''root_size_gib'', size_gib (root_disk cfg)),
        (''home_disk'', JStr (home_disk cfg)), (''home_storage'', JStr (dash (ew_home_storage info))),
        (''home_size_gib'', size_gib (home_disk cfg)), (''home_volume'', JStr (ew_home_volume info)),
        (''home_label'', JStr (ew_home_label info)),
        (''home_capacity_bytes'', jopt jnat (size_bytes (ew_home_usage info))),
        (''home_risk'', JStr (occupancy_risk (usage_percent (ew_home_usage info)))),
        (''root_action'', JStr ''delete''), (''home_action'', JStr ''delete permanently with VM''),
        (''node_files_left'', JArr (map JStr (python_node_files cfg vmid (ew_name info) (ew_config info))))])"

definition plan_destroy :: "'w ext \<Rightarrow> config \<Rightarrow> string \<Rightarrow> nat \<Rightarrow> ('w, json) op" where
  "plan_destroy S cfg pool vmid =
     bindE (require_pool S vmid pool) (\<lambda>_.
     bindE (resolve_existing_workspace S cfg vmid) (\<lambda>info.
     bindE (review S cfg pool vmid) (\<lambda>identity.
     bindE (unlessE (jidx identity ''config'' = jtexts (ew_config info) \<and> jidx identity ''node'' = JStr (ew_node info))
       changed_while_planning) (\<lambda>_.
     returnE (destroy_plan cfg pool vmid info identity)))))"

section \<open>Adopting the lease\<close>

definition lease_changed :: core_error where
  "lease_changed = Refused ''Workspace changed while acquiring its destroy lease; review a new plan''"

definition lease_expected :: "codec \<Rightarrow> acquisition \<Rightarrow> core_error + vm_cfg" where
  "lease_expected C acquired =
     bindR (description_with C (cfg_text (acq_before acquired) ''description'') (Some (acq_lease acquired))) (\<lambda>d.
       case bt_get (acq_after acquired) ''digest'' of
         None \<Rightarrow> Inl lease_changed
       | Some digest \<Rightarrow>
           if digest = [] then Inl lease_changed
           else Inr (bt_insert ''digest'' digest (bt_insert ''description'' d (acq_before acquired))))"

definition authorize_destroy_lease :: "codec \<Rightarrow> json \<Rightarrow> acquisition \<Rightarrow> core_error + json" where
  "authorize_destroy_lease C plan acquired =
     bindR (vmid_of plan) (\<lambda>vmid.
     bindR (require (vmid = acq_vmid acquired \<and> l_operation (acq_lease acquired) = ''workspace.destroy'' \<and>
         l_instance (acq_lease acquired) \<noteq> [] \<and> l_job (acq_lease acquired) \<noteq> []) lease_changed) (\<lambda>_.
     bindR (ok_or (jget plan ''destructive_identity'') lease_changed) (\<lambda>identity.
     bindR (ok_or (jget identity ''config'') lease_changed) (\<lambda>reviewed.
     bindR (require (reviewed = jtexts (acq_before acquired)) lease_changed) (\<lambda>_.
     bindR (lease_expected C acquired) (\<lambda>expected.
     bindR (require (expected = acq_after acquired) lease_changed) (\<lambda>_.
     Inr (jset plan ''destructive_identity'' (jset identity ''config'' (jtexts (acq_after acquired)))))))))))"

section \<open>Destroying\<close>

definition shutdown_failed :: "string \<Rightarrow> core_error" where
  "shutdown_failed exit =
     Failed (''Workspace shutdown failed: '' @ exit @ ''. No automatic retry; inspect the VM before reviewing a new plan.'')"

definition destroy_shutdown :: "'w ext \<Rightarrow> json \<Rightarrow> string \<Rightarrow> nat \<Rightarrow> timing \<Rightarrow> ('w, unit) op" where
  "destroy_shutdown S plan node vmid timing =
     (if jidx plan ''status'' = JStr ''running'' then
        bindE (api S (Post (qemu_path node vmid ''/status/shutdown'') [(''timeout'', dec SHUTDOWN_TIMEOUT_SECS)])) (\<lambda>answer.
        bindE (liftE (upid S answer)) (\<lambda>u.
        bindE (wait_task S u (wait_for timing (SHUTDOWN_TIMEOUT_SECS + 30))) (\<lambda>result.
        unlessE (task_ok result) (shutdown_failed (exitstatus result)))))
      else returnE ())"

definition destroy_query :: "(string \<times> string) list" where
  "destroy_query = [(''purge'', ''0''), (''destroy-unreferenced-disks'', ''0'')]"

definition still_exists :: "nat \<Rightarrow> core_error" where
  "still_exists vmid = Failed (vm_msg vmid '' still exists after qm destroy'')"

definition destroy_delete :: "'w ext \<Rightarrow> config \<Rightarrow> string \<Rightarrow> json \<Rightarrow> string \<Rightarrow> nat \<Rightarrow> timing \<Rightarrow> ('w, unit) op" where
  "destroy_delete S cfg pool plan node vmid timing =
     bindE (validate S cfg pool plan True) (\<lambda>_.
     bindE (delete_task S (qemu_path node vmid []) destroy_query (''Destroying VM '' @ dec vmid) (wait_for timing 600)) (\<lambda>_.
     bindE (cluster_vm_resources S) (\<lambda>rs.
     bindE (unlessE (list_all (\<lambda>r. r_vmid r \<noteq> vmid) rs) (still_exists vmid)) (\<lambda>_.
     confirm_absent S plan))))"

definition destroy_workspace :: "'w ext \<Rightarrow> config \<Rightarrow> string \<Rightarrow> json \<Rightarrow> timing \<Rightarrow> ('w, json) op" where
  "destroy_workspace S cfg pool plan timing =
     bindE (liftE (vmid_of plan)) (\<lambda>vmid.
     bindE (liftE (plan_text plan ''node'')) (\<lambda>node.
     bindE (liftE (plan_text plan ''name'')) (\<lambda>name.
     bindE (validate S cfg pool plan False) (\<lambda>_.
     bindE (stepE ''Shutdown'' (destroy_shutdown S plan node vmid timing)) (\<lambda>_.
     bindE (stepE ''Destroy'' (destroy_delete S cfg pool plan node vmid timing)) (\<lambda>_.
     returnE (plan_result plan
       [(''status'', JStr ''absent''), (''vm_deleted'', JBool True), (''home_deleted'', JBool True),
        (''name'', JStr name), (''event'', JStr ''workspace.destroyed'')])))))))"

section \<open>Requests\<close>

lemma storage_content_request_get [simp]:
  "is_get (storage_content_request n st)" "\<not> is_delete (storage_content_request n st)"
  by (simp_all add: storage_content_request_def)

lemma only_case_list [only_intro]:
  "(xs = [] \<Longrightarrow> only P m) \<Longrightarrow> (\<And>y ys. xs = y # ys \<Longrightarrow> only P (f y ys)) \<Longrightarrow>
     only P (case xs of [] \<Rightarrow> m | y # ys \<Rightarrow> f y ys)"
  by (cases xs) simp_all

lemma only_placement [only_intro]: "(\<And>p q a. P (Get p q, a)) \<Longrightarrow> only P (placement S vmid pool)"
  unfolding placement_def by (intro only_intro) (simp_all add: vms_request_def)

lemma only_membership [only_intro]: "(\<And>p q a. P (Get p q, a)) \<Longrightarrow> only P (require_membership S node pool vmid)"
  unfolding require_membership_def by (intro only_intro)

lemma only_review_guards [only_intro]: "(\<And>p q a. P (Get p q, a)) \<Longrightarrow> only P (review_guards S node vmid)"
  unfolding review_guards_def by (intro only_intro)

lemma only_review_unchanged [only_intro]:
  "(\<And>p q a. P (Get p q, a)) \<Longrightarrow> only P (review_unchanged S node pool vmid storage status c)"
  unfolding review_unchanged_def by (intro only_intro) (simp_all add: vm_config_request_def)

lemma only_review_store [only_intro]:
  "(\<And>p q a. P (Get p q, a)) \<Longrightarrow> only P (review_store S node vmid expected acc store)"
  unfolding review_store_def by (intro only_intro) (simp_all add: storage_content_request_def)

lemma only_review [only_intro]: "(\<And>p q a. P (Get p q, a)) \<Longrightarrow> only P (review S cfg pool vmid)"
  unfolding review_def Let_def by (intro only_intro) (simp_all add: vm_config_request_def)

lemma only_validate [only_intro]: "(\<And>p q a. P (Get p q, a)) \<Longrightarrow> only P (validate S cfg pool plan stopped)"
  unfolding validate_def by (intro only_intro)

lemma only_confirm_absent [only_intro]: "(\<And>p q a. P (Get p q, a)) \<Longrightarrow> only P (confirm_absent S plan)"
  unfolding confirm_absent_def Let_def by (intro only_intro) (simp_all add: storage_content_request_def)

lemma only_destroy_shutdown [only_intro]:
  assumes "\<And>p q a. P (Get p q, a)"
    and "\<And>a. jidx plan ''status'' = JStr ''running'' \<Longrightarrow>
      P (Post (qemu_path node vmid ''/status/shutdown'') [(''timeout'', dec SHUTDOWN_TIMEOUT_SECS)], a)"
  shows "only P (destroy_shutdown S plan node vmid timing)"
  unfolding destroy_shutdown_def by (intro only_intro) (simp_all add: assms)

lemma only_destroy_delete [only_intro]:
  assumes "\<And>p q a. P (Get p q, a)" and "\<And>a. P (Delete (qemu_path node vmid []) destroy_query, a)"
  shows "only P (destroy_delete S cfg pool plan node vmid timing)"
  unfolding destroy_delete_def by (intro only_intro) (simp_all add: assms vms_request_def)

lemma only_plan_destroy [only_intro]: "(\<And>p q a. P (Get p q, a)) \<Longrightarrow> only P (plan_destroy S cfg pool vmid)"
  unfolding plan_destroy_def by (intro only_intro) (simp_all add: vms_request_def)

section \<open>What validation established\<close>

lemma same_identity_Inr:
  "same_identity current reviewed stopped = Inr () \<longleftrightarrow>
     (if stopped then jidx current ''status'' = JStr ''stopped'' \<and>
        jset current ''status'' (jidx reviewed ''status'') = reviewed
      else current = reviewed)"
  by (auto simp: same_identity_def Let_def)

lemma reviewed_identity_Inr:
  "reviewed_identity plan = Inr r \<longleftrightarrow> jget plan ''destructive_identity'' = Some r \<and> (\<exists>m. r = JObj m)"
  by (auto simp: reviewed_identity_def split: option.splits json.splits)

lemma plan_consistent_Inr:
  "plan_consistent plan reviewed = Inr () \<Longrightarrow>
     (\<forall>k \<in> {''vmid'', ''name'', ''node'', ''pool'', ''status''}. jget plan k = jget reviewed k) \<and>
     jidx plan ''command'' = JStr ''destroy''"
  by (auto simp: plan_consistent_def)

lemma validate_Inr:
  assumes "validate S cfg pool plan stopped s = (Inr u, s')"
  obtains vmid current reviewed where "vmid_of plan = Inr vmid" and "review S cfg pool vmid s = (Inr current, s')"
    and "jget plan ''destructive_identity'' = Some reviewed" and "plan_consistent plan reviewed = Inr ()"
    and "same_identity current reviewed stopped = Inr ()"
  using assms that
  by (auto simp: validate_def bindE_Inr liftE_run reviewed_identity_Inr)

text \<open>The condition under which a DELETE is sent: what was sent before ends with a fresh review.\<close>

definition reviewed_now :: "'w ext \<Rightarrow> config \<Rightarrow> string \<Rightarrow> json \<Rightarrow> nat \<Rightarrow> (request \<times> answer) list \<Rightarrow> bool" where
  "reviewed_now S cfg pool plan vmid h \<longleftrightarrow>
     (\<exists>s1 s2 current reviewed. review S cfg pool vmid s1 = (Inr current, s2) \<and> trace s2 = h \<and>
        jget plan ''destructive_identity'' = Some reviewed \<and> jidx current ''status'' = JStr ''stopped'' \<and>
        jset current ''status'' (jidx reviewed ''status'') = reviewed)"

definition destroy_rule ::
  "'w ext \<Rightarrow> config \<Rightarrow> string \<Rightarrow> json \<Rightarrow> string \<Rightarrow> nat \<Rightarrow> (request \<times> answer) list \<Rightarrow> request \<times> answer \<Rightarrow> bool" where
  "destroy_rule S cfg pool plan node vmid h c \<longleftrightarrow>
     is_get (fst c) \<or>
     jidx plan ''status'' = JStr ''running'' \<and>
       fst c = Post (qemu_path node vmid ''/status/shutdown'') [(''timeout'', dec SHUTDOWN_TIMEOUT_SECS)] \<or>
     fst c = Delete (qemu_path node vmid []) destroy_query \<and> reviewed_now S cfg pool plan vmid h"

lemma ctl_destroy_delete:
  assumes v: "vmid_of plan = Inr vmid"
  shows "ctl (destroy_rule S cfg pool plan node vmid) (\<lambda>_. True)
    (destroy_delete S cfg pool plan node vmid timing) (\<lambda>_ _. True)"
proof -
  let ?R = "destroy_rule S cfg pool plan node vmid"
  have get: "?R h c" if "is_get (fst c)" for h c using that by (simp add: destroy_rule_def)
  have val: "ctl ?R (\<lambda>_. True) (validate S cfg pool plan True)
      (\<lambda>_ s'. reviewed_now S cfg pool plan vmid (trace s'))"
  proof (rule ctl_weaken [OF ctl_only [where P = "\<lambda>c. is_get (fst c)"]])
    show "only (\<lambda>c. is_get (fst c)) (validate S cfg pool plan True)" by (intro only_intro) simp
    show "reviewed_now S cfg pool plan vmid (trace s')" if "\<exists>s. True \<and> validate S cfg pool plan True s = (Inr a, s')" for a s'
    proof -
      from that obtain s where "validate S cfg pool plan True s = (Inr a, s')" by blast
      then show ?thesis
        by (elim validate_Inr) (use v in \<open>auto simp: reviewed_now_def same_identity_Inr\<close>)
    qed
  qed (use get in auto)
  have del: "ctl ?R (\<lambda>s. reviewed_now S cfg pool plan vmid (trace s))
      (delete_task S (qemu_path node vmid []) destroy_query what wait) (\<lambda>_ _. True)" for what wait
    unfolding delete_task_def run_task_def
    by (rule ctl_map_err, rule ctl_bind [OF ctl_api])
      (simp add: destroy_rule_def, rule ctl_only_any [where P = "\<lambda>c. is_get (fst c)"], (intro only_intro, simp), auto intro: get)
  have rest: "ctl ?R (\<lambda>_. True) (bindE (cluster_vm_resources S) (\<lambda>rs.
      bindE (unlessE (list_all (\<lambda>r. r_vmid r \<noteq> vmid) rs) (still_exists vmid)) (\<lambda>_. confirm_absent S plan)))
      (\<lambda>_ _. True)"
    by (rule ctl_only_any [where P = "\<lambda>c. is_get (fst c)"], (intro only_intro, simp_all add: get))
  show ?thesis unfolding destroy_delete_def by (rule ctl_bind [OF val], rule ctl_bind [OF del rest])
qed

lemma ctl_destroy_workspace:
  assumes v: "vmid_of plan = Inr vmid" and n: "plan_text plan ''node'' = Inr node"
  shows "ctl (destroy_rule S cfg pool plan node vmid) (\<lambda>_. True) (destroy_workspace S cfg pool plan timing) (\<lambda>_ _. True)"
proof -
  let ?R = "destroy_rule S cfg pool plan node vmid"
  have nm: "ctl ?R (\<lambda>_. True) (liftE (plan_text plan ''name'')) (\<lambda>_ _. True)"
    by (rule ctl_only_any [where P = "\<lambda>_. False"]) (auto intro: only_intro)
  have val: "ctl ?R (\<lambda>_. True) (validate S cfg pool plan False) (\<lambda>_ _. True)"
    by (rule ctl_only_any [where P = "\<lambda>c. is_get (fst c)"], (intro only_intro, simp_all add: destroy_rule_def))
  have shut: "ctl ?R (\<lambda>_. True) (destroy_shutdown S plan node vmid timing) (\<lambda>_ _. True)"
    by (rule ctl_only_any [where P = "\<lambda>c. is_get (fst c) \<or> jidx plan ''status'' = JStr ''running'' \<and>
          fst c = Post (qemu_path node vmid ''/status/shutdown'') [(''timeout'', dec SHUTDOWN_TIMEOUT_SECS)]"],
        (intro only_intro, auto simp: destroy_rule_def))
  have ret: "ctl ?R (\<lambda>_. True) (returnE x) (\<lambda>_ _. True)" for x :: json
    by (rule ctl_only_any [where P = "\<lambda>_. False"]) (auto intro: only_intro)
  show ?thesis unfolding destroy_workspace_def v n liftE_simps bindE_return
    by (rule ctl_bind [OF nm], rule ctl_bind [OF val], rule ctl_bind [OF ctl_step [OF shut]],
        (simp; fail), (simp; fail), rule ctl_bind [OF ctl_step [OF ctl_destroy_delete [OF v]] ret], simp_all)
qed

section \<open>What a review established\<close>

definition d_volume :: "json \<Rightarrow> string option" where
  "d_volume d = as_str (jidx d ''volume'')"

lemma d_volume_identity [simp]: "d_volume (disk_identity slot spec e) = Some (disk_volume spec)"
  by (simp add: d_volume_def disk_identity_def jidx_def jget_jobj)

lemma disk_step_Inr:
  assumes "disk_step inventory (seen, result) (slot, spec) = Inr acc"
  shows "\<exists>e. acc = (disk_volume spec # seen, result @ [disk_identity slot spec e]) \<and>
    exact_volume (disk_volume spec) \<and> disk_volume spec \<notin> set seen \<and> ve_slot e = slot \<and> e \<in> set inventory"
  using assms by (auto simp: disk_step_def find_Some_iff)

lemma disk_fold:
  assumes "fold_res (disk_step inventory) (seen, result) kvs = Inr (seen', result')" and "distinct seen"
  shows "map d_volume result' = map d_volume result @ map (\<lambda>kv. Some (disk_volume (snd kv))) kvs \<and>
    seen' = rev (map (disk_volume \<circ> snd) kvs) @ seen \<and> distinct seen'"
  using assms
proof (induction kvs arbitrary: seen result)
  case (Cons kv kvs)
  obtain slot spec where kv: "kv = (slot, spec)" by fastforce
  from Cons.prems(1) obtain acc where acc: "disk_step inventory (seen, result) kv = Inr acc"
    "fold_res (disk_step inventory) acc kvs = Inr (seen', result')" by auto
  from disk_step_Inr [of inventory seen result slot spec acc] acc(1) kv obtain e where
    e: "acc = (disk_volume spec # seen, result @ [disk_identity slot spec e])" "disk_volume spec \<notin> set seen" by auto
  have "map d_volume result' = map d_volume (result @ [disk_identity slot spec e]) @
        map (\<lambda>kv. Some (disk_volume (snd kv))) kvs \<and>
      seen' = rev (map (disk_volume \<circ> snd) kvs) @ disk_volume spec # seen \<and> distinct seen'"
    by (rule Cons.IH) (use acc(2) e Cons.prems(2) in auto)
  then show ?case using kv by (metis (no_types, lifting) append.assoc append_Cons append_Nil comp_apply
        d_volume_identity list.simps(8,9) map_append rev.simps(2) snd_conv)
qed simp

definition config_volumes :: "vm_cfg \<Rightarrow> string list" where
  "config_volumes c = map (disk_volume \<circ> snd) (filter (\<lambda>(k, _). is_volume_slot k) c)"

lemma disks_volumes:
  assumes "disks c cfg vmid = Inr ds"
  obtains dlist where "ds = JArr dlist" "set (expected_volumes dlist) = set (config_volumes c)"
    "distinct (config_volumes c)" "verify_workspace_role_tags vmid c = Inr ()"
    "\<not> has_tag (bt_get c ''tags'') ALIEN_WORKSPACE_TAG" "\<not> has_tag (bt_get c ''tags'') REFRESH_LOCK_TAG"
proof -
  from assms obtain seen result where
    f: "fold_res (disk_step (vm_volume_inventory c cfg)) ([], []) (filter (\<lambda>(k, _). is_volume_slot k) c) = Inr (seen, result)"
    and ds: "ds = JArr result" "verify_workspace_role_tags vmid c = Inr ()"
    "\<not> has_tag (bt_get c ''tags'') ALIEN_WORKSPACE_TAG" "\<not> has_tag (bt_get c ''tags'') REFRESH_LOCK_TAG"
    by (auto simp: disks_def Let_def)
  from disk_fold [OF f] have m: "map d_volume result = map (\<lambda>kv. Some (disk_volume (snd kv))) (filter (\<lambda>(k, _). is_volume_slot k) c)"
    and "distinct (config_volumes c)" by (auto simp: config_volumes_def)
  moreover have "List.map_filter (\<lambda>d. as_str (jidx d ''volume'')) result = config_volumes c"
  proof -
    have "List.map_filter d_volume result = map the (filter (\<lambda>x. x \<noteq> None) (map d_volume result))"
      by (simp add: List.map_filter_def filter_map comp_def)
    also have "\<dots> = config_volumes c"
      unfolding m by (simp add: config_volumes_def filter_map comp_def)
    finally show ?thesis by (simp add: d_volume_def [abs_def])
  qed
  ultimately show ?thesis using that [OF ds(1) _ _ ds(2,3,4)] by (simp add: expected_volumes_def)
qed

lemma bt_get_remove_other: "k' \<noteq> k \<Longrightarrow> bt_get (bt_remove k m) k' = bt_get m k'"
  by (induction k m rule: bt_remove.induct) auto

text \<open>The volumes collected so far: expected ones, each listed as owned by the VM.\<close>

definition owned_volumes :: "nat \<Rightarrow> string list \<Rightarrow> json bmap \<Rightarrow> bool" where
  "owned_volumes vmid expected volumes \<longleftrightarrow>
     bt_wf volumes \<and>
     (\<forall>v x. bt_get volumes v = Some x \<longrightarrow> v \<in> set expected \<and> as_u64 (jidx x ''vmid'') = Some vmid)"

lemma review_entry_owned:
  assumes "owned_volumes vmid expected volumes"
    and "review_entry vmid expected store i volumes entry = Inr volumes'"
  shows "owned_volumes vmid expected volumes'"
proof -
  have "jidx (JObj (bt_remove ''ctime'' (bt_remove ''used'' m))) ''vmid'' = jidx (JObj m) ''vmid''"
    "jidx (JObj (bt_remove ''used'' m)) ''vmid'' = jidx (JObj m) ''vmid''" for m
    by (simp_all add: jidx_def bt_get_remove_other)
  moreover have "as_object entry = Some m \<Longrightarrow> entry = JObj m" for m by (cases entry) auto
  ultimately show ?thesis
    using assms
    by (auto simp: review_entry_def owned_volumes_def Let_def bt_wf_insert bt_get_insert split: if_splits)
qed

lemma review_store_owned:
  assumes "owned_volumes vmid expected (snd acc)"
    and "review_store S node vmid expected acc store s = (Inr acc', s')"
  shows "owned_volumes vmid expected (snd acc')"
proof -
  obtain stores volumes where a: "acc = (stores, volumes)" by fastforce
  show ?thesis
    using assms unfolding a
    by (auto simp: review_store_def bindE_Inr liftE_run unlessE_run returnE_run split: if_splits
        intro: fold_res_invariant [where I = "owned_volumes vmid expected"] review_entry_owned)
qed

lemma owned_volumes_keys:
  assumes "owned_volumes vmid expected volumes" and "length volumes = length expected" and "distinct expected"
  shows "set (bt_keys volumes) = set expected"
proof -
  have wf: "bt_wf volumes" using assms(1) by (simp add: owned_volumes_def)
  then have d: "distinct (bt_keys volumes)"
    unfolding bt_wf_def bt_keys_def using strict_sorted_iff by blast
  have "set (bt_keys volumes) \<subseteq> set expected"
    using assms(1) by (auto simp: owned_volumes_def bt_keys_def) (metis bt_get_eq_iff wf)
  moreover have "card (set (bt_keys volumes)) = card (set expected)"
    using distinct_card [OF d] distinct_card [OF assms(3)] assms(2) by (simp add: bt_keys_def)
  ultimately show ?thesis by (simp add: card_subset_eq)
qed

lemma review_Inr:
  assumes "review S cfg pool vmid s = (Inr identity, s')"
  obtains node c dlist status stores volumes where
    "identity = review_identity vmid node pool c status (JArr dlist) stores volumes"
    "gold_vmid cfg \<noteq> Some vmid" "disks c cfg vmid = Inr (JArr dlist)"
    "owned_volumes vmid (expected_volumes dlist) volumes" "length volumes = length (expected_volumes dlist)"
proof -
  note out = that
  have fin: thesis
    if id: "identity = review_identity vmid node pool c status ds stores volumes"
      and g: "gold_vmid cfg \<noteq> Some vmid" "disks c cfg vmid = Inr ds" "d_array ds ''disk'' = Inr dlist"
      "length volumes = length (expected_volumes dlist)"
      and f: "foldM_E (review_store S node vmid (expected_volumes dlist)) ([], []) (map snd storage) s1 = (Inr (stores, volumes), s2)"
    for node c ds dlist status storage stores volumes s1 s2
  proof -
    have ds: "ds = JArr dlist" using g(3) by (cases ds) (auto simp: d_array_def)
    have "owned_volumes vmid (expected_volumes dlist) (snd (stores, volumes))"
      by (rule foldM_invariant [OF f, where I = "\<lambda>acc. owned_volumes vmid (expected_volumes dlist) (snd acc)"])
        (simp add: owned_volumes_def, rule review_store_owned)
    then show thesis using out id g ds by simp
  qed
  show thesis
    using assms
    by (auto simp: review_def Let_def bindE_Inr liftE_run unlessE_run returnE_run split: if_splits)
      (rule fin, assumption+)
qed

section \<open>Properties\<close>

text \<open>
  C8. Destruction is never repeated: however Proxmox answers, fails or locks, one run of the destroy
  operation sends at most one DELETE.
\<close>

theorem destroy_single_delete:
  "length (filter is_delete (requests (destroy_workspace S cfg pool plan timing) s)) \<le> 1"
proof -
  have del: "at_most is_delete (Suc 0) (destroy_delete S cfg pool plan node vmid timing)" for node vmid
    unfolding destroy_delete_def
    by (rule at_most_bind_last, (intro only_intro, simp), rule at_most_bind_first [OF delete_task_once])
      (intro only_intro, simp_all)
  have "at_most is_delete (Suc 0) (destroy_workspace S cfg pool plan timing)"
    unfolding destroy_workspace_def
    by (rule at_most_bind_last, (intro only_intro; simp), rule at_most_bind_last, (intro only_intro; simp),
        rule at_most_bind_last, (intro only_intro; simp), rule at_most_bind_last, (intro only_intro; simp),
        rule at_most_bind_last, (intro only_intro; simp), rule at_most_bind_first [OF at_most_step [OF del]],
        intro only_intro)
  from at_most_sent [OF this, of s] show ?thesis by (simp add: requests_def filter_map comp_def)
qed

text \<open>
  C7. Only what was reviewed is destroyed: every request of a destroy run is a read, the one graceful
  shutdown of a VM the plan saw running, or the DELETE of exactly the planned VM on the planned
  node without purging anything else; and when the DELETE goes out, everything sent before it ends
  with a complete fresh review whose result is the reviewed identity with the VM now stopped.
\<close>

theorem destroy_deletes_reviewed:
  assumes "vmid_of plan = Inr vmid" and "plan_text plan ''node'' = Inr node"
  shows "controlled (\<lambda>h (rq, _). is_get rq \<or>
      jidx plan ''status'' = JStr ''running'' \<and>
        rq = Post (qemu_path node vmid ''/status/shutdown'') [(''timeout'', dec SHUTDOWN_TIMEOUT_SECS)] \<or>
      rq = Delete (qemu_path node vmid []) [(''purge'', ''0''), (''destroy-unreferenced-disks'', ''0'')] \<and>
        (\<exists>s1 s2 current reviewed. review S cfg pool vmid s1 = (Inr current, s2) \<and> trace s2 = h \<and>
           jget plan ''destructive_identity'' = Some reviewed \<and> jidx current ''status'' = JStr ''stopped'' \<and>
           jset current ''status'' (jidx reviewed ''status'') = reviewed))
    s (snd (destroy_workspace S cfg pool plan timing s))"
proof -
  have "controlled (destroy_rule S cfg pool plan node vmid) s (snd (destroy_workspace S cfg pool plan timing s))"
    by (rule ctl_controlled [OF ctl_destroy_workspace [OF assms]]) simp
  then show ?thesis
    by (simp add: destroy_rule_def [abs_def] reviewed_now_def destroy_query_def case_prod_beta')
qed

definition sample_destroy_plan :: json where
  "sample_destroy_plan =
     jobj [(''command'', JStr ''destroy''), (''vmid'', JInt 101), (''name'', JStr ''ws''), (''node'', JStr ''pve1''),
       (''pool'', JStr ''hs''), (''status'', JStr ''stopped'')]"

theorem destroy_deletes_reviewed_witness:
  "controlled (\<lambda>h (rq, _). is_get rq \<or>
      rq = Delete (qemu_path ''pve1'' 101 []) [(''purge'', ''0''), (''destroy-unreferenced-disks'', ''0'')] \<and>
        (\<exists>s1 s2 current reviewed. review (machine sample_serve) sample_config ''hs'' 101 s1 = (Inr current, s2) \<and> trace s2 = h \<and>
           jget sample_destroy_plan ''destructive_identity'' = Some reviewed \<and> jidx current ''status'' = JStr ''stopped'' \<and>
           jset current ''status'' (jidx reviewed ''status'') = reviewed))
    (start_state False)
    (snd (destroy_workspace (machine sample_serve) sample_config ''hs'' sample_destroy_plan sample_timing (start_state False)))"
proof -
  have "vmid_of sample_destroy_plan = Inr 101" "plan_text sample_destroy_plan ''node'' = Inr ''pve1''"
    "jidx sample_destroy_plan ''status'' = JStr ''stopped''" by code_simp+
  with destroy_deletes_reviewed [OF this(1,2), of "machine sample_serve" sample_config "''hs''" "start_state False" sample_timing]
  show ?thesis by simp
qed

text \<open>A complete review of the sample workspace, evaluated step by step.\<close>

lemma sample_placement: "gives False (placement (machine sample_serve) 101 ''hs'') ''pve1'' False"
  unfolding placement_def by (rule gives_bind [OF sample_vms]) (simp add: sample_resource_def gives_return)

lemma sample_membership: "gives False (require_membership (machine sample_serve) ''pve1'' ''hs'' 101) () False"
  unfolding require_membership_def
  by (rule gives_bind [OF sample_get], rule gives_bind [OF gives_lift_ok], code_simp, rule gives_bind [OF gives_unless],
      code_simp, rule gives_bind [OF sample_get], rule gives_bind [OF gives_lift_ok], code_simp, rule gives_unless, code_simp)

lemma sample_guards:
  "gives False (review_guards (machine sample_serve) ''pve1'' 101) (ans False (qemu_path ''pve1'' 101 ''/status/current'')) False"
  unfolding review_guards_def
  by ((rule gives_bind [OF sample_get] | (rule gives_bind [OF gives_lift_ok], code_simp)
      | (rule gives_bind [OF gives_unless], code_simp))+, rule gives_return)

definition sample_storage :: "json bmap" where
  "sample_storage = the_ok (storage_identity (ans False ''/storage''))"

lemma sample_unchanged:
  "gives False (review_unchanged (machine sample_serve) ''pve1'' ''hs'' 101 sample_storage
     (ans False (qemu_path ''pve1'' 101 ''/status/current'')) sample_cfg) () False"
  unfolding review_unchanged_def
  by (rule gives_bind [OF sample_placement], rule gives_bind [OF gives_unless], simp, rule gives_bind [OF sample_membership],
      rule gives_bind [OF sample_get], rule gives_bind [OF gives_lift_ok], code_simp, rule gives_bind [OF gives_unless],
      simp add: sample_storage_def, rule gives_bind [OF sample_get], rule gives_bind [OF gives_unless], simp,
      rule gives_bind [OF sample_vm_cfg], rule gives_unless, simp)

definition sample_disks :: "json list" where
  "sample_disks = the (as_array (the_ok (disks sample_cfg sample_config 101)))"

definition sample_volumes :: "json bmap" where
  "sample_volumes =
     the_ok (fold_res (review_entry 101 (expected_volumes sample_disks) (snd (hd sample_storage)) ''fast'') []
       (the_ok (d_array (ans False ''/nodes/pve1/storage/fast/content'') ''storage volume'')))"

lemma sample_store:
  "gives False (review_store (machine sample_serve) ''pve1'' 101 (expected_volumes sample_disks) ([], []) (snd (hd sample_storage)))
     (bt_insert ''fast'' (snd (hd sample_storage)) [], sample_volumes) False"
proof -
  have t: "d_text (snd (hd sample_storage)) ''storage'' = Inr ''fast''" by code_simp
  have w: "image_store ''pve1'' (snd (hd sample_storage)) = Inr True" by code_simp
  have p: "storage_content_request ''pve1'' ''fast'' = Get ''/nodes/pve1/storage/fast/content'' [(''content'', ''images'')]"
    by code_simp
  show ?thesis
    unfolding review_store_def prod.case t w liftE_simps bindE_return p sample_volumes_def
    by (simp only: simp_thms if_False,
        rule gives_bind [OF gives_unless], code_simp, rule gives_bind [OF sample_get], rule gives_bind [OF gives_unless], code_simp,
        rule gives_bind [OF sample_get], rule gives_bind [OF gives_lift_ok], code_simp,
        rule gives_bind [OF gives_lift_ok], code_simp, rule gives_return)
qed

lemma sample_review:
  "gives False (review (machine sample_serve) sample_config ''hs'' 101)
     (review_identity 101 ''pve1'' ''hs'' sample_cfg (ans False (qemu_path ''pve1'' 101 ''/status/current'')) (JArr sample_disks)
       (bt_insert ''fast'' (snd (hd sample_storage)) []) sample_volumes) False"
proof -
  have d: "disks sample_cfg sample_config 101 = Inr (JArr sample_disks)" by code_simp
  have a: "d_array (JArr sample_disks) ''disk'' = Inr sample_disks" by (simp add: d_array_def)
  have s: "map snd sample_storage = [snd (hd sample_storage)]" by code_simp
  have l: "length sample_volumes = length (expected_volumes sample_disks)" by code_simp
  have k: "is_ok (storage_identity (ans False ''/storage''))" by code_simp
  show ?thesis unfolding review_def Let_def
    by (rule gives_bind [OF gives_unless], simp add: sample_config_def, rule gives_bind [OF sample_placement],
        rule gives_bind [OF sample_vm_cfg], rule gives_bind [OF gives_lift [OF d]], rule gives_bind [OF sample_membership],
        rule gives_bind [OF sample_guards], rule gives_bind [OF sample_get], rule gives_bind [OF gives_lift_ok [OF k]],
        fold sample_storage_def, rule gives_bind [OF gives_lift [OF a]], unfold s,
        rule gives_bind, rule gives_foldM_Cons, rule sample_store, rule gives_foldM_Nil, unfold prod.case,
        rule gives_bind [OF gives_unless [OF l]], rule gives_bind [OF sample_unchanged], rule gives_return)
qed

text \<open>
  C10. A review is exact: what it returns describes a native workspace that is not Gold, whose volumes
  are exactly the volumes of the disk slots of the configuration it names, none of them twice, and
  the storage inventory listed each of them as owned by that VM.
\<close>

theorem review_exact_volumes:
  assumes "review S cfg pool vmid s = (Inr identity, s')"
  shows "gold_vmid cfg \<noteq> Some vmid \<and>
    (\<exists>c volumes. jidx identity ''config'' = jtexts c \<and> jidx identity ''volumes'' = JObj volumes \<and>
       set (bt_keys volumes) = set (config_volumes c) \<and> distinct (config_volumes c) \<and>
       (\<forall>v x. bt_get volumes v = Some x \<longrightarrow> as_u64 (jidx x ''vmid'') = Some vmid) \<and>
       verify_workspace_role_tags vmid c = Inr () \<and> \<not> has_tag (bt_get c ''tags'') REFRESH_LOCK_TAG)"
  using assms
proof (rule review_Inr)
  fix node c dlist status stores volumes
  assume id: "identity = review_identity vmid node pool c status (JArr dlist) stores volumes"
    and g: "gold_vmid cfg \<noteq> Some vmid" and ds: "disks c cfg vmid = Inr (JArr dlist)"
    and o: "owned_volumes vmid (expected_volumes dlist) volumes" "length volumes = length (expected_volumes dlist)"
  have "set (expected_volumes dlist) = set (config_volumes c)" "distinct (config_volumes c)"
    "verify_workspace_role_tags vmid c = Inr ()" "\<not> has_tag (bt_get c ''tags'') REFRESH_LOCK_TAG"
    using disks_volumes [OF ds] by auto
  moreover have "distinct (expected_volumes dlist)"
    using set_of_list_sorted strict_sorted_iff unfolding expected_volumes_def by blast
  then have "set (bt_keys volumes) = set (expected_volumes dlist)" using owned_volumes_keys [OF o] by simp
  moreover have "jidx identity ''config'' = jtexts c" "jidx identity ''volumes'' = JObj volumes"
    unfolding id review_identity_def jidx_def jget_jobj by simp_all
  ultimately show ?thesis using g o(1) unfolding owned_volumes_def by auto
qed

theorem review_exact_volumes_witness:
  "gold_vmid sample_config \<noteq> Some 101 \<and> set (bt_keys sample_volumes) = {''fast:vm-101-disk-0'', ''fast:vm-101-hs-home-ann''}"
proof -
  obtain s' where r: "review (machine sample_serve) sample_config ''hs'' 101 (start_state False) =
      (Inr (review_identity 101 ''pve1'' ''hs'' sample_cfg (ans False (qemu_path ''pve1'' 101 ''/status/current'')) (JArr sample_disks)
       (bt_insert ''fast'' (snd (hd sample_storage)) []) sample_volumes), s')"
    using gives_run [OF sample_review, of "start_state False"] by (auto simp: start_state_def)
  have "config_volumes sample_cfg = [''fast:vm-101-disk-0'', ''fast:vm-101-hs-home-ann'']" by code_simp
  with review_exact_volumes [OF r] show ?thesis
    by (auto simp: review_identity_def jidx_def jget_jobj)
qed

text \<open>Planning and validating a destruction only read.\<close>

lemma destroy_planning_reads:
  "list_all is_get (requests (plan_destroy S cfg pool vmid) s) \<and>
   list_all is_get (requests (validate S cfg pool plan stopped) s)"
  by (intro conjI only_requests) (intro only_intro, simp)+

lemma lease_expected_Inr:
  "lease_expected C acquired = Inr e \<longleftrightarrow>
     (\<exists>d digest. description_with C (cfg_text (acq_before acquired) ''description'') (Some (acq_lease acquired)) = Inr d \<and>
        bt_get (acq_after acquired) ''digest'' = Some digest \<and> digest \<noteq> [] \<and>
        e = bt_insert ''digest'' digest (bt_insert ''description'' d (acq_before acquired)))"
  by (auto simp: lease_expected_def split: option.splits)

lemma authorize_Inr:
  assumes "authorize_destroy_lease C plan acquired = Inr plan'"
  obtains identity d digest where "jget plan ''destructive_identity'' = Some identity"
    "jget identity ''config'' = Some (jtexts (acq_before acquired))"
    "description_with C (cfg_text (acq_before acquired) ''description'') (Some (acq_lease acquired)) = Inr d"
    "acq_after acquired = bt_insert ''digest'' digest (bt_insert ''description'' d (acq_before acquired))"
    "plan' = jset plan ''destructive_identity'' (jset identity ''config'' (jtexts (acq_after acquired)))"
    "l_operation (acq_lease acquired) = ''workspace.destroy''"
  using assms that
  by (auto simp: authorize_destroy_lease_def lease_expected_Inr)

lemma jget_Some_obj: "jget v k = Some x \<Longrightarrow> \<exists>m. v = JObj m \<and> bt_get m k = Some x"
  by (cases v) auto

text \<open>
  C11. The lease is all a destroy job adopts: an authorized plan differs from the reviewed one only in
  the reviewed configuration, which becomes the configuration read after the lease was written; that
  one differs from the reviewed configuration only in its description and digest, and holds the
  lease of the destroy job.
\<close>

theorem authorize_adopts_only_lease:
  assumes "codec_ok C" and "authorize_destroy_lease C plan acquired = Inr plan'"
  shows "(\<forall>k. k \<noteq> ''destructive_identity'' \<longrightarrow> jget plan' k = jget plan k) \<and>
    (\<forall>k. k \<noteq> ''config'' \<longrightarrow> jget (jidx plan' ''destructive_identity'') k = jget (jidx plan ''destructive_identity'') k) \<and>
    jidx (jidx plan ''destructive_identity'') ''config'' = jtexts (acq_before acquired) \<and>
    jidx (jidx plan' ''destructive_identity'') ''config'' = jtexts (acq_after acquired) \<and>
    (\<forall>k. k \<noteq> ''description'' \<and> k \<noteq> ''digest'' \<longrightarrow> bt_get (acq_after acquired) k = bt_get (acq_before acquired) k) \<and>
    read_lease C (acq_after acquired) = Inr (Some (acq_lease acquired)) \<and>
    l_operation (acq_lease acquired) = ''workspace.destroy''"
  using assms(2)
proof (rule authorize_Inr)
  fix identity d digest
  assume i: "jget plan ''destructive_identity'' = Some identity"
    "jget identity ''config'' = Some (jtexts (acq_before acquired))"
    and d: "description_with C (cfg_text (acq_before acquired) ''description'') (Some (acq_lease acquired)) = Inr d"
    and a: "acq_after acquired = bt_insert ''digest'' digest (bt_insert ''description'' d (acq_before acquired))"
    and p: "plan' = jset plan ''destructive_identity'' (jset identity ''config'' (jtexts (acq_after acquired)))"
    and o: "l_operation (acq_lease acquired) = ''workspace.destroy''"
  obtain m n where m: "plan = JObj m" and n: "identity = JObj n" using i jget_Some_obj by metis
  have "read_lease C (acq_after acquired) = Inr (Some (acq_lease acquired))"
    by (rule read_written [OF assms(1) d]) (simp add: a cfg_text_def bt_get_insert)
  moreover have "k \<noteq> ''description'' \<and> k \<noteq> ''digest'' \<longrightarrow> bt_get (acq_after acquired) k = bt_get (acq_before acquired) k" for k
    by (simp add: a bt_get_insert)
  ultimately show ?thesis using i o unfolding p m n by (simp add: jidx_def bt_get_insert)
qed

definition sample_acquisition :: acquisition where
  "sample_acquisition =
     (let l = \<lparr>l_instance = ''i1'', l_job = ''j1'', l_operation = ''workspace.destroy'', acquired_at = 100, expires_at = 160\<rparr>
      in \<lparr>acq_vmid = 101, acq_before = sample_cfg,
          acq_after = bt_insert ''digest'' ''d2''
            (bt_insert ''description'' (the_ok (description_with sample_codec [] (Some l))) sample_cfg),
          acq_lease = l\<rparr>)"

definition sample_reviewed_plan :: json where
  "sample_reviewed_plan =
     jobj [(''vmid'', JInt 101), (''destructive_identity'', jobj [(''config'', jtexts sample_cfg), (''node'', JStr ''pve1'')])]"

theorem authorize_adopts_only_lease_witness:
  "read_lease sample_codec (acq_after sample_acquisition) = Inr (Some (acq_lease sample_acquisition))"
proof -
  have "is_ok (authorize_destroy_lease sample_codec sample_reviewed_plan sample_acquisition)" by code_simp
  then obtain plan' where "authorize_destroy_lease sample_codec sample_reviewed_plan sample_acquisition = Inr plan'"
    by (auto simp: is_ok_iff)
  from authorize_adopts_only_lease [OF sample_codec_ok this] show ?thesis by simp
qed

lemma confirm_absent_Inr:
  assumes "confirm_absent S plan s = (Inr (), s')"
  obtains node stores volumes where "d_text (jidx plan ''destructive_identity'') ''node'' = Inr node"
    "jidx (jidx plan ''destructive_identity'') ''storage'' = JObj stores"
    "jidx (jidx plan ''destructive_identity'') ''volumes'' = JObj volumes"
    "\<And>st. st \<in> set (bt_keys stores) \<Longrightarrow> \<exists>entries. (storage_content_request node st, Inr (JArr entries)) \<in> set (trace s') \<and>
       (\<forall>e \<in> set entries. \<exists>v. d_text e ''volid'' = Inr v \<and> \<not> bt_has volumes v)"
proof -
  let ?one = "\<lambda>node volumes storage. bindE (api S (storage_content_request node storage)) (\<lambda>content.
        bindE (liftE (d_array content ''post-destroy volume'')) (\<lambda>entries.
        liftE (for_each (\<lambda>entry. bindR (d_text entry ''volid'') (\<lambda>volid.
          require (\<not> bt_has volumes volid) disk_remains)) entries)))"
  let ?seen = "\<lambda>node volumes t st. \<exists>entries. (storage_content_request node st, Inr (JArr entries)) \<in> set t \<and>
       (\<forall>e \<in> set entries. \<exists>v. d_text e ''volid'' = Inr v \<and> \<not> bt_has volumes v)"
  have arr: "as_array v = Some xs \<Longrightarrow> v = JArr xs" for v xs by (cases v) auto
  have one: "?seen node volumes (trace s') st \<and> set (trace s) \<subseteq> set (trace s')"
    if "?one node volumes st s = (Inr (), s')" for node volumes st s s'
  proof -
    from that obtain v entries where "api S (storage_content_request node st) s = (Inr v, s')"
      and v: "v = JArr entries" and e: "\<forall>e \<in> set entries. \<exists>v. d_text e ''volid'' = Inr v \<and> \<not> bt_has volumes v"
      by (auto simp: bindE_Inr liftE_run d_array_def dest!: arr)
    then have "(storage_content_request node st, Inr (JArr entries)) \<in> set (trace s')" "set (trace s) \<subseteq> set (trace s')"
      by (auto simp: api_def answer_norm_def map_err_def split: prod.splits sum.splits)
    then show ?thesis using e by blast
  qed
  have many: "(\<forall>st \<in> set sts. ?seen node volumes (trace s') st) \<and> set (trace s) \<subseteq> set (trace s')"
    if "mapM_E (?one node volumes) sts s = (Inr us, s')" for node volumes sts us s s'
    using that
  proof (induction sts arbitrary: s us)
    case Nil
    then show ?case by (simp add: returnE_run)
  next
    case (Cons st sts)
    then obtain u s1 vs where a: "?one node volumes st s = (Inr (), s1)"
      and b: "mapM_E (?one node volumes) sts s1 = (Inr vs, s')" by (auto simp: bindE_Inr returnE_run)
    from one [OF a] Cons.IH [OF b] show ?case by auto
  qed
  have obj: "as_object v = Some m \<Longrightarrow> v = JObj m" for v m by (cases v) auto
  from assms obtain node stores volumes us s1 where "d_text (jidx plan ''destructive_identity'') ''node'' = Inr node"
    "as_object (jidx (jidx plan ''destructive_identity'') ''storage'') = Some stores"
    "as_object (jidx (jidx plan ''destructive_identity'') ''volumes'') = Some volumes"
    and m: "mapM_E (?one node volumes) (bt_keys stores) s = (Inr us, s')"
    by (auto simp: confirm_absent_def Let_def bindE_Inr liftE_run returnE_run)
  then show thesis using that [of node stores volumes] many [OF m] obj by blast
qed

lemma destroy_workspace_Inr:
  assumes "destroy_workspace S cfg pool plan timing s = (Inr r, s')"
  obtains vmid rs s1 s2 s3 where "vmid_of plan = Inr vmid" "cluster_vm_resources S s1 = (Inr rs, s2)"
    "list_all (\<lambda>r. r_vmid r \<noteq> vmid) rs" "confirm_absent S plan s2 = (Inr (), s3)" "trace s' = trace s3"
proof -
  have step: "\<exists>s2. m s1 = (Inr a, s2) \<and> trace s' = trace s2"
    if "stepE n m s0 = (Inr a, s')" "s1 = s0\<lparr>events := events s0 @ [StepStarted n]\<rparr>"
    for n and m :: "('a, unit) op" and s0 a s' s1
    using that by (cases "m s1") (auto simp: stepE_def step_started_def step_finished_def bindE_def emit_run tryE_run liftE_run
        split: sum.splits)
  from assms obtain vmid node s0 where v: "vmid_of plan = Inr vmid"
    and st: "stepE ''Destroy'' (destroy_delete S cfg pool plan node vmid timing) s0 = (Inr (), s')"
    by (auto simp: destroy_workspace_def bindE_Inr liftE_run returnE_run)
  from step [OF st refl] obtain s2 where d: "destroy_delete S cfg pool plan node vmid timing
      (s0\<lparr>events := events s0 @ [StepStarted ''Destroy'']\<rparr>) = (Inr (), s2)" and t: "trace s' = trace s2" by blast
  from d obtain rs s3 s4 where "cluster_vm_resources S s3 = (Inr rs, s4)" "list_all (\<lambda>r. r_vmid r \<noteq> vmid) rs"
    "confirm_absent S plan s4 = (Inr (), s2)"
    by (auto simp: destroy_delete_def bindE_Inr unlessE_run split: if_splits)
  then show thesis using that v t by blast
qed


text \<open>A whole successful destruction of the sample workspace.\<close>

definition sample_identity :: json where
  "sample_identity =
     review_identity 101 ''pve1'' ''hs'' sample_cfg (ans False (qemu_path ''pve1'' 101 ''/status/current'')) (JArr sample_disks)
       (bt_insert ''fast'' (snd (hd sample_storage)) []) sample_volumes"

definition sample_full_plan :: json where
  "sample_full_plan =
     jobj [(''command'', JStr ''destroy''), (''vmid'', JInt 101), (''name'', JStr ''ws''), (''node'', JStr ''pve1''),
       (''pool'', JStr ''hs''), (''status'', JStr ''stopped''), (''root_disk'', JStr ''scsi0''),
       (''root_volume'', JStr ''fast:vm-101-disk-0''), (''root_storage'', JStr ''fast''), (''home_disk'', JStr ''scsi1''),
       (''home_volume'', JStr ''fast:vm-101-hs-home-ann''), (''home_storage'', JStr ''fast''),
       (''home_label'', JStr ''HS_HOME_101''), (''destructive_identity'', sample_identity)]"

lemma sample_plan_reads:
  "vmid_of sample_full_plan = Inr 101" "plan_text sample_full_plan ''node'' = Inr ''pve1''"
  "plan_text sample_full_plan ''name'' = Inr ''ws''" "jidx sample_full_plan ''status'' = JStr ''stopped''"
  "reviewed_identity sample_full_plan = Inr sample_identity" "jidx sample_full_plan ''destructive_identity'' = sample_identity"
  by code_simp+

lemma sample_identity_reads:
  "d_text sample_identity ''node'' = Inr ''pve1''" "jidx sample_identity ''storage'' = JObj (bt_insert ''fast'' (snd (hd sample_storage)) [])"
  "jidx sample_identity ''volumes'' = JObj sample_volumes"
  by (code_simp, simp_all add: sample_identity_def review_identity_def jidx_def jget_jobj)

lemma sample_validate: "gives False (validate (machine sample_serve) sample_config ''hs'' sample_full_plan stopped) () False"
proof -
  have c: "plan_consistent sample_full_plan sample_identity = Inr ()" by code_simp
  have "same_identity sample_identity sample_identity True = Inr ()" "same_identity sample_identity sample_identity False = Inr ()"
    by code_simp+
  then have s: "same_identity sample_identity sample_identity stopped = Inr ()" by (cases stopped) simp_all
  show ?thesis unfolding validate_def
    by (rule gives_bind [OF gives_lift [OF sample_plan_reads(1)]],
        rule gives_bind [OF sample_review [folded sample_identity_def]],
        rule gives_bind [OF gives_lift [OF sample_plan_reads(5)]], rule gives_bind [OF gives_lift [OF c]],
        rule gives_lift [OF s])
qed

lemma sample_delete_task:
  "gives False (delete_task (machine sample_serve) p q what wait) () True"
  unfolding delete_task_def run_task_def
  by (rule gives_map_err, rule gives_bind [OF gives_api], simp, rule gives_bind [OF gives_lift [where a = sample_upid]],
      simp add: upid_def, rule gives_bind [OF sample_wait_task], rule gives_unless, simp add: task_ok_def)

lemma sample_confirm: "gives True (confirm_absent (machine sample_serve) sample_full_plan) () True"
proof -
  have r: "storage_content_request ''pve1'' ''fast'' = Get ''/nodes/pve1/storage/fast/content'' [(''content'', ''images'')]"
    and a: "ans True ''/nodes/pve1/storage/fast/content'' = JArr []" by code_simp+
  show ?thesis unfolding confirm_absent_def Let_def sample_plan_reads(6) sample_identity_reads
    by (rule gives_bind [OF gives_lift [OF refl]], rule gives_bind [OF gives_lift], simp, rule gives_bind [OF gives_lift], simp,
        simp only: bt_keys_def list.map prod.sel mapM_E.simps r, rule gives_bind, rule gives_bind, rule gives_bind [OF sample_get],
        rule gives_bind [OF gives_lift [where a = "[]"]], simp add: a d_array_def, simp, rule gives_return,
        simp, rule gives_return, rule gives_return)
qed

lemma sample_destroy:
  "gives False (destroy_workspace (machine sample_serve) sample_config ''hs'' sample_full_plan sample_timing)
     (plan_result sample_full_plan [(''status'', JStr ''absent''), (''vm_deleted'', JBool True), (''home_deleted'', JBool True),
        (''name'', JStr ''ws''), (''event'', JStr ''workspace.destroyed'')]) True"
proof -
  have sh: "gives False (destroy_shutdown (machine sample_serve) sample_full_plan ''pve1'' 101 sample_timing) () False"
    by (simp add: destroy_shutdown_def sample_plan_reads gives_return)
  have del: "gives False (destroy_delete (machine sample_serve) sample_config ''hs'' sample_full_plan ''pve1'' 101 sample_timing) () True"
    unfolding destroy_delete_def
    by (rule gives_bind [OF sample_validate], rule gives_bind [OF sample_delete_task], rule gives_bind [OF sample_vms_gone],
        rule gives_bind [OF gives_unless], simp, rule sample_confirm)
  show ?thesis unfolding destroy_workspace_def
    by (rule gives_bind [OF gives_lift [OF sample_plan_reads(1)]], rule gives_bind [OF gives_lift [OF sample_plan_reads(2)]],
        rule gives_bind [OF gives_lift [OF sample_plan_reads(3)]], rule gives_bind [OF sample_validate],
        rule gives_bind [OF gives_step [OF sh]], rule gives_bind [OF gives_step [OF del]], rule gives_return)
qed


end
