(* ===== verification/Journal.thy ===== *)
theory Journal
  imports Samples Lifecycle
begin

text \<open>
  The transaction journal of a refresh (the first half of \<^verbatim>\<open>hs-core/src/refresh.rs\<close>): its record and
  validation, how it is kept in the VM's \<^verbatim>\<open>description\<close> beside the lease, where its volumes are in a
  configuration, and every way a configuration can disagree with it. The encoding (\<^verbatim>\<open>serde_json\<close> and
  \<^verbatim>\<open>base64\<close>) is a parameter with the law \<open>journal_codec_ok\<close>.
\<close>

section \<open>The record\<close>

datatype phase = Prepared | Imported | Switching | Switched | Verifying | Verified

fun phase_str :: "phase \<Rightarrow> string" where
  "phase_str Prepared = ''prepared''"
| "phase_str Imported = ''imported''"
| "phase_str Switching = ''switching''"
| "phase_str Switched = ''switched''"
| "phase_str Verifying = ''verifying''"
| "phase_str Verified = ''verified''"

text \<open>The derived order of the phases.\<close>

fun phase_rank :: "phase \<Rightarrow> nat" where
  "phase_rank Prepared = 0"
| "phase_rank Imported = 1"
| "phase_rank Switching = 2"
| "phase_rank Switched = 3"
| "phase_rank Verifying = 4"
| "phase_rank Verified = 5"

lemma phase_rank_inject [simp]: "phase_rank p = phase_rank q \<longleftrightarrow> p = q"
  by (cases p; cases q) simp_all

instantiation phase :: linorder
begin

definition less_eq_phase :: "phase \<Rightarrow> phase \<Rightarrow> bool" where
  "less_eq_phase p q \<longleftrightarrow> phase_rank p \<le> phase_rank q"

definition less_phase :: "phase \<Rightarrow> phase \<Rightarrow> bool" where
  "less_phase p q \<longleftrightarrow> phase_rank p < phase_rank q"

instance
  by standard (auto simp: less_eq_phase_def less_phase_def)

end

datatype power_state = PRunning | PStopped

definition parse_power :: "string \<Rightarrow> power_state option" where
  "parse_power status =
     (if status = ''running'' then Some PRunning else if status = ''stopped'' then Some PStopped else None)"

fun power_str :: "power_state \<Rightarrow> string" where
  "power_str PRunning = ''running''"
| "power_str PStopped = ''stopped''"

record journal =
  j_version :: nat
  transaction_id :: string
  j_phase :: phase
  j_vmid :: nat
  j_name :: string
  j_node :: string
  initial_status :: power_state
  old_root_spec :: string
  old_root_volume :: string
  j_root_disk :: string
  staging_slot :: string
  gold_root_disk_config :: string
  new_root_volume :: string
  new_unused_key :: string
  old_unused_key :: string
  j_home_volume :: string
  j_home_label :: string
  j_home_disk :: string
  restore :: "string bmap"
  rolling_back :: bool

definition JOURNAL_VERSION :: nat where "JOURNAL_VERSION = 1"
definition JOURNAL_START :: string where "JOURNAL_START = ''<!-- homestack-journal: ''"
definition JOURNAL_END :: string where "JOURNAL_END = '' -->''"
definition JOURNAL_DESCRIPTION_MAX :: nat where "JOURNAL_DESCRIPTION_MAX = 8192"
definition RESTORED_OPTIONS :: "string list" where
  "RESTORED_OPTIONS = [''boot'', ''ipconfig0'', ''nameserver'', ''ciuser'', ''ciupgrade'', ''cicustom'']"
definition PENDING_UNUSED :: string where "PENDING_UNUSED = ''unused-pending-''"
definition journal_label :: string where "journal_label = ''refresh journal''"

record journal_codec =
  jenc :: "journal \<Rightarrow> string"
  jbytes :: "string \<Rightarrow> string option"
  jparse :: "string \<Rightarrow> journal option"

definition journal_codec_ok :: "journal_codec \<Rightarrow> bool" where
  "journal_codec_ok C \<longleftrightarrow>
     (\<forall>j. list_all is_b64 (jenc C j) \<and> Option.bind (jbytes C (jenc C j)) (jparse C) = Some j)"

text \<open>\<^verbatim>\<open>serde_json::to_value(&journal)\<close>.\<close>

definition journal_value :: "journal \<Rightarrow> json" where
  "journal_value j =
     jobj [(''version'', jnat (j_version j)), (''transaction_id'', JStr (transaction_id j)),
       (''phase'', JStr (phase_str (j_phase j))), (''vmid'', jnat (j_vmid j)), (''name'', JStr (j_name j)),
       (''node'', JStr (j_node j)), (''initial_status'', JStr (power_str (initial_status j))),
       (''old_root_spec'', JStr (old_root_spec j)), (''old_root_volume'', JStr (old_root_volume j)),
       (''root_disk'', JStr (j_root_disk j)), (''staging_slot'', JStr (staging_slot j)),
       (''gold_root_disk_config'', JStr (gold_root_disk_config j)), (''new_root_volume'', JStr (new_root_volume j)),
       (''new_unused_key'', JStr (new_unused_key j)), (''old_unused_key'', JStr (old_unused_key j)),
       (''home_volume'', JStr (j_home_volume j)), (''home_label'', JStr (j_home_label j)),
       (''home_disk'', JStr (j_home_disk j)), (''restore'', jtexts (restore j)), (''rolling_back'', JBool (rolling_back j))]"

section \<open>Keys of a configuration\<close>

definition is_unused_key :: "string \<Rightarrow> bool" where
  "is_unused_key key = is_numbered key ''unused''"

definition is_scsi_key :: "string \<Rightarrow> bool" where
  "is_scsi_key key = is_numbered key ''scsi''"

definition has_storage :: "string \<Rightarrow> bool" where
  "has_storage volume = contains volume '':''"

definition is_pending_slot :: "string \<Rightarrow> bool" where
  "is_pending_slot key \<longleftrightarrow>
     (\<exists>p \<in> set [''scsi'', ''virtio'', ''sata'', ''ide'', ''efidisk'', ''tpmstate'']. is_numbered key p)"

text \<open>The configuration once Proxmox applies its pending changes.\<close>

definition apply_pending :: "vm_cfg \<Rightarrow> json \<Rightarrow> vm_cfg" where
  "apply_pending c entry =
     (let del = (case get_u64 entry ''delete'' of None \<Rightarrow> 0 | Some n \<Rightarrow> n)
      in if del = 0 then c
         else case get_str entry ''key'' of
                None \<Rightarrow> c
              | Some key \<Rightarrow>
                  (let c' = bt_remove key c; value = (case get_str entry ''value'' of None \<Rightarrow> [] | Some v \<Rightarrow> v)
                   in if del = 1 \<and> is_pending_slot key \<and> has_storage (disk_volume value)
                      then bt_insert (PENDING_UNUSED @ key) value c' else c'))"

definition with_pending :: "vm_cfg \<Rightarrow> json \<Rightarrow> vm_cfg" where
  "with_pending c pending = foldl apply_pending c (case as_array pending of None \<Rightarrow> [] | Some xs \<Rightarrow> xs)"

definition pending_request :: "string \<Rightarrow> nat \<Rightarrow> request" where
  "pending_request node vmid = Get (qemu_path node vmid ''/pending'') []"

definition effective_config :: "'w ext \<Rightarrow> string \<Rightarrow> nat \<Rightarrow> ('w, vm_cfg) op" where
  "effective_config S node vmid =
     bindE (vm_config S node vmid) (\<lambda>c.
     bindE (api S (pending_request node vmid)) (\<lambda>pending.
     returnE (with_pending c pending)))"

definition has_pending :: "vm_cfg \<Rightarrow> bool" where
  "has_pending c \<longleftrightarrow> (\<exists>k \<in> set (bt_keys c). starts_with k PENDING_UNUSED)"

section \<open>Validation\<close>

definition invalid_journal :: "string \<Rightarrow> core_error" where
  "invalid_journal what = Unusable (''Refresh journal has an invalid '' @ what)"

definition txid_ok :: "string \<Rightarrow> bool" where
  "txid_ok t \<longleftrightarrow> length t = 32 \<and> list_all (\<lambda>c. is_digit c \<or> CHR ''a'' \<le> c \<and> c \<le> CHR ''f'') t"

definition node_ok :: "string \<Rightarrow> bool" where
  "node_ok n \<longleftrightarrow> n \<noteq> [] \<and> is_alnum (hd n) \<and> list_all (\<lambda>c. is_alnum c \<or> c = CHR ''.'' \<or> c = CHR ''-'') n"

definition validate_journal :: "config \<Rightarrow> journal \<Rightarrow> core_error + unit" where
  "validate_journal cfg j =
     bindR (require (j_version j = JOURNAL_VERSION) (Unusable ''Refresh journal has an unsupported version'')) (\<lambda>_.
     bindR (require (txid_ok (transaction_id j)) (invalid_journal ''transaction identity'')) (\<lambda>_.
     bindR (require (node_ok (j_node j)) (invalid_journal ''node'')) (\<lambda>_.
     bindR (require (j_root_disk j = root_disk cfg \<and> j_home_disk j = home_disk cfg)
       (Unusable ''Current disk-slot configuration does not match the refresh journal'')) (\<lambda>_.
     bindR (require (root_disk cfg \<noteq> home_disk cfg) (Unusable ''Root and persistent-home disk slots must be different'')) (\<lambda>_.
     bindR (require (is_scsi_key (staging_slot j) \<and> staging_slot j \<notin> {root_disk cfg, home_disk cfg})
       (invalid_journal ''staging disk slot'')) (\<lambda>_.
     bindR (require (has_storage (old_root_volume j) \<and> disk_volume (old_root_spec j) = old_root_volume j)
       (invalid_journal ''original root identity'')) (\<lambda>_.
     bindR (require (has_storage (j_home_volume j) \<and> j_home_volume j \<noteq> old_root_volume j)
       (invalid_journal ''persistent-home identity'')) (\<lambda>_.
     bindR (home_label (j_vmid j)) (\<lambda>label.
     bindR (require (j_home_label j = label) (invalid_journal ''persistent-home label'')) (\<lambda>_.
     bindR (require (new_root_volume j \<noteq> [] \<longrightarrow> has_storage (new_root_volume j) \<and> new_root_volume j \<noteq> old_root_volume j \<and>
         new_root_volume j \<noteq> j_home_volume j) (invalid_journal ''staged root identity'')) (\<lambda>_.
     bindR (require (j_phase j \<noteq> Prepared \<longrightarrow> new_root_volume j \<noteq> [])
       (Unusable ''Refresh journal is missing the staged root identity'')) (\<lambda>_.
     bindR (for_each (\<lambda>key. require (key = [] \<or> is_unused_key key) (invalid_journal ''staging slot''))
       [new_unused_key j, old_unused_key j]) (\<lambda>_.
     require (list_all (\<lambda>k. k \<in> set RESTORED_OPTIONS) (bt_keys (restore j)))
       (invalid_journal ''set of restored options''))))))))))))))"

section \<open>The journal in the description\<close>

definition journal_of :: "string \<Rightarrow> nat \<Rightarrow> string" where
  "journal_of what vmid = ''The refresh journal of VM '' @ dec vmid @ what"

definition decode_journal :: "journal_codec \<Rightarrow> config \<Rightarrow> nat \<Rightarrow> string \<Rightarrow> core_error + journal" where
  "decode_journal C cfg vmid payload =
     bindR (ok_or (jbytes C (trim payload)) (Unusable (journal_of '' is not valid base64'' vmid))) (\<lambda>bytes.
     bindR (ok_or (jparse C bytes) (Unusable (journal_of '' is not a valid journal'' vmid))) (\<lambda>j.
     bindR (require (j_vmid j = vmid) (Unusable (journal_of '' has an invalid VM identity'' vmid))) (\<lambda>_.
     bindR (validate_journal cfg j) (\<lambda>_. Inr j))))"

definition read_journal :: "journal_codec \<Rightarrow> config \<Rightarrow> nat \<Rightarrow> vm_cfg \<Rightarrow> core_error + journal option" where
  "read_journal C cfg vmid c =
     bindR (find_block (cfg_text c ''description'') JOURNAL_START JOURNAL_END journal_label) (\<lambda>found.
       case found of
         None \<Rightarrow> Inr None
       | Some (_, payload) \<Rightarrow> bindR (decode_journal C cfg vmid payload) (\<lambda>j. Inr (Some j)))"

definition journal_description_with :: "journal_codec \<Rightarrow> string \<Rightarrow> journal option \<Rightarrow> core_error + string" where
  "journal_description_with C current j =
     with_block current JOURNAL_START JOURNAL_END journal_label (map_option (jenc C) j)"

definition journal_too_long :: "nat \<Rightarrow> core_error" where
  "journal_too_long vmid =
     Failed (''The refresh journal does not fit in the description of VM '' @ dec vmid @ '' ('' @
       dec JOURNAL_DESCRIPTION_MAX @ '' characters at most)'')"

definition write_journal ::
  "'w ext \<Rightarrow> journal_codec \<Rightarrow> string \<Rightarrow> nat \<Rightarrow> vm_cfg \<Rightarrow> journal option \<Rightarrow> ('w, vm_cfg) op" where
  "write_journal S C node vmid c j =
     bindE (liftE (journal_description_with C (cfg_text c ''description'') j)) (\<lambda>d.
     bindE (unlessE (char_count d \<le> JOURNAL_DESCRIPTION_MAX) (journal_too_long vmid)) (\<lambda>_.
     bindE (set_vm_config S node vmid (description_fields d) (bt_get c ''digest'')) (\<lambda>_.
     vm_config S node vmid)))"

section \<open>Where the journal's volumes are\<close>

datatype place = PRoot | PStaging | PUnused string | POther string | PAbsent

definition slots_of :: "vm_cfg \<Rightarrow> string \<Rightarrow> string list" where
  "slots_of c volume = map fst (filter (\<lambda>(k, v). k \<noteq> ''description'' \<and> disk_volume v = volume) c)"

definition place_of :: "journal \<Rightarrow> vm_cfg \<Rightarrow> string \<Rightarrow> place" where
  "place_of j c volume =
     (case slots_of c volume of
        [] \<Rightarrow> PAbsent
      | [slot] \<Rightarrow>
          if slot = j_root_disk j then PRoot
          else if slot = staging_slot j then PStaging
          else if is_unused_key slot \<or> starts_with slot PENDING_UNUSED then PUnused slot
          else POther slot
      | many \<Rightarrow> POther (join '', '' many))"

fun describe :: "place \<Rightarrow> string" where
  "describe PRoot = ''the root slot''"
| "describe PStaging = ''the staging slot''"
| "describe (PUnused key) = key"
| "describe (POther slots) = ''slot '' @ slots"
| "describe PAbsent = ''not in the VM's config''"

definition slot_volume :: "vm_cfg \<Rightarrow> string \<Rightarrow> string" where
  "slot_volume c slot = (case bt_get c slot of None \<Rightarrow> [] | Some v \<Rightarrow> disk_volume v)"

definition staged_volume :: "journal \<Rightarrow> vm_cfg \<Rightarrow> string option" where
  "staged_volume j c =
     (if new_root_volume j \<noteq> [] then Some (new_root_volume j)
      else case bt_get c (staging_slot j) of
             None \<Rightarrow> None
           | Some v \<Rightarrow>
               (let volume = disk_volume v
                in if volume \<noteq> [] \<and> volume \<noteq> old_root_volume j \<and> volume \<noteq> j_home_volume j then Some volume else None))"

definition home_agrees :: "journal \<Rightarrow> vm_cfg \<Rightarrow> bool" where
  "home_agrees j c \<longleftrightarrow>
     disk_volume (cfg_text c (j_home_disk j)) = j_home_volume j \<and>
     disk_option (cfg_text c (j_home_disk j)) ''serial'' = Some (j_home_label j)"

definition home_mismatch :: "journal \<Rightarrow> vm_cfg \<Rightarrow> string option" where
  "home_mismatch j c =
     (let home = cfg_text c (j_home_disk j)
      in if home_agrees j c then None
         else Some (j_home_disk j @ '' holds '' @ py_repr (Some (disk_volume home)) @ '' with serial '' @
           py_repr (disk_option home ''serial'') @ ''; the journal names '' @ py_repr (Some (j_home_volume j)) @
           '' with serial '' @ py_repr (Some (j_home_label j))))"

fun is_unused :: "place \<Rightarrow> bool" where
  "is_unused (PUnused _) = True"
| "is_unused _ = False"

text \<open>Whether the places of the two roots agree with the journal: the old one, the new one.\<close>

definition switching_ok :: "place \<Rightarrow> place \<Rightarrow> bool \<Rightarrow> bool \<times> bool" where
  "switching_ok old new root_empty =
     (if old = PRoot then (True, new = PStaging \<or> is_unused new)
      else if new = PRoot then (is_unused old, True)
      else (is_unused old \<and> root_empty, is_unused new))"

definition places_ok :: "journal \<Rightarrow> place \<Rightarrow> place \<Rightarrow> bool \<Rightarrow> bool \<times> bool" where
  "places_ok j old new root_empty =
     (if rolling_back j then
        (old = PRoot \<or> is_unused old, new \<in> {PRoot, PStaging, PAbsent} \<or> is_unused new)
      else case j_phase j of
             Prepared \<Rightarrow> (old = PRoot, new \<in> {PAbsent, PStaging})
           | Imported \<Rightarrow> (old = PRoot, new = PStaging)
           | Switching \<Rightarrow> switching_ok old new root_empty
           | Switched \<Rightarrow> (is_unused old, new = PRoot)
           | Verifying \<Rightarrow> (is_unused old, new = PRoot)
           | Verified \<Rightarrow> (is_unused old \<or> old = PAbsent, new = PRoot))"

definition wrong_place :: "string \<Rightarrow> string \<Rightarrow> place \<Rightarrow> journal \<Rightarrow> string" where
  "wrong_place which volume p j =
     ''the '' @ which @ '' root '' @ py_repr (Some volume) @ '' is '' @ describe p @ '', which does not agree with '' @
     (if rolling_back j then ''a rollback'' else ''phase '' @ phase_str (j_phase j))"

definition journal_mismatches :: "journal \<Rightarrow> string \<Rightarrow> vm_cfg \<Rightarrow> string list" where
  "journal_mismatches j node c =
     (let old = place_of j c (old_root_volume j); staged = staged_volume j c;
          new = (case staged of None \<Rightarrow> PAbsent | Some v \<Rightarrow> place_of j c v);
          root = slot_volume c (j_root_disk j); (old_ok, new_ok) = places_ok j old new (root = [])
      in
      (if node \<noteq> j_node j
       then [''the VM is on '' @ py_repr (Some node) @ '', the journal on '' @ py_repr (Some (j_node j))] else []) @
      (case home_mismatch j c of None \<Rightarrow> [] | Some h \<Rightarrow> [h]) @
      (if old_ok then [] else [wrong_place ''original'' (old_root_volume j) old j]) @
      (if new_ok then []
       else [wrong_place ''new'' (case staged of None \<Rightarrow> ''(not recorded)'' | Some v \<Rightarrow> v) new j]) @
      (if root \<noteq> [] \<and> root \<noteq> old_root_volume j \<and> staged \<noteq> Some root
       then [''the root slot '' @ j_root_disk j @ '' holds '' @ py_repr (Some root) @ '', which the journal does not know'']
       else []) @
      (case bt_get c ''lock'' of None \<Rightarrow> [] | Some l \<Rightarrow> if l = [] then [] else [''the VM is locked ('' @ l @ '')'']))"

definition unused_key_of :: "vm_cfg \<Rightarrow> string \<Rightarrow> string option" where
  "unused_key_of c volume =
     map_option fst (List.find (\<lambda>(k, v). is_unused_key k \<and> disk_volume v = volume) c)"

definition free_staging_slot :: "vm_cfg \<Rightarrow> core_error + string" where
  "free_staging_slot c =
     ok_or (List.find (\<lambda>key. \<not> bt_has c key) (map (\<lambda>i. ''scsi'' @ dec i) (rev [1..<31])))
       (Failed ''VM has no free SCSI slot for a staged root'')"

definition root_attachment_spec :: "string \<Rightarrow> string \<Rightarrow> string" where
  "root_attachment_spec volume gold_disk_config =
     join '','' (volume # List.map_filter (\<lambda>key. map_option (\<lambda>v. key @ ''='' @ v) (disk_option gold_disk_config key))
       [''iothread'', ''discard'', ''ssd'', ''cache'', ''aio'', ''backup'', ''replicate'', ''ro''])"

definition home_changed :: "nat \<Rightarrow> core_error" where
  "home_changed vmid =
     Failed (''Persistent home identity changed during refresh of VM '' @ dec vmid @ ''; refusing further disk changes'')"

definition require_home :: "journal \<Rightarrow> vm_cfg \<Rightarrow> core_error + unit" where
  "require_home j c = require (home_mismatch j c = None) (home_changed (j_vmid j))"

definition root_of :: "config \<Rightarrow> vm_cfg \<Rightarrow> string" where
  "root_of cfg c = slot_volume c (root_disk cfg)"

section \<open>The journal and the lease in one description\<close>

interpretation journal_marker: block_marker JOURNAL_START JOURNAL_END
  by unfold_locales (auto simp: JOURNAL_START_def JOURNAL_END_def block_prefix_def)

interpretation lease_then_journal: two_markers LEASE_START LEASE_END JOURNAL_START JOURNAL_END
  by unfold_locales (simp add: starts_with_def LEASE_START_def JOURNAL_START_def)

interpretation journal_then_lease: two_markers JOURNAL_START JOURNAL_END LEASE_START LEASE_END
  by unfold_locales (simp add: starts_with_def LEASE_START_def JOURNAL_START_def)

lemma read_journal_payload:
  "read_journal C cfg vmid c =
     bindR (block_payload (cfg_text c ''description'') JOURNAL_START JOURNAL_END journal_label) (\<lambda>p.
       case p of None \<Rightarrow> Inr None | Some payload \<Rightarrow> bindR (decode_journal C cfg vmid payload) (\<lambda>j. Inr (Some j)))"
  by (auto simp: read_journal_def block_payload_def split: sum.splits option.splits)

lemma read_lease_payload:
  "read_lease L c =
     bindR (block_payload (cfg_text c ''description'') LEASE_START LEASE_END lease_label) (\<lambda>p.
       case p of
         None \<Rightarrow> Inr None
       | Some payload \<Rightarrow> (case decd L (trim payload) of None \<Rightarrow> Inl lease_not_valid | Some l \<Rightarrow> Inr (Some l)))"
  by (auto simp: read_lease_def block_payload_def split: sum.splits option.splits)

lemma decode_encoded:
  assumes "journal_codec_ok C" and "validate_journal cfg j = Inr ()"
  shows "decode_journal C cfg (j_vmid j) (jenc C j) = Inr j"
  using assms trim_b64 [of "jenc C j"] by (auto simp: decode_journal_def journal_codec_ok_def Option.bind_eq_Some_conv)

text \<open>
  C29. The journal survives its storage: a valid journal written into any readable description of its VM
  is read back unchanged, and removing it from a description that had none before restores the text.
\<close>

theorem journal_roundtrip:
  assumes C: "journal_codec_ok C" and v: "validate_journal cfg j = Inr ()"
    and w: "journal_description_with C cur (Some j) = Inr d" and c: "cfg_text c ''description'' = d"
  shows "read_journal C cfg (j_vmid j) c = Inr (Some j) \<and>
    (find_block cur JOURNAL_START JOURNAL_END journal_label = Inr None \<longrightarrow> journal_description_with C d None = Inr cur)"
proof -
  have b: "list_all is_b64 (jenc C j)" using C by (simp add: journal_codec_ok_def)
  have w': "with_block cur JOURNAL_START JOURNAL_END journal_label (Some (jenc C j)) = Inr d"
    using w by (simp add: journal_description_with_def)
  obtain r where "find_block d JOURNAL_START JOURNAL_END journal_label = Inr (Some (r, jenc C j))"
    using journal_marker.with_block_Some_find [OF w' b] by blast
  then have "read_journal C cfg (j_vmid j) c = Inr (Some j)"
    using c decode_encoded [OF C v] by (simp add: read_journal_def)
  then show ?thesis
    using journal_marker.with_block_add_remove [OF _ b w'] by (simp add: journal_description_with_def)
qed

text \<open>
  C30. The two blocks do not disturb each other: writing a lease leaves every journal (valid, damaged or
  absent) as readable as it was, and writing a journal does the same to the lease.
\<close>

theorem blocks_independent:
  assumes "codec_ok L" and "journal_codec_ok C"
  shows "(description_with L (cfg_text c ''description'') (Some l) = Inr (cfg_text c' ''description'') \<longrightarrow>
      read_journal C cfg vmid c' = read_journal C cfg vmid c) \<and>
    (journal_description_with C (cfg_text c ''description'') (Some j) = Inr (cfg_text c' ''description'') \<longrightarrow>
      read_lease L c' = read_lease L c)"
proof -
  have "list_all is_b64 (enc L l)" "list_all is_b64 (jenc C j)"
    using assms by (auto simp: codec_ok_def journal_codec_ok_def)
  then show ?thesis
    using lease_then_journal.write_keeps_other [of "cfg_text c ''description''" lease_label "enc L l" "cfg_text c' ''description''" journal_label]
      journal_then_lease.write_keeps_other [of "cfg_text c ''description''" journal_label "jenc C j" "cfg_text c' ''description''" lease_label]
    by (auto simp: description_with_def journal_description_with_def read_journal_payload read_lease_payload)
qed

section \<open>What validity and agreement give\<close>

lemma validate_journal_Inr:
  assumes "validate_journal cfg j = Inr u"
  shows "j_root_disk j = root_disk cfg \<and> j_home_disk j = home_disk cfg \<and> root_disk cfg \<noteq> home_disk cfg \<and>
    is_scsi_key (staging_slot j) \<and> staging_slot j \<noteq> root_disk cfg \<and> staging_slot j \<noteq> home_disk cfg \<and>
    has_storage (old_root_volume j) \<and> has_storage (j_home_volume j) \<and> j_home_volume j \<noteq> old_root_volume j \<and>
    (new_root_volume j \<noteq> [] \<longrightarrow> has_storage (new_root_volume j) \<and> new_root_volume j \<noteq> old_root_volume j \<and>
       new_root_volume j \<noteq> j_home_volume j) \<and> (j_phase j \<noteq> Prepared \<longrightarrow> new_root_volume j \<noteq> []) \<and>
    home_label (j_vmid j) = Inr (j_home_label j)"
  using assms unfolding validate_journal_def bindR_eq_Inr by auto

lemma read_journal_Inr:
  assumes "read_journal C cfg vmid c = Inr (Some j)"
  shows "j_vmid j = vmid \<and> validate_journal cfg j = Inr ()"
  using assms by (auto simp: read_journal_def decode_journal_def split: option.splits)

lemma not_has_storage_Nil [simp]: "\<not> has_storage []"
  by (simp add: has_storage_def contains_def)

lemma slots_of_mem: "k \<in> set (slots_of c v) \<longleftrightarrow> (\<exists>x. (k, x) \<in> set c \<and> k \<noteq> ''description'' \<and> disk_volume x = v)"
  by (force simp: slots_of_def)

lemma place_of_slot:
  assumes "place_of j c v = p" and "bt_wf c"
  shows "(p = PRoot \<longrightarrow> slot_volume c (j_root_disk j) = v) \<and> (p = PStaging \<longrightarrow> slot_volume c (staging_slot j) = v) \<and>
    (\<forall>k. p = PUnused k \<longrightarrow> slot_volume c k = v \<and> (is_unused_key k \<or> starts_with k PENDING_UNUSED))"
proof -
  have "slot_volume c k = v" if "slots_of c v = [k]" for k
  proof -
    have "k \<in> set (slots_of c v)" using that by simp
    then obtain x where "(k, x) \<in> set c" "disk_volume x = v" by (auto simp: slots_of_mem)
    then show ?thesis using bt_get_eq_iff [OF assms(2), of k x] by (simp add: slot_volume_def)
  qed
  then show ?thesis using assms(1) by (auto simp: place_of_def split: list.splits if_splits)
qed

lemma journal_mismatches_Nil:
  "journal_mismatches j node c = [] \<longleftrightarrow>
     node = j_node j \<and> home_agrees j c \<and> bt_get c ''lock'' \<in> {None, Some []} \<and>
     places_ok j (place_of j c (old_root_volume j))
       (case staged_volume j c of None \<Rightarrow> PAbsent | Some v \<Rightarrow> place_of j c v) (slot_volume c (j_root_disk j) = []) = (True, True) \<and>
     (slot_volume c (j_root_disk j) = [] \<or> slot_volume c (j_root_disk j) = old_root_volume j \<or>
       staged_volume j c = Some (slot_volume c (j_root_disk j)))"
  by (auto simp: journal_mismatches_def Let_def home_mismatch_def split: prod.splits option.splits if_splits)

lemma is_unused_cases: "is_unused p \<longleftrightarrow> (\<exists>k. p = PUnused k)"
  by (cases p) auto

text \<open>
  C28. A journal that agrees with the VM can be followed: the home slot holds the journal's home with its
  serial and the VM is on the journal's node and not locked; unless the refresh was already verified,
  the original root is attached as the root or kept under an unused key, so it can be restored; once it
  was verified and is not being rolled back, the new root is attached; and the root slot never holds a
  volume unknown to the journal.
\<close>

theorem agreement_recoverable:
  assumes v: "validate_journal cfg j = Inr ()" and m: "journal_mismatches j node c = []" and wf: "bt_wf c"
  shows "node = j_node j \<and> disk_volume (cfg_text c (home_disk cfg)) = j_home_volume j \<and>
    disk_option (cfg_text c (home_disk cfg)) ''serial'' = Some (j_home_label j) \<and> bt_get c ''lock'' \<in> {None, Some []} \<and>
    (rolling_back j \<or> j_phase j \<noteq> Verified \<longrightarrow>
       root_of cfg c = old_root_volume j \<or>
       (\<exists>k. slot_volume c k = old_root_volume j \<and> (is_unused_key k \<or> starts_with k PENDING_UNUSED))) \<and>
    (\<not> rolling_back j \<and> j_phase j = Verified \<longrightarrow> root_of cfg c = new_root_volume j) \<and>
    (root_of cfg c = [] \<or> root_of cfg c = old_root_volume j \<or> staged_volume j c = Some (root_of cfg c))"
proof -
  note V = validate_journal_Inr [OF v]
  let ?old = "place_of j c (old_root_volume j)"
  let ?new = "case staged_volume j c of None \<Rightarrow> PAbsent | Some v \<Rightarrow> place_of j c v"
  from m have M: "node = j_node j" "home_agrees j c" "bt_get c ''lock'' \<in> {None, Some []}"
    and ok: "places_ok j ?old ?new (slot_volume c (j_root_disk j) = []) = (True, True)"
    and known: "slot_volume c (j_root_disk j) = [] \<or> slot_volume c (j_root_disk j) = old_root_volume j \<or>
       staged_volume j c = Some (slot_volume c (j_root_disk j))"
    unfolding journal_mismatches_Nil by auto
  have old: "?old = PRoot \<or> is_unused ?old" if "rolling_back j \<or> j_phase j \<noteq> Verified"
    using ok that by (auto simp: places_ok_def switching_ok_def split: if_splits phase.splits)
  have new: "?new = PRoot" if "\<not> rolling_back j" "j_phase j = Verified"
    using ok that by (auto simp: places_ok_def)
  have "staged_volume j c = Some (new_root_volume j)" if "j_phase j = Verified"
    using V that by (auto simp: staged_volume_def)
  then have "root_of cfg c = new_root_volume j" if "\<not> rolling_back j" "j_phase j = Verified"
    using new [OF that] place_of_slot [OF refl wf, of j "new_root_volume j"] that V by (simp add: root_of_def)
  moreover have "root_of cfg c = old_root_volume j \<or>
      (\<exists>k. slot_volume c k = old_root_volume j \<and> (is_unused_key k \<or> starts_with k PENDING_UNUSED))"
    if "rolling_back j \<or> j_phase j \<noteq> Verified"
    using old [OF that] place_of_slot [OF refl wf, of j "old_root_volume j"] V by (auto simp: root_of_def is_unused_cases)
  ultimately show ?thesis using M known V by (simp add: home_agrees_def root_of_def)
qed

section \<open>A sample journal\<close>

text \<open>A concrete encoding with the law \<open>journal_codec_ok\<close>: the fields in hexadecimal letters.\<close>

definition journal_fields :: "journal \<Rightarrow> string list" where
  "journal_fields j =
     [dec (j_version j), transaction_id j, phase_str (j_phase j), dec (j_vmid j), j_name j, j_node j,
      power_str (initial_status j), old_root_spec j, old_root_volume j, j_root_disk j, staging_slot j,
      gold_root_disk_config j, new_root_volume j, new_unused_key j, old_unused_key j, j_home_volume j, j_home_label j,
      j_home_disk j, (if rolling_back j then ''y'' else ''n'')] @ concat (map (\<lambda>(k, v). [k, v]) (restore j))"

fun pairs :: "'a list \<Rightarrow> ('a \<times> 'a) list" where
  "pairs (a # b # xs) = (a, b) # pairs xs"
| "pairs _ = []"

definition phase_of :: "string \<Rightarrow> phase" where
  "phase_of s =
     the (List.find (\<lambda>p. phase_str p = s) [Prepared, Imported, Switching, Switched, Verifying, Verified])"

definition journal_from :: "string list \<Rightarrow> journal" where
  "journal_from xs =
     \<lparr>j_version = digits_val (xs ! 0), transaction_id = xs ! 1, j_phase = phase_of (xs ! 2), j_vmid = digits_val (xs ! 3),
      j_name = xs ! 4, j_node = xs ! 5, initial_status = the (parse_power (xs ! 6)), old_root_spec = xs ! 7,
      old_root_volume = xs ! 8, j_root_disk = xs ! 9, staging_slot = xs ! 10, gold_root_disk_config = xs ! 11,
      new_root_volume = xs ! 12, new_unused_key = xs ! 13, old_unused_key = xs ! 14, j_home_volume = xs ! 15,
      j_home_label = xs ! 16, j_home_disk = xs ! 17, restore = pairs (drop 19 xs), rolling_back = (xs ! 18 = ''y'')\<rparr>"

definition sample_journal_codec :: journal_codec where
  "sample_journal_codec =
     \<lparr>jenc = (\<lambda>j. join ''+'' (map letters (journal_fields j))), jbytes = Some,
      jparse = (\<lambda>s. Some (journal_from (map unletters (split_on (CHR ''+'') s))))\<rparr>"

lemma journal_from_fields: "journal_from (journal_fields j) = j"
proof -
  have "pairs (concat (map (\<lambda>(k, v). [k, v]) m)) = m" for m :: "(string \<times> string) list"
    by (induction m) auto
  moreover have "phase_of (phase_str p) = p" for p by (cases p) (simp_all add: phase_of_def)
  moreover have "the (parse_power (power_str q)) = q" for q by (cases q) (simp_all add: parse_power_def)
  ultimately show ?thesis by (cases j) (simp add: journal_from_def journal_fields_def)
qed

lemma join_all: "list_all P sep \<Longrightarrow> (\<forall>k \<in> set ks. list_all P k) \<Longrightarrow> list_all P (join sep ks)"
  by (induction sep ks rule: join.induct) auto

lemma sample_journal_codec_ok: "journal_codec_ok sample_journal_codec"
proof -
  have "split_on (CHR ''+'') (join ''+'' (map letters (journal_fields j))) = map letters (journal_fields j)" for j
    by (rule split_on_joined) (auto simp: plus_notin journal_fields_def)
  moreover have "list_all is_b64 (letters s)" for s
    using letters_lower [of s] by (auto simp: list_all_iff is_b64_def is_alnum_def is_alpha_def)
  then have "list_all is_b64 (join ''+'' (map letters (journal_fields j)))" for j
    by (intro join_all) (auto simp: is_b64_def)
  ultimately show ?thesis
    by (simp add: journal_codec_ok_def sample_journal_codec_def comp_def journal_from_fields)
qed

definition sample_journal :: journal where
  "sample_journal =
     \<lparr>j_version = 1, transaction_id = replicate 32 (CHR ''a''), j_phase = Imported, j_vmid = 101, j_name = ''ws'',
      j_node = ''pve1'', initial_status = PStopped, old_root_spec = ''fast:vm-101-disk-0,size=32G'',
      old_root_volume = ''fast:vm-101-disk-0'', j_root_disk = ''scsi0'', staging_slot = ''scsi30'',
      gold_root_disk_config = ''fast:base-9000-disk-0,size=32G'', new_root_volume = ''fast:vm-101-disk-1'',
      new_unused_key = [], old_unused_key = [], j_home_volume = ''fast:vm-101-hs-home-ann'', j_home_label = ''HS_HOME_101'',
      j_home_disk = ''scsi1'', restore = [(''boot'', ''order=scsi0'')], rolling_back = False\<rparr>"

lemma sample_journal_valid: "validate_journal sample_config sample_journal = Inr ()"
  by code_simp

definition sample_staged_cfg :: vm_cfg where
  "sample_staged_cfg = bt_insert ''scsi30'' ''fast:vm-101-disk-1,size=32G'' sample_cfg"

theorem journal_roundtrip_witness:
  "\<exists>d. read_journal sample_journal_codec sample_config 101 [(''description'', d)] = Inr (Some sample_journal) \<and>
     journal_description_with sample_journal_codec d None = Inr ''my notes''"
proof -
  have f: "find_block ''my notes'' JOURNAL_START JOURNAL_END journal_label = Inr None" by code_simp
  then obtain d where d: "journal_description_with sample_journal_codec ''my notes'' (Some sample_journal) = Inr d"
    by (simp add: journal_description_with_def with_block_def)
  have "j_vmid sample_journal = 101" by (simp add: sample_journal_def)
  with journal_roundtrip [OF sample_journal_codec_ok sample_journal_valid d, of "[(''description'', d)]"] f
  show ?thesis by (auto simp: cfg_text_def)
qed

theorem blocks_independent_witness:
  "\<exists>d. read_lease sample_codec [(''description'', d)] = read_lease sample_codec [(''description'', ''my notes'')]"
proof -
  have f: "find_block ''my notes'' JOURNAL_START JOURNAL_END journal_label = Inr None" by code_simp
  then obtain d where d: "journal_description_with sample_journal_codec ''my notes'' (Some sample_journal) = Inr d"
    by (simp add: journal_description_with_def with_block_def)
  from blocks_independent [OF sample_codec_ok sample_journal_codec_ok, of "[(''description'', ''my notes'')]" _
      "[(''description'', d)]" _ _ sample_journal] d
  show ?thesis by (auto simp: cfg_text_def)
qed

theorem agreement_recoverable_witness:
  "root_of sample_config sample_staged_cfg = old_root_volume sample_journal \<or>
   (\<exists>k. slot_volume sample_staged_cfg k = old_root_volume sample_journal \<and> (is_unused_key k \<or> starts_with k PENDING_UNUSED))"
proof -
  have "journal_mismatches sample_journal ''pve1'' sample_staged_cfg = []" "bt_wf sample_staged_cfg" by code_simp+
  from agreement_recoverable [OF sample_journal_valid this] show ?thesis by (simp add: sample_journal_def)
qed

end
