(* ===== verification/Keys.thy ===== *)
theory Keys
  imports Gold_Config Guest
begin

text \<open>
  The public keys of a workspace (\<^verbatim>\<open>hs-core/src/keys.rs\<close>): unquoting Gold's \<^verbatim>\<open>sshkeys\<close>, validating and
  parsing \<^verbatim>\<open>authorized_keys\<close> text, and the search for a usable source.
\<close>

section \<open>Lines\<close>

definition NL :: char where "NL = CHR 0x0A"

definition strip_cr :: "string \<Rightarrow> string" where
  "strip_cr l = (if l \<noteq> [] \<and> last l = CHR 0x0D then butlast l else l)"

text \<open>\<^verbatim>\<open>str::lines\<close>: a final newline ends the last line, and a line ending may be CR LF.\<close>

definition lines_of :: "string \<Rightarrow> string list" where
  "lines_of s =
     (let ps = split_on NL s; ls = map strip_cr (butlast ps)
      in if last ps = [] then ls else ls @ [last ps])"

text \<open>The first \<open>n\<close> characters of UTF-8 text.\<close>

fun take_chars :: "nat \<Rightarrow> string \<Rightarrow> string" where
  "take_chars n [] = []"
| "take_chars n (c # cs) =
     (if utf8_cont c then c # take_chars n cs
      else case n of 0 \<Rightarrow> [] | Suc k \<Rightarrow> c # take_chars k cs)"

section \<open>Keys\<close>

definition hex_val :: "char \<Rightarrow> nat" where
  "hex_val c = (if is_digit c then of_char c - 48 else of_char (lower_char c) - 87)"

fun unquote_bytes :: "string \<Rightarrow> string" where
  "unquote_bytes [] = []"
| "unquote_bytes (c # cs) =
     (case cs of
        a # b # rest \<Rightarrow>
          if c = CHR ''%'' \<and> is_hex a \<and> is_hex b then char_of (16 * hex_val a + hex_val b) # unquote_bytes rest
          else c # unquote_bytes cs
      | _ \<Rightarrow> c # unquote_bytes cs)"

definition unquote :: "string \<Rightarrow> string" where
  "unquote s = utf8_lossy (unquote_bytes s)"

definition shown :: "string \<Rightarrow> string" where
  "shown line = [APOS] @ take_chars 80 line @ [APOS]"

definition key_prefixes :: "string list" where
  "key_prefixes = [''ssh-'', ''ecdsa-'', ''sk-'']"

definition key_start :: "string \<Rightarrow> bool" where
  "key_start s \<longleftrightarrow> (\<exists>p \<in> set key_prefixes. starts_with s p)"

definition key_comment :: "string \<Rightarrow> bool" where
  "key_comment line \<longleftrightarrow> line = [] \<or> starts_with line ''#''"

definition unexpected_line :: "string \<Rightarrow> core_error" where
  "unexpected_line line = Invalid (''Unexpected line in authorized_keys source: '' @ shown line)"

definition no_keys :: core_error where
  "no_keys = Invalid ''No SSH public keys found for workspace user''"

fun collect_keys :: "string list \<Rightarrow> core_error + string list" where
  "collect_keys [] = Inr []"
| "collect_keys (line # ls) =
     (if key_comment line then collect_keys ls
      else if \<not> key_start line then Inl (unexpected_line line)
      else bindR (collect_keys ls) (\<lambda>ks. Inr (line # ks)))"

definition validate_authorized_keys :: "string \<Rightarrow> core_error + string" where
  "validate_authorized_keys text =
     bindR (collect_keys (map trim (lines_of text))) (\<lambda>keys.
       if keys = [] then Inl no_keys else Inr (join [NL] keys @ [NL]))"

record key_record =
  key_type :: string
  key_blob :: string
  key_comment_text :: string
  key_label :: string
  key_identity :: string

definition split_field :: "string \<Rightarrow> string \<times> string" where
  "split_field text =
     (let t = trim_start text in (takeWhile (\<lambda>c. \<not> is_ws c) t, dropWhile (\<lambda>c. \<not> is_ws c) t))"

definition key_record_of :: "string \<Rightarrow> core_error + key_record" where
  "key_record_of line =
     (let (kt, rest) = split_field line; (blob, rest') = split_field rest; comment = trim rest'
      in if blob = [] then Inl (Invalid (''Invalid authorized_keys line: '' @ shown line))
         else Inr \<lparr>key_type = kt, key_blob = blob, key_comment_text = comment,
                key_label = (if comment = [] then kt @ '' '' @ take_chars 12 blob else comment),
                key_identity = kt @ '' '' @ blob\<rparr>)"

fun map_res :: "('a \<Rightarrow> 'e + 'b) \<Rightarrow> 'a list \<Rightarrow> 'e + 'b list" where
  "map_res f [] = Inr []"
| "map_res f (x # xs) = bindR (f x) (\<lambda>y. bindR (map_res f xs) (\<lambda>ys. Inr (y # ys)))"

definition parse_authorized_key_records :: "string \<Rightarrow> core_error + key_record list" where
  "parse_authorized_key_records text =
     bindR (validate_authorized_keys text) (\<lambda>keys. map_res key_record_of (lines_of keys))"

definition split_whitespace :: "string \<Rightarrow> string list" where
  "split_whitespace s =
     filter (\<lambda>w. w \<noteq> []) (split_on (CHR '' '') (map (\<lambda>c. if is_ws c then CHR '' '' else c) s))"

definition line_identity :: "string \<Rightarrow> string option" where
  "line_identity line =
     (case dropWhile (\<lambda>f. \<not> key_start f) (split_whitespace line) of
        a # b # _ \<Rightarrow> Some (a @ '' '' @ b)
      | _ \<Rightarrow> None)"

definition installed_key_identities :: "string \<Rightarrow> string set" where
  "installed_key_identities text =
     set (List.map_filter line_identity (filter (\<lambda>l. \<not> key_comment l) (map trim (lines_of text))))"

section \<open>Where the keys come from\<close>

record workspace_keys =
  wk_keys :: string
  wk_source :: string

definition gold_msg :: "nat \<Rightarrow> string \<Rightarrow> string" where
  "gold_msg gold m = ''Gold VM '' @ dec gold @ m"

fun keys_from_files :: "'w ext \<Rightarrow> string \<Rightarrow> nat \<Rightarrow> string list \<Rightarrow> ('w, workspace_keys option) op" where
  "keys_from_files S node gold [] = returnE None"
| "keys_from_files S node gold (file # files) =
     bindE (read_text S node gold file) (\<lambda>t.
       case t of
         None \<Rightarrow> keys_from_files S node gold files
       | Some text \<Rightarrow>
           if text = [] then keys_from_files S node gold files
           else (case validate_authorized_keys text of
                   Inr keys \<Rightarrow> returnE (Some \<lparr>wk_keys = keys, wk_source = gold_msg gold ('':'' @ file)\<rparr>)
                 | Inl _ \<Rightarrow> keys_from_files S node gold files))"

definition configured_keys :: "vm_cfg \<Rightarrow> string option" where
  "configured_keys c =
     (case bt_get c ''sshkeys'' of
        None \<Rightarrow> None
      | Some raw \<Rightarrow>
          if raw = [] then None
          else (case validate_authorized_keys (unquote raw) of Inl _ \<Rightarrow> None | Inr ks \<Rightarrow> Some ks))"

definition workspace_authorized_keys :: "'w ext \<Rightarrow> config \<Rightarrow> ('w, workspace_keys) op" where
  "workspace_authorized_keys S cfg =
     bindE (liftE (configured_gold cfg)) (\<lambda>gold.
     bindE (cluster_vm_resources S) (\<lambda>rs.
     bindE (liftE (ok_or (find_vm gold rs) (Failed (gold_msg gold '' does not exist'')))) (\<lambda>r.
     let node = trim (r_node r); user = user_name (cfg_user cfg);
         home_keys = ''/home/'' @ user @ ''/.ssh/authorized_keys''
     in
     bindE (unlessE (node \<noteq> []) (Failed (gold_msg gold '' has no node in cluster inventory''))) (\<lambda>_.
     bindE (vm_config S node gold) (\<lambda>gold_cfg.
       case configured_keys gold_cfg of
         Some ks \<Rightarrow> returnE \<lparr>wk_keys = ks, wk_source = gold_msg gold '':qm sshkeys''\<rparr>
       | None \<Rightarrow>
           bindE (vm_status S node gold) (\<lambda>status.
           bindE (unlessE (status = ''running'') (Failed (gold_msg gold
             '' is stopped and its Proxmox sshkeys setting does not contain usable public keys.''))) (\<lambda>_.
           bindE (tryE (qga_ping S node gold)) (\<lambda>ping.
           bindE (unlessE (is_ok ping) (Failed (gold_msg gold '' QEMU Guest Agent is not available''))) (\<lambda>_.
           bindE (keys_from_files S node gold [home_keys, ''/root/.ssh/authorized_keys'']) (\<lambda>found.
           liftE (ok_or found (Failed (gold_msg gold
             ('' has no usable public keys in its Proxmox sshkeys setting, '' @ home_keys @
              '', or /root/.ssh/authorized_keys''))))))))))))))"

section \<open>Lemmas\<close>

lemma collect_keys_Inr:
  "collect_keys ls = Inr ks \<longleftrightarrow> ks = filter (\<lambda>l. \<not> key_comment l) ls \<and> (\<forall>k \<in> set ks. key_start k)"
  by (induction ls arbitrary: ks) auto

lemma key_start_not_comment: "key_start k \<Longrightarrow> \<not> key_comment k"
  by (cases k) (auto simp: key_start_def key_prefixes_def key_comment_def starts_with_def)

lemma set_trim: "set (trim s) \<subseteq> set s"
  unfolding trim_def trim_start_def trim_end_def by (metis set_dropWhileD set_rev subsetI)

lemma trim_end_last: "trim_end s \<noteq> [] \<Longrightarrow> \<not> is_ws (last (trim_end s))"
  unfolding trim_end_def by (metis hd_dropWhile last_rev rev_is_Nil_conv)

lemma trim_end_idem: "trim_end (trim_end s) = trim_end s"
  by (simp add: trim_end_def)

lemma trim_start_trim_end: "trim_start s = s \<Longrightarrow> trim_start (trim_end s) = trim_end s"
proof (induction s rule: rev_induct)
  case (snoc c s)
  show ?case
  proof (cases "is_ws c")
    case True
    have "trim_start s = s"
    proof (cases s)
      case (Cons a t)
      then show ?thesis using snoc.prems by (auto simp: trim_start_def split: if_splits)
          (metis append_Cons length_append_singleton length_dropWhile_le list.size(4) not_less_eq_eq le_refl
            length_Cons)
    qed (simp add: trim_start_def)
    then show ?thesis using snoc.IH True by (simp add: trim_end_def)
  next
    case False
    then show ?thesis using snoc.prems by (simp add: trim_end_def)
  qed
qed (simp add: trim_end_def trim_start_def)

lemma trim_idem: "trim (trim s) = trim s"
proof -
  have "trim_start (trim_start s) = trim_start s" by (simp add: trim_start_def)
  then have "trim_start (trim s) = trim s" by (simp add: trim_def trim_start_trim_end)
  then show ?thesis by (simp add: trim_def trim_end_idem)
qed

lemma strip_cr_trim: "strip_cr (trim s) = trim s"
  using trim_end_last [of "trim_start s"] by (auto simp: strip_cr_def trim_def is_ws_def)

lemma split_on_join:
  "\<forall>k \<in> set ks. c \<notin> set k \<Longrightarrow> ks \<noteq> [] \<Longrightarrow> split_on c (join [c] ks @ [c]) = ks @ [[]]"
proof (induction ks)
  case (Cons k ks)
  then show ?case by (cases ks) (auto simp: split_on_append)
qed simp

lemma lines_of_join:
  assumes "\<forall>k \<in> set ks. NL \<notin> set k \<and> strip_cr k = k" and "ks \<noteq> []"
  shows "lines_of (join [NL] ks @ [NL]) = ks"
  using split_on_join [of ks NL] assms by (simp add: lines_of_def map_idI)

lemma lines_of_no_NL: "l \<in> set (lines_of s) \<Longrightarrow> NL \<notin> set l"
proof -
  assume "l \<in> set (lines_of s)"
  then obtain p where p: "p \<in> set (split_on NL s)" "l = p \<or> l = strip_cr p"
  proof (cases "l = last (split_on NL s)")
    case True
    then show ?thesis using that last_in_set [OF split_on_not_Nil] by blast
  next
    case False
    with \<open>l \<in> set (lines_of s)\<close> that show ?thesis
      by (auto simp: lines_of_def Let_def dest: in_set_butlastD split: if_splits)
  qed
  have "set (strip_cr p) \<subseteq> set p" by (auto simp: strip_cr_def dest: in_set_butlastD)
  with p split_on_pieces [OF p(1)] show ?thesis by auto
qed

text \<open>The validated text of a list of lines.\<close>

lemma validate_keys_Inr:
  "validate_authorized_keys text = Inr out \<longleftrightarrow>
     (\<exists>keys. keys = filter (\<lambda>l. \<not> key_comment l) (map trim (lines_of text)) \<and> (\<forall>k \<in> set keys. key_start k) \<and>
        keys \<noteq> [] \<and> out = join [NL] keys @ [NL])"
  by (auto simp: validate_authorized_keys_def collect_keys_Inr split: if_splits)

lemma validated_lines:
  assumes "keys = filter (\<lambda>l. \<not> key_comment l) (map trim (lines_of text))" and "keys \<noteq> []"
  shows "lines_of (join [NL] keys @ [NL]) = keys \<and> map trim keys = keys"
proof -
  have k: "NL \<notin> set k \<and> strip_cr k = k \<and> trim k = k" if "k \<in> set keys" for k
  proof -
    from that assms obtain l where "l \<in> set (lines_of text)" "k = trim l" by auto
    then show ?thesis using lines_of_no_NL set_trim strip_cr_trim trim_idem by blast
  qed
  then show ?thesis using lines_of_join assms(2) by (simp add: map_idI)
qed

text \<open>
  Authorized keys: text that validates is a list of trimmed key lines, each starting with a key
  type, and validating the result again gives the same text.
\<close>

theorem validate_authorized_keys_stable:
  assumes "validate_authorized_keys text = Inr out"
  shows "validate_authorized_keys out = Inr out \<and> lines_of out \<noteq> [] \<and>
    (\<forall>l \<in> set (lines_of out). key_start l \<and> trim l = l \<and> l \<in> trim ` set (lines_of text))"
proof -
  from assms obtain keys where keys: "keys = filter (\<lambda>l. \<not> key_comment l) (map trim (lines_of text))"
    "\<forall>k \<in> set keys. key_start k" "keys \<noteq> []" "out = join [NL] keys @ [NL]"
    by (auto simp: validate_keys_Inr)
  have ls: "lines_of out = keys" "map trim keys = keys"
    using validated_lines [OF keys(1,3)] keys(4) by auto
  have "filter (\<lambda>l. \<not> key_comment l) keys = keys"
    using keys(2) key_start_not_comment by (simp add: filter_id_conv)
  then have "validate_authorized_keys out = Inr out" using ls keys by (auto simp: validate_keys_Inr)
  moreover have "trim k = k \<and> k \<in> trim ` set (lines_of text)" if "k \<in> set keys" for k
    using that keys(1) trim_idem by auto
  ultimately show ?thesis using ls(1) keys(2,3) by blast
qed

definition sample_keys :: string where
  "sample_keys = ''# mine'' @ [NL] @ '' ssh-ed25519 AAAA me'' @ [NL]"

theorem validate_authorized_keys_stable_witness:
  "validate_authorized_keys (''ssh-ed25519 AAAA me'' @ [NL]) = Inr (''ssh-ed25519 AAAA me'' @ [NL])"
proof -
  have "validate_authorized_keys sample_keys = Inr (''ssh-ed25519 AAAA me'' @ [NL])" by code_simp
  from validate_authorized_keys_stable [OF this] show ?thesis by simp
qed

end
