(* ===== verification/Cloudinit.thy ===== *)
theory Cloudinit
  imports Keys Lifecycle
begin

text \<open>
  The Cloud-Init options of a workspace (\<^verbatim>\<open>hs-core/src/cloudinit.rs\<close>) and their readers: \<^verbatim>\<open>sshkeys\<close> is
  read back by \<open>unquote\<close> (\<^verbatim>\<open>keys.rs\<close>), \<^verbatim>\<open>ipconfig0\<close> by \<open>parse_ipconfig0\<close> (\<^verbatim>\<open>refresh.rs\<close>). The text of the
  vendor snippet is a file of its own and not modelled.
\<close>

section \<open>Settings\<close>

datatype home_format = FormatCreate | FormatKeep

fun snippet_file :: "home_format \<Rightarrow> string" where
  "snippet_file FormatCreate = ''homestack-vendor-create.yaml''"
| "snippet_file FormatKeep = ''homestack-vendor-keep.yaml''"

fun format_flag :: "home_format \<Rightarrow> string" where
  "format_flag FormatCreate = ''1''"
| "format_flag FormatKeep = ''0''"

definition cicustom_value :: "config \<Rightarrow> home_format \<Rightarrow> string" where
  "cicustom_value cfg format =
     ''vendor='' @ snippet_storage (cfg_cloud_init cfg) @ '':snippets/'' @ snippet_file format"

definition upper_hex :: "nat \<Rightarrow> char" where
  "upper_hex d = (if d < 10 then char_of (48 + d) else char_of (55 + d))"

definition quote_byte :: "char \<Rightarrow> string" where
  "quote_byte c =
     (if is_alnum c \<or> c \<in> set ''-._~'' then [c]
      else [CHR ''%'', upper_hex (of_char c div 16), upper_hex (of_char c mod 16)])"

definition quote_sshkeys :: "string \<Rightarrow> string" where
  "quote_sshkeys keys = concat (map quote_byte keys)"

definition ipconfig_value :: "string \<Rightarrow> nat \<Rightarrow> string \<Rightarrow> string" where
  "ipconfig_value ip cidr gateway = ''ip='' @ ip @ ''/'' @ dec cidr @ '',gw='' @ gateway"

definition no_user_key :: core_error where
  "no_user_key = Invalid ''Workspace create requires at least one user SSH public key''"

definition cloud_init_settings ::
  "config \<Rightarrow> home_format \<Rightarrow> string \<Rightarrow> nat \<Rightarrow> string \<Rightarrow> string option \<Rightarrow> core_error + (string \<times> string) list" where
  "cloud_init_settings cfg format ip cidr gateway authorized_keys =
     (let keys = Option.bind authorized_keys (\<lambda>k. if k = [] then None else Some k)
      in bindR (require (format = FormatCreate \<longrightarrow> keys \<noteq> None) no_user_key) (\<lambda>_.
      Inr ([(''ipconfig0'', ipconfig_value ip cidr gateway),
            (''nameserver'', join '' '' (net_dns (cfg_network cfg))),
            (''ciuser'', ''root''), (''ciupgrade'', ''0'')] @
           (case (format, keys) of (FormatCreate, Some k) \<Rightarrow> [(''sshkeys'', quote_sshkeys k)] | _ \<Rightarrow> []) @
           [(''cicustom'', cicustom_value cfg format)])))"

section \<open>Reading \<^verbatim>\<open>ipconfig0\<close>\<close>

definition u8_bound :: nat where "u8_bound = 2 ^ 8"

definition ipconfig_fields :: "string \<Rightarrow> string bmap" where
  "ipconfig_fields value =
     bt_of_list (map (\<lambda>(k, v). (trim k, trim v)) (List.map_filter (\<lambda>item. split_once item ''='') (split_on (CHR '','') value)))"

definition parse_ipconfig0 :: "string \<Rightarrow> core_error + string \<times> nat \<times> string" where
  "parse_ipconfig0 value =
     (let fs = ipconfig_fields value; ip = cfg_text fs ''ip''
      in case (if ip = ''dhcp'' then None else rsplit_once_char ip (CHR ''/'')) of
           None \<Rightarrow> Inl (Unusable (''Workspace ipconfig0 does not contain a static IPv4 address: '' @ py_repr (Some value)))
         | Some (address, cidr_text) \<Rightarrow>
             bindR (ok_or (parse_uint u8_bound cidr_text)
               (Unusable (''Cannot parse CIDR from ipconfig0: '' @ py_repr (Some value)))) (\<lambda>cidr.
             let gateway = cfg_text fs ''gw''
             in if gateway = []
                then Inl (Unusable (''Workspace ipconfig0 does not contain a gateway: '' @ py_repr (Some value)))
                else Inr (address, cidr, gateway)))"

section \<open>Lemmas\<close>

lemma unquote_percent:
  "is_hex a \<Longrightarrow> is_hex b \<Longrightarrow>
     unquote_bytes (CHR ''%'' # a # b # rest) = char_of (16 * hex_val a + hex_val b) # unquote_bytes rest"
  by simp

lemma unquote_plain: "c \<noteq> CHR ''%'' \<Longrightarrow> unquote_bytes (c # cs) = c # unquote_bytes cs"
  by (cases cs rule: unquote_bytes.cases) (auto split: list.splits)

lemma upper_hex_ok: "d < 16 \<Longrightarrow> is_hex (upper_hex d) \<and> hex_val (upper_hex d) = d"
proof -
  have "\<forall>d \<in> set [0..<16]. is_hex (upper_hex d) \<and> hex_val (upper_hex d) = d" by code_simp
  then show "d < 16 \<Longrightarrow> ?thesis" by auto
qed

lemma unquote_quote_byte: "unquote_bytes (quote_byte c @ cs) = c # unquote_bytes cs"
proof (cases "is_alnum c \<or> c \<in> set ''-._~''")
  case True
  then have "c \<noteq> CHR ''%''"
    by (auto simp: is_alnum_def is_alpha_def is_lower_def is_upper_def is_digit_def less_eq_char_def)
  then show ?thesis using True by (simp add: quote_byte_def unquote_plain del: unquote_bytes.simps)
next
  case False
  have h: "is_hex (upper_hex (of_char c div 16))" "is_hex (upper_hex (of_char c mod 16))"
    "16 * hex_val (upper_hex (of_char c div 16)) + hex_val (upper_hex (of_char c mod 16)) = of_char c"
    using upper_hex_ok [OF of_char_nibble [of c]] upper_hex_ok [of "of_char c mod 16"] by auto
  then show ?thesis using False by (simp add: quote_byte_def unquote_percent del: unquote_bytes.simps)
qed

text \<open>
  The SSH keys set on a VM are read back: unquoting the \<^verbatim>\<open>sshkeys\<close> option that create writes gives
  the bytes of the keys, decoded as UTF-8, and the quoted text has no character outside
  \<^verbatim>\<open>A-Za-z0-9-._~%\<close>.
\<close>

lemma quote_sshkeys_roundtrip:
  "unquote_bytes (quote_sshkeys keys) = keys \<and> unquote (quote_sshkeys keys) = utf8_lossy keys \<and>
   list_all (\<lambda>c. is_alnum c \<or> c \<in> set ''-._~%'') (quote_sshkeys keys)"
proof (intro conjI)
  show u: "unquote_bytes (quote_sshkeys keys) = keys"
    by (induction keys) (simp_all add: quote_sshkeys_def unquote_quote_byte del: unquote_bytes.simps(2))
  then show "unquote (quote_sshkeys keys) = utf8_lossy keys" by (simp add: unquote_def)
  have "\<forall>d \<in> set [0..<16]. is_alnum (upper_hex d)" by code_simp
  then have "is_alnum (upper_hex ((of_char c :: nat) div 16))" "is_alnum (upper_hex ((of_char c :: nat) mod 16))" for c :: char
    using of_char_nibble [of c] by auto
  then show "list_all (\<lambda>c. is_alnum c \<or> c \<in> set ''-._~%'') (quote_sshkeys keys)"
    by (induction keys) (auto simp: quote_sshkeys_def quote_byte_def)
qed

definition address_char :: "char \<Rightarrow> bool" where
  "address_char c \<longleftrightarrow> \<not> is_ws c \<and> c \<noteq> CHR '',''"

lemma trim_address: "list_all address_char s \<Longrightarrow> trim s = s"
  by (rule trim_no_ws) (auto simp: list_all_iff address_char_def)

lemma split_once_first: "split_once (a @ CHR ''='' # b) ''='' = Some (a, b)" if "CHR ''='' \<notin> set a"
  using split_once_fresh [of "''=''" a b] that by simp

lemma rsplit_last: "CHR ''/'' \<notin> set b \<Longrightarrow> rsplit_once_char (a @ CHR ''/'' # b) (CHR ''/'') = Some (a, b)"
proof -
  assume "CHR ''/'' \<notin> set b"
  then have "takeWhile (\<lambda>x. x \<noteq> CHR ''/'') (rev (a @ CHR ''/'' # b)) = rev b"
    by (auto simp: takeWhile_append)
  then show ?thesis unfolding rsplit_once_char_def Let_def by simp
qed

lemma dec_address: "list_all address_char (dec n)"
  using set_dec [of _ n] by (fastforce simp: list_all_iff address_char_def is_ws_def is_digit_def less_eq_char_def)

text \<open>
  C31. The static address of a workspace survives: the \<^verbatim>\<open>ipconfig0\<close> that create and refresh write is
  read back as the same address, prefix length and gateway.
\<close>

theorem ipconfig_roundtrip:
  assumes ip: "list_all address_char ip" and gw: "list_all address_char gateway" "gateway \<noteq> []" and c: "cidr < 256"
  shows "parse_ipconfig0 (ipconfig_value ip cidr gateway) = Inr (ip, cidr, gateway)"
proof -
  let ?ip = "ip @ CHR ''/'' # dec cidr"
  have a: "list_all address_char ?ip" using ip dec_address [of cidr] by (simp add: address_char_def is_ws_def)
  have "ipconfig_value ip cidr gateway = (''ip='' @ ?ip) @ CHR '','' # (''gw='' @ gateway)"
    by (simp add: ipconfig_value_def)
  moreover have "CHR '','' \<notin> set (''ip='' @ ?ip)" "CHR '','' \<notin> set (''gw='' @ gateway)"
    using a gw(1) by (auto simp: list_all_iff address_char_def)
  ultimately have s: "split_on (CHR '','') (ipconfig_value ip cidr gateway) = [''ip='' @ ?ip, ''gw='' @ gateway]"
    by (metis split_on_append split_on_no_sep)
  have o: "split_once (''ip='' @ ?ip) ''='' = Some (''ip'', ?ip)" "split_once (''gw='' @ gateway) ''='' = Some (''gw'', gateway)"
    using split_once_first [of "''ip''" ?ip] split_once_first [of "''gw''" gateway] by simp_all
  have t: "trim ''ip'' = ''ip''" "trim ''gw'' = ''gw''" by code_simp+
  have f: "ipconfig_fields (ipconfig_value ip cidr gateway) = bt_of_list [(''ip'', ?ip), (''gw'', gateway)]"
    unfolding ipconfig_fields_def s using a gw(1)
    by (simp add: List.map_filter_simps o [simplified] t trim_address)
  have r: "rsplit_once_char ?ip (CHR ''/'') = Some (ip, dec cidr)"
    by (rule rsplit_last) (use set_dec [of "CHR ''/''" cidr] in \<open>auto simp: is_digit_def less_eq_char_def\<close>)
  have "CHR ''/'' \<in> set ?ip" "CHR ''/'' \<notin> set ''dhcp''" by auto
  then have "?ip \<noteq> ''dhcp''" by metis
  moreover have "parse_uint u8_bound (dec cidr) = Some cidr" using c by (simp add: parse_uint_dec u8_bound_def)
  ultimately show ?thesis
    unfolding parse_ipconfig0_def f Let_def cfg_text_def bt_get_of_list using r gw(2) by simp
qed

theorem ipconfig_roundtrip_witness: "parse_ipconfig0 ''ip=10.0.3.10/16,gw=10.0.0.1'' = Inr (''10.0.3.10'', 16, ''10.0.0.1'')"
proof -
  have "ipconfig_value ''10.0.3.10'' 16 ''10.0.0.1'' = ''ip=10.0.3.10/16,gw=10.0.0.1''" by code_simp
  then show ?thesis using ipconfig_roundtrip [of "''10.0.3.10''" "''10.0.0.1''" 16]
    by (simp add: address_char_def is_ws_def)
qed

end
