(* ===== verification/Verify.thy ===== *)
theory Verify
  imports Cloudinit
begin

text \<open>
  The verification of a started guest (\<^verbatim>\<open>hs-core/src/verify.rs\<close>): what create, refresh and migrate read
  through the guest agent before they report success.
\<close>

section \<open>Expectations and failures\<close>

record guest_expectation =
  ge_name :: string
  ge_address :: string
  ge_user :: user
  ge_home_label :: string

record verified =
  cloud_id :: "string option"
  user_authorized_keys :: string

datatype verify_failure =
    FHostname string
  | FAddress string "string list"
  | FHomeMount string string
  | FHomeLabel string
  | FUserIdentity string
  | FUserKeysMissing
  | FRootKeysMissing
  | FRegularUsers "string list"

fun create_detail :: "verify_failure \<Rightarrow> guest_expectation \<Rightarrow> string" where
  "create_detail (FHostname actual) x =
     ''hostname is '' @ py_repr (Some actual) @ '', expected '' @ py_repr (Some (ge_name x))"
| "create_detail (FAddress e actual) x = ''eth0 does not have '' @ e @ [NL] @ join [NL] actual"
| "create_detail (FHomeMount p found) x = p @ '' is not mounted as ext4'' @ [NL] @ found"
| "create_detail (FHomeLabel actual) x =
     ''persistent home label is '' @ py_repr (Some actual) @ '', expected '' @ py_repr (Some (ge_home_label x))"
| "create_detail (FUserIdentity actual) x = ''unexpected user identity: '' @ actual"
| "create_detail FUserKeysMissing x = ''user authorized_keys is missing''"
| "create_detail FRootKeysMissing x = ''root authorized_keys is missing''"
| "create_detail (FRegularUsers found) x =
     ''unexpected regular user accounts: '' @ (if found = [] then ''none'' else join '', '' found)"

definition create_message :: "verify_failure \<Rightarrow> guest_expectation \<Rightarrow> string" where
  "create_message f x = ''Verification failed: '' @ create_detail f x"

fun refresh_detail :: "verify_failure \<Rightarrow> string" where
  "refresh_detail (FHostname _) = ''workspace hostname is incorrect''"
| "refresh_detail (FAddress e _) = ''eth0 does not have '' @ e"
| "refresh_detail (FHomeMount p _) = p @ '' is not ext4''"
| "refresh_detail (FHomeLabel actual) = ''home label is '' @ py_repr (Some actual)"
| "refresh_detail (FUserIdentity actual) = ''unexpected user identity: '' @ actual"
| "refresh_detail FUserKeysMissing = ''persistent user authorized_keys is missing''"
| "refresh_detail FRootKeysMissing = ''root authorized_keys is missing''"
| "refresh_detail (FRegularUsers _) = ''unexpected regular user accounts''"

definition refresh_message :: "verify_failure \<Rightarrow> string" where
  "refresh_message f = ''Refresh verification failed: '' @ refresh_detail f"

section \<open>Readings of the guest\<close>

definition CLOUD_INIT_POLL :: nat where "CLOUD_INIT_POLL = 2000"

lemma forward_read_text [clock_intro]: "forward (read_text S node vmid file)"
  unfolding read_text_def read_file_def by (intro clock_intro)

function (sequential) cloud_init_loop :: "'w ext \<Rightarrow> string \<Rightarrow> nat \<Rightarrow> nat \<Rightarrow> 'w st \<Rightarrow> (core_error + unit) \<times> 'w st" where
  "cloud_init_loop S node vmid deadline s =
     (case read_text S node vmid ''/run/cloud-init/result.json'' s of
        (Inl e, s1) \<Rightarrow> (Inl e, s1)
      | (Inr r, s1) \<Rightarrow>
          if r \<noteq> None \<or> deadline \<le> clock s1 then (Inr (), s1)
          else cloud_init_loop S node vmid deadline (snd (sleep S CLOUD_INIT_POLL s1)))"
  by pat_completeness auto
termination
proof (relation "measure (\<lambda>(S, node, vmid, deadline, s). deadline - clock s)", goal_cases)
  case 1
  show ?case by simp
next
  case (2 S node vmid deadline s r s1 x)
  have "clock s \<le> clock s1" using forwardD [OF forward_read_text] 2(1) by metis
  then show ?case using 2 by (auto simp: sleep_def split: prod.splits)
qed

declare cloud_init_loop.simps [simp del]

definition wait_for_cloud_init :: "'w ext \<Rightarrow> string \<Rightarrow> nat \<Rightarrow> nat \<Rightarrow> ('w, unit) op" where
  "wait_for_cloud_init S node vmid tmo =
     bindE (find_program S node vmid ''cloud-init'') (\<lambda>found.
       if found = None then returnE ()
       else (\<lambda>s. cloud_init_loop S node vmid (clock s + tmo) s))"

definition ipv4_of :: "json \<Rightarrow> string option" where
  "ipv4_of address =
     (if get_str address ''ip-address-type'' = Some ''ipv4'' then
        (case (get_str address ''ip-address'', get_u64 address ''prefix'') of
           (Some ip, Some n) \<Rightarrow> Some (ip @ ''/'' @ dec n)
         | _ \<Rightarrow> None)
      else None)"

definition array_of :: "json option \<Rightarrow> json list" where
  "array_of v = (case Option.bind v as_array of None \<Rightarrow> [] | Some xs \<Rightarrow> xs)"

definition ipv4_addresses :: "json \<Rightarrow> string \<Rightarrow> string list" where
  "ipv4_addresses interfaces name =
     List.map_filter ipv4_of
       (concat (map (\<lambda>i. array_of (jget i ''ip-addresses''))
         (filter (\<lambda>i. get_str i ''name'' = Some name) (array_of (Some interfaces)))))"

definition mounted_at :: "json \<Rightarrow> string \<Rightarrow> (string \<times> string) option" where
  "mounted_at fsinfo mountpoint =
     map_option (\<lambda>fs. (text_of (jget fs ''name''), text_of (jget fs ''type'')))
       (List.find (\<lambda>fs. get_str fs ''mountpoint'' = Some mountpoint) (array_of (Some fsinfo)))"

definition regular_user :: "string \<Rightarrow> string option" where
  "regular_user line =
     (let fs = split_on (CHR '':'') line
      in if length fs < 3 then None
         else case parse_uint u64_bound (fs ! 2) of
                None \<Rightarrow> None
              | Some n \<Rightarrow>
                  if 1000 \<le> n \<and> n < 65534
                  then Some (fs ! 0 @ '':'' @ fs ! 2 @ '':'' @ (if 3 < length fs then fs ! 3 else []))
                  else None)"

definition regular_users :: "string \<Rightarrow> string list" where
  "regular_users passwd = List.map_filter regular_user (lines_of passwd)"

definition non_empty :: "'w ext \<Rightarrow> string \<Rightarrow> nat \<Rightarrow> string \<Rightarrow> ('w, string option) op" where
  "non_empty S node vmid file =
     bindE (read_text S node vmid file) (\<lambda>t. returnE (case t of Some x \<Rightarrow> if x = [] then None else Some x | None \<Rightarrow> None))"

definition or_empty :: "string option \<Rightarrow> string" where
  "or_empty x = (case x of None \<Rightarrow> [] | Some s \<Rightarrow> s)"

definition account_of :: "string \<Rightarrow> string \<Rightarrow> string option" where
  "account_of passwd name = List.find (\<lambda>l. hd (split_on (CHR '':'') l) = name) (lines_of passwd)"

definition uid_field :: "string \<Rightarrow> string option" where
  "uid_field line = (let fs = split_on (CHR '':'') line in if 2 < length fs then Some (fs ! 2) else None)"

definition uid_matches :: "user \<Rightarrow> string option \<Rightarrow> bool" where
  "uid_matches u account = (case account of None \<Rightarrow> False | Some line \<Rightarrow> uid_field line = Some (dec (uid u)))"

definition user_entry :: "user \<Rightarrow> string" where
  "user_entry u = user_name u @ '':'' @ dec (uid u) @ '':'' @ dec (gid u)"

definition home_path :: "string \<Rightarrow> string" where
  "home_path user = ''/home/'' @ user"

definition mount_text :: "string \<Rightarrow> (string \<times> string) option \<Rightarrow> string" where
  "mount_text home m =
     (case m of None \<Rightarrow> [] | Some (device, fstype) \<Rightarrow> ''/dev/'' @ device @ '' '' @ fstype @ '' '' @ home)"

section \<open>The checks\<close>

text \<open>The checks on the accounts and keys, which follow those on the network and the home.\<close>

definition verify_accounts :: "'w ext \<Rightarrow> string \<Rightarrow> nat \<Rightarrow> guest_expectation \<Rightarrow> ('w, verify_failure + verified) op" where
  "verify_accounts S node vmid x =
     bindE (read_text S node vmid ''/etc/passwd'') (\<lambda>p.
     let passwd = or_empty p; account = account_of passwd (user_name (ge_user x))
     in if \<not> uid_matches (ge_user x) account then returnE (Inl (FUserIdentity (or_empty account)))
     else
       bindE (non_empty S node vmid (home_path (user_name (ge_user x)) @ ''/.ssh/authorized_keys'')) (\<lambda>uk.
       case uk of
         None \<Rightarrow> returnE (Inl FUserKeysMissing)
       | Some user_keys \<Rightarrow>
           bindE (non_empty S node vmid ''/root/.ssh/authorized_keys'') (\<lambda>rk.
           if rk = None then returnE (Inl FRootKeysMissing)
           else if regular_users passwd \<noteq> [user_entry (ge_user x)]
           then returnE (Inl (FRegularUsers (regular_users passwd)))
           else
             bindE (read_text S node vmid ''/run/cloud-init/cloud-id'') (\<lambda>c.
             returnE (Inr \<lparr>cloud_id = (case map_option trim c of Some t \<Rightarrow> if t = [] then None else Some t | None \<Rightarrow> None),
               user_authorized_keys = user_keys\<rparr>)))))"

definition verify_guest ::
  "'w ext \<Rightarrow> string \<Rightarrow> nat \<Rightarrow> guest_expectation \<Rightarrow> verify_timeouts \<Rightarrow> ('w, verify_failure + verified) op" where
  "verify_guest S node vmid x timeouts =
     bindE (wait_for_qga S node vmid (vt_agent timeouts)) (\<lambda>_.
     bindE (wait_for_cloud_init S node vmid (vt_cloud_init timeouts)) (\<lambda>_.
     bindE (agent_get S node vmid ''get-host-name'') (\<lambda>host.
     let hostname = text_of (jget host ''host-name'')
     in if hostname \<noteq> ge_name x then returnE (Inl (FHostname hostname))
     else
       bindE (agent_get S node vmid ''network-get-interfaces'') (\<lambda>interfaces.
       let addresses = ipv4_addresses interfaces ''eth0''
       in if ge_address x \<notin> set addresses then returnE (Inl (FAddress (ge_address x) addresses))
       else
         bindE (agent_get S node vmid ''get-fsinfo'') (\<lambda>fsinfo.
         let home = home_path (user_name (ge_user x)); m = mounted_at fsinfo home
         in case (case m of Some (device, fstype) \<Rightarrow> if fstype = ''ext4'' then Some device else None | None \<Rightarrow> None) of
              None \<Rightarrow> returnE (Inl (FHomeMount home (mount_text home m)))
            | Some device \<Rightarrow>
                bindE (ext4_label S node vmid (''/dev/'' @ device)) (\<lambda>label.
                if or_empty label \<noteq> ge_home_label x then returnE (Inl (FHomeLabel (or_empty label)))
                else verify_accounts S node vmid x))))))"

definition verify_refreshed_guest ::
  "'w ext \<Rightarrow> string \<Rightarrow> nat \<Rightarrow> guest_expectation \<Rightarrow> verify_timeouts \<Rightarrow> ('w, string option) op" where
  "verify_refreshed_guest S node vmid x timeouts =
     bindE (verify_guest S node vmid x timeouts) (\<lambda>r.
       case r of Inr v \<Rightarrow> returnE (cloud_id v) | Inl f \<Rightarrow> throwE (Failed (refresh_message f)))"

definition home_not_migrated :: "string \<Rightarrow> string \<Rightarrow> string \<Rightarrow> core_error" where
  "home_not_migrated node mounted label =
     Failed (''Migration completed but persistent home verification failed on '' @ node @ '': mount='' @
       py_repr (Some mounted) @ '', label='' @ py_repr (Some label))"

definition verify_migrated_home ::
  "'w ext \<Rightarrow> string \<Rightarrow> nat \<Rightarrow> string \<Rightarrow> string \<Rightarrow> nat \<Rightarrow> ('w, unit) op" where
  "verify_migrated_home S node vmid user label agent_timeout =
     bindE (wait_for_qga S node vmid agent_timeout) (\<lambda>_.
     bindE (agent_get S node vmid ''get-fsinfo'') (\<lambda>fsinfo.
     let home = home_path user; m = mounted_at fsinfo home
     in
     bindE (case m of
              Some (device, _) \<Rightarrow> ext4_label S node vmid (''/dev/'' @ device)
            | None \<Rightarrow> returnE None) (\<lambda>found.
     unlessE (contains (mount_text home m) ''ext4'' \<and> or_empty found = label)
       (home_not_migrated node (mount_text home m) (or_empty found)))))"

section \<open>Requests\<close>

text \<open>An operation that reads the clock before it starts.\<close>

lemma only_dep: "(\<And>s. only P (g s)) \<Longrightarrow> only P (\<lambda>s. g s s)"
  by (simp add: only_def)

lemma only_qga_ping: "(\<And>a. P (Post (agent node vmid ''ping'') [], a)) \<Longrightarrow> only P (qga_ping S node vmid)"
  unfolding qga_ping_def by (intro only_intro)

lemma R_only_run: "only P m \<Longrightarrow> m s = (r, s') \<Longrightarrow> R_only P s s'"
  by (metis only_R snd_conv)

lemma only_qga_loop:
  assumes "\<And>a. P (Post (agent node vmid ''ping'') [], a)"
  shows "only P (qga_loop S node vmid tmo deadline l)"
  unfolding only_R
proof
  fix s
  show "R_only P s (snd (qga_loop S node vmid tmo deadline l s))"
    using assms
  proof (induction S node vmid tmo deadline l s rule: qga_loop.induct)
    case (1 S node vmid tmo deadline l s)
    obtain r s1 where p: "qga_ping S node vmid s = (r, s1)" by fastforce
    have r1: "R_only P s s1" using R_only_run [OF only_qga_ping p] 1(2) by blast
    obtain u s2 where z: "sleep S QGA_RETRY s1 = (u, s2)" by fastforce
    have r2: "R_only P s s2" using R_only_trans [OF r1 R_only_run [OF only_sleep z]] .
    have "R_only P s (snd (qga_loop S node vmid tmo deadline (Some e) s2))" if "r = Inl e" "\<not> deadline \<le> clock s" for e
      using R_only_trans [OF r2] 1(1) [OF that(2) p [symmetric] that(1)] 1(2) z by simp
    then show ?case using p r1 z by (simp add: qga_loop.simps [of S _ _ _ _ _ s] split: sum.splits)
  qed
qed

lemma only_wait_for_qga [only_intro]:
  "(\<And>a. P (Post (agent node vmid ''ping'') [], a)) \<Longrightarrow> only P (wait_for_qga S node vmid tmo)"
  unfolding wait_for_qga_def by (rule only_dep) (rule only_qga_loop)

lemma only_exec_loop:
  assumes "\<And>p q a. P (Get p q, a)"
  shows "only P (exec_loop S node vmid command tmo deadline pid)"
  unfolding only_R
proof
  fix s
  show "R_only P s (snd (exec_loop S node vmid command tmo deadline pid s))"
  proof (induction S node vmid command tmo deadline pid s rule: exec_loop.induct)
    case (1 S node vmid command tmo deadline pid s)
    obtain r s1 where a: "api S (exec_status_request node vmid pid) s = (r, s1)" by fastforce
    have r1: "R_only P s s1" using R_only_run [OF only_api a] assms by (simp add: exec_status_request_def)
    obtain u s2 where z: "sleep S EXEC_POLL s1 = (u, s2)" by fastforce
    have r2: "R_only P s s2" using R_only_trans [OF r1 R_only_run [OF only_sleep z]] .
    have "R_only P s (snd (exec_loop S node vmid command tmo deadline pid s2))"
      if "r = Inr status" "\<not> truthy (jget status ''exited'')" "\<not> deadline \<le> clock s" for status
      using R_only_trans [OF r2] 1 [OF that(3) a [symmetric] that(1,2)] z by simp
    then show ?case using a r1 z by (simp add: exec_loop.simps [of S _ _ _ _ _ _ s] split: sum.splits)
  qed
qed

lemma only_guest_exec_input [only_intro]:
  assumes "\<And>p q a. P (Get p q, a)" and "\<And>a. P (Post (agent node vmid ''exec'') (exec_form command input), a)"
  shows "only P (guest_exec_with_input S node vmid command input chk tmo)"
  unfolding guest_exec_with_input_def by (intro only_intro only_exec_loop) (simp_all add: assms)

lemma only_guest_exec [only_intro]:
  assumes "\<And>p q a. P (Get p q, a)" and "\<And>a. P (Post (agent node vmid ''exec'') (exec_form command None), a)"
  shows "only P (guest_exec S node vmid command chk tmo)"
  unfolding guest_exec_def by (rule only_guest_exec_input) (simp_all add: assms)

lemma only_read_text [only_intro]:
  "(\<And>p q a. P (Get p q, a)) \<Longrightarrow> only P (read_text S node vmid file)"
  unfolding read_text_def file_read_request_def by (intro only_intro) (simp add: file_read_request_def)

lemma only_find_program [only_intro]:
  assumes "\<And>p q a. P (Get p q, a)"
  shows "only P (find_program S node vmid name)"
proof -
  have "only P (find_in_dirs S node vmid name dirs)" for dirs
    by (induction dirs) (simp_all, (intro only_intro; simp add: assms file_read_request_def)+)
  then show ?thesis by (simp add: find_program_def)
qed

lemma only_cloud_init_loop:
  assumes "\<And>p q a. P (Get p q, a)"
  shows "only P (cloud_init_loop S node vmid deadline)"
  unfolding only_R
proof
  fix s
  show "R_only P s (snd (cloud_init_loop S node vmid deadline s))"
  proof (induction S node vmid deadline s rule: cloud_init_loop.induct)
    case (1 S node vmid deadline s)
    obtain r s1 where p: "read_text S node vmid ''/run/cloud-init/result.json'' s = (r, s1)" by fastforce
    have r1: "R_only P s s1" using R_only_run [OF only_read_text p] assms by blast
    obtain u s2 where z: "sleep S CLOUD_INIT_POLL s1 = (u, s2)" by fastforce
    have r2: "R_only P s s2" using R_only_trans [OF r1 R_only_run [OF only_sleep z]] .
    have "R_only P s (snd (cloud_init_loop S node vmid deadline s2))" if "r = Inr x" "\<not> (x \<noteq> None \<or> deadline \<le> clock s1)" for x
      using R_only_trans [OF r2] 1 [OF p [symmetric] that] z by simp
    then show ?case using p r1 z by (auto simp: cloud_init_loop.simps [of S _ _ _ s] split: sum.splits)
  qed
qed

lemma only_agent_get [only_intro]: "(\<And>p q a. P (Get p q, a)) \<Longrightarrow> only P (agent_get S node vmid c)"
  unfolding agent_get_def by (intro only_intro)

lemma only_non_empty [only_intro]: "(\<And>p q a. P (Get p q, a)) \<Longrightarrow> only P (non_empty S node vmid f)"
  unfolding non_empty_def by (intro only_intro)

lemma only_wait_for_cloud_init [only_intro]:
  assumes "\<And>p q a. P (Get p q, a)"
  shows "only P (wait_for_cloud_init S node vmid tmo)"
  unfolding wait_for_cloud_init_def
  by (intro only_intro assms) (rule only_dep, rule only_cloud_init_loop, rule assms)

lemma only_verify_accounts [only_intro]:
  assumes "\<And>p q a. P (Get p q, a)"
  shows "only P (verify_accounts S node vmid x)"
  unfolding verify_accounts_def Let_def by (intro only_intro assms)

lemma only_verify_guest [only_intro]:
  assumes "\<And>p q a. P (Get p q, a)" and "\<And>a. P (Post (agent node vmid ''ping'') [], a)"
  shows "only P (verify_guest S node vmid x t)"
  unfolding verify_guest_def Let_def
  by (intro only_intro assms) (simp add: assms file_read_request_def)

lemma only_verify_refreshed [only_intro]:
  assumes "\<And>p q a. P (Get p q, a)" and "\<And>a. P (Post (agent node vmid ''ping'') [], a)"
  shows "only P (verify_refreshed_guest S node vmid x t)"
  unfolding verify_refreshed_guest_def by (intro only_intro assms)

lemma only_verify_migrated [only_intro]:
  assumes "\<And>p q a. P (Get p q, a)" and "\<And>a. P (Post (agent node vmid ''ping'') [], a)"
  shows "only P (verify_migrated_home S node vmid u l t)"
  unfolding verify_migrated_home_def by (intro only_intro) (simp_all add: assms file_read_request_def)

end
