(* ===== verification/Refresh.thy ===== *)
theory Refresh
  imports Journal Verify
begin

text \<open>
  Refresh and the recovery of an interrupted one (the second half of \<^verbatim>\<open>hs-core/src/refresh.rs\<close>). The
  methods of \<^verbatim>\<open>Vm\<close> take the node, VMID and timing as a record. The random transaction id
  (\<^verbatim>\<open>uuid::Uuid::new_v4\<close>) is a parameter. The slot through which \<^verbatim>\<open>replace\<close> tells its caller that a
  journal was written is the Boolean beside its error.
\<close>

section \<open>Guards\<close>

definition require_refresh_unlocked :: "nat \<Rightarrow> vm_cfg \<Rightarrow> core_error + unit" where
  "require_refresh_unlocked vmid c =
     (let tags = bt_get c ''tags''
      in
      bindR (require (\<not> has_tag tags ALIEN_WORKSPACE_TAG) (Refused (''Refresh of VM '' @ dec vmid @
        '' is blocked for alien workspace role tag '' @ quoted ALIEN_WORKSPACE_TAG @ ''.''))) (\<lambda>_.
      require (\<not> has_tag tags REFRESH_LOCK_TAG) (Refused (''Refresh of VM '' @ dec vmid @ '' is blocked by tag '' @
        quoted REFRESH_LOCK_TAG @ ''. Remove this tag from the VM in Proxmox before refreshing.''))))"

section \<open>Proxmox calls of the steps\<close>

record vm_handle =
  vh_node :: string
  vh_vmid :: nat
  vh_timing :: timing

definition v_path :: "vm_handle \<Rightarrow> string \<Rightarrow> string" where
  "v_path v p = qemu_path (vh_node v) (vh_vmid v) p"

definition v_config :: "'w ext \<Rightarrow> vm_handle \<Rightarrow> ('w, vm_cfg) op" where
  "v_config S v = effective_config S (vh_node v) (vh_vmid v)"

definition v_write :: "'w ext \<Rightarrow> journal_codec \<Rightarrow> vm_handle \<Rightarrow> vm_cfg \<Rightarrow> journal option \<Rightarrow> ('w, vm_cfg) op" where
  "v_write S C v c j = write_journal S C (vh_node v) (vh_vmid v) c j"

definition plain_digest :: "vm_cfg \<Rightarrow> (string \<times> string) list" where
  "plain_digest c = (case bt_get c ''digest'' of None \<Rightarrow> [] | Some d \<Rightarrow> if d = [] then [] else [(''digest'', d)])"

definition v_set :: "'w ext \<Rightarrow> vm_handle \<Rightarrow> vm_cfg \<Rightarrow> (string \<times> string) list \<Rightarrow> string \<Rightarrow> ('w, vm_cfg) op" where
  "v_set S v c values what =
     bindE (post_task S (v_path v ''/config'') (values @ plain_digest c) what (wait_for (vh_timing v) 3600)) (\<lambda>_.
     v_config S v)"

definition wrong_volume :: "nat \<Rightarrow> string \<Rightarrow> string \<Rightarrow> string \<Rightarrow> core_error" where
  "wrong_volume vmid slot found volume =
     Failed (''Refusing to unlink '' @ slot @ '' of VM '' @ dec vmid @ '': it holds '' @ py_repr (Some found) @
       '', expected '' @ py_repr (Some volume))"

definition unlink_request :: "vm_handle \<Rightarrow> string \<Rightarrow> bool \<Rightarrow> request" where
  "unlink_request v slot force =
     Put (v_path v ''/unlink'') ((''idlist'', slot) # (if force then [(''force'', ''1'')] else []))"

definition v_unlink :: "'w ext \<Rightarrow> vm_handle \<Rightarrow> string \<Rightarrow> string \<Rightarrow> bool \<Rightarrow> ('w, vm_cfg) op" where
  "v_unlink S v slot volume force =
     bindE (v_config S v) (\<lambda>c.
     bindE (unlessE (slot_volume c slot = volume) (wrong_volume (vh_vmid v) slot (slot_volume c slot) volume)) (\<lambda>_.
     bindE (retry_while_locked S (tm_poll (vh_timing v)) (api S (unlink_request v slot force))) (\<lambda>_.
     v_config S v)))"

definition v_status :: "'w ext \<Rightarrow> vm_handle \<Rightarrow> ('w, string) op" where
  "v_status S v = vm_status S (vh_node v) (vh_vmid v)"

definition v_shutdown :: "'w ext \<Rightarrow> vm_handle \<Rightarrow> ('w, unit) op" where
  "v_shutdown S v = shutdown_vm S (vh_node v) (vh_vmid v) SHUTDOWN_TIMEOUT_SECS (wait_for (vh_timing v) 600)"

definition v_start :: "'w ext \<Rightarrow> vm_handle \<Rightarrow> ('w, unit) op" where
  "v_start S v = start_vm S (vh_node v) (vh_vmid v) (wait_for (vh_timing v) START_TIMEOUT_SECS)"

section \<open>Planning\<close>

definition replacement_root_bytes :: "string \<Rightarrow> core_error + nat" where
  "replacement_root_bytes gold_disk_config =
     ok_or (Option.bind (parse_disk_size_gb gold_disk_config) (\<lambda>gib.
       let bytes = gib_bytes gib
       in if 0 < bytes then Some bytes else None))
       (Refused ''Cannot determine the size of Gold's root disk'')"

definition disagrees :: "nat \<Rightarrow> string list \<Rightarrow> string \<Rightarrow> string" where
  "disagrees vmid mismatches rest =
     vm_msg vmid ('' does not agree with its refresh journal ('' @ join ''; '' mismatches @ ''); nothing was changed'' @ rest)"

definition recover_plan ::
  "string \<Rightarrow> string \<Rightarrow> nat \<Rightarrow> resource \<Rightarrow> journal \<Rightarrow> string list \<Rightarrow> bool \<Rightarrow> json" where
  "recover_plan pool node vmid resource j mismatches force =
     jobj [(''command'', JStr ''refresh''), (''mode'', JStr ''recover''), (''vmid'', jnat vmid), (''name'', JStr (j_name j)),
       (''node'', JStr node), (''pool'', JStr pool),
       (''status'', JStr (case r_status resource of None \<Rightarrow> ''unknown'' | Some st \<Rightarrow> st)),
       (''home_label'', JStr (j_home_label j)), (''home_volume'', JStr (j_home_volume j)),
       (''recovery_phase'', JStr (phase_str (j_phase j))), (''rolling_back'', JBool (rolling_back j)),
       (''mismatches'', JArr (map JStr mismatches)), (''force'', JBool force), (''journal'', journal_value j)]"

definition plan_recovery ::
  "string \<Rightarrow> string \<Rightarrow> nat \<Rightarrow> resource \<Rightarrow> vm_cfg \<Rightarrow> journal \<Rightarrow> bool \<Rightarrow> core_error + json" where
  "plan_recovery pool node vmid resource c j force =
     bindR (require (j_node j = node) (Failed (''Refresh journal belongs to node '' @ py_repr (Some (j_node j)) @ '', but VM '' @
       dec vmid @ '' is on '' @ py_repr (Some node)))) (\<lambda>_.
     let mismatches = journal_mismatches j node c
     in bindR (require (mismatches = [] \<or> force) (Refused (disagrees vmid mismatches
          ''. Fix it by hand, or plan again with force to attach the new root without deleting any volume''))) (\<lambda>_.
        Inr (recover_plan pool node vmid resource j mismatches force)))"

definition replace_plan ::
  "config \<Rightarrow> string \<Rightarrow> existing_workspace \<Rightarrow> string \<times> nat \<times> string \<Rightarrow> nat \<Rightarrow> string \<Rightarrow> string \<Rightarrow> nat \<Rightarrow> json \<Rightarrow> json" where
  "replace_plan cfg pool info net gold root_storage disk_cfg root_bytes capacity =
     (case net of (ip, cidr, gateway) \<Rightarrow>
     jobj [(''command'', JStr ''refresh''), (''mode'', JStr ''replace''), (''vmid'', jnat (ew_vmid info)), (''name'', JStr (ew_name info)),
       (''node'', JStr (ew_node info)), (''pool'', JStr pool), (''status'', JStr (ew_status info)), (''ip'', JStr ip),
       (''cidr'', jnat cidr), (''gateway'', JStr gateway), (''gold_vmid'', jnat gold), (''root_storage'', JStr root_storage),
       (''root_disk'', JStr (root_disk cfg)), (''root_disk_gb'', jopt JFloat (parse_disk_size_gb disk_cfg)),
       (''root_bytes'', jnat root_bytes), (''capacity'', capacity), (''gold_root_disk_config'', JStr disk_cfg),
       (''gold_root_volume'', JStr (disk_volume disk_cfg)), (''home_disk'', JStr (home_disk cfg)),
       (''home_storage'', jopt JStr (ew_home_storage info)), (''home_label'', JStr (ew_home_label info)),
       (''home_volume'', JStr (ew_home_volume info)),
       (''home_policy'', JStr ''preserve persistent disk exactly; never format during refresh''),
       (''power_state_policy'', JStr ''verify by boot and restore pre-refresh power state'')])"

definition plan_replace :: "'w ext \<Rightarrow> config \<Rightarrow> string \<Rightarrow> nat \<Rightarrow> nat option \<Rightarrow> ('w, json) op" where
  "plan_replace S cfg pool vmid gold_opt =
     bindE (liftE (case gold_opt of Some g \<Rightarrow> Inr g | None \<Rightarrow> configured_gold cfg)) (\<lambda>gold.
     bindE (resolve_existing_workspace S cfg vmid) (\<lambda>info.
     bindE (liftE (parse_ipconfig0 (cfg_text (ew_config info) ''ipconfig0''))) (\<lambda>net.
     bindE (cluster_vm_resources S) (\<lambda>rs.
     bindE (liftE (ok_or (find_vm gold rs) (Refused (''Gold VM '' @ dec gold @ '' does not exist'')))) (\<lambda>gold_resource.
     bindE (unlessE (ew_node info = r_node gold_resource)
       (Refused (''Refresh requires workspace VM '' @ dec vmid @ '' on the node of Gold VM '' @ dec gold @ '', '' @
          r_node gold_resource @ ''; it is on '' @ ew_node info @ ''. Choose a Gold on '' @ ew_node info @
          '' or migrate the workspace first.''))) (\<lambda>_.
     let root_storage = (case ew_root_storage info of None \<Rightarrow> [] | Some st \<Rightarrow> st)
     in
     bindE (liftE (resolve_homestack_storage cfg (ew_node info) (Some root_storage))) (\<lambda>_.
     bindE (vm_config S (r_node gold_resource) gold) (\<lambda>gold_cfg.
     bindE (liftE (require_gold_tag gold gold_cfg)) (\<lambda>_.
     let disk_cfg = cfg_text gold_cfg (root_disk cfg)
     in
     bindE (unlessE (disk_cfg \<noteq> []) (Failed (''Gold VM '' @ dec gold @ '' has no '' @ root_disk cfg @ '' disk''))) (\<lambda>_.
     bindE (liftE (replacement_root_bytes disk_cfg)) (\<lambda>root_bytes.
     bindE (require_space S (ew_node info) root_storage root_bytes) (\<lambda>capacity.
     returnE (replace_plan cfg pool info net gold root_storage disk_cfg root_bytes capacity)))))))))))))"

definition plan_refresh ::
  "'w ext \<Rightarrow> journal_codec \<Rightarrow> config \<Rightarrow> string \<Rightarrow> nat \<Rightarrow> nat option \<Rightarrow> bool \<Rightarrow> ('w, json) op" where
  "plan_refresh S C cfg pool vmid gold force =
     bindE (require_pool S vmid pool) (\<lambda>_.
     bindE (cluster_vm_resources S) (\<lambda>rs.
     bindE (liftE (ok_or (find_vm vmid rs) (no_vm vmid))) (\<lambda>resource.
     bindE (unlessE (r_node resource \<noteq> []) (Unusable (vm_msg vmid '' has no node in cluster inventory''))) (\<lambda>_.
     let node = r_node resource
     in
     bindE (effective_config S node vmid) (\<lambda>c.
     bindE (liftE (require_refresh_unlocked vmid c)) (\<lambda>_.
     bindE (liftE (read_journal C cfg vmid c)) (\<lambda>found.
       case found of
         Some j \<Rightarrow> liftE (plan_recovery pool node vmid resource c j force)
       | None \<Rightarrow>
           bindE (unlessE (\<not> force)
             (Invalid ''force applies only to the recovery of an interrupted refresh; VM has no refresh journal'')) (\<lambda>_.
           plan_replace S cfg pool vmid gold))))))))"

section \<open>The steps of a refresh\<close>

text \<open>What the plan gives to the steps.\<close>

record replace_input =
  ri_name :: string
  ri_ip :: string
  ri_cidr :: nat
  ri_gateway :: string
  ri_label :: string
  ri_root_storage :: string
  ri_gold_root :: string
  ri_gold_disk :: string
  ri_root_bytes :: nat
  ri_initial :: power_state

definition replace_input_of :: "nat \<Rightarrow> json \<Rightarrow> core_error + replace_input" where
  "replace_input_of vmid plan =
     bindR (plan_text plan ''name'') (\<lambda>name.
     bindR (plan_text plan ''ip'') (\<lambda>ip.
     bindR (plan_number plan ''cidr'') (\<lambda>cidr.
     bindR (require (cidr < u8_bound) (Invalid ''The plan's CIDR is out of range'')) (\<lambda>_.
     bindR (plan_text plan ''gateway'') (\<lambda>gateway.
     bindR (plan_text plan ''home_label'') (\<lambda>label.
     bindR (plan_text plan ''root_storage'') (\<lambda>root_storage.
     bindR (plan_text plan ''gold_root_volume'') (\<lambda>gold_root.
     bindR (plan_text plan ''gold_root_disk_config'') (\<lambda>gold_disk.
     bindR (replacement_root_bytes gold_disk) (\<lambda>root_bytes.
     bindR (plan_text plan ''status'') (\<lambda>status.
     bindR (ok_or (parse_power status) (Failed (''Workspace VM '' @ dec vmid @
       '' has unsupported pre-refresh power state '' @ py_repr (get_str plan ''status'')))) (\<lambda>initial.
     Inr \<lparr>ri_name = name, ri_ip = ip, ri_cidr = cidr, ri_gateway = gateway, ri_label = label,
       ri_root_storage = root_storage, ri_gold_root = gold_root, ri_gold_disk = gold_disk, ri_root_bytes = root_bytes,
       ri_initial = initial\<rparr>))))))))))))"

text \<open>The state of the workspace is what the plan saw.\<close>

definition replace_guards ::
  "journal_codec \<Rightarrow> config \<Rightarrow> nat \<Rightarrow> json \<Rightarrow> replace_input \<Rightarrow> existing_workspace \<Rightarrow> core_error + string" where
  "replace_guards C cfg vmid plan i current =
     (let c = ew_config current
      in
      bindR (require_refresh_unlocked vmid c) (\<lambda>_.
      bindR (read_journal C cfg vmid c) (\<lambda>found.
      bindR (require (found = None) (Refused (vm_msg vmid '' has a refresh journal now; plan again to recover it''))) (\<lambda>_.
      bindR (require (ew_status current = power_str (ri_initial i))
        (Failed ''Workspace power state changed after refresh confirmation'')) (\<lambda>_.
      bindR (require (Some (ew_home_volume current) = get_str plan ''home_volume'')
        (Failed ''Persistent home identity changed after refresh confirmation'')) (\<lambda>_.
      bindR (require (boot_order_contains_disk (cfg_text c ''boot'') (root_disk cfg))
        (Failed (''Workspace boot order does not include '' @ root_disk cfg))) (\<lambda>_.
      bindR (require (cfg_text c ''net0'' \<noteq> []) (Failed (''Workspace VM '' @ dec vmid @ '' has no net0''))) (\<lambda>_.
      ok_or (extract_mac (cfg_text c ''net0'')) (Failed (''Workspace VM '' @ dec vmid @ '' net0 has no MAC address''))))))))))"

definition first_journal ::
  "config \<Rightarrow> string \<Rightarrow> vm_handle \<Rightarrow> replace_input \<Rightarrow> existing_workspace \<Rightarrow> string \<Rightarrow> journal" where
  "first_journal cfg txid v i current staging =
     (let c = ew_config current
      in \<lparr>j_version = JOURNAL_VERSION, transaction_id = txid, j_phase = Prepared, j_vmid = vh_vmid v, j_name = ri_name i,
          j_node = vh_node v, initial_status = ri_initial i, old_root_spec = cfg_text c (root_disk cfg),
          old_root_volume = ew_root_volume current, j_root_disk = root_disk cfg, staging_slot = staging,
          gold_root_disk_config = ri_gold_disk i, new_root_volume = [], new_unused_key = [], old_unused_key = [],
          j_home_volume = ew_home_volume current, j_home_label = ri_label i, j_home_disk = home_disk cfg,
          restore = bt_of_list (map (\<lambda>k. (k, cfg_text c k)) RESTORED_OPTIONS), rolling_back = False\<rparr>)"

text \<open>Everything before the first journal is in the description; then the journal and its configuration.\<close>

definition replace_prepare ::
  "'w ext \<Rightarrow> journal_codec \<Rightarrow> string \<Rightarrow> vm_handle \<Rightarrow> config \<Rightarrow> json \<Rightarrow>
     ('w, replace_input \<times> journal \<times> vm_cfg \<times> string \<times> string) op" where
  "replace_prepare S C txid v cfg plan =
     bindE (liftE (replace_input_of (vh_vmid v) plan)) (\<lambda>i.
     bindE (resolve_existing_workspace S cfg (vh_vmid v)) (\<lambda>current.
     bindE (liftE (replace_guards C cfg (vh_vmid v) plan i current)) (\<lambda>mac.
     bindE (liftE (free_staging_slot (ew_config current))) (\<lambda>staging.
     let j = first_journal cfg txid v i current staging
     in
     bindE (liftE (validate_journal cfg j)) (\<lambda>_.
     bindE (require_space S (vh_node v) (ri_root_storage i) (ri_root_bytes i)) (\<lambda>_.
     bindE (v_write S C v (ew_config current) (Some j)) (\<lambda>c.
     returnE (i, j, c, cfg_text (ew_config current) ''boot'', mac))))))))"

definition import_spec :: "string \<Rightarrow> string \<Rightarrow> string" where
  "import_spec root_storage gold_root = root_storage @ '':0,import-from='' @ gold_root"

definition import_root ::
  "'w ext \<Rightarrow> journal_codec \<Rightarrow> vm_handle \<Rightarrow> replace_input \<Rightarrow> journal \<Rightarrow> vm_cfg \<Rightarrow> ('w, journal) op" where
  "import_root S C v i j c =
     bindE (v_set S v c [(staging_slot j, import_spec (ri_root_storage i) (ri_gold_root i))]
       (''Copying Gold's root into VM '' @ dec (vh_vmid v))) (\<lambda>c1.
     bindE (liftE (require_home j c1)) (\<lambda>_.
     bindE (liftE (require_refresh_unlocked (vh_vmid v) c1)) (\<lambda>_.
     let new = slot_volume c1 (staging_slot j)
     in
     bindE (unlessE (new \<noteq> [] \<and> new \<noteq> old_root_volume j \<and> new \<noteq> j_home_volume j)
       (Failed ''Imported root did not produce a distinct volume'')) (\<lambda>_.
     let j1 = j\<lparr>new_root_volume := new, j_phase := Imported\<rparr>
     in
     bindE (v_write S C v c1 (Some j1)) (\<lambda>_.
     returnE j1)))))"

definition not_kept :: core_error where
  "not_kept = Failed ''Proxmox did not keep the imported root as an unused disk''"

definition not_retained :: core_error where
  "not_retained = Failed ''Proxmox did not retain the original root as an unused disk''"

definition switch_roots ::
  "'w ext \<Rightarrow> journal_codec \<Rightarrow> vm_handle \<Rightarrow> config \<Rightarrow> replace_input \<Rightarrow> journal \<Rightarrow> ('w, vm_cfg \<times> journal) op" where
  "switch_roots S C v cfg i j =
     bindE (v_config S v) (\<lambda>c.
     bindE (liftE (require_refresh_unlocked (vh_vmid v) c)) (\<lambda>_.
     bindE (liftE (require_home j c)) (\<lambda>_.
     bindE (unlessE (root_of cfg c = old_root_volume j) (Failed ''Root identity changed before refresh switch'')) (\<lambda>_.
     let new = new_root_volume j; j1 = j\<lparr>j_phase := Switching\<rparr>
     in
     bindE (v_write S C v c (Some j1)) (\<lambda>_.
     bindE (v_unlink S v (staging_slot j1) new False) (\<lambda>c1.
     bindE (liftE (ok_or (unused_key_of c1 new) not_kept)) (\<lambda>new_key.
     let j2 = j1\<lparr>new_unused_key := new_key\<rparr>
     in
     bindE (v_write S C v c1 (Some j2)) (\<lambda>_.
     bindE (v_unlink S v (root_disk cfg) (old_root_volume j2) False) (\<lambda>c2.
     bindE (liftE (ok_or (unused_key_of c2 (old_root_volume j2)) not_retained)) (\<lambda>old_key.
     let j3 = j2\<lparr>old_unused_key := old_key\<rparr>
     in
     bindE (v_write S C v c2 (Some j3)) (\<lambda>c3.
     bindE (v_set S v c3 [(root_disk cfg, root_attachment_spec new (ri_gold_disk i))]
       (''Attaching the new root of VM '' @ dec (vh_vmid v))) (\<lambda>c4.
     bindE (unlessE (root_of cfg c4 = new) (Failed ''New root was not attached to the configured root slot'')) (\<lambda>_.
     bindE (unlessE (unused_key_of c4 new = None)
       (Failed ''New root is both attached and retained as an unused disk'')) (\<lambda>_.
     bindE (liftE (require_home j3 c4)) (\<lambda>_.
     let j4 = j3\<lparr>j_phase := Switched\<rparr>
     in
     bindE (v_write S C v c4 (Some j4)) (\<lambda>c5.
     returnE (c5, j4)))))))))))))))))"

definition configure_keep ::
  "'w ext \<Rightarrow> vm_handle \<Rightarrow> config \<Rightarrow> replace_input \<Rightarrow> string \<Rightarrow> vm_cfg \<Rightarrow> ('w, vm_cfg) op" where
  "configure_keep S v cfg i boot c =
     bindE (liftE (cloud_init_settings cfg FormatKeep (ri_ip i) (ri_cidr i) (ri_gateway i) None)) (\<lambda>settings.
     bindE (v_set S v c ((''boot'', boot) # settings) (''Configuring Cloud-Init of VM '' @ dec (vh_vmid v))) (\<lambda>c1.
     bindE (liftE (verify_workspace_role_tags (vh_vmid v) c1)) (\<lambda>_.
     returnE c1)))"

definition expectation_of :: "config \<Rightarrow> string \<Rightarrow> string \<Rightarrow> nat \<Rightarrow> string \<Rightarrow> guest_expectation" where
  "expectation_of cfg name ip cidr label =
     \<lparr>ge_name = name, ge_address = ip @ ''/'' @ dec cidr, ge_user = cfg_user cfg, ge_home_label = label\<rparr>"

definition boot_verify ::
  "'w ext \<Rightarrow> journal_codec \<Rightarrow> vm_handle \<Rightarrow> config \<Rightarrow> replace_input \<Rightarrow> vm_cfg \<Rightarrow> journal \<Rightarrow>
     ('w, string option \<times> journal) op" where
  "boot_verify S C v cfg i c j =
     (let j1 = j\<lparr>j_phase := Verifying\<rparr>
      in
      bindE (v_write S C v c (Some j1)) (\<lambda>_.
      bindE (v_start S v) (\<lambda>_.
      bindE (verify_refreshed_guest S (vh_node v) (vh_vmid v)
        (expectation_of cfg (ri_name i) (ri_ip i) (ri_cidr i) (ri_label i)) (tm_verify (vh_timing v))) (\<lambda>cid.
      returnE (cid, j1)))))"

definition cannot_delete :: "string \<Rightarrow> core_error" where
  "cannot_delete volume =
     Failed (''Cannot safely delete volume '' @ py_repr (Some volume) @ '': its unused reference is missing'')"

definition delete_previous_root ::
  "'w ext \<Rightarrow> journal_codec \<Rightarrow> vm_handle \<Rightarrow> journal \<Rightarrow> ('w, unit) op" where
  "delete_previous_root S C v j =
     bindE (v_config S v) (\<lambda>c.
     let j1 = j\<lparr>j_phase := Verified\<rparr>
     in
     bindE (v_write S C v c (Some j1)) (\<lambda>c1.
     bindE (liftE (require_home j1 c1)) (\<lambda>_.
     bindE (liftE (ok_or (unused_key_of c1 (old_root_volume j1)) (cannot_delete (old_root_volume j1)))) (\<lambda>key.
     bindE (v_unlink S v key (old_root_volume j1) True) (\<lambda>c2.
     bindE (v_write S C v c2 None) (\<lambda>_.
     returnE ()))))))"

definition when_power :: "bool \<Rightarrow> ('w, unit) op \<Rightarrow> ('w, unit) op" where
  "when_power b m = (if b then m else returnE ())"

text \<open>From the first journal to its removal: the new root and the guest's \<^verbatim>\<open>cloud-id\<close>.\<close>

definition replace_steps ::
  "'w ext \<Rightarrow> journal_codec \<Rightarrow> vm_handle \<Rightarrow> config \<Rightarrow> replace_input \<Rightarrow> journal \<Rightarrow> vm_cfg \<Rightarrow> string \<Rightarrow>
     ('w, string \<times> string option) op" where
  "replace_steps S C v cfg i j c boot =
     bindE (stepE ''Import Gold root'' (import_root S C v i j c)) (\<lambda>j1.
     bindE (stepE ''Stop workspace'' (when_power (ri_initial i = PRunning) (v_shutdown S v))) (\<lambda>_.
     bindE (stepE ''Switch root disks'' (switch_roots S C v cfg i j1)) (\<lambda>(c2, j2).
     bindE (stepE ''Cloud-Init'' (configure_keep S v cfg i boot c2)) (\<lambda>c3.
     bindE (stepE ''Boot verification'' (boot_verify S C v cfg i c3 j2)) (\<lambda>(cid, j3).
     bindE (stepE ''Restore power state'' (when_power (ri_initial i = PStopped) (v_shutdown S v))) (\<lambda>_.
     bindE (stepE ''Delete previous root'' (delete_previous_root S C v j3)) (\<lambda>_.
     returnE (new_root_volume j1, cid))))))))"

definition wrong_power :: "string \<Rightarrow> power_state \<Rightarrow> core_error" where
  "wrong_power final initial =
     Failed (''Refresh completed with power state '' @ py_repr (Some final) @ '', expected '' @
       py_repr (Some (power_str initial)))"

definition replace_finish ::
  "'w ext \<Rightarrow> vm_handle \<Rightarrow> json \<Rightarrow> replace_input \<Rightarrow> string \<Rightarrow> string \<Rightarrow> string option \<Rightarrow> ('w, json) op" where
  "replace_finish S v plan i mac new_volume cid =
     bindE (v_status S v) (\<lambda>final.
     bindE (unlessE (final = power_str (ri_initial i)) (wrong_power final (ri_initial i))) (\<lambda>_.
     returnE (plan_result plan
       [(''status'', JStr final), (''mac'', JStr mac), (''new_root_volume'', JStr new_volume),
        (''home_preserved'', JBool True), (''guest_verified'', JBool True), (''power_state_preserved'', JBool True),
        (''cloud_id'', jopt JStr (case cid of None \<Rightarrow> None | Some x \<Rightarrow> if x = [] then None else Some x)),
        (''rollback_performed'', JBool False), (''cleanup_pending'', JBool False), (''host_key_changed'', JBool True),
        (''event'', JStr ''workspace.refreshed'')])))"

text \<open>An error with whether a journal is in the description then.\<close>

definition replace ::
  "'w ext \<Rightarrow> journal_codec \<Rightarrow> string \<Rightarrow> vm_handle \<Rightarrow> config \<Rightarrow> json \<Rightarrow> ('w, (core_error \<times> bool) + json) op" where
  "replace S C txid v cfg plan =
     bindE (tryE (replace_prepare S C txid v cfg plan)) (\<lambda>p.
       case p of
         Inl e \<Rightarrow> returnE (Inl (e, False))
       | Inr (i, j, c, boot, mac) \<Rightarrow>
           bindE (tryE (replace_steps S C v cfg i j c boot)) (\<lambda>r.
             case r of
               Inl e \<Rightarrow> returnE (Inl (e, True))
             | Inr (new_volume, cid) \<Rightarrow>
                 bindE (tryE (replace_finish S v plan i mac new_volume cid)) (\<lambda>f.
                 returnE (case f of Inl e \<Rightarrow> Inl (e, False) | Inr x \<Rightarrow> Inr x))))"

section \<open>Recovery\<close>

type_synonym fields_map = "(string \<times> json) list"

text \<open>Stops the VM when it runs.\<close>

definition stop_if_running :: "'w ext \<Rightarrow> vm_handle \<Rightarrow> ('w, unit) op" where
  "stop_if_running S v = bindE (v_status S v) (\<lambda>st. if st = ''running'' then v_shutdown S v else returnE ())"

definition forced :: "string \<Rightarrow> core_error" where
  "forced m = Failed (''force does not apply: '' @ m @ ''; nothing was changed'')"

definition force_guards :: "vm_handle \<Rightarrow> journal \<Rightarrow> vm_cfg \<Rightarrow> core_error + string" where
  "force_guards v j c =
     bindR (case home_mismatch j c of
              None \<Rightarrow> Inr ()
            | Some h \<Rightarrow> Inl (forced (''the persistent home is not the journal's ('' @ h @ '')''))) (\<lambda>_.
     bindR (require (vh_node v = j_node j) (forced (''VM '' @ dec (vh_vmid v) @ '' is not on the journal's node''))) (\<lambda>_.
     bindR (ok_or (staged_volume j c) (forced ''the journal names no new root'')) (\<lambda>new.
     bindR (require (place_of j c new \<noteq> PAbsent)
       (forced (''the new root '' @ py_repr (Some new) @ '' is not in the VM's config''))) (\<lambda>_.
     Inr new))))"

fun unlink_all :: "'w ext \<Rightarrow> vm_handle \<Rightarrow> string \<Rightarrow> vm_cfg \<Rightarrow> string list \<Rightarrow> ('w, vm_cfg) op" where
  "unlink_all S v volume c [] = returnE c"
| "unlink_all S v volume c (slot # slots) =
     bindE (v_unlink S v slot volume False) (\<lambda>c1. unlink_all S v volume c1 slots)"

definition attached_slots :: "vm_cfg \<Rightarrow> string \<Rightarrow> string list" where
  "attached_slots c volume =
     map fst (filter (\<lambda>(k, x). k \<noteq> ''description'' \<and> \<not> is_unused_key k \<and> disk_volume x = volume) c)"

definition force_attach :: "'w ext \<Rightarrow> vm_handle \<Rightarrow> config \<Rightarrow> journal \<Rightarrow> string \<Rightarrow> vm_cfg \<Rightarrow> ('w, vm_cfg) op" where
  "force_attach S v cfg j new c =
     (let root = root_of cfg c
      in if root = new then returnE c
         else
           bindE (if root \<noteq> [] then v_unlink S v (root_disk cfg) root False else returnE c) (\<lambda>c1.
           bindE (unlink_all S v new c1 (attached_slots c1 new)) (\<lambda>c2.
           v_set S v c2 [(root_disk cfg, root_attachment_spec new (gold_root_disk_config j))]
             (''Attaching the new root of VM '' @ dec (vh_vmid v)))))"

definition restored_text :: "journal \<Rightarrow> string \<Rightarrow> string option" where
  "restored_text j k = (case bt_get (restore j) k of None \<Rightarrow> None | Some x \<Rightarrow> if x = [] then None else Some x)"

definition force_new_root ::
  "'w ext \<Rightarrow> journal_codec \<Rightarrow> vm_handle \<Rightarrow> config \<Rightarrow> journal \<Rightarrow> vm_cfg \<Rightarrow> string list \<Rightarrow> ('w, fields_map) op" where
  "force_new_root S C v cfg j c mismatches =
     bindE (liftE (force_guards v j c)) (\<lambda>new.
     bindE (stop_if_running S v) (\<lambda>_.
     bindE (v_config S v) (\<lambda>c1.
     bindE (if has_pending c1 then v_write S C v c1 (Some j) else returnE c1) (\<lambda>c2.
     bindE (force_attach S v cfg j new c2) (\<lambda>c3.
     bindE (unlessE (root_of cfg c3 = new) (Failed ''New root was not attached to the configured root slot'')) (\<lambda>_.
     bindE (liftE (parse_ipconfig0
       (case restored_text j ''ipconfig0'' of Some x \<Rightarrow> x | None \<Rightarrow> cfg_text c3 ''ipconfig0''))) (\<lambda>(ip, cidr, gateway).
     bindE (liftE (cloud_init_settings cfg FormatKeep ip cidr gateway None)) (\<lambda>settings.
     bindE (v_set S v c3 ((case restored_text j ''boot'' of Some b \<Rightarrow> [(''boot'', b)] | None \<Rightarrow> []) @ settings)
       (''Configuring Cloud-Init of VM '' @ dec (vh_vmid v))) (\<lambda>_.
     bindE (v_start S v) (\<lambda>_.
     bindE (verify_refreshed_guest S (vh_node v) (vh_vmid v) (expectation_of cfg (j_name j) ip cidr (j_home_label j))
       (tm_verify (vh_timing v))) (\<lambda>cid.
     bindE (when_power (initial_status j = PStopped) (v_shutdown S v)) (\<lambda>_.
     bindE (v_config S v) (\<lambda>now.
     bindE (v_write S C v now None) (\<lambda>_.
     returnE [(''recovery'', JStr ''forced the new root''), (''mismatches'', JArr (map JStr mismatches)),
       (''unused_volumes_kept'', JArr (map (\<lambda>(k, x). JStr (k @ ''='' @ disk_volume x)) (filter (\<lambda>(k, _). is_unused_key k) now))),
       (''cloud_id'', jopt JStr cid), (''host_key_changed'', JBool True)]))))))))))))))"

definition finish_cleanup :: "'w ext \<Rightarrow> journal_codec \<Rightarrow> vm_handle \<Rightarrow> config \<Rightarrow> journal \<Rightarrow> ('w, fields_map) op" where
  "finish_cleanup S C v cfg j =
     bindE (v_config S v) (\<lambda>c.
     bindE (unlessE (root_of cfg c = new_root_volume j)
       (Failed ''Verified refresh journal does not match the attached root'')) (\<lambda>_.
     bindE (case unused_key_of c (old_root_volume j) of
              Some key \<Rightarrow> bindE (v_unlink S v key (old_root_volume j) True) (\<lambda>_. returnE ())
            | None \<Rightarrow> returnE ()) (\<lambda>_.
     bindE (when_power (initial_status j = PRunning) (v_start S v)) (\<lambda>_.
     bindE (v_config S v) (\<lambda>c1.
     bindE (v_write S C v c1 None) (\<lambda>_.
     returnE [(''recovery'', JStr ''completed verified cleanup''), (''host_key_changed'', JBool True)]))))))"

definition restore_form :: "journal \<Rightarrow> vm_cfg \<Rightarrow> (string \<times> string) list" where
  "restore_form j c =
     (let set_fields = filter (\<lambda>(k, x). x \<noteq> []) (restore j);
          unset = map fst (filter (\<lambda>(k, x). x = [] \<and> bt_has c k) (restore j));
          deleted = join '','' unset
      in set_fields @ (if deleted = [] then [] else [(''delete'', deleted)]))"

text \<open>The original root back in its slot.\<close>

definition reattach_old :: "'w ext \<Rightarrow> vm_handle \<Rightarrow> config \<Rightarrow> journal \<Rightarrow> ('w, vm_cfg) op" where
  "reattach_old S v cfg j =
     (let new = new_root_volume j
      in
      bindE (v_config S v) (\<lambda>c.
      bindE (if new \<noteq> [] \<and> root_of cfg c = new
             then bindE (v_unlink S v (root_disk cfg) new False) (\<lambda>c1.
                  bindE (liftE (require_home j c1)) (\<lambda>_. returnE c1))
             else returnE c) (\<lambda>c1.
      let attached = root_of cfg c1
      in
      bindE (unlessE (attached = [] \<or> attached = old_root_volume j)
        (Failed (''Refresh recovery found unexpected root volume '' @ py_repr (Some attached)))) (\<lambda>_.
      if attached = [] then
        bindE (unlessE (unused_key_of c1 (old_root_volume j) \<noteq> None)
          (Failed ''Refresh recovery cannot find the original root volume'')) (\<lambda>_.
        v_set S v c1 [(root_disk cfg, old_root_spec j)] (''Re-attaching the original root of VM '' @ dec (vh_vmid v)))
      else returnE c1))))"

definition staged_slot :: "journal \<Rightarrow> vm_cfg \<Rightarrow> string option" where
  "staged_slot j c =
     (if map_option disk_volume (bt_get c (staging_slot j)) = Some (new_root_volume j) then Some (staging_slot j)
      else unused_key_of c (new_root_volume j))"

definition remove_new :: "'w ext \<Rightarrow> vm_handle \<Rightarrow> journal \<Rightarrow> vm_cfg \<Rightarrow> ('w, vm_cfg) op" where
  "remove_new S v j c =
     (if new_root_volume j = [] then returnE c
      else case staged_slot j c of
             Some slot \<Rightarrow> v_unlink S v slot (new_root_volume j) True
           | None \<Rightarrow> returnE c)"

definition roll_back :: "'w ext \<Rightarrow> journal_codec \<Rightarrow> vm_handle \<Rightarrow> config \<Rightarrow> journal \<Rightarrow> ('w, fields_map) op" where
  "roll_back S C v cfg j0 =
     bindE (v_config S v) (\<lambda>c0.
     bindE (if rolling_back j0 then returnE j0
            else let j = j0\<lparr>rolling_back := True\<rparr> in bindE (v_write S C v c0 (Some j)) (\<lambda>_. returnE j)) (\<lambda>j.
     bindE (reattach_old S v cfg j) (\<lambda>c.
     bindE (unlessE (root_of cfg c = old_root_volume j)
       (Failed ''Refresh recovery did not restore the original root'')) (\<lambda>_.
     bindE (unlessE (unused_key_of c (old_root_volume j) = None)
       (Failed ''Original root is both attached and retained as an unused disk'')) (\<lambda>_.
     bindE (liftE (require_home j c)) (\<lambda>_.
     bindE (remove_new S v j c) (\<lambda>c1.
     let form = restore_form j c1
     in
     bindE (if form = [] then returnE ()
            else bindE (v_set S v c1 form (''Restoring the options of VM '' @ dec (vh_vmid v))) (\<lambda>_. returnE ())) (\<lambda>_.
     bindE (when_power (initial_status j = PRunning) (v_start S v)) (\<lambda>_.
     bindE (v_config S v) (\<lambda>c2.
     bindE (v_write S C v c2 None) (\<lambda>_.
     returnE [(''recovery'', JStr ''rolled back to original root''), (''host_key_changed'', JBool False)])))))))))))"

definition apply_pending_changes :: "'w ext \<Rightarrow> journal_codec \<Rightarrow> vm_handle \<Rightarrow> journal \<Rightarrow> ('w, unit) op" where
  "apply_pending_changes S C v j =
     bindE (v_config S v) (\<lambda>c.
       if has_pending c then
         bindE (v_write S C v c (Some j)) (\<lambda>c1.
         unlessE (\<not> has_pending c1) (Failed (''Proxmox did not apply the pending changes of VM '' @ dec (vh_vmid v))))
       else returnE ())"

definition with_staged :: "journal \<Rightarrow> vm_cfg \<Rightarrow> journal" where
  "with_staged j c =
     (case staged_volume j c of
        Some staged \<Rightarrow> if new_root_volume j = [] then j\<lparr>new_root_volume := staged\<rparr> else j
      | None \<Rightarrow> j)"

definition recover ::
  "'w ext \<Rightarrow> journal_codec \<Rightarrow> vm_handle \<Rightarrow> config \<Rightarrow> journal \<Rightarrow> bool \<Rightarrow> ('w, fields_map) op" where
  "recover S C v cfg j0 force =
     bindE (liftE (validate_journal cfg j0)) (\<lambda>_.
     bindE (v_config S v) (\<lambda>c.
     let mismatches = journal_mismatches j0 (vh_node v) c
     in if mismatches \<noteq> [] then
          (if force then force_new_root S C v cfg j0 c mismatches
           else throwE (Failed (disagrees (vh_vmid v) mismatches [])))
        else
          let j = with_staged j0 c
          in
          bindE (stop_if_running S v) (\<lambda>_.
          bindE (apply_pending_changes S C v j) (\<lambda>_.
          if j_phase j = Verified \<and> \<not> rolling_back j then finish_cleanup S C v cfg j
          else roll_back S C v cfg j))))"

section \<open>The operation\<close>

definition journal_gone :: "nat \<Rightarrow> core_error" where
  "journal_gone vmid = Failed (vm_msg vmid '' has no refresh journal any more'')"

definition journal_replaced :: "nat \<Rightarrow> core_error" where
  "journal_replaced vmid = Failed (''The refresh journal of VM '' @ dec vmid @ '' changed after the plan; plan again'')"

definition refresh_recover :: "'w ext \<Rightarrow> journal_codec \<Rightarrow> vm_handle \<Rightarrow> config \<Rightarrow> json \<Rightarrow> ('w, json) op" where
  "refresh_recover S C v cfg plan =
     bindE (v_config S v) (\<lambda>c.
     bindE (liftE (require_refresh_unlocked (vh_vmid v) c)) (\<lambda>_.
     bindE (liftE (read_journal C cfg (vh_vmid v) c)) (\<lambda>found.
     bindE (liftE (ok_or found (journal_gone (vh_vmid v)))) (\<lambda>j.
     bindE (unlessE (Option.bind (jget plan ''journal'') (\<lambda>x. get_str x ''transaction_id'') = Some (transaction_id j))
       (journal_replaced (vh_vmid v))) (\<lambda>_.
     let force = (case Option.bind (jget plan ''force'') as_bool of None \<Rightarrow> False | Some b \<Rightarrow> b)
     in
     bindE (stepE ''Recover refresh'' (recover S C v cfg j force)) (\<lambda>recovery.
     bindE (v_status S v) (\<lambda>status.
     returnE (plan_result (JObj (bt_remove ''journal'' (case as_object plan of None \<Rightarrow> [] | Some m \<Rightarrow> m)))
       (recovery @ [(''status'', JStr status), (''event'', JStr ''workspace.refresh_recovered'')])))))))))"

definition auto_recover :: "'w ext \<Rightarrow> journal_codec \<Rightarrow> vm_handle \<Rightarrow> config \<Rightarrow> ('w, fields_map) op" where
  "auto_recover S C v cfg =
     bindE (v_config S v) (\<lambda>c.
     bindE (liftE (read_journal C cfg (vh_vmid v) c)) (\<lambda>found.
     bindE (liftE (ok_or found (Failed ''the journal is gone''))) (\<lambda>j.
     recover S C v cfg j False)))"

definition refresh_failed :: "nat \<Rightarrow> core_error \<Rightarrow> core_error + fields_map \<Rightarrow> core_error" where
  "refresh_failed vmid e recovery =
     (case recovery of
        Inr fs \<Rightarrow>
          Context (''Refresh failed: '' @ error_text e @ ''. Automatic recovery succeeded: '' @
            text_of (map_of fs ''recovery'') @ ''.'') [e]
      | Inl e2 \<Rightarrow>
          Context (''Refresh failed: '' @ error_text e @ ''. Automatic recovery also failed: '' @ error_text e2 @
            ''. Transaction journal retained in the description of VM '' @ dec vmid @ ''.'') [e, e2])"

definition refresh_workspace ::
  "'w ext \<Rightarrow> journal_codec \<Rightarrow> string \<Rightarrow> config \<Rightarrow> string \<Rightarrow> json \<Rightarrow> timing \<Rightarrow> ('w, json) op" where
  "refresh_workspace S C txid cfg pool plan timing =
     bindE (liftE (vmid_of plan)) (\<lambda>vmid.
     bindE (liftE (plan_text plan ''node'')) (\<lambda>node.
     bindE (require_pool S vmid pool) (\<lambda>_.
     let v = \<lparr>vh_node = node, vh_vmid = vmid, vh_timing = timing\<rparr>
     in
     bindE (liftE (plan_text plan ''mode'')) (\<lambda>mode.
     if mode = ''recover'' then refresh_recover S C v cfg plan
     else
       bindE (replace S C txid v cfg plan) (\<lambda>r.
         case r of
           Inr result \<Rightarrow> returnE result
         | Inl (e, written) \<Rightarrow>
             if \<not> written then throwE e
             else bindE (tryE (auto_recover S C v cfg)) (\<lambda>recovery. throwE (refresh_failed vmid e recovery)))))))"

end
