(* ===== verification/History.thy ===== *)
theory History
  imports Vm_Power
begin

text \<open>
  Following an operation step by step: what the requests sent and answered so far show, and rules that
  carry such facts through the calls of an operation. The safety properties of the operations are
  instances of this logic.
\<close>

section \<open>What a history shows\<close>

lemma api_trace: "api S rq s = (r, s') \<Longrightarrow> \<exists>a. trace s' = trace s @ [(rq, a)] \<and> r = map_err PveErr a"
  by (auto simp: api_def split: prod.splits)

lemma stepE_run:
  assumes "stepE n m s = (Inr a, s')"
  obtains s0 s1 where "m s0 = (Inr a, s1)" and "trace s0 = trace s" and "trace s' = trace s1"
proof -
  let ?s0 = "snd (step_started n s)"
  have "m ?s0 = (Inr a, snd (m ?s0))" "trace ?s0 = trace s" "trace s' = trace (snd (m ?s0))"
    using assms by (auto simp: stepE_def bindE_Inr step_started_def step_finished_def emit_run tryE_run liftE_run intro: prod_eqI)
  then show thesis using that by blast
qed

lemma map_err_Inr: "Inr x = map_err f a \<longleftrightarrow> a = Inr x"
  by (cases a) (auto simp: map_err_def)

definition latest :: "request \<Rightarrow> (request \<times> answer) list \<Rightarrow> answer option" where
  "latest rq h = map_option snd (List.find (\<lambda>c. fst c = rq) (rev h))"

lemma latest_snoc: "latest rq (h @ [c]) = (if fst c = rq then Some (snd c) else latest rq h)"
  by (simp add: latest_def)

text \<open>Facts about a history that later requests cannot undo.\<close>

definition grows :: "((request \<times> answer) list \<Rightarrow> bool) \<Rightarrow> bool" where
  "grows I \<longleftrightarrow> (\<forall>h t. I h \<longrightarrow> I (h @ t))"

text \<open>A call that was answered with a value of a kind.\<close>

definition told :: "request \<Rightarrow> (json \<Rightarrow> bool) \<Rightarrow> (request \<times> answer) list \<Rightarrow> bool" where
  "told rq P h \<longleftrightarrow> (\<exists>v. (rq, Inr v) \<in> set h \<and> P v)"

lemma told_grows [simp]: "grows (told rq P)"
  by (auto simp: grows_def told_def)

lemma told_append: "told rq P h \<Longrightarrow> told rq P (h @ t)"
  by (auto simp: told_def)

lemma api_told: "api S rq s = (Inr v, s') \<Longrightarrow> P v \<Longrightarrow> told rq P (trace s')"
  by (auto simp: told_def map_err_Inr dest!: api_trace)

section \<open>Following the operations\<close>

text \<open>Retrying: the condition survives failed attempts, and depends on the history only.\<close>

lemma ctl_retry:
  assumes a: "ctl R (\<lambda>s. P (trace s)) attempt (\<lambda>x s. Q x (trace s))"
    and keep: "\<And>s e s'. P (trace s) \<Longrightarrow> attempt s = (Inl e, s') \<Longrightarrow> P (trace s')"
  shows "ctl R (\<lambda>s. P (trace s)) (retry_while_locked S pl attempt) (\<lambda>x s. Q x (trace s))"
proof -
  have "P (trace s) \<longrightarrow> controlled R s (snd (retry_loop S pse deadline attempt s)) \<and>
      (\<forall>x s'. retry_loop S pse deadline attempt s = (Inr x, s') \<longrightarrow> Q x (trace s'))" for pse deadline s
    using a keep
  proof (induction S pse deadline attempt s rule: retry_loop.induct)
    case (1 S pse deadline attempt s)
    obtain r s1 where at: "attempt s = (r, s1)" by fastforce
    let ?s1 = "no_earlier s s1" and ?s2 = "snd (sleep S pse (no_earlier s s1))"
    have t: "trace ?s1 = trace s1" "trace ?s2 = trace s1"
      by (simp_all add: no_earlier_def sleep_def split: prod.splits)
    show ?case
    proof (intro impI)
      assume P: "P (trace s)"
      have "controlled R s s1" using 1(2) P at unfolding ctl_def by (metis snd_conv)
      then have c1: "controlled R s ?s1" "controlled R s ?s2" by (simp_all add: controlled_def t)
      show "controlled R s (snd (retry_loop S pse deadline attempt s)) \<and>
        (\<forall>x s'. retry_loop S pse deadline attempt s = (Inr x, s') \<longrightarrow> Q x (trace s'))"
      proof (cases r)
        case (Inr x)
        then have "Q x (trace s1)" using 1(2) P at unfolding ctl_def by blast
        then show ?thesis using Inr at c1 t by (simp add: retry_loop.simps [of S])
      next
        case (Inl e)
        have P1: "P (trace ?s2)" using 1(3) P at Inl t by simp
        show ?thesis
        proof (cases "is_lock_timeout (error_text e) \<and> clock ?s1 + pse < deadline")
          case True
          have "controlled R ?s2 (snd (retry_loop S pse deadline attempt ?s2)) \<and>
              (\<forall>x s'. retry_loop S pse deadline attempt ?s2 = (Inr x, s') \<longrightarrow> Q x (trace s'))"
            using 1(1) [OF at [symmetric] Inl HOL.refl True 1(2,3)] P1 by simp
          then show ?thesis using True Inl at controlled_trans [OF c1(2)]
            by (simp add: retry_loop.simps [of S _ _ _ s] Let_def)
        next
          case False
          then show ?thesis using Inl at c1 by (auto simp: retry_loop.simps [of S _ _ _ s] Let_def)
        qed
      qed
    qed
  qed
  then show ?thesis unfolding ctl_def retry_while_locked_def by blast
qed

text \<open>
  \<open>follows R I m J\<close>: from a history with \<open>I\<close>, every request of \<open>m\<close> obeys \<open>R\<close>, and a success with value
  \<open>a\<close> ends with \<open>J a\<close>.
\<close>

definition follows ::
  "((request \<times> answer) list \<Rightarrow> request \<times> answer \<Rightarrow> bool) \<Rightarrow> ((request \<times> answer) list \<Rightarrow> bool) \<Rightarrow> ('w, 'a) op \<Rightarrow>
     ('a \<Rightarrow> (request \<times> answer) list \<Rightarrow> bool) \<Rightarrow> bool" where
  "follows R I m J \<longleftrightarrow> ctl R (\<lambda>s. I (trace s)) m (\<lambda>a s. J a (trace s))"

named_theorems follow_intro \<comment> \<open>rules that follow an operation step by step\<close>

lemma follows_bind: "follows R I m J \<Longrightarrow> (\<And>a. follows R (J a) (f a) K) \<Longrightarrow> follows R I (bindE m f) K"
  unfolding follows_def by (rule ctl_bind)

lemma follows_post: "follows R I m J \<Longrightarrow> (\<And>a h. J a h \<Longrightarrow> J' a h) \<Longrightarrow> follows R I m J'"
  unfolding follows_def by (rule ctl_weaken)

lemma follows_pre: "follows R I m J \<Longrightarrow> (\<And>h. I' h \<Longrightarrow> I h) \<Longrightarrow> follows R I' m J"
  unfolding follows_def by (rule ctl_weaken)

lemma follows_return [follow_intro]: "(\<And>h. I h \<Longrightarrow> J a h) \<Longrightarrow> follows R I (returnE a) J"
  by (simp add: follows_def ctl_def returnE_run)

lemma follows_throw [follow_intro]: "follows R I (throwE e) J"
  by (simp add: follows_def ctl_def throwE_run)

lemma follows_bind_lift [follow_intro]: "(\<And>a. r = Inr a \<Longrightarrow> follows R I (f a) J) \<Longrightarrow> follows R I (bindE (liftE r) f) J"
  by (cases r) (simp_all add: follows_throw)

lemma follows_bind_unless [follow_intro]: "(b \<Longrightarrow> follows R I (f ()) J) \<Longrightarrow> follows R I (bindE (unlessE b e) f) J"
  by (simp add: unlessE_def follows_throw)

lemma follows_if [follow_intro]:
  "(b \<Longrightarrow> follows R I m J) \<Longrightarrow> (\<not> b \<Longrightarrow> follows R I n J) \<Longrightarrow> follows R I (if b then m else n) J"
  by simp

lemma follows_let [follow_intro]: "follows R I (f x) J \<Longrightarrow> follows R I (let a = x in f a) J"
  by simp

lemma follows_extend:
  assumes "follows R I m J" and "grows I" and "I (trace s)"
  shows "I (trace (snd (m s)))"
proof -
  obtain t where "trace (snd (m s)) = trace s @ t"
    using assms(1,3) unfolding follows_def ctl_def controlled_def by blast
  then show ?thesis using assms(2,3) by (simp add: grows_def)
qed

lemma follows_try:
  assumes "follows R I m J" and "grows I"
  shows "follows R I (tryE m) (\<lambda>r h. I h \<and> (\<forall>a. r = Inr a \<longrightarrow> J a h))"
  using assms(1) follows_extend [OF assms] unfolding follows_def ctl_def
  by (auto simp: tryE_run) (metis prod.collapse)

lemma follows_step: "follows R I m J \<Longrightarrow> follows R I (stepE n m) J"
  unfolding follows_def by (rule ctl_step) simp_all

lemma follows_map_err: "follows R I m J \<Longrightarrow> follows R I (map_errE f m) J"
proof -
  have "snd (map_errE f m s) = snd (m s)" for s by (simp add: map_errE_def split: prod.splits)
  then show "follows R I m J \<Longrightarrow> follows R I (map_errE f m) J"
    by (auto simp: follows_def ctl_def map_errE_Inr)
qed

lemma grows_True [simp]: "grows (\<lambda>_. True)"
  by (simp add: grows_def)

lemma grows_conj [intro]: "grows I \<Longrightarrow> grows J \<Longrightarrow> grows (\<lambda>h. I h \<and> J h)"
  by (simp add: grows_def)

lemma grows_const [simp]: "grows (\<lambda>_. b)"
  by (simp add: grows_def)

lemma follows_controlled: "follows R (\<lambda>_. True) m J \<Longrightarrow> controlled R s (snd (m s))"
  by (simp add: follows_def ctl_def)

lemma follows_reached: "follows R (\<lambda>_. True) m J \<Longrightarrow> m s = (Inr a, s') \<Longrightarrow> J a (trace s')"
  by (simp add: follows_def ctl_def)

text \<open>Operations all of whose requests the rule allows at any time.\<close>

lemma follows_only:
  assumes "only P m" and "\<And>h c. P c \<Longrightarrow> R h c" and "grows I"
  shows "follows R I m (\<lambda>_. I)"
proof -
  have "ctl R (\<lambda>s. I (trace s)) m (\<lambda>_ _. True)"
    by (rule ctl_only_any [OF assms(1,2)]) simp_all
  moreover have "I (trace s')" if "I (trace s)" "m s = (r, s')" for s r s'
    using assms(1,3) that unfolding only_def grows_def by (metis snd_conv)
  ultimately show ?thesis unfolding follows_def ctl_def by blast
qed

lemma only_extends_trace: "only P m \<Longrightarrow> m s = (r, s') \<Longrightarrow> \<exists>t. trace s' = trace s @ t"
  unfolding only_def by (metis snd_conv)

lemma follows_only_post:
  assumes "only P m" and "\<And>h c. P c \<Longrightarrow> R h c" and "grows I" and "\<And>s a s'. m s = (Inr a, s') \<Longrightarrow> J a (trace s')"
  shows "follows R I m (\<lambda>a h. I h \<and> J a h)"
proof -
  have "follows R I m (\<lambda>_. I)" by (rule follows_only [where P = P]) (use assms(1-3) in auto)
  then show ?thesis using assms(4) unfolding follows_def ctl_def by blast
qed

text \<open>A condition that every request of an operation keeps, though other requests may not.\<close>

lemma follows_kept:
  assumes "only P m" and "\<And>h c. I h \<Longrightarrow> P c \<Longrightarrow> R h c" and "\<And>h c. I h \<Longrightarrow> P c \<Longrightarrow> I (h @ [c])"
  shows "follows R I m (\<lambda>_. I)"
proof -
  have app: "(\<forall>i < length t. R (h @ take i t) (t ! i)) \<and> I (h @ t)" if "I h" "\<forall>c \<in> set t. P c" for h t
    using that(2)
  proof (induction t rule: rev_induct)
    case (snoc c t)
    then have IH: "\<forall>i < length t. R (h @ take i t) (t ! i)" "I (h @ t)" by auto
    have "R (h @ t) c" "I (h @ t @ [c])" using assms(2,3) [OF IH(2), of c] snoc.prems by auto
    then show ?case using IH by (auto simp: nth_append less_Suc_eq)
  qed (use that(1) in simp)
  have "controlled R s (snd (m s)) \<and> I (trace (snd (m s)))" if I: "I (trace s)" for s
  proof -
    obtain t where "trace (snd (m s)) = trace s @ t" "\<forall>c \<in> set t. P c" using assms(1) unfolding only_def by blast
    with app [OF I this(2)] show ?thesis unfolding controlled_def by metis
  qed
  then show ?thesis unfolding follows_def ctl_def by (metis snd_conv)
qed

text \<open>A condition that later requests cannot undo survives a retried operation.\<close>

lemma follows_retry:
  assumes "follows R I m J" and "grows I"
  shows "follows R I (retry_while_locked S pl m) J"
  unfolding follows_def
proof (rule ctl_retry)
  show "ctl R (\<lambda>s. I (trace s)) m (\<lambda>x s. J x (trace s))" using assms(1) by (simp add: follows_def)
  show "I (trace s')" if "I (trace s)" "m s = (Inl e, s')" for s e s'
    using follows_extend [OF assms that(1)] that(2) by simp
qed

lemma follows_api:
  assumes "\<And>h a. I h \<Longrightarrow> R h (rq, a)" and "grows I"
  shows "follows R I (api S rq) (\<lambda>v h. I h \<and> told rq (\<lambda>x. x = v) h)"
  unfolding follows_def
proof (rule ctl_weaken [OF ctl_api [where Pre = "\<lambda>s. I (trace s)"]])
  show "R (trace s) (rq, a)" if "I (trace s)" for s a by (rule assms(1) [OF that])
  show "I (trace s') \<and> told rq (\<lambda>x. x = v) (trace s')" if "\<exists>s. I (trace s) \<and> api S rq s = (Inr v, s')" for v s'
  proof -
    from that obtain s where s: "I (trace s)" "api S rq s = (Inr v, s')" by blast
    from api_trace [OF s(2)] obtain a where "trace s' = trace s @ [(rq, a)]" by blast
    then show ?thesis using s(1) assms(2) api_told [OF s(2), of "\<lambda>x. x = v"] by (simp add: grows_def)
  qed
qed simp

text \<open>A request the rule allows, then only reads.\<close>

lemma follows_posted:
  assumes I: "grows I" and post: "\<And>h a. I h \<Longrightarrow> R h (rq, a)" and reads: "\<And>v. only (\<lambda>c. is_get (fst c)) (f v)"
    and get: "\<And>h c. is_get (fst c) \<Longrightarrow> R h c"
  shows "follows R I (bindE (api S rq) f) (\<lambda>_. I)"
proof (rule follows_bind)
  show "follows R I (api S rq) (\<lambda>_. I)"
    by (rule follows_post [OF follows_api [where R = R and I = I]]) (use I post in auto)
  show "follows R I (f v) (\<lambda>_. I)" for v
    by (rule follows_only [OF reads]) (use get I in auto)
qed

text \<open>What every success of an operation shows may be added to what it keeps.\<close>

lemma follows_run:
  assumes "follows R I m J" and "\<And>s a s'. m s = (Inr a, s') \<Longrightarrow> K a (trace s')"
  shows "follows R I m (\<lambda>a h. J a h \<and> K a h)"
  using assms unfolding follows_def ctl_def by blast

text \<open>Operations of which only the effect on the history matters.\<close>

definition learns :: "((request \<times> answer) list \<Rightarrow> bool) \<Rightarrow> ('w, 'a) op \<Rightarrow> ('a \<Rightarrow> (request \<times> answer) list \<Rightarrow> bool) \<Rightarrow> bool" where
  "learns I m J \<longleftrightarrow> follows (\<lambda>_ _. True) I m J"

lemma learns_run: "learns (\<lambda>_. True) m J \<Longrightarrow> m s = (Inr a, s') \<Longrightarrow> J a (trace s')"
  by (simp add: learns_def follows_def ctl_def)

lemma learns_only:
  assumes "only P m" and "grows I" and "\<And>s a s'. m s = (Inr a, s') \<Longrightarrow> K a (trace s')"
  shows "learns I m (\<lambda>a h. I h \<and> K a h)"
  unfolding learns_def by (rule follows_only_post [where P = P]) (use assms in auto)

lemma follows_mapM:
  assumes "\<And>x. follows R I (f x) (\<lambda>_ h. I h \<and> K x h)" and "\<And>x. grows (K x)" and "grows I"
  shows "follows R I (mapM_E f xs) (\<lambda>_ h. I h \<and> (\<forall>x \<in> set xs. K x h))"
proof (induction xs)
  case Nil
  show ?case by (simp add: follows_return)
next
  case (Cons x xs)
  have K: "grows (\<lambda>h. I h \<and> K x h)" using assms(2,3) by blast
  have "follows R (\<lambda>h. I h \<and> K x h) (mapM_E f xs) (\<lambda>_ h. (I h \<and> K x h) \<and> (\<forall>x \<in> set xs. K x h))"
  proof -
    have "follows R (\<lambda>h. I h \<and> K x h) (mapM_E f xs) (\<lambda>_ h. I h \<and> (\<forall>x \<in> set xs. K x h))"
      by (rule follows_pre [OF Cons.IH]) simp
    moreover have "K x (trace (snd (mapM_E f xs s)))" if "I (trace s) \<and> K x (trace s)" for s
      using follows_extend [OF calculation K that] by simp
    ultimately show ?thesis unfolding follows_def ctl_def by (metis (mono_tags, lifting) snd_conv)
  qed
  then show ?case unfolding mapM_E.simps
    by (intro follows_bind [OF assms(1)] follows_bind [where J = "\<lambda>_ h. (I h \<and> K x h) \<and> (\<forall>x \<in> set xs. K x h)"] follows_return) auto
qed

text \<open>What every history with the condition says of the parameters may be assumed.\<close>

lemma follows_given: "(\<And>h. I h \<Longrightarrow> Q) \<Longrightarrow> (Q \<Longrightarrow> follows R I m J) \<Longrightarrow> follows R I m J"
  unfolding follows_def ctl_def by blast

lemma follows_try_any: "follows R I m J \<Longrightarrow> follows R I (tryE m) (\<lambda>_ _. True)"
  by (simp add: follows_def ctl_def tryE_run)

lemma follows_request:
  assumes "\<And>h a. I h \<Longrightarrow> R h (rq, a)"
  shows "follows R I (api S rq) (\<lambda>_ _. True)"
  unfolding follows_def
  by (rule ctl_weaken [OF ctl_api [where Pre = "\<lambda>s. I (trace s)"]]) (use assms in auto)

section \<open>Readings\<close>

text \<open>The VMs of a listing, and the power state in the answer to a status request.\<close>

definition resources_in :: "'w ext \<Rightarrow> json \<Rightarrow> resource list" where
  "resources_in S v = (case v of
        JArr items \<Rightarrow> sort_key r_vmid (map (resource_of (print_json S)) (List.map_filter qemu_entry items))
      | _ \<Rightarrow> [])"

definition power_of :: "'w ext \<Rightarrow> json \<Rightarrow> string" where
  "power_of S v =
     (case v of
        JObj m \<Rightarrow>
          (case text_or_none (print_json S) (bt_get m ''status'') of
             None \<Rightarrow> ''unknown''
           | Some t \<Rightarrow> if trim t = [] then ''unknown'' else trim t)
      | _ \<Rightarrow> ''unknown'')"

definition power_request_of :: "string \<Rightarrow> nat \<Rightarrow> request" where
  "power_request_of node vmid = Get (qemu_path node vmid ''/status/current'') []"

lemma cluster_vm_resources_Inr:
  assumes "cluster_vm_resources S s = (Inr rs, s')"
  obtains v where "api S vms_request s = (Inr v, s')" and "rs = resources_in S v"
proof -
  have v: "(case v of JArr items \<Rightarrow> returnE (List.map_filter qemu_entry items) | _ \<Rightarrow> throwE e) s1 = (Inr vms, s') \<longleftrightarrow>
      (\<exists>items. v = JArr items \<and> vms = List.map_filter qemu_entry items \<and> s1 = s')" for v e s1 vms
    by (cases v) (auto simp: returnE_run throwE_run)
  show ?thesis using assms that [of "JArr _"]
    by (auto simp: cluster_vm_resources_def cluster_vm_maps_def bindE_Inr returnE_run v resources_in_def)
qed

lemma vm_status_told:
  assumes "vm_status S node vmid s = (Inr st, s')" and "st \<noteq> ''absent''"
  shows "told (power_request_of node vmid) (\<lambda>v. power_of S v = st) (trace s')"
proof -
  obtain r s1 where r: "api S (power_request_of node vmid) s = (r, s1)" by fastforce
  show ?thesis
  proof (cases r)
    case (Inl e)
    then show ?thesis using assms r by (auto simp: vm_status_def power_request_of_def bindE_def tryE_run returnE_run)
  next
    case (Inr v)
    then have "vm_status S node vmid s = (Inr (power_of S v), s1)"
      using r by (cases v) (simp_all add: vm_status_def power_request_of_def bindE_def tryE_run returnE_run power_of_def)
    then have "st = power_of S v" "s1 = s'" using assms(1) by simp_all
    then show ?thesis using api_told [of S "power_request_of node vmid" s v s1] r Inr by simp
  qed
qed

lemma vm_status_never_fails: "\<exists>st s'. vm_status S node vmid s = (Inr st, s')"
  by (simp add: vm_status_def bindE_def tryE_run returnE_run)

text \<open>A shutdown that succeeds has read that the VM is stopped.\<close>

lemma shutdown_vm_told:
  assumes "shutdown_vm S node vmid secs wait s = (Inr u, s')"
  shows "told (power_request_of node vmid) (\<lambda>v. power_of S v = ''stopped'') (trace s')"
proof -
  obtain st s1 where st: "vm_status S node vmid s = (Inr st, s1)" using vm_status_never_fails by blast
  show ?thesis
  proof (cases "st = ''stopped''")
    case True
    then show ?thesis using assms st vm_status_told [OF st] by (auto simp: shutdown_vm_def bindE_Inr returnE_run)
  next
    case False
    from assms st False obtain s2 s3 where f: "vm_status S node vmid s2 = (Inr ''stopped'', s3)"
      and l: "wait_listed_stopped S vmid s3 = (Inr u, s')"
      by (auto simp: shutdown_vm_def bindE_Inr throwE_run split: if_splits)
    have "only (\<lambda>_. True) (wait_listed_stopped S vmid)" by (rule only_listed) simp
    from only_extends_trace [OF this l] obtain t where "trace s' = trace s3 @ t" by blast
    then show ?thesis using vm_status_told [OF f] told_grows by (simp add: grows_def)
  qed
qed

end
