(* ===== verification/Refresh_Safety.thy ===== *)
theory Refresh_Safety
  imports Refresh History
begin

text \<open>
  What refresh and its recovery can do to the disks of a VM, whatever Proxmox answers. An unlink is the
  only request that takes a disk off the VM; with \<^verbatim>\<open>force\<close> it deletes the volume. The locale
  \<open>unlink_policy\<close> states what a rule for unlinks needs, the lemmas in it follow the operations once, and
  the properties are its instances for two rules.
\<close>

section \<open>Requests of the single operations\<close>

fun unlinks :: "request \<Rightarrow> bool" where
  "unlinks (Put p q) \<longleftrightarrow> (\<exists>x. (''idlist'', x) \<in> set q)"
| "unlinks (Delete p q) \<longleftrightarrow> True"
| "unlinks _ \<longleftrightarrow> False"

lemma description_not_unlink [simp]: "\<not> unlinks (Put p (description_fields d @ digest_field dg))"
  by (auto simp: description_fields_def digest_field_def split: option.splits if_splits)

lemma only_effective_config [only_intro]:
  "(\<And>p q a. P (Get p q, a)) \<Longrightarrow> only P (effective_config S node vmid)"
  unfolding effective_config_def by (intro only_intro) (simp_all add: vm_config_request_def pending_request_def)

lemma only_write_journal [only_intro]:
  assumes "\<And>p q a. P (Get p q, a)"
    and "\<And>d dg a. P (Put (qemu_path node vmid ''/config'') (description_fields d @ digest_field dg), a)"
  shows "only P (write_journal S C node vmid c j)"
  unfolding write_journal_def by (intro only_intro) (simp_all add: assms vm_config_request_def)

text \<open>Operations that unlink nothing.\<close>

definition harmless :: "('w, 'a) op \<Rightarrow> bool" where
  "harmless m \<longleftrightarrow> only (\<lambda>c. \<not> unlinks (fst c)) m"

lemma harmless_config [simp]: "harmless (v_config S v)"
  unfolding harmless_def v_config_def by (intro only_intro) simp

lemma harmless_write [simp]: "harmless (v_write S C v c j)"
  unfolding harmless_def v_write_def
  by (intro only_intro) (use description_not_unlink in \<open>simp_all del: unlinks.simps(1)\<close>)

lemma harmless_set [simp]: "harmless (v_set S v c xs what)"
  unfolding harmless_def v_set_def v_config_def by (intro only_intro) simp_all

lemma harmless_power_calls [simp]:
  "harmless (v_status S v)" "harmless (v_shutdown S v)" "harmless (v_start S v)"
  unfolding harmless_def v_status_def v_shutdown_def v_start_def by (rule only_intro; simp)+

lemma harmless_pure [simp]:
  "harmless (liftE r)" "harmless (unlessE b e)" "harmless (returnE a)" "harmless (throwE e)"
  unfolding harmless_def by (rule only_intro)+

lemma harmless_reads [simp]:
  "harmless (require_space S node st n)" "harmless (resolve_existing_workspace S cfg vmid)"
  "harmless (verify_refreshed_guest S node vmid x t)" "harmless (require_pool S vmid pool)"
  unfolding harmless_def by (rule only_intro; simp add: storage_status_request_def vms_request_def)+

lemma harmless_bind [intro]: "harmless m \<Longrightarrow> (\<And>a. harmless (f a)) \<Longrightarrow> harmless (bindE m f)"
  unfolding harmless_def by (rule only_bind)

lemma harmless_if [intro]: "(b \<Longrightarrow> harmless m) \<Longrightarrow> (\<not> b \<Longrightarrow> harmless n) \<Longrightarrow> harmless (if b then m else n)"
  by simp

lemma harmless_power [simp]: "harmless m \<Longrightarrow> harmless (when_power b m)" "harmless (stop_if_running S v)"
  by (auto simp: when_power_def stop_if_running_def)

section \<open>What a history shows of the configuration\<close>

text \<open>The configuration with its pending changes, from the last reads of both.\<close>

definition seen_config :: "'w ext \<Rightarrow> vm_handle \<Rightarrow> (request \<times> answer) list \<Rightarrow> vm_cfg option" where
  "seen_config S v h =
     (case (latest (vm_config_request (vh_node v) (vh_vmid v)) h, latest (pending_request (vh_node v) (vh_vmid v)) h) of
        (Some (Inr (JObj m)), Some (Inr p)) \<Rightarrow> Some (with_pending (config_of (print_json S) m) p)
      | _ \<Rightarrow> None)"

lemma seen_after_put: "\<not> is_get rq \<Longrightarrow> seen_config S v (h @ [(rq, a)]) = seen_config S v h"
  by (auto simp: seen_config_def latest_snoc vm_config_request_def pending_request_def)

lemma config_not_pending: "vm_config_request n v \<noteq> pending_request n v"
  by (simp add: vm_config_request_def pending_request_def qemu_path_def)

lemma v_config_seen: "v_config S v s = (Inr c, s') \<Longrightarrow> seen_config S v (trace s') = Some c"
  unfolding v_config_def effective_config_def bindE_Inr vm_config_Inr returnE_run
  using config_not_pending [of "vh_node v" "vh_vmid v"]
  by (auto simp: seen_config_def latest_def map_err_Inr dest!: api_trace)

definition saw :: "'w ext \<Rightarrow> vm_handle \<Rightarrow> (request \<times> answer) list \<Rightarrow> vm_cfg \<Rightarrow> bool" where
  "saw S v h c \<longleftrightarrow> (\<exists>h1 h2. h = h1 @ h2 \<and> seen_config S v h1 = Some c)"

lemma saw_grows: "grows (\<lambda>h. saw S v h c)"
  by (auto simp: grows_def saw_def) (metis append.assoc)

lemma saw_now: "seen_config S v h = Some c \<Longrightarrow> saw S v h c"
  by (auto simp: saw_def)

section \<open>Rules for unlinks\<close>

text \<open>
  A rule \<open>R\<close> that asks nothing of other requests, allows an unlink that keeps the volume when the
  configuration was read, and one that deletes it when the volume read in the slot may go (\<open>D\<close>).
\<close>

locale unlink_policy =
  fixes S :: "'w ext" and v :: vm_handle
    and R :: "(request \<times> answer) list \<Rightarrow> request \<times> answer \<Rightarrow> bool"
    and D :: "(request \<times> answer) list \<Rightarrow> string \<Rightarrow> bool"
  assumes plain: "\<not> unlinks rq \<Longrightarrow> R h (rq, a)"
    and soft: "seen_config S v h = Some c \<Longrightarrow> R h (unlink_request v slot False, a)"
    and hard: "seen_config S v h = Some c \<Longrightarrow> D h (slot_volume c slot) \<Longrightarrow> R h (unlink_request v slot True, a)"
    and D_grows: "D h w \<Longrightarrow> D (h @ t) w"
begin

lemma follows_harmless: "harmless m \<Longrightarrow> grows I \<Longrightarrow> follows R I m (\<lambda>_. I)"
  unfolding harmless_def by (rule follows_only [where P = "\<lambda>c. \<not> unlinks (fst c)"]) (auto simp: plain split_paired_all)

lemma bind_harmless: "harmless m \<Longrightarrow> grows I \<Longrightarrow> (\<And>a. follows R I (f a) J) \<Longrightarrow> follows R I (bindE m f) J"
  by (rule follows_bind [OF follows_harmless])

lemma bind_config:
  assumes "grows I" and "\<And>c. follows R (\<lambda>h. I h \<and> saw S v h c) (f c) J"
  shows "follows R I (bindE (v_config S v) f) J"
proof (rule follows_bind)
  show "follows R I (v_config S v) (\<lambda>c h. I h \<and> saw S v h c)"
    using follows_harmless [OF harmless_config assms(1)] v_config_seen saw_now
    unfolding follows_def ctl_def by blast
qed (rule assms(2))

lemma follows_unlink:
  assumes I: "grows I" and d: "force \<Longrightarrow> (\<And>h. I h \<Longrightarrow> D h w)"
  shows "follows R I (v_unlink S v slot w force) (\<lambda>_. I)"
proof -
  let ?P = "\<lambda>c h. I h \<and> seen_config S v h = Some c \<and> slot_volume c slot = w"
  have get: "\<not> is_get (unlink_request v slot force)" by (simp add: unlink_request_def)
  have keep: "?P c (h @ [(unlink_request v slot force, a)])" if "?P c h" for c h a
    using that I get by (simp add: seen_after_put grows_def)
  have api: "ctl R (\<lambda>s. ?P c (trace s)) (api S (unlink_request v slot force)) (\<lambda>_ s. ?P c (trace s))" for c
  proof (rule ctl_weaken [OF ctl_api])
    show "R (trace s) (unlink_request v slot force, a)" if "?P c (trace s)" for s a
      using that soft hard d by (cases force) auto
  next
    fix x s' assume "\<exists>s. ?P c (trace s) \<and> api S (unlink_request v slot force) s = (Inr x, s')"
    then show "?P c (trace s')" using keep api_trace by (metis (no_types, lifting))
  qed simp
  have "ctl R (\<lambda>s. ?P c (trace s)) (retry_while_locked S pl (api S (unlink_request v slot force))) (\<lambda>_ s. ?P c (trace s))" for c pl
    by (rule ctl_retry [OF api]) (use keep api_trace in \<open>metis (no_types, lifting)\<close>)
  then have retry: "follows R (?P c) (retry_while_locked S pl (api S (unlink_request v slot force))) (\<lambda>_. I)" for c pl
    unfolding follows_def by (rule ctl_weaken [where P = "\<lambda>s. ?P c (trace s)"]) simp_all
  have cfg: "follows R I (v_config S v) (\<lambda>c h. I h \<and> seen_config S v h = Some c)"
    using follows_harmless [OF harmless_config I] v_config_seen unfolding follows_def ctl_def by blast
  show ?thesis unfolding v_unlink_def
    by (rule follows_bind [OF cfg], rule follows_bind_unless, rule follows_bind, rule follows_pre [OF retry], simp)
      (rule follows_harmless [OF harmless_config I])
qed

lemma bind_unlink:
  "grows I \<Longrightarrow> (force \<Longrightarrow> (\<And>h. I h \<Longrightarrow> D h w)) \<Longrightarrow> (\<And>a. follows R I (f a) J) \<Longrightarrow>
     follows R I (bindE (v_unlink S v slot w force) f) J"
  by (rule follows_bind [OF follows_unlink])

lemmas follow_rules = bind_harmless bind_unlink follow_intro

end

section \<open>The operations under a rule\<close>

definition same_roots :: "journal \<Rightarrow> journal \<Rightarrow> bool" where
  "same_roots j j' \<longleftrightarrow> old_root_volume j' = old_root_volume j \<and> j_home_volume j' = j_home_volume j"

text \<open>The history contains a successful verification of the guest.\<close>

definition verified_guest :: "'w ext \<Rightarrow> vm_handle \<Rightarrow> guest_expectation \<Rightarrow> (request \<times> answer) list \<Rightarrow> bool" where
  "verified_guest S v x h \<longleftrightarrow>
     (\<exists>s1 s2 cid t. verify_refreshed_guest S (vh_node v) (vh_vmid v) x (tm_verify (vh_timing v)) s1 = (Inr cid, s2) \<and>
        h = trace s2 @ t)"

lemma verified_grows: "grows (verified_guest S v x)"
  by (auto simp: grows_def verified_guest_def) (metis append.assoc)

definition expected_guest :: "config \<Rightarrow> replace_input \<Rightarrow> guest_expectation" where
  "expected_guest cfg i = expectation_of cfg (ri_name i) (ri_ip i) (ri_cidr i) (ri_label i)"

context unlink_policy
begin

lemma follows_import:
  assumes "grows I"
  shows "follows R I (import_root S C v i j c) (\<lambda>j1 h. I h \<and> same_roots j j1)"
  unfolding import_root_def Let_def
  by (intro follow_rules harmless_set harmless_write assms) (simp_all add: same_roots_def)

lemma follows_switch:
  assumes "grows I"
  shows "follows R I (switch_roots S C v cfg i j) (\<lambda>(c, j1) h. I h \<and> same_roots j j1)"
  unfolding switch_roots_def Let_def
  by (intro follow_rules harmless_set harmless_write harmless_config assms) (simp_all add: same_roots_def)

lemma follows_configure:
  assumes "grows I"
  shows "follows R I (configure_keep S v cfg i boot c) (\<lambda>_. I)"
  unfolding configure_keep_def by (intro follow_rules harmless_set assms) simp_all

lemma follows_boot_verify:
  assumes "grows I"
  shows "follows R I (boot_verify S C v cfg i c j)
    (\<lambda>(cid, j1) h. I h \<and> same_roots j j1 \<and> verified_guest S v (expected_guest cfg i) h)"
proof -
  let ?m = "verify_refreshed_guest S (vh_node v) (vh_vmid v) (expected_guest cfg i) (tm_verify (vh_timing v))"
  have "follows R I ?m (\<lambda>_ h. I h \<and> verified_guest S v (expected_guest cfg i) h)"
    using follows_harmless [OF harmless_reads(3) assms, of S "vh_node v" "vh_vmid v" "expected_guest cfg i" "tm_verify (vh_timing v)"]
    unfolding follows_def ctl_def verified_guest_def by (metis append_Nil2)
  then show ?thesis
    unfolding boot_verify_def Let_def expected_guest_def [symmetric]
    by (intro bind_harmless harmless_write harmless_power_calls assms follows_bind, assumption)
      (rule follows_return, simp add: same_roots_def)
qed

lemma follows_delete_previous:
  assumes "grows I" and "\<And>h. I h \<Longrightarrow> D h (old_root_volume j)"
  shows "follows R I (delete_previous_root S C v j) (\<lambda>_. I)"
  unfolding delete_previous_root_def Let_def
  by (intro follow_rules harmless_write harmless_config assms(1)) (simp_all add: assms(2))

lemma follows_power:
  "grows I \<Longrightarrow> follows R I (when_power b (v_shutdown S v)) (\<lambda>_. I)" "grows I \<Longrightarrow> follows R I (when_power b (v_start S v)) (\<lambda>_. I)"
  by (simp_all add: follows_harmless)

lemma follows_replace_steps:
  assumes I: "grows I" and d: "\<And>h. I h \<Longrightarrow> verified_guest S v (expected_guest cfg i) h \<Longrightarrow> D h (old_root_volume j)"
  shows "follows R I (replace_steps S C v cfg i j c boot) (\<lambda>_ _. True)"
proof -
  let ?V = "verified_guest S v (expected_guest cfg i)"
  have g: "grows (\<lambda>h. I h \<and> b)" "grows (\<lambda>h. I h \<and> b \<and> ?V h)" for b
    using I verified_grows [of S v "expected_guest cfg i"] by (auto simp: grows_def)
  have del: "follows R (\<lambda>h. I h \<and> same_roots j j3 \<and> ?V h) (delete_previous_root S C v j3) (\<lambda>_ _. True)" for j3
    by (rule follows_post [OF follows_delete_previous [OF g(2)]]) (auto simp: same_roots_def d)
  have rest: "follows R (\<lambda>h. I h \<and> same_roots j j2)
     (bindE (stepE ''Cloud-Init'' (configure_keep S v cfg i boot c2)) (\<lambda>c3.
      bindE (stepE ''Boot verification'' (boot_verify S C v cfg i c3 j2)) (\<lambda>(cid, j3).
      bindE (stepE ''Restore power state'' (when_power (ri_initial i = PStopped) (v_shutdown S v))) (\<lambda>_.
      bindE (stepE ''Delete previous root'' (delete_previous_root S C v j3)) (\<lambda>_.
      returnE (new_root_volume j1, cid)))))) (\<lambda>_ _. True)" for c2 j2 j1
  proof (rule follows_bind [OF follows_step [OF follows_configure [OF g(1)]]],
      rule follows_bind [OF follows_step [OF follows_boot_verify [OF g(1)]]], clarsimp, rule follows_pre, rule follows_bind)
    fix j3
    show "follows R (\<lambda>h. I h \<and> same_roots j j3 \<and> ?V h) (stepE ''Restore power state''
        (when_power (ri_initial i = PStopped) (v_shutdown S v))) (\<lambda>_ h. I h \<and> same_roots j j3 \<and> ?V h)"
      by (rule follows_step [OF follows_power(1) [OF g(2)]])
    show "follows R (\<lambda>h. I h \<and> same_roots j j3 \<and> ?V h) (bindE (stepE ''Delete previous root'' (delete_previous_root S C v j3))
        (\<lambda>_. returnE (new_root_volume j1, cid))) (\<lambda>_ _. True)" for cid
      by (rule follows_bind [OF follows_step [OF del]], rule follows_return, simp)
  qed (auto simp: same_roots_def)
  show ?thesis unfolding replace_steps_def
    by (rule follows_bind [OF follows_step [OF follows_import [OF I]]],
        rule follows_bind [OF follows_step [OF follows_power(1) [OF g(1)]]],
        rule follows_bind [OF follows_step [OF follows_switch [OF g(1)]]], clarsimp, rule follows_pre [OF rest])
      (auto simp: same_roots_def)
qed

end

text \<open>The volumes a recovery may delete are the two roots, and neither is the journal's home.\<close>

lemma with_staged_roots:
  assumes "validate_journal cfg j = Inr ()"
  shows "old_root_volume (with_staged j c) = old_root_volume j \<and> old_root_volume j \<noteq> [] \<and>
    old_root_volume j \<noteq> j_home_volume j \<and> new_root_volume (with_staged j c) \<noteq> j_home_volume j"
  using validate_journal_Inr [OF assms]
  by (auto simp: with_staged_def staged_volume_def Let_def split: option.splits if_splits)

context unlink_policy
begin

lemma follows_finish_cleanup:
  assumes "grows I" and "\<And>h. I h \<Longrightarrow> D h (old_root_volume j)"
  shows "follows R I (finish_cleanup S C v cfg j) (\<lambda>_. I)"
proof -
  have del: "follows R I (case unused_key_of c (old_root_volume j) of
      Some key \<Rightarrow> bindE (v_unlink S v key (old_root_volume j) True) (\<lambda>_. returnE ()) | None \<Rightarrow> returnE ()) (\<lambda>_. I)" for c
    by (cases "unused_key_of c (old_root_volume j)") (simp_all, (intro follow_rules assms(1); simp add: assms)+)
  show ?thesis unfolding finish_cleanup_def
    by (rule bind_harmless [OF harmless_config assms(1)], rule follows_bind_unless, rule follows_bind [OF del])
      (intro bind_harmless harmless_config harmless_write harmless_power(1) harmless_power_calls(3) assms(1) follows_return, simp)
qed

lemma follows_reattach:
  assumes "grows I"
  shows "follows R I (reattach_old S v cfg j) (\<lambda>_. I)"
proof -
  have off: "follows R I (if new \<noteq> [] \<and> root_of cfg c = new
      then bindE (v_unlink S v (root_disk cfg) new False) (\<lambda>c1. bindE (liftE (require_home j c1)) (\<lambda>_. returnE c1))
      else returnE c) (\<lambda>_. I)" for new c
    by (intro follow_rules assms) simp_all
  show ?thesis unfolding reattach_old_def Let_def
    by (rule bind_harmless [OF harmless_config assms], rule follows_bind [OF off], rule follows_bind_unless, rule follows_if,
        rule follows_bind_unless, rule follows_harmless [OF harmless_set assms], rule follows_return)
qed

lemma follows_remove_new:
  assumes "grows I" and "\<And>h. I h \<Longrightarrow> new_root_volume j \<noteq> [] \<Longrightarrow> D h (new_root_volume j)"
  shows "follows R I (remove_new S v j c) (\<lambda>_. I)"
  unfolding remove_new_def
  by (cases "staged_slot j c") (auto intro!: follow_intro follows_unlink assms)

lemma follows_roll_back:
  assumes I: "grows I" and d: "\<And>h. I h \<Longrightarrow> new_root_volume j0 \<noteq> [] \<Longrightarrow> D h (new_root_volume j0)"
  shows "follows R I (roll_back S C v cfg j0) (\<lambda>_. I)"
proof -
  have mark: "follows R I (if rolling_back j0 then returnE j0
      else let j = j0\<lparr>rolling_back := True\<rparr> in bindE (v_write S C v c0 (Some j)) (\<lambda>_. returnE j))
      (\<lambda>j h. I h \<and> new_root_volume j = new_root_volume j0)" for c0
    unfolding Let_def by (intro follow_rules harmless_write I) simp_all
  have opts: "harmless (if form = [] then returnE () else bindE (v_set S v c1 form what) (\<lambda>_. returnE ()))" for form c1 what
    by auto
  have g: "grows (\<lambda>h. I h \<and> b)" for b using I by (auto simp: grows_def)
  have new: "follows R (\<lambda>h. I h \<and> new_root_volume j = new_root_volume j0) (remove_new S v j c) (\<lambda>_ h. I h \<and> new_root_volume j = new_root_volume j0)" for j c
    by (rule follows_remove_new [OF g]) (use d in auto)
  show ?thesis unfolding roll_back_def Let_def
    by (rule bind_harmless [OF harmless_config I], rule follows_bind [OF mark [unfolded Let_def]], rule follows_bind [OF follows_reattach [OF g]],
        rule follows_bind_unless, rule follows_bind_unless, rule follows_bind_lift, rule follows_bind [OF new])
      (intro bind_harmless opts harmless_config harmless_write harmless_power(1) harmless_power_calls(3) g follows_return, simp)
qed

lemma follows_unlink_all: "grows I \<Longrightarrow> follows R I (unlink_all S v w c slots) (\<lambda>_. I)"
proof (induction slots arbitrary: c)
  case Nil
  then show ?case by (simp add: follows_return)
next
  case (Cons slot slots)
  then show ?case by (simp, intro bind_unlink) auto
qed

lemma follows_force:
  assumes I: "grows I"
  shows "follows R I (force_new_root S C v cfg j c mm) (\<lambda>_. I)"
proof -
  have pend: "harmless (if has_pending c1 then v_write S C v c1 (Some j) else returnE c1)" for c1 by auto
  have off: "follows R I (if root_of cfg c \<noteq> [] then v_unlink S v (root_disk cfg) (root_of cfg c) False else returnE c) (\<lambda>_. I)" for c
    by (auto intro!: follow_intro follows_unlink I)
  have att: "follows R I (force_attach S v cfg j new c) (\<lambda>_. I)" for new c
    unfolding force_attach_def Let_def
    by (rule follows_if, rule follows_return, assumption, rule follows_bind [OF off],
        rule follows_bind [OF follows_unlink_all [OF I]], rule follows_harmless [OF harmless_set I])
  show ?thesis unfolding force_new_root_def
    by (rule follows_bind_lift, rule bind_harmless [OF harmless_power(2) I], rule bind_harmless [OF harmless_config I],
        rule bind_harmless [OF pend I], rule follows_bind [OF att], rule follows_bind_unless, rule follows_bind_lift, clarify)
      (intro follows_bind_lift bind_harmless harmless_set harmless_write harmless_config harmless_power(1) harmless_power_calls
        harmless_reads I follows_return, simp)
qed

lemma follows_recover:
  assumes I: "grows I" and d: "\<And>h w. I h \<Longrightarrow> w \<noteq> [] \<Longrightarrow> w \<noteq> j_home_volume j \<Longrightarrow> D h w"
  shows "follows R I (recover S C v cfg j force) (\<lambda>_. I)"
proof -
  have pend: "harmless (apply_pending_changes S C v k)" for k
    unfolding apply_pending_changes_def by (intro harmless_bind harmless_if) simp_all
  have roots: "follows R I (bindE (stop_if_running S v) (\<lambda>_. bindE (apply_pending_changes S C v (with_staged j c)) (\<lambda>_.
      if j_phase (with_staged j c) = Verified \<and> \<not> rolling_back (with_staged j c) then finish_cleanup S C v cfg (with_staged j c)
      else roll_back S C v cfg (with_staged j c)))) (\<lambda>_. I)" if "validate_journal cfg j = Inr ()" for c
    by (rule bind_harmless [OF harmless_power(2) I], rule bind_harmless [OF pend I], rule follows_if)
      (use with_staged_roots [OF that, of c] d in \<open>auto intro!: follows_finish_cleanup follows_roll_back I\<close>)
  show ?thesis unfolding recover_def Let_def
    by (rule follows_bind_lift, rule bind_harmless [OF harmless_config I], rule follows_if, rule follows_if,
        rule follows_force [OF I], rule follows_throw, rule roots, simp)
qed

end

section \<open>The whole operation\<close>

lemma harmless_prepare: "harmless (replace_prepare S C txid v cfg plan)"
  unfolding replace_prepare_def Let_def by (intro harmless_bind) simp_all

lemma replace_guards_home: "replace_guards C cfg vmid plan i w = Inr mac \<Longrightarrow> get_str plan ''home_volume'' = Some (ew_home_volume w)"
  by (auto simp: replace_guards_def Let_def)

lemma replace_prepare_Inr:
  assumes "replace_prepare S C txid v cfg plan s = (Inr (i, j, c, boot, mac), s')"
  shows "validate_journal cfg j = Inr () \<and> get_str plan ''home_volume'' = Some (j_home_volume j)"
  using assms by (auto simp: replace_prepare_def Let_def bindE_Inr liftE_run returnE_run first_journal_def
      dest!: replace_guards_home)

context unlink_policy
begin

lemma follows_replace:
  assumes d: "\<And>i j h. validate_journal cfg j = Inr () \<Longrightarrow> get_str plan ''home_volume'' = Some (j_home_volume j) \<Longrightarrow>
    D h (old_root_volume j)"
  shows "follows R (\<lambda>_. True) (replace S C txid v cfg plan) (\<lambda>_ _. True)"
proof -
  let ?ok = "\<lambda>j. validate_journal cfg j = Inr () \<and> get_str plan ''home_volume'' = Some (j_home_volume j)"
  have prep: "follows R (\<lambda>_. True) (replace_prepare S C txid v cfg plan)
      (\<lambda>a _. case a of (i, j, c, boot, mac) \<Rightarrow> ?ok j)"
    using follows_harmless [OF harmless_prepare grows_True, of S C txid v cfg plan] replace_prepare_Inr
    unfolding follows_def ctl_def by fast
  have fin: "harmless (replace_finish S v plan i mac w cid)" for i mac w cid
    unfolding replace_finish_def by (intro harmless_bind) simp_all
  have steps: "follows R (\<lambda>_. ?ok j) (replace_steps S C v cfg i j c boot) (\<lambda>_ _. True)" for i j c boot
    by (rule follows_replace_steps) (use d in auto)
  have last: "follows R (\<lambda>_. True) (bindE (tryE (replace_finish S v plan i mac w cid)) (\<lambda>f.
      returnE (case f of Inl e \<Rightarrow> Inl (e, False) | Inr x \<Rightarrow> Inr x))) (\<lambda>_ _. True)" for i mac w cid
    by (rule follows_bind [OF follows_try [OF follows_harmless [OF fin]]]) (simp_all add: follows_return)
  have tail: "follows R (\<lambda>_. ?ok j) (bindE (tryE (replace_steps S C v cfg i j c boot)) (\<lambda>r.
      case r of Inl e \<Rightarrow> returnE (Inl (e, True))
      | Inr (w, cid) \<Rightarrow> bindE (tryE (replace_finish S v plan i mac w cid)) (\<lambda>f.
          returnE (case f of Inl e \<Rightarrow> Inl (e, False) | Inr x \<Rightarrow> Inr x)))) (\<lambda>_ _. True)" for i j c boot mac
    by (rule follows_bind [OF follows_try [OF steps]])
      (auto intro: follows_return follows_pre [OF last] split: sum.splits prod.splits)
  have body: "follows R (\<lambda>h. True \<and> (\<forall>a. p = Inr a \<longrightarrow> (case a of (i, j, c, boot, mac) \<Rightarrow> ?ok j)))
      (case p of Inl e \<Rightarrow> returnE (Inl (e, False))
       | Inr (i, j, c, boot, mac) \<Rightarrow> bindE (tryE (replace_steps S C v cfg i j c boot)) (\<lambda>r.
          case r of Inl e \<Rightarrow> returnE (Inl (e, True))
          | Inr (w, cid) \<Rightarrow> bindE (tryE (replace_finish S v plan i mac w cid)) (\<lambda>f.
              returnE (case f of Inl e \<Rightarrow> Inl (e, False) | Inr x \<Rightarrow> Inr x)))) (\<lambda>_ _. True)" for p
    by (cases p) (auto intro: follows_return follows_pre [OF tail] split: prod.splits)
  show ?thesis unfolding replace_def by (rule follows_bind [OF follows_try [OF prep grows_True] body])
qed

lemma follows_auto_recover:
  assumes d: "\<And>h c j w. saw S v h c \<Longrightarrow> read_journal C cfg (vh_vmid v) c = Inr (Some j) \<Longrightarrow>
    w \<noteq> [] \<Longrightarrow> w \<noteq> j_home_volume j \<Longrightarrow> D h w"
  shows "follows R (\<lambda>_. True) (auto_recover S C v cfg) (\<lambda>_ _. True)"
  unfolding auto_recover_def
proof (rule bind_config [OF grows_True], rule follows_bind_lift, rule follows_bind_lift)
  fix c found j
  assume "read_journal C cfg (vh_vmid v) c = Inr found" "ok_or found (Failed ''the journal is gone'') = Inr j"
  then have "follows R (\<lambda>h. saw S v h c) (recover S C v cfg j False) (\<lambda>_ h. saw S v h c)"
    by (intro follows_recover [OF saw_grows]) (use d in auto)
  then show "follows R (\<lambda>h. True \<and> saw S v h c) (recover S C v cfg j False) (\<lambda>_ _. True)"
    by (simp, rule follows_post) simp
qed

lemma follows_refresh_recover:
  assumes d: "\<And>h c j w. saw S v h c \<Longrightarrow> read_journal C cfg (vh_vmid v) c = Inr (Some j) \<Longrightarrow>
    w \<noteq> [] \<Longrightarrow> w \<noteq> j_home_volume j \<Longrightarrow> D h w"
  shows "follows R (\<lambda>_. True) (refresh_recover S C v cfg plan) (\<lambda>_ _. True)"
  unfolding refresh_recover_def Let_def
proof (rule bind_config [OF grows_True], rule follows_bind_lift, rule follows_bind_lift, rule follows_bind_lift,
    rule follows_bind_unless)
  fix c u found j
  assume "read_journal C cfg (vh_vmid v) c = Inr found" "ok_or found (journal_gone (vh_vmid v)) = Inr j"
  then have "follows R (\<lambda>h. saw S v h c) (recover S C v cfg j force) (\<lambda>_ h. saw S v h c)" for force
    by (intro follows_recover [OF saw_grows]) (use d in auto)
  then show "follows R (\<lambda>h. True \<and> saw S v h c)
      (bindE (stepE ''Recover refresh'' (recover S C v cfg j force)) (\<lambda>recovery. bindE (v_status S v) (\<lambda>status. returnE (f recovery status))))
      (\<lambda>_ _. True)" for force f
    by (simp, intro follows_bind [OF follows_step], assumption)
      (intro bind_harmless harmless_power_calls saw_grows follows_return, simp)
qed

lemma follows_refresh:
  assumes "vmid_of plan = Inr (vh_vmid v)" and "plan_text plan ''node'' = Inr (vh_node v)" and "timing = vh_timing v"
    and old: "\<And>j h. validate_journal cfg j = Inr () \<Longrightarrow> get_str plan ''home_volume'' = Some (j_home_volume j) \<Longrightarrow>
      D h (old_root_volume j)"
    and rec: "\<And>h c j w. saw S v h c \<Longrightarrow> read_journal C cfg (vh_vmid v) c = Inr (Some j) \<Longrightarrow>
      w \<noteq> [] \<Longrightarrow> w \<noteq> j_home_volume j \<Longrightarrow> D h w"
  shows "follows R (\<lambda>_. True) (refresh_workspace S C txid cfg pool plan timing) (\<lambda>_ _. True)"
proof -
  have v: "\<lparr>vh_node = vh_node v, vh_vmid = vh_vmid v, vh_timing = timing\<rparr> = v" using assms(3) by simp
  have auto: "follows R (\<lambda>_. True) (bindE (tryE (auto_recover S C v cfg)) (\<lambda>r. throwE (e r))) (\<lambda>_ _. True)" for e
    by (rule follows_bind [OF follows_try [OF follows_auto_recover [OF rec] grows_True]]) (simp_all add: follows_throw)
  have "follows R (\<lambda>_. True) (case r of Inr result \<Rightarrow> returnE result
      | Inl (e, written) \<Rightarrow> if \<not> written then throwE e
         else bindE (tryE (auto_recover S C v cfg)) (\<lambda>recovery. throwE (refresh_failed (vh_vmid v) e recovery))) (\<lambda>_ _. True)" for r
    by (auto intro!: follow_intro auto split: sum.splits prod.splits)
  then have rep: "follows R (\<lambda>_. True) (bindE (replace S C txid v cfg plan) (\<lambda>r. case r of Inr result \<Rightarrow> returnE result
      | Inl (e, written) \<Rightarrow> if \<not> written then throwE e
         else bindE (tryE (auto_recover S C v cfg)) (\<lambda>recovery. throwE (refresh_failed (vh_vmid v) e recovery)))) (\<lambda>_ _. True)"
    by (intro follows_bind [OF follows_replace [OF old]])
  show ?thesis
    unfolding refresh_workspace_def assms(1,2) liftE_simps bindE_return Let_def v
    by (rule bind_harmless [OF harmless_reads(4) grows_True], rule follows_bind_lift, rule follows_if)
      (rule follows_refresh_recover [OF rec], assumption+, rule rep)
qed

end

section \<open>Properties\<close>

text \<open>The homes a run knows: the plan's, and that of every journal it read from the VM.\<close>

definition named_home ::
  "'w ext \<Rightarrow> journal_codec \<Rightarrow> config \<Rightarrow> vm_handle \<Rightarrow> json \<Rightarrow> (request \<times> answer) list \<Rightarrow> string \<Rightarrow> bool" where
  "named_home S C cfg v plan h home \<longleftrightarrow>
     get_str plan ''home_volume'' = Some home \<or>
     (\<exists>c j. saw S v h c \<and> read_journal C cfg (vh_vmid v) c = Inr (Some j) \<and> j_home_volume j = home)"

definition home_rule ::
  "'w ext \<Rightarrow> journal_codec \<Rightarrow> config \<Rightarrow> vm_handle \<Rightarrow> json \<Rightarrow> (request \<times> answer) list \<Rightarrow> request \<times> answer \<Rightarrow> bool" where
  "home_rule S C cfg v plan h c \<longleftrightarrow>
     (unlinks (fst c) \<longrightarrow> (\<exists>slot force cf. fst c = unlink_request v slot force \<and> seen_config S v h = Some cf \<and>
        (force \<longrightarrow> slot_volume cf slot \<noteq> [] \<and>
          (\<exists>home. named_home S C cfg v plan h home \<and> slot_volume cf slot \<noteq> home))))"

definition verified_rule ::
  "'w ext \<Rightarrow> vm_handle \<Rightarrow> guest_expectation \<Rightarrow> string \<Rightarrow> (request \<times> answer) list \<Rightarrow> request \<times> answer \<Rightarrow> bool" where
  "verified_rule S v x old h c \<longleftrightarrow>
     (unlinks (fst c) \<longrightarrow> (\<exists>slot force cf. fst c = unlink_request v slot force \<and> seen_config S v h = Some cf \<and>
        (force \<longrightarrow> slot_volume cf slot = old \<and> verified_guest S v x h)))"

definition keep_rule :: "vm_handle \<Rightarrow> (request \<times> answer) list \<Rightarrow> request \<times> answer \<Rightarrow> bool" where
  "keep_rule v h c \<longleftrightarrow> (unlinks (fst c) \<longrightarrow> (\<exists>slot. fst c = unlink_request v slot False))"

lemma verified_grows_app: "verified_guest S v x h \<Longrightarrow> verified_guest S v x (h @ t)"
  using verified_grows [of S v x] by (simp add: grows_def)

lemma named_home_grows: "named_home S C cfg v plan h home \<Longrightarrow> named_home S C cfg v plan (h @ t) home"
  using saw_grows unfolding named_home_def grows_def by blast

interpretation home_pol: unlink_policy S v "home_rule S C cfg v plan"
  "\<lambda>h w. w \<noteq> [] \<and> (\<exists>home. named_home S C cfg v plan h home \<and> w \<noteq> home)" for S C cfg v plan
  by unfold_locales (auto simp: home_rule_def dest: named_home_grows)

interpretation verified_pol: unlink_policy S v "verified_rule S v x old" "\<lambda>h w. w = old \<and> verified_guest S v x h" for S v x old
  by unfold_locales (auto simp: verified_rule_def dest: verified_grows_app)

interpretation keep_pol: unlink_policy S v "keep_rule v" "\<lambda>_ _. False" for S v
  by unfold_locales (auto simp: keep_rule_def)


definition sample_refresh_plan :: json where
  "sample_refresh_plan =
     jobj [(''command'', JStr ''refresh''), (''mode'', JStr ''recover''), (''vmid'', JInt 101), (''node'', JStr ''pve1'')]"

definition sample_vm :: vm_handle where
  "sample_vm = \<lparr>vh_node = ''pve1'', vh_vmid = 101, vh_timing = sample_timing\<rparr>"



definition sample_input :: replace_input where
  "sample_input =
     \<lparr>ri_name = ''ws'', ri_ip = ''192.168.0.101'', ri_cidr = 16, ri_gateway = ''192.168.1.1'', ri_label = ''HS_HOME_101'',
      ri_root_storage = ''fast'', ri_gold_root = ''fast:base-9000-disk-0'', ri_gold_disk = ''fast:base-9000-disk-0,size=32G'',
      ri_root_bytes = 34359738368, ri_initial = PStopped\<rparr>"




text \<open>
  C14. Nothing is changed while the VM and its journal disagree: a recovery without force reads the
  configuration, reports every disagreement and sends nothing else.
\<close>

theorem recover_disagreement_reads_only:
  assumes "validate_journal cfg j = Inr ()" and "effective_config S (vh_node v) (vh_vmid v) s = (Inr c, s1)"
    and "journal_mismatches j (vh_node v) c \<noteq> []"
  shows "recover S C v cfg j False s =
      (Inl (Failed (disagrees (vh_vmid v) (journal_mismatches j (vh_node v) c) [])), s1) \<and>
    list_all is_get (requests (recover S C v cfg j False) s)"
proof -
  have r: "recover S C v cfg j False s =
      (Inl (Failed (disagrees (vh_vmid v) (journal_mismatches j (vh_node v) c) [])), s1)"
    using assms by (simp add: recover_def bindE_def liftE_run v_config_def returnE_run throwE_run)
  have "list_all is_get (requests (effective_config S (vh_node v) (vh_vmid v)) s)"
    by (rule only_requests) (intro only_intro, simp)
  then show ?thesis using r assms(2) by (simp add: requests_def sent_def)
qed

lemma sample_effective: "gives False (effective_config (machine sample_serve) ''pve1'' 101) sample_cfg False"
proof -
  have p: "pending_request ''pve1'' 101 = Get ''/nodes/pve1/qemu/101/pending'' []" by code_simp
  have v: "ans False ''/nodes/pve1/qemu/101/pending'' = JArr []" by code_simp
  show ?thesis unfolding effective_config_def p
    by (rule gives_bind [OF sample_vm_cfg], rule gives_bind [OF sample_get])
      (simp add: v with_pending_def gives_return)
qed

theorem recover_disagreement_reads_only_witness:
  "list_all is_get (requests (recover (machine sample_serve) sample_journal_codec sample_vm sample_config sample_journal False)
     (start_state False))"
proof -
  obtain s1 where e: "effective_config (machine sample_serve) (vh_node sample_vm) (vh_vmid sample_vm) (start_state False) = (Inr sample_cfg, s1)"
    using gives_run [OF sample_effective, of "start_state False"] by (auto simp: start_state_def sample_vm_def)
  have "journal_mismatches sample_journal (vh_node sample_vm) sample_cfg \<noteq> []" by code_simp
  from recover_disagreement_reads_only [OF sample_journal_valid e this] show ?thesis by blast
qed

text \<open>Planning a refresh only reads.\<close>

lemma plan_refresh_reads: "list_all is_get (requests (plan_refresh S C cfg pool vmid gold force) s)"
  unfolding plan_refresh_def plan_replace_def Let_def
  by (rule only_requests) (intro only_intro, simp_all)

end
