(* ===== verification/Migrate.thy ===== *)
theory Migrate
  imports Verify Destroy History
begin

text \<open>
  Migration of a workspace (\<^verbatim>\<open>hs-core/src/migrate.rs\<close>): the progress read from the task's log, the
  admission of the target, the plan, the steps of the operation and the restart on the source after a
  failure; and the names of nodes (\<^verbatim>\<open>hs-model/src/node.rs\<close>). Percentages and displayed sizes are exact
  rationals where the code has floating-point numbers.
\<close>

section \<open>Names of nodes\<close>

definition parse_node_name :: "string \<Rightarrow> string option" where
  "parse_node_name v =
     (let valid_len = (1 \<le> length v \<and> length v \<le> 63);
          valid_chars = list_all (\<lambda>c. is_alnum c \<or> c = CHR ''-'') v;
          valid_edges = (v \<noteq> [] \<and> is_alnum (hd v) \<and> is_alnum (last v))
      in if valid_len \<and> valid_chars \<and> valid_edges then Some v else None)"

section \<open>The volumes that move\<close>

definition MIGRATE_TIMEOUT :: nat where "MIGRATE_TIMEOUT = 7200000"
definition AGENT_TIMEOUT :: nat where "AGENT_TIMEOUT = 180000"

record migrate_request =
  mr_vmid :: nat
  mr_target_node :: string
  mr_target_storage :: "string option"

definition migration_volume_key :: "string \<Rightarrow> string" where
  "migration_volume_key volume =
     (let tail = (case split_once volume '':'' of None \<Rightarrow> volume | Some (_, p) \<Rightarrow> p)
      in strip_ext (last (split_on (CHR ''/'') tail)))"

definition migration_volume :: "vm_cfg \<Rightarrow> volume_entry \<Rightarrow> json" where
  "migration_volume c item =
     jobj [(''slot'', JStr (ve_slot item)), (''role'', JStr (ve_role item)), (''volume'', JStr (ve_volume item)),
       (''name'', JStr (migration_volume_key (ve_volume item))),
       (''size_bytes'', jopt jnat (map_option gib_bytes (parse_disk_size_gb (cfg_text c (ve_slot item)))))]"

definition migration_volume_plan :: "vm_cfg \<Rightarrow> config \<Rightarrow> json list" where
  "migration_volume_plan c cfg =
     map (migration_volume c) (filter (\<lambda>item. ve_role item \<noteq> ''unused'') (vm_volume_inventory c cfg))"

section \<open>Progress\<close>

definition byte_units :: "string list" where
  "byte_units = [''B'', ''KiB'', ''MiB'', ''GiB'', ''TiB'', ''PiB'']"

fun scale_bytes :: "rat \<Rightarrow> string list \<Rightarrow> rat \<times> string" where
  "scale_bytes x [] = (x, [])"
| "scale_bytes x [u] = (x, u)"
| "scale_bytes x (u # us) = (if x < 1024 then (x, u) else scale_bytes (x / 1024) us)"

text \<open>\<^verbatim>\<open>{:.1}\<close>: rounded to one digit, ties to even.\<close>

definition round_even :: "rat \<Rightarrow> nat" where
  "round_even x =
     (let n = nat \<lfloor>x\<rfloor>; rest = x - of_nat n
      in if 1 / 2 < rest \<or> rest = 1 / 2 \<and> odd n then n + 1 else n)"

definition one_digit :: "rat \<Rightarrow> string" where
  "one_digit x = (let n = round_even (10 * x) in dec (n div 10) @ ''.'' @ dec (n mod 10))"

definition human_bytes :: "nat \<Rightarrow> string" where
  "human_bytes value =
     (let (sz, u) = scale_bytes (of_nat value) byte_units
      in if u = ''B'' then dec value @ '' B'' else one_digit sz @ '' '' @ u)"

record migration_progress =
  mp_percent :: "rat option"
  mp_role :: string
  mp_volume :: string
  mp_copied :: nat
  mp_total :: "nat option"
  mp_description :: string

record migration_tracker =
  mt_volumes :: "(string \<times> nat option) bmap"
  mt_current :: "string option"
  mt_bytes :: nat
  mt_last :: "(rat \<times> string) option"

definition tracked_volume :: "json \<Rightarrow> (string \<times> string \<times> nat option) option" where
  "tracked_volume item =
     (case get_str item ''name'' of
        None \<Rightarrow> None
      | Some name \<Rightarrow>
          if name = [] then None
          else Some (name, (case get_str item ''role'' of None \<Rightarrow> ''disk'' | Some r \<Rightarrow> r), get_u64 item ''size_bytes''))"

definition new_tracker :: "json list \<Rightarrow> migration_tracker" where
  "new_tracker volumes =
     \<lparr>mt_volumes = fold (\<lambda>(k, v) m. bt_insert k v m) (List.map_filter tracked_volume volumes) [],
      mt_current = None, mt_bytes = 0, mt_last = None\<rparr>"

text \<open>The name of the last volume created and the text after its line.\<close>

definition created_at :: "string \<Rightarrow> (string \<times> string) option" where
  "created_at rest =
     (case find_sub [CHR 0x22] rest of
        None \<Rightarrow> None
      | Some q \<Rightarrow>
          if take q rest \<noteq> [] \<and> starts_with (drop q rest) ([CHR 0x22] @ '' created.'')
          then Some (take q rest, drop (q + length ([CHR 0x22] @ '' created.'')) rest) else None)"

definition last_created :: "string \<Rightarrow> (string \<times> string) option" where
  "last_created text =
     (let ms = List.map_filter created_at (match_rests (''Logical volume '' @ [CHR 0x22]) text)
      in if ms = [] then None else Some (last ms))"

definition speed_unit :: "string \<Rightarrow> string option" where
  "speed_unit s =
     (let r1 = (case s of c # cs \<Rightarrow> if c \<in> {CHR ''K'', CHR ''M'', CHR ''G'', CHR ''T''} then cs else s | [] \<Rightarrow> s)
      in map_option (\<lambda>r. take (length s - length r) s) (strip_prefix r1 ''B/s''))"

definition copied_at :: "string \<Rightarrow> (nat \<times> string \<times> string) option" where
  "copied_at text = do {
     (count, r) \<leftarrow> sc_take is_digit text;
     r \<leftarrow> sc_spaces r;
     r \<leftarrow> strip_prefix r ''bytes'';
     r \<leftarrow> sc_spaces r;
     r \<leftarrow> strip_prefix r ''('';
     (_, r) \<leftarrow> sc_take (\<lambda>c. c \<noteq> CHR '')'') r;
     r \<leftarrow> strip_prefix r '')'';
     r \<leftarrow> sc_spaces r;
     r \<leftarrow> strip_prefix r ''copied,'';
     r \<leftarrow> sc_spaces r;
     (_, r) \<leftarrow> sc_take is_num_char r;
     r \<leftarrow> sc_spaces r;
     r \<leftarrow> strip_prefix r ''s,'';
     r \<leftarrow> sc_spaces r;
     (speed, r) \<leftarrow> sc_take is_num_char r;
     r \<leftarrow> sc_spaces r;
     u \<leftarrow> speed_unit r;
     n \<leftarrow> parse_uint u64_bound count;
     Some (n, speed, u) }"

text \<open>The suffixes of a text that begin with the first digit of a number, the last one first.\<close>

fun number_suffixes :: "bool \<Rightarrow> string \<Rightarrow> string list" where
  "number_suffixes prev [] = []"
| "number_suffixes prev (c # cs) =
     number_suffixes (is_digit c) cs @ (if is_digit c \<and> \<not> prev then [c # cs] else [])"

fun find_map :: "('a \<Rightarrow> 'b option) \<Rightarrow> 'a list \<Rightarrow> 'b option" where
  "find_map f [] = None"
| "find_map f (x # xs) = (case f x of Some y \<Rightarrow> Some y | None \<Rightarrow> find_map f xs)"

definition last_copied :: "string \<Rightarrow> (nat \<times> string \<times> string) option" where
  "last_copied text = find_map copied_at (number_suffixes False text)"

definition arrow :: string where
  "arrow = ''  '' @ [CHR 0xE2, CHR 0x86, CHR 0xB3] @ '' ''"

definition middle_dot :: string where
  "middle_dot = '' '' @ [CHR 0xC2, CHR 0xB7] @ '' ''"

definition copy_detail :: "nat \<Rightarrow> nat option \<Rightarrow> string option \<Rightarrow> string" where
  "copy_detail copied tot speed =
     (case tot of
        Some t \<Rightarrow> human_bytes copied @ '' / '' @ human_bytes t
      | None \<Rightarrow> human_bytes copied) @
     (case speed of None \<Rightarrow> [] | Some x \<Rightarrow> middle_dot @ x)"

definition copy_percent :: "nat \<Rightarrow> nat \<Rightarrow> rat" where
  "copy_percent copied tot = max 0 (min 100 (100 * of_nat (min copied tot) / of_nat tot))"

text \<open>\<^verbatim>\<open>MigrationTracker::update\<close>.\<close>

definition tracker_at :: "migration_tracker \<Rightarrow> string \<Rightarrow> migration_tracker \<times> string option" where
  "tracker_at t output =
     (let (t1, tail) = (case last_created output of
            None \<Rightarrow> (t, output)
          | Some (name, rest) \<Rightarrow>
              (if mt_current t \<noteq> Some name then t\<lparr>mt_current := Some name, mt_bytes := 0\<rparr> else t, rest))
      in case last_copied tail of
           None \<Rightarrow> (t1, None)
         | Some (n, speed, u) \<Rightarrow>
             if mt_current t1 = None then (t1, None) else (t1\<lparr>mt_bytes := n\<rparr>, Some (speed @ '' '' @ u)))"

definition migration_update :: "migration_tracker \<Rightarrow> string \<Rightarrow> migration_progress option \<times> migration_tracker" where
  "migration_update t output =
     (let (t1, speed) = tracker_at t output
      in case mt_current t1 of
           None \<Rightarrow> (None, t1)
         | Some current \<Rightarrow>
             let (role, sz) = (case bt_get (mt_volumes t1) current of None \<Rightarrow> (''disk'', None) | Some x \<Rightarrow> x);
                 tot = (case sz of None \<Rightarrow> None | Some n \<Rightarrow> if 0 < n then Some n else None)
             in (Some \<lparr>mp_percent = map_option (copy_percent (mt_bytes t1)) tot, mp_role = role, mp_volume = current,
                   mp_copied = mt_bytes t1, mp_total = tot,
                   mp_description = arrow @ role @ middle_dot @ copy_detail (mt_bytes t1) tot speed\<rparr>, t1))"

text \<open>\<^verbatim>\<open>trim_start_matches\<close> of a non-empty pattern.\<close>

function (sequential) trim_matches :: "string \<Rightarrow> string \<Rightarrow> string" where
  "trim_matches p s = (if p \<noteq> [] \<and> starts_with s p then trim_matches p (drop (length p) s) else s)"
  by pat_completeness auto
termination
  by (relation "measure (\<lambda>(p, s). length s)") (auto simp: starts_with_iff)

declare trim_matches.simps [simp del]

definition migration_reading :: "migration_tracker log_tracker" where
  "migration_reading t output =
     (case migration_update t output of
        (None, t1) \<Rightarrow> (None, t1)
      | (Some progress, t1) \<Rightarrow>
          (case mp_percent progress of
             None \<Rightarrow> (None, t1)
           | Some pct \<Rightarrow>
               let reading = (pct, trim_matches arrow (mp_description progress))
               in if mt_last t1 = Some reading then (None, t1)
                  else (Some \<lparr>percent = fst reading, detail = snd reading\<rparr>, t1\<lparr>mt_last := Some reading\<rparr>)))"

section \<open>Admission\<close>

definition preflight_request :: "string \<Rightarrow> string \<Rightarrow> nat \<Rightarrow> request" where
  "preflight_request source target vmid = Get (qemu_path source vmid ''/migrate'') [(''target'', target)]"

definition volume_size :: "json \<Rightarrow> string \<Rightarrow> nat option" where
  "volume_size content volume =
     (case List.find (\<lambda>item. as_str (jidx item ''volid'') = Some volume) (log_entries content) of
        None \<Rightarrow> None
      | Some item \<Rightarrow>
          (case as_u64 (jidx item ''size'') of None \<Rightarrow> None | Some n \<Rightarrow> if 0 < n then Some n else None))"

record capacity_scan =
  cs_contents :: "json bmap"
  cs_seen :: "string list"
  cs_required :: nat

definition storage_content ::
  "'w ext \<Rightarrow> string \<Rightarrow> string \<Rightarrow> json bmap \<Rightarrow> ('w, json \<times> json bmap) op" where
  "storage_content S source storage contents =
     (case bt_get contents storage of
        Some content \<Rightarrow> returnE (content, contents)
      | None \<Rightarrow>
          bindE (api S (storage_content_request source storage)) (\<lambda>content.
          returnE (content, bt_insert storage content contents)))"

definition capacity_step ::
  "'w ext \<Rightarrow> string \<Rightarrow> nat \<Rightarrow> capacity_scan \<Rightarrow> json \<Rightarrow> ('w, capacity_scan) op" where
  "capacity_step S source vmid acc disk =
     bindE (liftE (ok_or (as_str (jidx disk ''volid''))
       (Refused ''Proxmox migration preflight returned a disk without a volume ID''))) (\<lambda>volume.
       if volume \<in> set (cs_seen acc) then returnE acc
       else
         let acc1 = acc\<lparr>cs_seen := volume # cs_seen acc\<rparr>
         in
         bindE (unlessE (\<not> (enabled disk ''cdrom'' \<and> \<not> enabled disk ''is_cloudinit''))
           (Refused (vm_msg vmid ('' has local CD-ROM '' @ volume @ ''; detach it before migration'')))) (\<lambda>_.
         bindE (liftE (ok_or (split_once volume '':'')
           (Refused (''Cannot determine storage for migration disk '' @ volume)))) (\<lambda>(storage, _).
         bindE (storage_content S source storage (cs_contents acc1)) (\<lambda>(content, contents).
         bindE (liftE (ok_or (volume_size content volume)
           (Refused (''Cannot determine migration disk size for '' @ volume)))) (\<lambda>sz.
         bindE (liftE (ok_or (checked_add (cs_required acc1) sz)
           (Refused ''Migration disk sizes exceed the supported byte range''))) (\<lambda>req.
         returnE (acc1\<lparr>cs_contents := contents, cs_required := req\<rparr>)))))))"

definition empty_scan :: capacity_scan where
  "empty_scan = \<lparr>cs_contents = [], cs_seen = [], cs_required = 0\<rparr>"

definition require_migration_capacity ::
  "'w ext \<Rightarrow> string \<Rightarrow> string \<Rightarrow> nat \<Rightarrow> string \<Rightarrow> ('w, json) op" where
  "require_migration_capacity S source target vmid storage =
     bindE (api S (preflight_request source target vmid)) (\<lambda>preflight.
     bindE (liftE (ok_or (as_array (jidx preflight ''local_disks''))
       (Refused ''Proxmox migration preflight did not return local disks''))) (\<lambda>moved.
     bindE (foldM_E (capacity_step S source vmid) empty_scan moved) (\<lambda>acc.
     require_space S target storage (cs_required acc))))"

definition vm_power_state :: "'w ext \<Rightarrow> string \<Rightarrow> nat \<Rightarrow> ('w, string) op" where
  "vm_power_state S node vmid =
     bindE (vm_status S node vmid) (\<lambda>status.
       if status = ''running'' \<or> status = ''stopped'' then returnE status
       else throwE (Refused (''Cannot determine current power state of VM '' @ dec vmid)))"

section \<open>Planning\<close>

definition unused_references :: "vm_cfg \<Rightarrow> string list" where
  "unused_references c =
     map (\<lambda>(key, v). key @ ''='' @ hd (split_on (CHR '','') v)) (filter (\<lambda>(key, _). is_numbered key ''unused'') c)"

definition has_unused :: "nat \<Rightarrow> string list \<Rightarrow> core_error" where
  "has_unused vmid unused =
     Refused (vm_msg vmid ('' has detached/unused disk references ('' @ join '', '' unused @
       ''); Proxmox migration scans them too. Clean or resolve them before migration.''))"

definition plan_migrate :: "'w ext \<Rightarrow> config \<Rightarrow> string \<Rightarrow> migrate_request \<Rightarrow> ('w, json) op" where
  "plan_migrate S cfg pool rq =
     (let vmid = mr_vmid rq
      in
      bindE (liftE (ok_or (parse_node_name (mr_target_node rq))
        (Invalid (''Invalid node name '' @ py_repr (Some (mr_target_node rq)))))) (\<lambda>target.
      bindE (require_pool S vmid pool) (\<lambda>_.
      bindE (resolve_existing_workspace S cfg vmid) (\<lambda>info.
      bindE (unlessE (target \<noteq> ew_node info) (Refused (vm_msg vmid ('' is already on node '' @ target)))) (\<lambda>_.
      let unused = unused_references (ew_config info) in
      bindE (unlessE (unused = []) (has_unused vmid unused)) (\<lambda>_.
      bindE (liftE (resolve_homestack_storage cfg target (mr_target_storage rq))) (\<lambda>storage.
      bindE (tryE (api S (Get (''/nodes/'' @ target @ ''/status'') []))) (\<lambda>reached.
      bindE (unlessE (is_ok reached)
        (Refused (''Target node '' @ py_repr (Some target) @ '' is not available in the Proxmox cluster''))) (\<lambda>_.
      bindE (require_migration_capacity S (ew_node info) target vmid storage) (\<lambda>capacity.
      bindE (vm_power_state S (ew_node info) vmid) (\<lambda>status.
      returnE (jobj
        [(''command'', JStr ''migrate''), (''capacity'', capacity), (''vmid'', jnat vmid), (''name'', JStr (ew_name info)),
         (''pool'', JStr pool), (''source_node'', JStr (ew_node info)), (''target_node'', JStr target),
         (''target_storage'', JStr storage), (''status'', JStr status), (''home_disk'', JStr (home_disk cfg)),
         (''home_label'', JStr (ew_home_label info)), (''home_volume'', JStr (ew_home_volume info)),
         (''volumes'', JArr (migration_volume_plan (ew_config info) cfg)),
         (''migration_mode'', JStr ''offline; all local disks including persistent home''),
         (''snippet_policy'', JStr ''none: the static vendor snippets are on every node (decision 1 = A)'')]))))))))))))"

section \<open>The operation\<close>

record planned_move =
  pm_vmid :: nat
  pm_source :: string
  pm_target :: string
  pm_storage :: string
  pm_home_label :: string
  pm_running :: bool
  pm_volumes :: "json list"

definition planned_of :: "json \<Rightarrow> core_error + planned_move" where
  "planned_of plan =
     bindR (vmid_of plan) (\<lambda>vmid.
     bindR (plan_text plan ''source_node'') (\<lambda>source.
     bindR (plan_text plan ''target_node'') (\<lambda>target.
     bindR (plan_text plan ''target_storage'') (\<lambda>storage.
     bindR (plan_text plan ''home_label'') (\<lambda>label.
     bindR (plan_text plan ''status'') (\<lambda>status.
     Inr \<lparr>pm_vmid = vmid, pm_source = source, pm_target = target, pm_storage = storage, pm_home_label = label,
       pm_running = (status = ''running''),
       pm_volumes = (case Option.bind (jget plan ''volumes'') as_array of None \<Rightarrow> [] | Some vs \<Rightarrow> vs)\<rparr>))))))"

definition migrate_form :: "string \<Rightarrow> string \<Rightarrow> (string \<times> string) list" where
  "migrate_form target storage =
     [(''target'', target), (''with-local-disks'', ''1''), (''targetstorage'', storage)]"

definition migrate_post :: "string \<Rightarrow> nat \<Rightarrow> string \<Rightarrow> string \<Rightarrow> request" where
  "migrate_post source vmid target storage = Post (qemu_path source vmid ''/migrate'') (migrate_form target storage)"

definition migrate_offline ::
  "'w ext \<Rightarrow> string \<Rightarrow> string \<Rightarrow> nat \<Rightarrow> string \<Rightarrow> json list \<Rightarrow> timing \<Rightarrow> ('w, unit) op" where
  "migrate_offline S source target vmid storage volumes timing =
     retry_while_locked S (tm_poll timing)
       (bindE (api S (migrate_post source vmid target storage)) (\<lambda>answer.
        bindE (liftE (upid S answer)) (\<lambda>u.
        bindE (wait_task_tracking S migration_reading u \<lparr>poll = tm_poll timing, timeout = MIGRATE_TIMEOUT\<rparr>
          (new_tracker volumes)) (\<lambda>(result, _).
        if task_ok result then returnE ()
        else throwE (task_failed ''qmigrate'' vmid source (exitstatus result))))))"

definition not_on_target :: "nat \<Rightarrow> string \<Rightarrow> string \<Rightarrow> core_error" where
  "not_on_target vmid actual target =
     Failed (''Migration command completed but VM '' @ dec vmid @ '' is on '' @ py_repr (Some actual) @ '', expected '' @
       py_repr (Some target))"

definition verify_target :: "'w ext \<Rightarrow> config \<Rightarrow> nat \<Rightarrow> string \<Rightarrow> string \<Rightarrow> ('w, unit) op" where
  "verify_target S cfg vmid target label =
     bindE (cluster_vm_resources S) (\<lambda>rs.
     let actual = (case find_vm vmid rs of None \<Rightarrow> [] | Some r \<Rightarrow> r_node r)
     in
     bindE (unlessE (actual = target) (not_on_target vmid actual target)) (\<lambda>_.
     bindE (vm_config S target vmid) (\<lambda>c.
     unlessE (disk_option (cfg_text c (home_disk cfg)) ''serial'' = Some label)
       (Failed (''Persistent home identity check failed after migration to '' @ target)))))"

definition power_not_kept :: "nat \<Rightarrow> string \<Rightarrow> string \<Rightarrow> core_error" where
  "power_not_kept vmid status desired =
     Failed (''Migration completed but VM '' @ dec vmid @ '' power state is '' @ py_repr (Some status) @ ''; expected '' @
       py_repr (Some desired) @ '' to preserve its pre-migration state'')"

definition desired_power :: "planned_move \<Rightarrow> string" where
  "desired_power p = (if pm_running p then ''running'' else ''stopped'')"

text \<open>From the migration to the final power state.\<close>

definition migrate_rest :: "'w ext \<Rightarrow> config \<Rightarrow> planned_move \<Rightarrow> timing \<Rightarrow> ('w, string) op" where
  "migrate_rest S cfg p timing =
     bindE (stepE ''Migrate local disks''
       (migrate_offline S (pm_source p) (pm_target p) (pm_vmid p) (pm_storage p) (pm_volumes p) timing)) (\<lambda>_.
     bindE (stepE ''Verify target configuration''
       (verify_target S cfg (pm_vmid p) (pm_target p) (pm_home_label p))) (\<lambda>_.
     bindE (if pm_running p then
         bindE (stepE ''Start workspace''
           (start_vm S (pm_target p) (pm_vmid p) (wait_for timing START_TIMEOUT_SECS))) (\<lambda>_.
         stepE ''Verify guest and persistent home''
           (verify_migrated_home S (pm_target p) (pm_vmid p) (user_name (cfg_user cfg)) (pm_home_label p) AGENT_TIMEOUT))
       else returnE ()) (\<lambda>_.
     stepE ''Verify final power state''
       (bindE (vm_status S (pm_target p) (pm_vmid p)) (\<lambda>status.
        bindE (unlessE (status = desired_power p) (power_not_kept (pm_vmid p) status (desired_power p))) (\<lambda>_.
        returnE status))))))"

text \<open>
  \<^verbatim>\<open>migrate_steps\<close> returns an outcome and sets \<^verbatim>\<open>source_stopped\<close>: here both are its value.
\<close>

definition migrate_steps ::
  "'w ext \<Rightarrow> config \<Rightarrow> planned_move \<Rightarrow> timing \<Rightarrow> ('w, (core_error + string) \<times> bool) op" where
  "migrate_steps S cfg p timing =
     bindE (if pm_running p then
         tryE (stepE ''Shutdown workspace''
           (shutdown_vm S (pm_source p) (pm_vmid p) SHUTDOWN_TIMEOUT_SECS (wait_for timing 600)))
       else returnE (Inr ())) (\<lambda>stopped.
     case stopped of
       Inl e \<Rightarrow> returnE (Inl e, False)
     | Inr _ \<Rightarrow> bindE (tryE (migrate_rest S cfg p timing)) (\<lambda>outcome. returnE (outcome, pm_running p)))"

definition restart_note :: "planned_move \<Rightarrow> core_error + unit \<Rightarrow> string \<times> core_error option" where
  "restart_note p restarted =
     (case restarted of
        Inr _ \<Rightarrow> ([CHR 0x0A] @ ''Recovery: VM '' @ dec (pm_vmid p) @ '' was restarted automatically on '' @ pm_source p @ ''.'', None)
      | Inl e \<Rightarrow> ([CHR 0x0A] @ ''Recovery: VM '' @ dec (pm_vmid p) @ '' is still on '' @ pm_source p @
          '', but automatic restart failed: '' @ error_text e, Some e))"

definition restart_listed ::
  "'w ext \<Rightarrow> planned_move \<Rightarrow> timing \<Rightarrow> resource list \<Rightarrow> ('w, string \<times> core_error option) op" where
  "restart_listed S p timing rs =
     (let r = find_vm (pm_vmid p) rs;
          node = (case r of None \<Rightarrow> [] | Some r \<Rightarrow> r_node r);
          status = (case Option.bind r r_status of None \<Rightarrow> [] | Some s \<Rightarrow> s)
      in if node \<noteq> pm_source p \<or> status = ''running'' then returnE ([], None)
         else
           bindE (tryE (stepE ''Restart workspace on the source node''
             (start_vm S (pm_source p) (pm_vmid p) (wait_for timing START_TIMEOUT_SECS)))) (\<lambda>restarted.
           returnE (restart_note p restarted)))"

definition restart_source :: "'w ext \<Rightarrow> planned_move \<Rightarrow> timing \<Rightarrow> ('w, string \<times> core_error option) op" where
  "restart_source S p timing =
     bindE (tryE (cluster_vm_resources S)) (\<lambda>listing.
     case listing of
       Inl e \<Rightarrow> returnE ([CHR 0x0A] @ ''Recovery check failed for VM '' @ dec (pm_vmid p) @ '' on '' @ pm_source p @ '': '' @
         error_text e, Some e)
     | Inr rs \<Rightarrow> restart_listed S p timing rs)"

definition with_recovery :: "core_error \<Rightarrow> string \<times> core_error option \<Rightarrow> core_error" where
  "with_recovery e r =
     (case r of (note, recovery_error) \<Rightarrow>
        if note = [] then e
        else Context (error_text e @ note) (e # (case recovery_error of None \<Rightarrow> [] | Some x \<Rightarrow> [x])))"

definition move_changed :: "nat \<Rightarrow> string \<Rightarrow> string \<Rightarrow> core_error" where
  "move_changed vmid node source =
     Refused (vm_msg vmid ('' is on '' @ node @ '', not on '' @ source @ '' as planned; generate a new plan''))"

definition recheck_move :: "'w ext \<Rightarrow> config \<Rightarrow> string \<Rightarrow> json \<Rightarrow> planned_move \<Rightarrow> ('w, unit) op" where
  "recheck_move S cfg pool plan p =
     bindE (resolve_existing_workspace S cfg (pm_vmid p)) (\<lambda>info.
     bindE (require_pool S (pm_vmid p) pool) (\<lambda>_.
     bindE (unlessE (ew_node info = pm_source p) (move_changed (pm_vmid p) (ew_node info) (pm_source p))) (\<lambda>_.
     bindE (unlessE (get_str plan ''home_volume'' = Some (ew_home_volume info))
       (Refused ''Workspace home volume changed after migrate confirmation; generate a new plan'')) (\<lambda>_.
     bindE (vm_power_state S (pm_source p) (pm_vmid p)) (\<lambda>status.
     bindE (liftE (plan_text plan ''status'')) (\<lambda>planned.
     bindE (unlessE (status = planned)
       (Refused ''Workspace power state changed after migrate confirmation; generate a new plan'')) (\<lambda>_.
     bindE (require_migration_capacity S (pm_source p) (pm_target p) (pm_vmid p) (pm_storage p)) (\<lambda>_.
     returnE ()))))))))"

definition migrate_workspace :: "'w ext \<Rightarrow> config \<Rightarrow> string \<Rightarrow> json \<Rightarrow> timing \<Rightarrow> ('w, json) op" where
  "migrate_workspace S cfg pool plan timing =
     bindE (liftE (planned_of plan)) (\<lambda>p.
     bindE (recheck_move S cfg pool plan p) (\<lambda>_.
     bindE (migrate_steps S cfg p timing) (\<lambda>(outcome, source_stopped).
     case outcome of
       Inr status \<Rightarrow>
         returnE (plan_result plan
           [(''ok'', JBool True), (''status'', JStr status), (''snippets_copied'', JArr []), (''home_preserved'', JBool True),
            (''power_state_preserved'', JBool True), (''event'', JStr ''workspace.migrated'')])
     | Inl e \<Rightarrow>
         if pm_running p \<and> source_stopped
         then bindE (restart_source S p timing) (\<lambda>r. throwE (with_recovery e r))
         else throwE e)))"

end
