(* ===== verification/Migrate_Safety.thy ===== *)
theory Migrate_Safety
  imports Migrate
begin

text \<open>
  What a migration can do to a VM, whatever Proxmox answers: it is moved only while it is known to be
  stopped, started only where the cluster lists it, and never deleted; and what a migration that
  reports success has established.
\<close>

section \<open>The rule of a migration\<close>

definition shutdown_post :: "string \<Rightarrow> nat \<Rightarrow> request" where
  "shutdown_post node vmid = Post (qemu_path node vmid ''/status/shutdown'') [(''timeout'', dec SHUTDOWN_TIMEOUT_SECS)]"

definition start_post :: "string \<Rightarrow> nat \<Rightarrow> request" where
  "start_post node vmid = Post (qemu_path node vmid ''/status/start'') []"

text \<open>The node a listing gives for a VM, empty when it does not list it.\<close>

definition listed_on :: "'w ext \<Rightarrow> nat \<Rightarrow> string \<Rightarrow> json \<Rightarrow> bool" where
  "listed_on S vmid node v \<longleftrightarrow>
     (case find_vm vmid (resources_in S v) of None \<Rightarrow> [] | Some r \<Rightarrow> r_node r) = node"

definition home_serial :: "'w ext \<Rightarrow> config \<Rightarrow> string \<Rightarrow> json \<Rightarrow> bool" where
  "home_serial S cfg label v \<longleftrightarrow>
     (\<exists>m. v = JObj m \<and> disk_option (cfg_text (config_of (print_json S) m) (home_disk cfg)) ''serial'' = Some label)"

definition known_stopped :: "'w ext \<Rightarrow> planned_move \<Rightarrow> (request \<times> answer) list \<Rightarrow> bool" where
  "known_stopped S p = told (power_request_of (pm_source p) (pm_vmid p)) (\<lambda>v. power_of S v = ''stopped'')"

definition arrived :: "'w ext \<Rightarrow> config \<Rightarrow> planned_move \<Rightarrow> (request \<times> answer) list \<Rightarrow> bool" where
  "arrived S cfg p h \<longleftrightarrow>
     told vms_request (listed_on S (pm_vmid p) (pm_target p)) h \<and>
     told (vm_config_request (pm_target p) (pm_vmid p)) (home_serial S cfg (pm_home_label p)) h"

definition migrate_rule ::
  "'w ext \<Rightarrow> config \<Rightarrow> planned_move \<Rightarrow> (request \<times> answer) list \<Rightarrow> request \<times> answer \<Rightarrow> bool" where
  "migrate_rule S cfg p h c \<longleftrightarrow>
     is_get (fst c) \<or>
     pm_running p \<and> fst c = shutdown_post (pm_source p) (pm_vmid p) \<or>
     fst c = migrate_post (pm_source p) (pm_vmid p) (pm_target p) (pm_storage p) \<and> known_stopped S p h \<or>
     pm_running p \<and> fst c = start_post (pm_target p) (pm_vmid p) \<and> arrived S cfg p h \<or>
     pm_running p \<and> fst c = Post (agent (pm_target p) (pm_vmid p) ''ping'') [] \<or>
     pm_running p \<and> fst c = start_post (pm_source p) (pm_vmid p) \<and>
       told vms_request (listed_on S (pm_vmid p) (pm_source p)) h"

lemma migrate_rule_get [simp]: "migrate_rule S cfg p h (Get q r, a)"
  by (simp add: migrate_rule_def)

lemma known_grows [simp]: "grows (known_stopped S p)" and arrived_grows [simp]: "grows (arrived S cfg p)"
  unfolding known_stopped_def arrived_def [abs_def] by (auto intro: grows_conj)

section \<open>Requests of the single operations\<close>

lemma only_capacity_step [only_intro]:
  "(\<And>p q a. P (Get p q, a)) \<Longrightarrow> only P (capacity_step S source vmid acc disk)"
  unfolding capacity_step_def storage_content_def Let_def
  by (intro only_intro) (simp_all add: storage_content_request_def)

lemma only_migration_capacity [only_intro]:
  "(\<And>p q a. P (Get p q, a)) \<Longrightarrow> only P (require_migration_capacity S source target vmid storage)"
  unfolding require_migration_capacity_def
  by (intro only_intro) (simp_all add: preflight_request_def storage_status_request_def)

lemma only_vm_power_state [only_intro]: "(\<And>p q a. P (Get p q, a)) \<Longrightarrow> only P (vm_power_state S node vmid)"
  unfolding vm_power_state_def by (intro only_intro) simp_all

lemma only_plan_migrate [only_intro]: "(\<And>p q a. P (Get p q, a)) \<Longrightarrow> only P (plan_migrate S cfg pool rq)"
  unfolding plan_migrate_def Let_def by (intro only_intro) (simp_all add: vms_request_def)

lemma only_verify_target [only_intro]:
  "(\<And>p q a. P (Get p q, a)) \<Longrightarrow> only P (verify_target S cfg vmid target label)"
  unfolding verify_target_def Let_def by (intro only_intro) (simp_all add: vms_request_def vm_config_request_def)

lemma vm_power_state_told:
  assumes "vm_power_state S node vmid s = (Inr st, s')"
  shows "told (power_request_of node vmid) (\<lambda>v. power_of S v = st) (trace s') \<and> st \<in> {''running'', ''stopped''}"
  using assms vm_status_told [of S node vmid s st s']
  by (auto simp: vm_power_state_def bindE_Inr returnE_run throwE_run split: if_splits)

lemma verify_target_told:
  assumes "verify_target S cfg vmid target label s = (Inr u, s')"
  shows "told vms_request (listed_on S vmid target) (trace s') \<and>
    told (vm_config_request target vmid) (home_serial S cfg label) (trace s')"
proof -
  from assms obtain rs s1 m where rs: "cluster_vm_resources S s = (Inr rs, s1)"
    and n: "(case find_vm vmid rs of None \<Rightarrow> [] | Some r \<Rightarrow> r_node r) = target"
    and c: "api S (vm_config_request target vmid) s1 = (Inr (JObj m), s')"
    and l: "disk_option (cfg_text (config_of (print_json S) m) (home_disk cfg)) ''serial'' = Some label"
    by (auto simp: verify_target_def Let_def bindE_Inr unlessE_run vm_config_Inr split: if_splits)
  from rs obtain v where v: "api S vms_request s = (Inr v, s1)" "rs = resources_in S v"
    by (rule cluster_vm_resources_Inr)
  have "listed_on S vmid target v"
    using n v(2) by (simp add: listed_on_def)
  then have "told vms_request (listed_on S vmid target) (trace s1)" using api_told [OF v(1)] by blast
  moreover obtain a where "trace s' = trace s1 @ [a]" using api_trace [OF c] by blast
  moreover have "home_serial S cfg label (JObj m)" using l by (simp add: home_serial_def)
  ultimately show ?thesis using api_told [OF c] told_grows by (simp add: grows_def)
qed

section \<open>Following the operation\<close>

lemma follows_reads:
  assumes "only (\<lambda>c. is_get (fst c)) m" and "grows I"
  shows "follows (migrate_rule S cfg p) I m (\<lambda>_. I)"
  by (rule follows_only [OF assms(1) _ assms(2)]) (simp add: migrate_rule_def)

lemma follows_reads_post:
  assumes "only (\<lambda>c. is_get (fst c)) m" and "grows I" and "\<And>s a s'. m s = (Inr a, s') \<Longrightarrow> J a (trace s')"
  shows "follows (migrate_rule S cfg p) I m (\<lambda>a h. I h \<and> J a h)"
  by (rule follows_only_post [where P = "\<lambda>c. is_get (fst c)"]) (use assms in \<open>auto simp: migrate_rule_def\<close>)

lemma follows_start:
  assumes "grows I" and "\<And>h a. I h \<Longrightarrow> migrate_rule S cfg p h (start_post node (pm_vmid p), a)"
  shows "follows (migrate_rule S cfg p) I (start_vm S node (pm_vmid p) wait) (\<lambda>_. I)"
  unfolding start_vm_def start_post_def [symmetric]
  by (rule follows_retry [OF follows_posted assms(1)], rule assms(1), rule assms(2), assumption,
      intro only_intro, simp_all add: migrate_rule_def)

lemma follows_offline:
  "follows (migrate_rule S cfg p) (known_stopped S p)
     (migrate_offline S (pm_source p) (pm_target p) (pm_vmid p) (pm_storage p) vols timing) (\<lambda>_. known_stopped S p)"
  unfolding migrate_offline_def
  by (rule follows_retry [OF follows_posted], simp, simp add: migrate_rule_def, intro only_intro)
    (simp_all add: migrate_rule_def)

lemma follows_shutdown:
  assumes "pm_running p" and "grows I"
  shows "follows (migrate_rule S cfg p) I
    (shutdown_vm S (pm_source p) (pm_vmid p) SHUTDOWN_TIMEOUT_SECS wait) (\<lambda>_ h. I h \<and> known_stopped S p h)"
proof (rule follows_only_post [where P = "\<lambda>c. is_get (fst c) \<or> fst c = shutdown_post (pm_source p) (pm_vmid p)"])
  show "only (\<lambda>c. is_get (fst c) \<or> fst c = shutdown_post (pm_source p) (pm_vmid p))
      (shutdown_vm S (pm_source p) (pm_vmid p) SHUTDOWN_TIMEOUT_SECS wait)"
    by (intro only_intro) (simp_all add: shutdown_post_def)
qed (use assms shutdown_vm_told in \<open>auto simp: migrate_rule_def known_stopped_def\<close>)

text \<open>What a finished migration has read: the VM on the target with its home, in the power state it had.\<close>

definition moved :: "'w ext \<Rightarrow> config \<Rightarrow> planned_move \<Rightarrow> (request \<times> answer) list \<Rightarrow> bool" where
  "moved S cfg p h \<longleftrightarrow> arrived S cfg p h \<and>
     told (power_request_of (pm_target p) (pm_vmid p)) (\<lambda>v. power_of S v = desired_power p) h"

definition check_power :: "'w ext \<Rightarrow> planned_move \<Rightarrow> ('w, string) op" where
  "check_power S p =
     bindE (vm_status S (pm_target p) (pm_vmid p)) (\<lambda>status.
     bindE (unlessE (status = desired_power p) (power_not_kept (pm_vmid p) status (desired_power p))) (\<lambda>_.
     returnE status))"

lemma check_power_told:
  "check_power S p s = (Inr st, s') \<Longrightarrow>
     told (power_request_of (pm_target p) (pm_vmid p)) (\<lambda>v. power_of S v = desired_power p) (trace s')"
  using vm_status_told [of S "pm_target p" "pm_vmid p" s "desired_power p" s']
  by (auto simp: check_power_def bindE_Inr unlessE_run returnE_run desired_power_def split: if_splits)

lemma follows_rest:
  "follows (migrate_rule S cfg p) (known_stopped S p) (migrate_rest S cfg p timing) (\<lambda>_. moved S cfg p)"
proof -
  let ?R = "migrate_rule S cfg p" and ?T = "\<lambda>h. known_stopped S p h \<and> arrived S cfg p h"
  have g: "grows ?T" by (intro grows_conj) simp_all
  have v: "follows ?R (known_stopped S p) (stepE ''Verify target configuration''
      (verify_target S cfg (pm_vmid p) (pm_target p) (pm_home_label p))) (\<lambda>_. ?T)"
    by (rule follows_step, rule follows_reads_post) (auto simp: arrived_def intro!: only_intro dest: verify_target_told)
  have q: "follows ?R ?T (stepE n (verify_migrated_home S (pm_target p) (pm_vmid p) u l t)) (\<lambda>_. ?T)" if "pm_running p" for n u l t
    by (rule follows_step, rule follows_only [where P = "\<lambda>c. is_get (fst c) \<or> fst c = Post (agent (pm_target p) (pm_vmid p) ''ping'') []"])
      (use that g in \<open>auto simp: migrate_rule_def intro!: only_intro\<close>)
  have st: "follows ?R ?T (stepE n (start_vm S (pm_target p) (pm_vmid p) wait)) (\<lambda>_. ?T)" if "pm_running p" for n wait
    by (rule follows_step, rule follows_start [OF g]) (use that in \<open>simp add: migrate_rule_def\<close>)
  have c: "follows ?R ?T (stepE n (check_power S p)) (\<lambda>_. moved S cfg p)" for n
    by (rule follows_step, rule follows_post [OF follows_reads_post [where J =
        "\<lambda>_. told (power_request_of (pm_target p) (pm_vmid p)) (\<lambda>v. power_of S v = desired_power p)", OF _ g]])
      (auto simp: moved_def check_power_def [abs_def] intro!: only_intro dest: check_power_told [unfolded check_power_def])
  show ?thesis unfolding migrate_rest_def check_power_def [symmetric]
    apply (rule follows_bind [OF follows_step [OF follows_offline]])
    apply (rule follows_bind [OF v])
    apply (rule follows_bind [where J = "\<lambda>_. ?T"])
     apply (rule follows_if)
      apply (rule follows_bind [OF st], assumption)
      apply (rule q, assumption)
     apply (rule follows_return, simp)
    apply (rule c)
    done
qed

lemma moved_grows [simp]: "grows (moved S cfg p)"
  unfolding moved_def [abs_def] by (intro grows_conj) simp_all

lemma follows_steps:
  assumes "\<And>h. I h \<Longrightarrow> \<not> pm_running p \<Longrightarrow> known_stopped S p h" and "grows I"
  shows "follows (migrate_rule S cfg p) I (migrate_steps S cfg p timing)
    (\<lambda>(outcome, stopped) h. (is_ok outcome \<longrightarrow> moved S cfg p h))"
proof -
  let ?R = "migrate_rule S cfg p"
  have sh: "follows ?R I (if pm_running p then tryE (stepE n (shutdown_vm S (pm_source p) (pm_vmid p) SHUTDOWN_TIMEOUT_SECS wait))
      else returnE (Inr ())) (\<lambda>r h. is_ok r \<longrightarrow> known_stopped S p h)" for n wait
    by (rule follows_if, rule follows_post [OF follows_try [OF follows_step [OF follows_shutdown]]])
      (use assms in \<open>auto simp: is_ok_iff intro!: follows_return\<close>)
  have k: "follows ?R (\<lambda>h. is_ok (Inr ()) \<longrightarrow> known_stopped S p h)
      (bindE (tryE (migrate_rest S cfg p timing)) (\<lambda>outcome. returnE (outcome, pm_running p)))
      (\<lambda>(outcome, stopped) h. is_ok outcome \<longrightarrow> moved S cfg p h)"
    by (rule follows_bind [OF follows_try [OF follows_pre [OF follows_rest]]])
      (auto simp: is_ok_iff intro!: follows_return)
  show ?thesis unfolding migrate_steps_def
  proof (rule follows_bind [OF sh])
    show "follows ?R (\<lambda>h. is_ok stopped \<longrightarrow> known_stopped S p h) (case stopped of Inl e \<Rightarrow> returnE (Inl e, False)
      | Inr _ \<Rightarrow> bindE (tryE (migrate_rest S cfg p timing)) (\<lambda>outcome. returnE (outcome, pm_running p)))
      (\<lambda>(outcome, stopped) h. is_ok outcome \<longrightarrow> moved S cfg p h)" for stopped :: "core_error + unit"
      by (cases stopped) (use k in \<open>auto intro: follows_return\<close>)
  qed
qed

lemma follows_restart:
  assumes "pm_running p"
  shows "follows (migrate_rule S cfg p) (\<lambda>_. True) (restart_source S p timing) (\<lambda>_ _. True)"
proof -
  let ?R = "migrate_rule S cfg p" and ?L = "told vms_request (listed_on S (pm_vmid p) (pm_source p))"
  have l: "follows ?R (\<lambda>_. True) (cluster_vm_resources S)
      (\<lambda>rs h. True \<and> ((case find_vm (pm_vmid p) rs of None \<Rightarrow> [] | Some r \<Rightarrow> r_node r) = pm_source p \<longrightarrow> ?L h))"
    by (rule follows_reads_post) (auto simp: listed_on_def vms_request_def intro!: only_intro
        elim!: cluster_vm_resources_Inr intro: api_told [unfolded vms_request_def])
  have s: "follows ?R ?L (tryE (stepE n (start_vm S (pm_source p) (pm_vmid p) wait))) (\<lambda>_ _. True)" for n wait
    by (rule follows_post [OF follows_try [OF follows_step [OF follows_start]]])
      (use assms in \<open>auto simp: migrate_rule_def\<close>)
  have k: "follows ?R (\<lambda>h. (case find_vm (pm_vmid p) rs of None \<Rightarrow> [] | Some r \<Rightarrow> r_node r) = pm_source p \<longrightarrow> ?L h)
      (restart_listed S p timing rs) (\<lambda>_ _. True)" for rs
    unfolding restart_listed_def Let_def
    by (intro follows_if follows_return follows_bind [OF follows_pre [OF s]]) auto
  show ?thesis unfolding restart_source_def
    by (rule follows_bind [OF follows_try [OF l]])
      (auto split: sum.splits intro!: follows_return intro: follows_pre [OF k])
qed

lemma follows_recheck:
  assumes "planned_of plan = Inr p"
  shows "follows (migrate_rule S cfg p) (\<lambda>_. True) (recheck_move S cfg pool plan p)
    (\<lambda>_ h. \<not> pm_running p \<longrightarrow> known_stopped S p h)"
proof -
  have run: "plan_text plan ''status'' = Inr st \<Longrightarrow> pm_running p \<longleftrightarrow> st = ''running''" for st
    using assms by (auto simp: planned_of_def)
  have pw: "follows (migrate_rule S cfg p) (\<lambda>_. True) (vm_power_state S (pm_source p) (pm_vmid p))
      (\<lambda>st h. st \<noteq> ''running'' \<longrightarrow> known_stopped S p h)"
    by (rule follows_post [OF follows_reads_post [where J = "\<lambda>st h. st \<noteq> ''running'' \<longrightarrow> known_stopped S p h"]])
      (auto simp: known_stopped_def intro!: only_intro dest: vm_power_state_told)
  have g: "grows (\<lambda>h. b \<longrightarrow> known_stopped S p h)" for b
    using known_grows [of S p] by (auto simp: grows_def)
  show ?thesis unfolding recheck_move_def
    apply (rule follows_bind [OF follows_reads], intro only_intro, simp, simp)
    apply (rule follows_bind [OF follows_reads], intro only_intro, simp add: vms_request_def, simp)
    apply (rule follows_bind_unless, rule follows_bind_unless)
    apply (rule follows_bind [OF pw])
    apply (rule follows_bind_lift, rule follows_bind_unless)
    apply (rule follows_bind [OF follows_reads], intro only_intro, simp, rule g)
    apply (rule follows_return, simp add: run)
    done
qed

lemma migrate_follows:
  assumes "planned_of plan = Inr p"
  shows "follows (migrate_rule S cfg p) (\<lambda>_. True) (migrate_workspace S cfg pool plan timing) (\<lambda>_. moved S cfg p)"
proof -
  have g: "grows (\<lambda>h. \<not> pm_running p \<longrightarrow> known_stopped S p h)"
    using known_grows [of S p] by (auto simp: grows_def)
  have e: "follows (migrate_rule S cfg p) (\<lambda>h. is_ok (outcome :: core_error + string) \<longrightarrow> moved S cfg p h)
      (case outcome of Inr status \<Rightarrow> returnE (res status)
       | Inl e \<Rightarrow> if pm_running p \<and> stopped then bindE (restart_source S p timing) (\<lambda>r. throwE (with_recovery e r)) else throwE e)
      (\<lambda>_. moved S cfg p)" for outcome stopped and res :: "string \<Rightarrow> json"
    by (cases outcome)
      (auto intro!: follows_return follows_throw follows_bind [OF follows_pre [OF follows_restart]])
  show ?thesis unfolding migrate_workspace_def assms liftE_simps bindE_return
    by (rule follows_bind [OF follows_recheck [OF assms]], rule follows_bind [OF follows_steps])
      (auto intro: g follows_pre [OF e])
qed

section \<open>Admission\<close>

text \<open>
  The admission sums the sizes of the distinct volumes that move, each as its storage's inventory
  gives it, and no sum wraps.
\<close>

definition listed_size :: "string \<Rightarrow> (request \<times> answer) list \<Rightarrow> string \<Rightarrow> nat \<Rightarrow> bool" where
  "listed_size source h volume n \<longleftrightarrow>
     (\<exists>storage rest content. split_once volume '':'' = Some (storage, rest) \<and>
        (storage_content_request source storage, Inr content) \<in> set h \<and> volume_size content volume = Some n)"

definition scan_ok :: "string \<Rightarrow> (request \<times> answer) list \<Rightarrow> (string \<Rightarrow> nat) \<Rightarrow> capacity_scan \<Rightarrow> bool" where
  "scan_ok source h f acc \<longleftrightarrow> distinct (cs_seen acc) \<and> cs_required acc = sum_list (map f (cs_seen acc)) \<and>
     cs_required acc < u64_bound \<and> (\<forall>v \<in> set (cs_seen acc). listed_size source h v (f v)) \<and>
     (\<forall>st c. bt_get (cs_contents acc) st = Some c \<longrightarrow> (storage_content_request source st, Inr c) \<in> set h)"

lemma listed_size_grows: "listed_size source h v n \<Longrightarrow> listed_size source (h @ t) v n"
  by (auto simp: listed_size_def)

lemma scan_ok_grows: "scan_ok source h f acc \<Longrightarrow> scan_ok source (h @ t) f acc"
  by (auto simp: scan_ok_def intro: listed_size_grows)

lemma storage_content_Inr:
  assumes "storage_content S source st contents s = (Inr (content, contents'), s')"
    and "\<forall>k c. bt_get contents k = Some c \<longrightarrow> (storage_content_request source k, Inr c) \<in> set (trace s)"
  shows "(storage_content_request source st, Inr content) \<in> set (trace s') \<and> (\<exists>t. trace s' = trace s @ t) \<and>
    (\<forall>k c. bt_get contents' k = Some c \<longrightarrow> (storage_content_request source k, Inr c) \<in> set (trace s'))"
proof (cases "bt_get contents st")
  case (Some c)
  then show ?thesis using assms by (auto simp: storage_content_def returnE_run)
next
  case None
  then have a: "api S (storage_content_request source st) s = (Inr content, s')" "contents' = bt_insert st content contents"
    using assms(1) by (auto simp: storage_content_def bindE_Inr returnE_run)
  from api_trace [OF a(1)] have "trace s' = trace s @ [(storage_content_request source st, Inr content)]"
    by (auto simp: map_err_Inr)
  then show ?thesis using a(2) assms(2) by (auto simp: bt_get_insert)
qed

lemma capacity_step_ok:
  assumes "capacity_step S source vmid acc disk s = (Inr acc', s')" and "scan_ok source (trace s) f acc"
  shows "\<exists>volume f'. as_str (jidx disk ''volid'') = Some volume \<and> scan_ok source (trace s') f' acc' \<and>
    set (cs_seen acc') = insert volume (set (cs_seen acc))"
proof -
  from assms(1) obtain v where v: "as_str (jidx disk ''volid'') = Some v"
    by (auto simp: capacity_step_def bindE_Inr liftE_run)
  show ?thesis
  proof (cases "v \<in> set (cs_seen acc)")
    case True
    then show ?thesis using assms v by (auto simp: capacity_step_def returnE_run)
  next
    case False
    from assms(1) v False obtain st rest content contents sz where
      sp: "split_once v '':'' = Some (st, rest)" and sc: "storage_content S source st (cs_contents acc) s = (Inr (content, contents), s')"
      and sz: "volume_size content v = Some sz" and add: "checked_add (cs_required acc) sz = Some (cs_required acc')"
      and acc': "cs_seen acc' = v # cs_seen acc" "cs_contents acc' = contents"
      by (auto simp: capacity_step_def Let_def bindE_Inr liftE_run unlessE_run returnE_run split: if_splits)
    have told: "\<forall>k c. bt_get (cs_contents acc) k = Some c \<longrightarrow> (storage_content_request source k, Inr c) \<in> set (trace s)"
      using assms(2) by (simp add: scan_ok_def)
    from storage_content_Inr [OF sc told] obtain t where t: "trace s' = trace s @ t"
      and new: "listed_size source (trace s') v sz"
      and cs: "\<forall>k c. bt_get contents k = Some c \<longrightarrow> (storage_content_request source k, Inr c) \<in> set (trace s')"
      using sp sz unfolding listed_size_def by blast
    have "map (f(v := sz)) (cs_seen acc) = map f (cs_seen acc)" using False by (intro map_cong) auto
    moreover have "cs_required acc = sum_list (map f (cs_seen acc))" using assms(2) by (simp add: scan_ok_def)
    ultimately have "sum_list (map (f(v := sz)) (cs_seen acc)) = cs_required acc" by (simp only:)
    then have "scan_ok source (trace s') (f(v := sz)) acc'"
      using assms(2) False acc' add cs new listed_size_grows [of source "trace s"] unfolding t
      by (auto simp: scan_ok_def checked_add_def split: if_splits)
    then show ?thesis using v acc' by auto
  qed
qed

lemma capacity_scan_ok:
  assumes "foldM_E (capacity_step S source vmid) acc ds s = (Inr acc', s')" and "scan_ok source (trace s) f acc"
  shows "\<exists>f'. scan_ok source (trace s') f' acc' \<and>
    Some ` set (cs_seen acc') = Some ` set (cs_seen acc) \<union> (\<lambda>d. as_str (jidx d ''volid'')) ` set ds"
  using assms
proof (induction ds arbitrary: acc s f)
  case Nil
  then show ?case by (auto simp: returnE_run)
next
  case (Cons d ds)
  from Cons.prems(1) obtain acc1 s1 where d: "capacity_step S source vmid acc d s = (Inr acc1, s1)"
    and r: "foldM_E (capacity_step S source vmid) acc1 ds s1 = (Inr acc', s')" by (auto simp: bindE_Inr)
  from capacity_step_ok [OF d Cons.prems(2)] obtain v f1 where
    v: "as_str (jidx d ''volid'') = Some v" and ok: "scan_ok source (trace s1) f1 acc1"
    and set1: "set (cs_seen acc1) = insert v (set (cs_seen acc))" by blast
  from Cons.IH [OF r ok] show ?case unfolding set1 using v by auto
qed

section \<open>Properties\<close>


text \<open>
  C17. A migration that reports success moved the workspace whole: in this run the cluster listed the
  VM on the target node, its configuration there has the home disk with the planned serial, and its
  power state there is the one it had before.
\<close>

theorem migrate_success_moved:
  assumes "planned_of plan = Inr p" and "trace s = []"
    and "migrate_workspace S cfg pool plan timing s = (Inr r, s')"
  shows "told vms_request (listed_on S (pm_vmid p) (pm_target p)) (trace s') \<and>
    told (vm_config_request (pm_target p) (pm_vmid p)) (home_serial S cfg (pm_home_label p)) (trace s') \<and>
    told (power_request_of (pm_target p) (pm_vmid p)) (\<lambda>v. power_of S v = (if pm_running p then ''running'' else ''stopped'')) (trace s')"
proof -
  have "moved S cfg p (trace s')"
    using migrate_follows [OF assms(1), of S cfg pool timing] assms(3) unfolding follows_def ctl_def by blast
  then show ?thesis by (simp add: moved_def arrived_def desired_power_def)
qed


text \<open>Planning a migration only reads.\<close>

lemma plan_migrate_reads: "list_all is_get (requests (plan_migrate S cfg pool rq) s)"
  by (rule only_requests, intro only_intro) simp

section \<open>A whole migration\<close>

text \<open>The stopped sample workspace, moved from \<^verbatim>\<open>pve1\<close> to \<^verbatim>\<open>pve2\<close> (the state is whether it has moved).\<close>

definition move_listing :: "bool \<Rightarrow> json" where
  "move_listing there =
     JArr [JObj [(''type'', JStr ''qemu''), (''vmid'', JInt 101), (''node'', JStr (if there then ''pve2'' else ''pve1'')),
       (''name'', JStr ''ws''), (''status'', JStr ''stopped''), (''tags'', JStr ''homestack-ws''), (''pool'', JStr ''hs'')]]"

definition move_answer :: "bool \<Rightarrow> string \<Rightarrow> json" where
  "move_answer there p =
     (if p = ''/cluster/resources'' then move_listing there
      else if p = ''/nodes/pve1/qemu/101/config'' \<or> p = ''/nodes/pve2/qemu/101/config'' then JObj sample_vm_config
      else if p = ''/nodes/pve1/qemu/101/status/current'' \<or> p = ''/nodes/pve2/qemu/101/status/current''
      then JObj [(''status'', JStr ''stopped'')]
      else if p = ''/nodes/pve1/qemu/101/migrate'' then
        JObj [(''local_disks'', JArr (map sample_volume [''fast:vm-101-disk-0'', ''fast:vm-101-hs-home-ann'']))]
      else if p = ''/nodes/pve1/storage/fast/content'' then
        JArr (map sample_volume [''fast:vm-101-disk-0'', ''fast:vm-101-hs-home-ann''])
      else if p = ''/nodes/pve2/storage/fast/status'' then
        JObj [(''active'', JInt 1), (''avail'', JInt 100), (''content'', JStr ''images''), (''enabled'', JInt 1)]
      else sample_answer False p)"

fun move_serve :: "bool \<Rightarrow> request \<Rightarrow> answer \<times> bool" where
  "move_serve there (Get p q) = (Inr (move_answer there p), there)"
| "move_serve there (Post p q) = (Inr (JStr sample_upid), True)"
| "move_serve there _ = (Inr JNull, there)"

definition sample_move_plan :: json where
  "sample_move_plan =
     jobj [(''vmid'', JInt 101), (''source_node'', JStr ''pve1''), (''target_node'', JStr ''pve2''),
       (''target_storage'', JStr ''fast''), (''home_label'', JStr ''HS_HOME_101''), (''status'', JStr ''stopped''),
       (''home_volume'', JStr ''fast:vm-101-hs-home-ann'')]"

definition sample_move :: planned_move where
  "sample_move =
     \<lparr>pm_vmid = 101, pm_source = ''pve1'', pm_target = ''pve2'', pm_storage = ''fast'', pm_home_label = ''HS_HOME_101'',
      pm_running = False, pm_volumes = []\<rparr>"

lemma sample_move_reads:
  "planned_of sample_move_plan = Inr sample_move" "get_str sample_move_plan ''home_volume'' = Some ''fast:vm-101-hs-home-ann''"
  "plan_text sample_move_plan ''status'' = Inr ''stopped''"
  by code_simp+

abbreviation (input) mv :: "bool ext" where "mv \<equiv> machine move_serve"

lemma move_get: "gives there (api mv (Get p q)) (json_norm (move_answer there p)) there"
  by (rule gives_get) (simp add: serves_def)

lemma move_read: "json_norm (move_answer there p) = v \<Longrightarrow> gives there (api mv (Get p q)) v there"
  using move_get [of there p q] by simp

definition moved_resource :: "bool \<Rightarrow> resource" where
  "moved_resource there = sample_resource\<lparr>r_node := if there then ''pve2'' else ''pve1''\<rparr>"

lemma move_items:
  "json_norm (move_answer True ''/cluster/resources'') = JArr (the (as_array (json_norm (move_answer True ''/cluster/resources''))))"
  "json_norm (move_answer False ''/cluster/resources'') = JArr (the (as_array (json_norm (move_answer False ''/cluster/resources''))))"
  by code_simp+

lemma move_resources:
  "sort_key r_vmid (map (resource_of (print_json mv)) (List.map_filter qemu_entry
     (the (as_array (json_norm (move_answer True ''/cluster/resources'')))))) = [moved_resource True]"
  "sort_key r_vmid (map (resource_of (print_json mv)) (List.map_filter qemu_entry
     (the (as_array (json_norm (move_answer False ''/cluster/resources'')))))) = [moved_resource False]"
  by code_simp+

lemma move_vms: "gives there (cluster_vm_resources mv) [moved_resource there] there"
  using gives_eval [OF gives_vms [unfolded vms_request_def, OF move_read [OF move_items(1)]] move_resources(1)]
    gives_eval [OF gives_vms [unfolded vms_request_def, OF move_read [OF move_items(2)]] move_resources(2)]
  by (cases there) simp_all

lemma move_config:
  assumes "node \<in> {''pve1'', ''pve2''}"
  shows "gives there (vm_config mv node 101) sample_cfg there"
proof -
  have r: "vm_config_request ''pve1'' 101 = Get ''/nodes/pve1/qemu/101/config'' []"
    "vm_config_request ''pve2'' 101 = Get ''/nodes/pve2/qemu/101/config'' []" by code_simp+
  have "json_norm (JObj sample_vm_config) = JObj sample_vm_config" by code_simp
  then have a: "json_norm (move_answer there ''/nodes/pve1/qemu/101/config'') = JObj sample_vm_config"
    "json_norm (move_answer there ''/nodes/pve2/qemu/101/config'') = JObj sample_vm_config" by (simp_all add: move_answer_def)
  have c: "config_of (print_json mv) sample_vm_config = sample_cfg" by code_simp
  have "gives there (api mv (vm_config_request ''pve1'' 101)) (JObj sample_vm_config) there"
    "gives there (api mv (vm_config_request ''pve2'' 101)) (JObj sample_vm_config) there"
    unfolding r by (rule move_read [OF a(1)], rule move_read [OF a(2)])
  then show ?thesis using assms gives_config [of there mv] unfolding c [symmetric] by blast
qed

lemma move_status:
  assumes "node \<in> {''pve1'', ''pve2''}"
  shows "gives there (vm_status mv node 101) ''stopped'' there"
proof -
  have r: "qemu_path ''pve1'' 101 ''/status/current'' = ''/nodes/pve1/qemu/101/status/current''"
    "qemu_path ''pve2'' 101 ''/status/current'' = ''/nodes/pve2/qemu/101/status/current''" by code_simp+
  have a: "json_norm (move_answer there ''/nodes/pve1/qemu/101/status/current'') = JObj [(''status'', JStr ''stopped'')]"
    "json_norm (move_answer there ''/nodes/pve2/qemu/101/status/current'') = JObj [(''status'', JStr ''stopped'')]"
    by (simp_all add: move_answer_def bt_of_list_def)
  have "trim ''stopped'' = ''stopped''" by code_simp
  then show ?thesis
    using assms gives_status [OF move_read [OF a(1), folded r(1)] refl] gives_status [OF move_read [OF a(2), folded r(2)] refl] by auto
qed

lemma move_existing:
  "gives False (resolve_existing_workspace mv sample_config 101)
     (the_ok (fst (resolve_existing_workspace mv sample_config 101 (start_state False)))) False"
  "ew_node (the_ok (fst (resolve_existing_workspace mv sample_config 101 (start_state False)))) = ''pve1''"
  "ew_home_volume (the_ok (fst (resolve_existing_workspace mv sample_config 101 (start_state False)))) = ''fast:vm-101-hs-home-ann''"
proof -
  have d: "existing_disks sample_config 101 sample_cfg = Inr (the_ok (existing_disks sample_config 101 sample_cfg))"
    and h: "(case the_ok (existing_disks sample_config 101 sample_cfg) of (n, r, h, l) \<Rightarrow> h) = ''fast:vm-101-hs-home-ann''"
    and f: "find_vm 101 [moved_resource False] = Some (moved_resource False)"
    and g: "Some 101 \<noteq> gold_vmid sample_config"
    and r: "r_node (moved_resource False) = ''pve1''" "r_status (moved_resource False) = Some ''stopped''" by code_simp+
  let ?w = "case the_ok (existing_disks sample_config 101 sample_cfg) of (n, rt, hm, l) \<Rightarrow>
    \<lparr>ew_vmid = 101, ew_name = n, ew_node = ''pve1'', ew_status = ''stopped'', ew_config = sample_cfg,
       ew_root_volume = rt, ew_root_storage = disk_storage (Some (cfg_text sample_cfg (root_disk sample_config))),
       ew_home_volume = hm, ew_home_storage = disk_storage (Some (cfg_text sample_cfg (home_disk sample_config))),
       ew_home_label = l, ew_home_usage = sized (cfg_text sample_cfg (home_disk sample_config))\<rparr>"
  have w: "gives False (resolve_existing_workspace mv sample_config 101) ?w False"
    unfolding resolve_existing_workspace_def
    by (rule gives_bind [OF gives_unless [OF g]], rule gives_bind [OF move_vms], rule gives_bind [OF gives_lift],
        simp add: f, rule gives_bind [OF gives_unless], simp add: r, simp add: r,
        rule gives_bind [OF move_config], simp, rule gives_bind [OF gives_lift [OF d]])
      (simp add: workspace_home_usage_def split: prod.split, blast intro: gives_return)
  have "\<exists>s'. resolve_existing_workspace mv sample_config 101 (start_state False) = (Inr ?w, s')"
    using gives_run [OF w, of "start_state False"] by (auto simp: start_state_def)
  then have e: "the_ok (fst (resolve_existing_workspace mv sample_config 101 (start_state False))) = ?w"
    by (auto simp: the_ok_def)
  show "gives False (resolve_existing_workspace mv sample_config 101)
     (the_ok (fst (resolve_existing_workspace mv sample_config 101 (start_state False)))) False" using w by (simp only: e)
  show "ew_node (the_ok (fst (resolve_existing_workspace mv sample_config 101 (start_state False)))) = ''pve1''"
    "ew_home_volume (the_ok (fst (resolve_existing_workspace mv sample_config 101 (start_state False)))) = ''fast:vm-101-hs-home-ann''"
    unfolding e using h by (simp_all split: prod.splits)
qed

lemma move_pool: "gives False (require_pool mv 101 ''hs'') () False"
proof -
  let ?items = "the (as_array (json_norm (move_answer False ''/cluster/resources'')))"
  have m: "gives False (cluster_vm_maps mv) (List.map_filter qemu_entry ?items) False"
    unfolding cluster_vm_maps_def vms_request_def
    by (rule gives_bind [OF move_read [OF move_items(2)]]) (simp add: gives_return)
  have f: "List.find (\<lambda>(i, _). i = 101) (List.map_filter qemu_entry ?items) = Some (hd (List.map_filter qemu_entry ?items))"
    and t: "text_or_none (print_json mv) (bt_get (snd (hd (List.map_filter qemu_entry ?items))) ''pool'') = Some ''hs''"
    by code_simp+
  have "gives False (vm_pool mv 101) (Some ''hs'') False"
    unfolding vm_pool_def
    by (rule gives_bind [OF m], rule gives_bind [OF gives_lift], unfold f, simp,
        simp add: case_prod_beta t, rule gives_return)
  then show ?thesis unfolding require_pool_def by (rule gives_bind) (simp add: gives_unless)
qed

lemma move_capacity:
  "\<exists>v. gives False (require_migration_capacity mv ''pve1'' ''pve2'' 101 ''fast'') v False"
proof -
  let ?pre = "json_norm (move_answer False ''/nodes/pve1/qemu/101/migrate'')"
  let ?con = "json_norm (move_answer False ''/nodes/pve1/storage/fast/content'')"
  let ?st = "json_norm (move_answer False ''/nodes/pve2/storage/fast/status'')"
  let ?d1 = "json_norm (sample_volume ''fast:vm-101-disk-0'')" and ?d2 = "json_norm (sample_volume ''fast:vm-101-hs-home-ann'')"
  have r: "preflight_request ''pve1'' ''pve2'' 101 = Get ''/nodes/pve1/qemu/101/migrate'' [(''target'', ''pve2'')]"
    "storage_content_request ''pve1'' ''fast'' = Get ''/nodes/pve1/storage/fast/content'' [(''content'', ''images'')]"
    "storage_status_request ''pve2'' ''fast'' = Get ''/nodes/pve2/storage/fast/status'' []" by code_simp+
  have a: "as_array (jidx ?pre ''local_disks'') = Some [?d1, ?d2]" by code_simp
  have v: "as_str (jidx ?d1 ''volid'') = Some ''fast:vm-101-disk-0''" "as_str (jidx ?d2 ''volid'') = Some ''fast:vm-101-hs-home-ann''"
    and n: "\<not> enabled ?d1 ''cdrom''" "\<not> enabled ?d2 ''cdrom''"
    and sp: "split_once ''fast:vm-101-disk-0'' '':'' = Some (''fast'', ''vm-101-disk-0'')"
      "split_once ''fast:vm-101-hs-home-ann'' '':'' = Some (''fast'', ''vm-101-hs-home-ann'')"
    and sz: "volume_size ?con ''fast:vm-101-disk-0'' = Some 1" "volume_size ?con ''fast:vm-101-hs-home-ann'' = Some 1"
    and ad: "checked_add 0 (Suc 0) = Some (Suc 0)" "checked_add (Suc 0) (Suc 0) = Some 2" by code_simp+
  let ?c1 = "\<lparr>cs_contents = [(''fast'', ?con)], cs_seen = [''fast:vm-101-disk-0''], cs_required = 1\<rparr>"
  let ?c2 = "\<lparr>cs_contents = [(''fast'', ?con)], cs_seen = [''fast:vm-101-hs-home-ann'', ''fast:vm-101-disk-0''], cs_required = 2\<rparr>"
  have s1: "gives False (capacity_step mv ''pve1'' 101 empty_scan ?d1) ?c1 False"
    unfolding capacity_step_def empty_scan_def v ok_or_simps liftE_simps bindE_return Let_def
    by (simp add: n unlessE_def sp storage_content_def r)
      (rule gives_bind [OF gives_bind [OF move_get gives_return]], simp add: sz ad gives_return)
  have s2: "gives False (capacity_step mv ''pve1'' 101 ?c1 ?d2) ?c2 False"
    unfolding capacity_step_def v ok_or_simps liftE_simps bindE_return Let_def
    by (simp add: n unlessE_def sp storage_content_def sz ad gives_return)
  have sp: "enabled ?st ''active''" "enabled ?st ''enabled''" "as_u64 (jidx ?st ''avail'') = Some 100"
    "as_str (jidx ?st ''content'') = Some ''images''" "''images'' \<in> set (split_on CHR '','' ''images'')" by code_simp+
  have q: "\<exists>v. gives False (require_space mv ''pve2'' ''fast'' 2) v False"
    unfolding require_space_def r(3)
    by (rule exI, rule gives_bind [OF move_get], rule gives_bind [OF gives_unless], simp add: sp, rule gives_bind [OF gives_unless],
        simp only: sp option.case, rule gives_bind [OF gives_lift], simp only: sp ok_or_simps, rule gives_bind [OF gives_unless], simp,
        rule gives_return)
  then obtain x where x: "gives False (require_space mv ''pve2'' ''fast'' (cs_required ?c2)) x False" by auto
  have "gives False (require_migration_capacity mv ''pve1'' ''pve2'' 101 ''fast'') x False"
    unfolding require_migration_capacity_def r(1)
    by (rule gives_bind [OF move_get], rule gives_bind [OF gives_lift], simp only: a ok_or_simps,
        rule gives_bind [OF gives_foldM_Cons], rule s1, rule gives_foldM_Cons, rule s2, rule gives_foldM_Nil, rule x)
  then show ?thesis by blast
qed

lemma move_recheck: "gives False (recheck_move mv sample_config ''hs'' sample_move_plan sample_move) () False"
proof -
  obtain x where x: "gives False (require_migration_capacity mv ''pve1'' ''pve2'' 101 ''fast'') x False" using move_capacity by blast
  have p: "gives False (vm_power_state mv ''pve1'' 101) ''stopped'' False"
    unfolding vm_power_state_def by (rule gives_bind [OF move_status]) (simp_all add: gives_return)
  have m: "pm_vmid sample_move = 101" "pm_source sample_move = ''pve1''" "pm_target sample_move = ''pve2''" "pm_storage sample_move = ''fast''"
    by (simp_all add: sample_move_def)
  show ?thesis unfolding recheck_move_def m
    by (rule gives_bind [OF move_existing(1)], rule gives_bind [OF move_pool], rule gives_bind [OF gives_unless [OF move_existing(2)]],
        rule gives_bind [OF gives_unless], simp only: sample_move_reads move_existing(3), rule gives_bind [OF p],
        rule gives_bind [OF gives_lift [OF sample_move_reads(3)]], rule gives_bind [OF gives_unless [OF refl]],
        rule gives_bind [OF x], rule gives_return)
qed

lemma move_offline: "gives False (migrate_offline mv ''pve1'' ''pve2'' 101 ''fast'' vols timing) () True"
proof -
  have "finished_task move_answer True" by code_simp
  then have w: "gives True (wait_task_tracking mv tr sample_upid wait k) (\<lparr>tr_upid = sample_upid, exitstatus = ''OK''\<rparr>, k) True"
    for tr :: "'k log_tracker" and wait k
    by (rule gives_wait_tracking [rotated]) (simp add: serves_def)
  show ?thesis unfolding migrate_offline_def migrate_post_def
    by (rule gives_retry, rule gives_bind [OF gives_api], simp, rule gives_bind [OF gives_lift [where a = sample_upid]],
        simp add: upid_def, rule gives_bind [OF w]) (simp add: task_ok_def gives_return)
qed

lemma move_verified: "gives True (verify_target mv sample_config 101 ''pve2'' ''HS_HOME_101'') () True"
proof -
  have n: "(case find_vm 101 [moved_resource True] of None \<Rightarrow> [] | Some r \<Rightarrow> r_node r) = ''pve2''"
    and l: "disk_option (cfg_text sample_cfg (home_disk sample_config)) ''serial'' = Some ''HS_HOME_101''" by code_simp+
  show ?thesis unfolding verify_target_def Let_def
    by (rule gives_bind [OF move_vms], rule gives_bind [OF gives_unless [OF n]], rule gives_bind [OF move_config], simp,
        rule gives_unless [OF l])
qed

lemma move_run:
  "\<exists>r. gives False (migrate_workspace mv sample_config ''hs'' sample_move_plan sample_timing) r True"
proof -
  have m: "pm_vmid sample_move = 101" "pm_source sample_move = ''pve1''" "pm_target sample_move = ''pve2''"
    "pm_storage sample_move = ''fast''" "\<not> pm_running sample_move" "pm_home_label sample_move = ''HS_HOME_101''"
    "desired_power sample_move = ''stopped''"
    by (simp_all add: sample_move_def desired_power_def)
  have k: "gives True (stepE n (bindE (vm_status mv ''pve2'' 101) (\<lambda>status.
      bindE (unlessE (status = ''stopped'') (power_not_kept 101 status ''stopped'')) (\<lambda>_. returnE status)))) ''stopped'' True" for n
    by (rule gives_step, rule gives_bind [OF move_status], simp, rule gives_bind [OF gives_unless [OF refl]], rule gives_return)
  have r: "gives False (migrate_rest mv sample_config sample_move sample_timing) ''stopped'' True"
    unfolding migrate_rest_def m
    by (rule gives_bind [OF gives_step [OF move_offline]], rule gives_bind [OF gives_step [OF move_verified]],
        simp only: m if_False, rule gives_bind [OF gives_return], rule k)
  have s: "gives False (migrate_steps mv sample_config sample_move sample_timing) (Inr ''stopped'', False) True"
    unfolding migrate_steps_def
    by (simp add: m, rule gives_bind [OF gives_try [OF r]], rule gives_return)
  show ?thesis unfolding migrate_workspace_def sample_move_reads liftE_simps bindE_return
    by (rule exI, rule gives_bind [OF move_recheck], rule gives_bind [OF s], simp, rule gives_return)
qed

theorem migrate_success_moved_witness:
  "\<exists>h. told vms_request (listed_on mv 101 ''pve2'') h \<and>
     told (vm_config_request ''pve2'' 101) (home_serial mv sample_config ''HS_HOME_101'') h"
proof -
  from move_run obtain r s' where
    "migrate_workspace mv sample_config ''hs'' sample_move_plan sample_timing (start_state False) = (Inr r, s')"
    using gives_run [of False _ _ True "start_state False"] by (fastforce simp: start_state_def)
  from migrate_success_moved [OF sample_move_reads(1) _ this] show ?thesis
    by (auto simp: sample_move_def start_state_def)
qed



section \<open>Progress\<close>

lemma copy_percent_range: "0 \<le> copy_percent n k \<and> copy_percent n k \<le> 100"
  by (simp add: copy_percent_def)

lemma tracker_at_again:
  assumes "tracker_at t output = (t1, speed)"
  shows "tracker_at (t1\<lparr>mt_last := l\<rparr>) output = (t1\<lparr>mt_last := l\<rparr>, speed)"
  using assms
  by (cases "last_created output"; cases "last_copied output"; cases "last_copied (snd (the (last_created output)))")
    (auto simp: tracker_at_def Let_def split: if_splits prod.splits option.splits)

lemma tracker_at_last: "tracker_at t output = (t1, speed) \<Longrightarrow> mt_last t1 = mt_last t"
  by (auto simp: tracker_at_def Let_def split: if_splits prod.splits option.splits)

lemma migration_update_again:
  assumes "migration_update t output = (r, t1)"
  shows "migration_update (t1\<lparr>mt_last := l\<rparr>) output = (r, t1\<lparr>mt_last := l\<rparr>)" and "mt_last t1 = mt_last t"
proof -
  obtain t2 speed where t2: "tracker_at t output = (t2, speed)" by fastforce
  then have [simp]: "t2 = t1" using assms by (auto simp: migration_update_def Let_def split: option.splits prod.splits)
  show "migration_update (t1\<lparr>mt_last := l\<rparr>) output = (r, t1\<lparr>mt_last := l\<rparr>)"
    using assms t2 tracker_at_again [OF t2, of l]
    by (auto simp: migration_update_def Let_def split: option.splits prod.splits)
  show "mt_last t1 = mt_last t" using tracker_at_last [OF t2] by simp
qed

text \<open>
  The progress of a migration is a percentage, and it is reported once: whatever the log says,
  a reading is between 0 and 100, differs from the last one reported and is remembered; reading the
  same lines again reports nothing and changes nothing.
\<close>

theorem migration_progress_once:
  assumes "migration_reading t output = (reading, t')"
  shows "migration_reading t' output = (None, t') \<and>
    (case reading of
       None \<Rightarrow> mt_last t' = mt_last t
     | Some pr \<Rightarrow> 0 \<le> percent pr \<and> percent pr \<le> 100 \<and> mt_last t' = Some (percent pr, detail pr) \<and> mt_last t \<noteq> mt_last t')"
proof -
  obtain r t1 where u: "migration_update t output = (r, t1)" by fastforce
  note again = migration_update_again [OF u]
  have same: "migration_update t1 output = (r, t1)" using again(1) [of "mt_last t1"] by simp
  have pc: "0 \<le> x \<and> x \<le> 100" if "r = Some pr" "mp_percent pr = Some x" for pr x
    using u that copy_percent_range by (auto simp: migration_update_def Let_def split: option.splits prod.splits)
  show ?thesis
    using assms u same again pc
    by (auto simp: migration_reading_def Let_def split: option.splits prod.splits if_splits)
qed

definition sample_move_log :: string where
  "sample_move_log =
     ''Logical volume '' @ [CHR 0x22] @ ''vm-101-disk-0'' @ [CHR 0x22] @ '' created.'' @ [CHR 0x0A] @
     ''512 bytes (512 B) copied, 1 s, 512 B/s''"

definition sample_tracker :: migration_tracker where
  "sample_tracker = new_tracker [jobj [(''name'', JStr ''vm-101-disk-0''), (''role'', JStr ''root''), (''size_bytes'', JInt 2048)]]"

theorem migration_progress_once_witness:
  "map_option percent (fst (migration_reading sample_tracker sample_move_log)) = Some 25 \<and>
   fst (migration_reading (snd (migration_reading sample_tracker sample_move_log)) sample_move_log) = None"
proof -
  have "map_option percent (fst (migration_reading sample_tracker sample_move_log)) = Some 25" by code_simp
  moreover have "migration_reading sample_tracker sample_move_log =
      (fst (migration_reading sample_tracker sample_move_log), snd (migration_reading sample_tracker sample_move_log))" by simp
  from migration_progress_once [OF this] have
    "fst (migration_reading (snd (migration_reading sample_tracker sample_move_log)) sample_move_log) = None" by simp
  ultimately show ?thesis by blast
qed

end
