(* ===== verification/Create_Transfer.thy ===== *)
theory Create_Transfer
  imports Migrate Cloudinit "HOL-Library.Product_Lexorder"
begin

text \<open>
  Creating a workspace on another node than Gold's (\<^verbatim>\<open>hs-core/src/create_transfer.rs\<close>): what of Gold is
  captured in the plan, the checks of the target node, and the checks of the migrated clone; and the
  states of the cluster's nodes (\<^verbatim>\<open>hs-core/src/inventory.rs\<close>). Case is folded for ASCII letters: no other
  letter folds into the words compared with.
\<close>

section \<open>Nodes of the cluster\<close>

record node_state =
  ns_node :: string
  ns_online :: bool
  ns_status :: string
  ns_cpu :: "rat option"
  ns_maxcpu :: "nat option"
  ns_mem :: "nat option"
  ns_maxmem :: "nat option"
  ns_disk :: "nat option"
  ns_maxdisk :: "nat option"
  ns_uptime :: "nat option"

definition lowercase :: "string \<Rightarrow> string" where
  "lowercase s = map lower_char s"

definition node_state_of :: "(json \<Rightarrow> string) \<Rightarrow> json \<Rightarrow> node_state" where
  "node_state_of pr item =
     (let status = lowercase (trim (case text_or_none pr (jget item ''status'') of None \<Rightarrow> ''unknown'' | Some s \<Rightarrow> s));
          online = (status \<noteq> ''offline'');
          metric = (\<lambda>key. if online then non_negative (jget item key) else None)
      in \<lparr>ns_node = py_str pr (jidx item ''node''), ns_online = online, ns_status = status,
          ns_cpu = (if online then Option.bind (Option.bind (jget item ''cpu'') as_f64) (\<lambda>x. if 0 \<le> x then Some x else None)
                    else None),
          ns_maxcpu = Option.bind (metric ''maxcpu'') (\<lambda>n. if n < u32_bound then Some n else None),
          ns_mem = metric ''mem'', ns_maxmem = metric ''maxmem'', ns_disk = metric ''disk'', ns_maxdisk = metric ''maxdisk'',
          ns_uptime = metric ''uptime''\<rparr>)"

definition cluster_node_statuses :: "'w ext \<Rightarrow> ('w, node_state list) op" where
  "cluster_node_statuses S =
     bindE (api S (Get ''/nodes'' [])) (\<lambda>v.
       case v of
         JArr items \<Rightarrow>
           let nodes = sort_key ns_node (map (node_state_of (print_json S)) (filter (\<lambda>item. truthy (jget item ''node'')) items))
           in if nodes = [] then throwE (Unusable ''Proxmox cluster returned no nodes'') else returnE nodes
       | _ \<Rightarrow> throwE (not_array ''Proxmox node inventory''))"

section \<open>Gold's metadata\<close>

definition configured_volume :: "string \<Rightarrow> string" where
  "configured_volume v = trim (disk_volume v)"

definition no_volume :: "string \<Rightarrow> bool" where
  "no_volume v \<longleftrightarrow> configured_volume v = [] \<or> configured_volume v = ''none''"

definition network_bridges :: "vm_cfg \<Rightarrow> (string \<Rightarrow> string) \<Rightarrow> core_error + string bmap" where
  "network_bridges c missing =
     map_res (\<lambda>(slot, v). bindR (ok_or (disk_option v ''bridge'') (Failed (missing slot))) (\<lambda>b. Inr (slot, b)))
       (filter (\<lambda>(slot, v). is_numbered slot ''net'' \<and> trim v \<noteq> []) c)"

definition gold_volume :: "string \<times> string \<Rightarrow> json" where
  "gold_volume sv =
     (case sv of (slot, v) \<Rightarrow>
       let volume = configured_volume v
       in jobj [(''slot'', JStr slot), (''volume'', JStr volume),
            (''storage'', JStr (case split_once volume '':'' of None \<Rightarrow> [] | Some (st, _) \<Rightarrow> st))])"

definition unsupported_disks :: "vm_cfg \<Rightarrow> string \<Rightarrow> string list" where
  "unsupported_disks c root_slot =
     map fst (filter (\<lambda>(slot, v). is_disk_slot slot \<and> slot \<noteq> root_slot \<and> slot \<notin> set (cloud_init_slots c) \<and> \<not> no_volume v) c) @
     map fst (filter (\<lambda>(slot, v). is_numbered slot ''unused'' \<and> \<not> no_volume v) c)"

definition capture_gold_metadata :: "nat \<Rightarrow> vm_cfg \<Rightarrow> string \<Rightarrow> core_error + json" where
  "capture_gold_metadata gold c root_slot =
     (let root_config = cfg_text c root_slot; cloud = cloud_init_slots c; unsupported = unsupported_disks c root_slot
      in
      bindR (require (root_config \<noteq> []) (Failed (gold_msg gold ('' has no '' @ root_slot @ '' disk'')))) (\<lambda>_.
      bindR (require (cloud \<noteq> []) (Failed (gold_msg gold '' has no Cloud-Init drive''))) (\<lambda>_.
      bindR (require (unsupported = []) (Failed (gold_msg gold ('' has unsupported extra data disks: '' @ join '', '' unsupported)))) (\<lambda>_.
      bindR (network_bridges c (\<lambda>slot. ''Gold VM '' @ slot @ '' has no bridge configured'')) (\<lambda>bridges.
      bindR (require (bt_has bridges ''net0'') (Failed (gold_msg gold '' has no bridged net0 NIC''))) (\<lambda>_.
      Inr (jobj [(''gold_vmid'', jnat gold), (''root_disk'', JStr root_slot), (''root_config'', JStr root_config),
        (''cloudinit_slots'', JArr (map JStr cloud)), (''bridges'', jtexts bridges),
        (''volumes'', JArr (map gold_volume (filter (\<lambda>(slot, v). is_volume_slot slot \<and> \<not> no_volume v) c)))])))))))"

section \<open>The target node\<close>

definition storage_is_active :: "(json \<Rightarrow> string) \<Rightarrow> json bmap \<Rightarrow> bool" where
  "storage_is_active pr item =
     list_all (\<lambda>key.
       case bt_get item key of
         None \<Rightarrow> True
       | Some v \<Rightarrow> v = JNull \<or> lowercase (trim (py_str pr v)) \<notin> {''0'', ''false'', ''no'', ''off''})
     [''enabled'', ''active'']"

definition content_kinds :: "(json \<Rightarrow> string) \<Rightarrow> json bmap \<Rightarrow> string list" where
  "content_kinds pr item =
     filter (\<lambda>t. t \<noteq> []) (map trim (split_on (CHR '','') (case bt_get item ''content'' of None \<Rightarrow> [] | Some v \<Rightarrow> py_str pr v)))"

definition require_storage :: "(json \<Rightarrow> string) \<Rightarrow> json bmap list \<Rightarrow> string \<Rightarrow> string \<Rightarrow> core_error + unit" where
  "require_storage pr inventory storage content =
     bindR (ok_or (List.find (\<lambda>item. map_option (py_str pr) (bt_get item ''storage'') = Some storage) inventory)
       (Refused (''Target node does not provide storage '' @ py_repr (Some storage)))) (\<lambda>item.
     bindR (require (storage_is_active pr item)
       (Refused (''Target storage '' @ py_repr (Some storage) @ '' is disabled or inactive on node''))) (\<lambda>_.
     require (content \<in> set (content_kinds pr item))
       (Refused (''Target storage '' @ py_repr (Some storage) @ '' does not support '' @ content @ '' content''))))"

definition node_storages :: "'w ext \<Rightarrow> string \<Rightarrow> ('w, json bmap list) op" where
  "node_storages S node =
     bindE (api S (Get (''/nodes/'' @ node @ ''/storage'') [])) (\<lambda>v.
       case v of
         JArr items \<Rightarrow> returnE (List.map_filter as_object items)
       | _ \<Rightarrow> throwE (not_array (''Proxmox storage inventory on '' @ node)))"

definition bridge_ifaces :: "(json \<Rightarrow> string) \<Rightarrow> json bmap list \<Rightarrow> string list" where
  "bridge_ifaces pr items =
     filter (\<lambda>i. i \<noteq> []) (List.map_filter (\<lambda>item. map_option (py_str pr) (bt_get item ''iface''))
       (filter (\<lambda>item. lowercase (case bt_get item ''type'' of None \<Rightarrow> [] | Some v \<Rightarrow> py_str pr v) \<in> {''bridge'', ''ovsbridge''}) items))"

definition wanted_bridges :: "json \<Rightarrow> string list" where
  "wanted_bridges metadata =
     set_of_list (case as_object (jidx metadata ''bridges'') of
       None \<Rightarrow> [] | Some m \<Rightarrow> List.map_filter (\<lambda>(_, b). as_str b) m)"

definition nodes_online :: "node_state list \<Rightarrow> string \<Rightarrow> string \<Rightarrow> core_error + unit" where
  "nodes_online nodes source_node target_node =
     (let find_node = (\<lambda>n. List.find (\<lambda>s. ns_node s = n) nodes)
      in
      bindR (ok_or (find_node source_node)
        (Refused (''Configured Gold node '' @ py_repr (Some source_node) @ '' is not in the Proxmox cluster''))) (\<lambda>source.
      bindR (ok_or (find_node target_node)
        (Refused (''Target node '' @ py_repr (Some target_node) @ '' is not in the Proxmox cluster''))) (\<lambda>target.
      bindR (require (ns_online source \<and> ns_status source = ''online'')
        (Refused (''Configured Gold node '' @ py_repr (Some source_node) @ '' is offline''))) (\<lambda>_.
      require (ns_online target \<and> ns_status target = ''online'')
        (Refused (''Target node '' @ py_repr (Some target_node) @ '' is offline''))))))"

definition validate_cross_node_create ::
  "'w ext \<Rightarrow> config \<Rightarrow> string \<Rightarrow> vm_cfg \<Rightarrow> string option \<Rightarrow> ('w, string \<times> json) op" where
  "validate_cross_node_create S cfg target_node gold_cfg requested_storage =
     bindE (cluster_node_statuses S) (\<lambda>nodes.
     bindE (liftE (nodes_online nodes (cfg_node cfg) target_node)) (\<lambda>_.
     bindE (liftE (configured_gold cfg)) (\<lambda>gold.
     bindE (liftE (capture_gold_metadata gold gold_cfg (root_disk cfg))) (\<lambda>metadata.
     bindE (liftE (resolve_homestack_storage cfg target_node requested_storage)) (\<lambda>storage.
     bindE (node_storages S target_node) (\<lambda>inventory.
     bindE (liftE (require_storage (print_json S) inventory storage ''images'')) (\<lambda>_.
     bindE (liftE (require_storage (print_json S) inventory (snippet_storage (cfg_cloud_init cfg)) ''snippets'')) (\<lambda>_.
     bindE (node_network S target_node) (\<lambda>ifaces.
     let missing = filter (\<lambda>b. b \<notin> set (bridge_ifaces (print_json S) ifaces)) (wanted_bridges metadata)
     in
     bindE (unlessE (missing = []) (Refused (''Target node '' @ py_repr (Some target_node) @
       '' is missing Gold network bridge(s): '' @ join '', '' missing))) (\<lambda>_.
     returnE (storage, metadata)))))))))))"

definition gold_changed :: core_error where
  "gold_changed = Refused ''Gold VM source configuration changed after create confirmation; re-run create and review the new plan''"

definition revalidate_source :: "'w ext \<Rightarrow> config \<Rightarrow> json \<Rightarrow> ('w, unit) op" where
  "revalidate_source S cfg plan =
     bindE (liftE (configured_gold cfg)) (\<lambda>gold.
     bindE (liftE (plan_text plan ''source_node'')) (\<lambda>source.
     bindE (vm_config S source gold) (\<lambda>gold_cfg.
     bindE (liftE (require_gold_tag gold gold_cfg)) (\<lambda>_.
     bindE (liftE (capture_gold_metadata gold gold_cfg (root_disk cfg))) (\<lambda>metadata.
     unlessE (jget plan ''source_metadata'' = Some metadata) gold_changed)))))"

section \<open>The migrated clone\<close>

definition volume_storage :: "string \<Rightarrow> string option" where
  "volume_storage v = map_option fst (split_once (configured_volume v) '':'')"

text \<open>\<^verbatim>\<open>match_indices\<close>: where the non-overlapping occurrences of a non-empty pattern begin.\<close>

fun match_indices :: "string \<Rightarrow> nat \<Rightarrow> string \<Rightarrow> nat list" where
  "match_indices p i [] = []"
| "match_indices p i (c # cs) =
     (if starts_with (c # cs) p then i # match_indices p (i + length p) (drop (length p - 1) cs)
      else match_indices p (i + 1) cs)"

definition volume_belongs_to_vm :: "string \<Rightarrow> nat \<Rightarrow> bool" where
  "volume_belongs_to_vm volume vmid =
     (let i = dec vmid;
          in_directory = (i \<in> set (butlast (split_on (CHR ''/'') volume)));
          path_part = (case split_once volume '':'' of None \<Rightarrow> volume | Some (_, p) \<Rightarrow> p);
          tail = last (split_on (CHR ''/'') path_part);
          marker = ''vm-'' @ i;
          named = list_ex (\<lambda>pos.
            let before = (pos = 0 \<or> tail ! (pos - 1) = CHR ''-''); rest = drop (pos + length marker) tail
            in before \<and> (rest = [] \<or> starts_with rest ''-'')) (match_indices marker 0 tail)
      in in_directory \<or> named)"

definition disk_option_values :: "string \<Rightarrow> (string \<times> string) list" where
  "disk_option_values v =
     (case split_once v '','' of
        None \<Rightarrow> []
      | Some (_, options) \<Rightarrow>
          sort (filter (\<lambda>(k, _). k \<noteq> ''format'') (List.map_filter (\<lambda>item. split_once item ''='') (split_on (CHR '','') options))))"

definition show_options :: "(string \<times> string) list \<Rightarrow> string" where
  "show_options vs = join '','' (map (\<lambda>(k, v). k @ ''='' @ v) vs)"

text \<open>\<^verbatim>\<open>{:?}\<close> of a \<^verbatim>\<open>BTreeMap<String, String>\<close>.\<close>

definition debug_map :: "string bmap \<Rightarrow> string" where
  "debug_map m = ''{'' @ join '', '' (map (\<lambda>(k, v). debug_str k @ '': '' @ debug_str v) m) @ ''}''"

definition clone_failed :: "nat \<Rightarrow> string \<Rightarrow> core_error" where
  "clone_failed vmid what = Failed (''Migrated Gold clone VM '' @ dec vmid @ '' '' @ what)"

definition attached_volumes :: "vm_cfg \<Rightarrow> (string \<times> string) list" where
  "attached_volumes c = filter (\<lambda>(slot, v). is_volume_slot slot \<and> \<not> no_volume v) c"

definition metadata_records :: "json bmap \<Rightarrow> json bmap list" where
  "metadata_records m =
     (case Option.bind (bt_get m ''volumes'') as_array of None \<Rightarrow> [] | Some vs \<Rightarrow> List.map_filter as_object vs)"

definition record_texts :: "string \<Rightarrow> json bmap list \<Rightarrow> string list" where
  "record_texts key rs = List.map_filter (\<lambda>r. Option.bind (bt_get r key) as_str) rs"

definition slot_changes :: "string list \<Rightarrow> string list \<Rightarrow> string" where
  "slot_changes expected actual =
     (let missing = filter (\<lambda>s. s \<notin> set actual) expected; extra = filter (\<lambda>s. s \<notin> set expected) actual
      in join ''; '' ((if missing \<noteq> [] then [''missing '' @ join '', '' missing] else []) @
           (if extra \<noteq> [] then [''unexpected '' @ join '', '' extra] else [])))"

definition check_volume :: "nat \<Rightarrow> string \<Rightarrow> string \<times> string \<Rightarrow> core_error + unit" where
  "check_volume vmid storage sv =
     (let volume = configured_volume (snd sv); on = volume_storage (snd sv)
      in
      bindR (require (on = Some storage) (clone_failed vmid (''volume '' @ py_repr (Some volume) @ '' is on '' @ py_repr on @
        '', expected target storage '' @ py_repr (Some storage)))) (\<lambda>_.
      require (volume_belongs_to_vm volume vmid)
        (clone_failed vmid (''volume '' @ py_repr (Some volume) @ '' does not have target VM ownership''))))"

definition check_clone_disks :: "nat \<Rightarrow> string \<Rightarrow> json bmap \<Rightarrow> vm_cfg \<Rightarrow> core_error + unit" where
  "check_clone_disks vmid storage metadata c =
     (let records = metadata_records metadata; source_volumes = record_texts ''volume'' records;
          expected = set_of_list (record_texts ''slot'' records); attached = attached_volumes c;
          actual = set_of_list (map fst attached)
      in
      bindR (require (actual = expected) (clone_failed vmid (''attached disk slots changed: '' @ slot_changes expected actual))) (\<lambda>_.
      bindR (case List.find (\<lambda>v. v \<in> set source_volumes) (map (\<lambda>sv. configured_volume (snd sv)) attached) of
               Some volume \<Rightarrow> Inl (clone_failed vmid (''still references source volume '' @ py_repr (Some volume)))
             | None \<Rightarrow> Inr ()) (\<lambda>_.
      for_each (check_volume vmid storage) attached)))"

definition cloud_drive_ok :: "nat \<Rightarrow> vm_cfg \<Rightarrow> string \<Rightarrow> core_error + unit" where
  "cloud_drive_ok vmid c slot =
     require (contains (cfg_text c slot) ''cloudinit'' \<and> disk_option (cfg_text c slot) ''media'' = Some ''cdrom'')
       (clone_failed vmid (''is missing Cloud-Init drive '' @ slot))"

definition metadata_cloud :: "json bmap \<Rightarrow> string list" where
  "metadata_cloud m =
     (case Option.bind (bt_get m ''cloudinit_slots'') as_array of None \<Rightarrow> [] | Some vs \<Rightarrow> List.map_filter as_str vs)"

definition not_template :: "vm_cfg \<Rightarrow> bool" where
  "not_template c \<longleftrightarrow> (case bt_get c ''template'' of None \<Rightarrow> ''0'' | Some t \<Rightarrow> t) \<in> {''0'', ''false'', ''no''}"

definition check_clone_options ::
  "(json \<Rightarrow> string) \<Rightarrow> config \<Rightarrow> nat \<Rightarrow> string \<Rightarrow> json bmap \<Rightarrow> vm_cfg \<Rightarrow> core_error + unit" where
  "check_clone_options pr cfg vmid name metadata c =
     (let expected_root = disk_option_values (case Option.bind (bt_get metadata ''root_config'') as_str of None \<Rightarrow> [] | Some s \<Rightarrow> s);
          actual_root = disk_option_values (cfg_text c (root_disk cfg))
      in
      bindR (require (expected_root = actual_root) (clone_failed vmid (''root disk options changed: expected '' @
        show_options expected_root @ '', got '' @ show_options actual_root))) (\<lambda>_.
      bindR (ok_or (Option.bind (bt_get metadata ''bridges'') as_object) (Invalid ''The plan has no Gold network metadata'')) (\<lambda>bs.
      let expected_bridges = map (\<lambda>(slot, b). (slot, py_str pr b)) bs
      in
      bindR (network_bridges c (\<lambda>slot. ''Migrated Gold clone VM '' @ dec vmid @ '' NIC '' @ slot @ '' has no bridge'')) (\<lambda>actual_bridges.
      bindR (require (actual_bridges = expected_bridges) (clone_failed vmid (''network bridges changed: expected '' @
        debug_map expected_bridges @ '', got '' @ debug_map actual_bridges))) (\<lambda>_.
      bindR (require (cfg_text c ''name'' = name) (clone_failed vmid (''has name '' @ py_repr (Some (cfg_text c ''name'')) @
        '', expected '' @ py_repr (Some name)))) (\<lambda>_.
      bindR (require (not_template c) (clone_failed vmid ''is still marked as a template'')) (\<lambda>_.
      require (boot_order_contains_disk (cfg_text c ''boot'') (root_disk cfg))
        (clone_failed vmid (''boot order does not include '' @ root_disk cfg)))))))))"

definition check_migrated_clone ::
  "(json \<Rightarrow> string) \<Rightarrow> config \<Rightarrow> json \<Rightarrow> string \<Rightarrow> string \<Rightarrow> vm_cfg \<Rightarrow> core_error + unit" where
  "check_migrated_clone pr cfg plan node status c =
     bindR (vmid_of plan) (\<lambda>vmid.
     bindR (plan_text plan ''node'') (\<lambda>expected_node.
     bindR (plan_text plan ''name'') (\<lambda>name.
     bindR (plan_text plan ''root_storage'') (\<lambda>storage.
     bindR (require (node = expected_node) (clone_failed vmid (''is on '' @ py_repr (Some node) @ '', expected '' @
       py_repr (Some expected_node)))) (\<lambda>_.
     bindR (require (status = ''stopped'') (clone_failed vmid (''on '' @ py_repr (Some node) @ '' with status '' @
       py_repr (Some status) @ ''; expected stopped''))) (\<lambda>_.
     let root_config = cfg_text c (root_disk cfg)
     in
     bindR (require (root_config \<noteq> []) (clone_failed vmid (''has no '' @ root_disk cfg))) (\<lambda>_.
     bindR (require (volume_storage root_config = Some storage) (clone_failed vmid (''root disk is not on target storage '' @
       py_repr (Some storage) @ '': '' @ root_config))) (\<lambda>_.
     bindR (ok_or (Option.bind (jget plan ''source_metadata'') as_object) (Invalid ''The plan has no source metadata'')) (\<lambda>metadata.
     bindR (require (metadata_cloud metadata \<noteq> []) (Invalid ''The plan has no Cloud-Init metadata'')) (\<lambda>_.
     bindR (for_each (cloud_drive_ok vmid c) (metadata_cloud metadata)) (\<lambda>_.
     bindR (check_clone_disks vmid storage metadata c) (\<lambda>_.
     check_clone_options pr cfg vmid name metadata c))))))))))))"

definition migrate_clone :: "'w ext \<Rightarrow> config \<Rightarrow> json \<Rightarrow> timing \<Rightarrow> ('w, unit) op" where
  "migrate_clone S cfg plan timing =
     bindE (liftE (vmid_of plan)) (\<lambda>vmid.
     bindE (liftE (plan_text plan ''source_node'')) (\<lambda>source.
     bindE (liftE (plan_text plan ''node'')) (\<lambda>target.
     bindE (liftE (plan_text plan ''root_storage'')) (\<lambda>storage.
     bindE (vm_config S source vmid) (\<lambda>c.
     migrate_offline S source target vmid storage (migration_volume_plan c cfg) timing)))))"

definition verify_migrated_clone :: "'w ext \<Rightarrow> config \<Rightarrow> json \<Rightarrow> ('w, unit) op" where
  "verify_migrated_clone S cfg plan =
     bindE (liftE (vmid_of plan)) (\<lambda>vmid.
     bindE (cluster_vm_resources S) (\<lambda>rs.
     let node = (case find_vm vmid rs of None \<Rightarrow> [] | Some r \<Rightarrow> r_node r)
     in
     bindE (liftE (plan_text plan ''node'')) (\<lambda>target.
       if node \<noteq> target then liftE (check_migrated_clone (print_json S) cfg plan node ''unknown'' [])
       else
         bindE (vm_status S node vmid) (\<lambda>status.
         bindE (vm_config S node vmid) (\<lambda>c.
         liftE (check_migrated_clone (print_json S) cfg plan node status c))))))"

end
