(* ===== verification/Create.thy ===== *)
theory Create
  imports Create_Transfer
begin

text \<open>
  Creating a workspace (\<^verbatim>\<open>hs-core/src/lifecycle.rs\<close>): the admission, the plan, the clone of Gold, the steps up
  to the verified guest, and the removal of a clone that failed before its first boot. How far a
  create got is a record of its own, as in the code: the steps return their result together with it.
\<close>

section \<open>Admission\<close>

record create_request =
  cq_gold_vmid :: "nat option"
  cq_vmid :: nat
  cq_name :: string
  cq_home_size :: "string option"
  cq_storage :: "string option"
  cq_node :: "string option"

definition CLOUD_DRIVE_BYTES :: nat where "CLOUD_DRIVE_BYTES = 4 * 1024 * 1024"

definition clone_disk_bytes :: "(json \<Rightarrow> string) \<Rightarrow> json \<Rightarrow> core_error + nat" where
  "clone_disk_bytes pr disk =
     ok_or (Option.bind
         (case as_u64 (jidx disk ''size_bytes'') of
            Some n \<Rightarrow> Some n
          | None \<Rightarrow> if jidx disk ''role'' = JStr ''cloud-init'' then Some CLOUD_DRIVE_BYTES else None)
         (\<lambda>n. if 0 < n then Some n else None))
       (Refused (''Cannot determine Gold clone disk size for '' @ pr (jidx disk ''volume'')))"

definition clone_bytes :: "(json \<Rightarrow> string) \<Rightarrow> json list \<Rightarrow> core_error + nat" where
  "clone_bytes pr ds =
     fold_res (\<lambda>acc disk. bindR (clone_disk_bytes pr disk) (\<lambda>n.
       ok_or (checked_add acc n) (Refused ''Gold clone disk sizes exceed the supported byte range''))) 0 ds"

definition create_bytes :: "nat \<Rightarrow> nat \<Rightarrow> core_error + nat" where
  "create_bytes clone mib =
     bindR (ok_or (checked_mul mib (1024 * 1024)) (Refused ''Requested home size exceeds the supported byte range'')) (\<lambda>home.
     ok_or (checked_add clone home) (Refused ''Create disk sizes exceed the supported byte range''))"

definition require_create_capacity :: "'w ext \<Rightarrow> config \<Rightarrow> json \<Rightarrow> ('w, json) op" where
  "require_create_capacity S cfg plan =
     bindE (liftE (plan_text plan ''source_node'')) (\<lambda>source.
     bindE (liftE (plan_text plan ''node'')) (\<lambda>target.
     bindE (liftE (plan_text plan ''root_storage'')) (\<lambda>storage.
     bindE (liftE (configured_gold cfg)) (\<lambda>gold.
     bindE (vm_config S source gold) (\<lambda>gold_cfg.
     bindE (liftE (require_gold_tag gold gold_cfg)) (\<lambda>_.
     bindE (liftE (clone_bytes (print_json S) (migration_volume_plan gold_cfg cfg))) (\<lambda>clone.
     bindE (liftE (plan_number plan ''home_size_mib'')) (\<lambda>mib.
     bindE (liftE (create_bytes clone mib)) (\<lambda>all_bytes.
     bindE (require_space S target storage all_bytes) (\<lambda>target_capacity.
       if source \<noteq> target then
         bindE (liftE (plan_text plan ''clone_storage'')) (\<lambda>clone_storage.
         bindE (require_space S source clone_storage clone) (\<lambda>source_capacity.
         returnE (jobj [(''target'', target_capacity), (''source_clone'', source_capacity)])))
       else returnE (jobj [(''target'', target_capacity)])))))))))))"

section \<open>Planning\<close>

definition select_gold :: "'w ext \<Rightarrow> config \<Rightarrow> create_request \<Rightarrow> ('w, config) op" where
  "select_gold S cfg rq =
     (case cq_gold_vmid rq of
        None \<Rightarrow> returnE cfg
      | Some gold \<Rightarrow>
          bindE (cluster_vm_resources S) (\<lambda>rs.
          bindE (liftE (ok_or (find_vm gold rs) (Refused (gold_msg gold '' does not exist'')))) (\<lambda>source.
          bindE (liftE (ok_or (parse_node_name (r_node source)) (Invalid ''Gold has an invalid node name''))) (\<lambda>n.
          returnE (cfg\<lparr>gold_vmid := Some gold, cfg_node := n\<rparr>)))))"

definition create_target :: "config \<Rightarrow> create_request \<Rightarrow> core_error + string" where
  "create_target cfg rq =
     (let target = (case cq_node rq of None \<Rightarrow> cfg_node cfg | Some n \<Rightarrow> trim n)
      in
      bindR (require (target \<noteq> []) (Invalid ''Create target node cannot be empty'')) (\<lambda>_.
      ok_or (parse_node_name target) (Invalid (''Invalid node name '' @ py_repr (Some target)))))"

definition pool_listed :: "string \<Rightarrow> json \<Rightarrow> bool" where
  "pool_listed pool pools \<longleftrightarrow>
     (case as_array pools of None \<Rightarrow> False | Some ps \<Rightarrow> list_ex (\<lambda>p. get_str p ''poolid'' = Some pool) ps)"

definition no_pool :: "string \<Rightarrow> core_error" where
  "no_pool pool =
     Refused (''pool '' @ pool @ '' does not exist, or the token lacks Pool.Audit on it; reinstall HomeStack (Settings > General > Reinstall HomeStack)'')"

definition require_free_vmid :: "'w ext \<Rightarrow> config \<Rightarrow> string \<Rightarrow> nat \<Rightarrow> nat \<Rightarrow> ('w, unit) op" where
  "require_free_vmid S cfg pool gold vmid =
     bindE (cluster_vm_resources S) (\<lambda>rs.
     bindE (liftE (ok_or (find_vm gold rs) (Failed (gold_msg gold '' does not exist'')))) (\<lambda>r.
     bindE (unlessE (r_node r = cfg_node cfg) (Failed (gold_msg gold ('' is on '' @ py_repr (Some (r_node r)) @
       '', expected configured node '' @ py_repr (Some (cfg_node cfg)))))) (\<lambda>_.
     bindE (unlessE (list_all (\<lambda>r. r_vmid r \<noteq> vmid) rs) (Refused (''VMID '' @ dec vmid @ '' already exists''))) (\<lambda>_.
     bindE (api S (Get ''/pools'' [])) (\<lambda>pools.
     unlessE (pool_listed pool pools) (no_pool pool))))))"

definition create_plan ::
  "config \<Rightarrow> string \<Rightarrow> create_request \<Rightarrow> string \<Rightarrow> string \<Rightarrow> nat \<Rightarrow> string \<times> nat \<Rightarrow> string \<Rightarrow> string \<Rightarrow> rat option \<Rightarrow> string \<Rightarrow>
     workspace_keys \<Rightarrow> string list \<Rightarrow> (string \<times> json) list" where
  "create_plan cfg pool rq target ip gold home home_volume label root_gb storage keys labels =
     [(''command'', JStr ''create''), (''vmid'', jnat (cq_vmid rq)), (''name'', JStr (cq_name rq)), (''node'', JStr target),
      (''source_node'', JStr (cfg_node cfg)),
      (''transfer_method'', JStr (if target \<noteq> cfg_node cfg then ''clone-migrate'' else ''clone'')), (''pool'', JStr pool),
      (''ip'', JStr ip), (''cidr'', jnat (net_cidr (cfg_network cfg))), (''gateway'', JStr (net_gateway (cfg_network cfg))),
      (''gold_vmid'', jnat gold), (''clone_type'', JStr ''full''), (''root_storage'', JStr storage),
      (''root_disk'', JStr (root_disk cfg)), (''root_disk_gb'', jopt JFloat root_gb),
      (''root_disk_policy'', JStr ''inherit Gold unchanged''), (''home_storage'', JStr storage), (''home_disk'', JStr (home_disk cfg)),
      (''home_size'', JStr (fst home)), (''home_size_mib'', jnat (snd home)), (''home_label'', JStr label),
      (''home_policy'', JStr ''persistent Proxmox disk; ext4 mounted by filesystem label''),
      (''home_volume_name'', JStr home_volume), (''user'', JStr (user_name (cfg_user cfg))), (''uid'', jnat (uid (cfg_user cfg))),
      (''gid'', jnat (gid (cfg_user cfg))), (''ssh_key_source'', JStr (wk_source keys)), (''ssh_public_keys'', JArr (map JStr labels))]"

definition plan_storage ::
  "'w ext \<Rightarrow> config \<Rightarrow> create_request \<Rightarrow> string \<Rightarrow> vm_cfg \<Rightarrow> ('w, string \<times> json option) op" where
  "plan_storage S cfg rq target gold_cfg =
     (if target \<noteq> cfg_node cfg then
        bindE (validate_cross_node_create S cfg target gold_cfg (cq_storage rq)) (\<lambda>(storage, metadata).
        returnE (storage, Some metadata))
      else
        bindE (liftE (resolve_homestack_storage cfg (cfg_node cfg) (cq_storage rq))) (\<lambda>storage.
        returnE (storage, None)))"

text \<open>Everything after the home size was read; the outcome is the plan.\<close>

definition plan_create_sized ::
  "'w ext \<Rightarrow> config \<Rightarrow> string \<Rightarrow> create_request \<Rightarrow> nat \<Rightarrow> string \<Rightarrow> string \<Rightarrow> string \<times> nat \<Rightarrow> ('w, json) op" where
  "plan_create_sized S cfg pool rq gold ip target home =
     bindE (liftE (home_volume_name (cq_vmid rq) (user_name (cfg_user cfg)))) (\<lambda>home_volume.
     bindE (liftE (home_label (cq_vmid rq))) (\<lambda>label.
     bindE (require_free_vmid S cfg pool gold (cq_vmid rq)) (\<lambda>_.
     bindE (vm_config S (cfg_node cfg) gold) (\<lambda>gold_cfg.
     bindE (liftE (require_gold_tag gold gold_cfg)) (\<lambda>_.
     bindE (unlessE (cfg_text gold_cfg (root_disk cfg) \<noteq> []) (Failed (gold_msg gold ('' has no '' @ root_disk cfg @ '' disk'')))) (\<lambda>_.
     bindE (plan_storage S cfg rq target gold_cfg) (\<lambda>(storage, metadata).
     bindE (require_bridge_use S gold gold_cfg) (\<lambda>_.
     bindE (workspace_authorized_keys S cfg) (\<lambda>keys.
     bindE (liftE (parse_authorized_key_records (wk_keys keys))) (\<lambda>records.
     let base = create_plan cfg pool rq target ip gold home home_volume label
           (parse_disk_size_gb (cfg_text gold_cfg (root_disk cfg))) storage keys (map key_label records)
     in
     bindE (case metadata of
         None \<Rightarrow> returnE (jobj base)
       | Some m \<Rightarrow>
           bindE (liftE (resolve_homestack_storage cfg (cfg_node cfg) None)) (\<lambda>clone_storage.
           returnE (jobj (base @ [(''clone_storage'', JStr clone_storage), (''source_metadata'', m)])))) (\<lambda>plan.
     bindE (require_create_capacity S cfg plan) (\<lambda>capacity.
     returnE (jset plan ''capacity'' capacity)))))))))))))"

text \<open>The value \<open>None\<close> is the panic of the home size parser.\<close>

definition plan_create :: "'w ext \<Rightarrow> config \<Rightarrow> string \<Rightarrow> create_request \<Rightarrow> ('w, json option) op" where
  "plan_create S cfg0 pool rq =
     bindE (select_gold S cfg0 rq) (\<lambda>cfg.
     bindE (liftE (configured_gold cfg)) (\<lambda>gold.
     bindE (liftE (validate_name (cq_name rq))) (\<lambda>_.
     bindE (liftE (derive_ip cfg (cq_vmid rq))) (\<lambda>ip.
     bindE (liftE (create_target cfg rq)) (\<lambda>target.
     case parse_home_size (case cq_home_size rq of None \<Rightarrow> default_home_size cfg | Some s \<Rightarrow> s) of
       None \<Rightarrow> returnE None
     | Some parsed \<Rightarrow>
         bindE (liftE parsed) (\<lambda>home.
         bindE (plan_create_sized S cfg pool rq gold ip target home) (\<lambda>plan. returnE (Some plan))))))))"

section \<open>Cloning\<close>

definition clone_path :: "string \<Rightarrow> nat \<Rightarrow> string" where
  "clone_path source gold = qemu_path source gold ''/clone''"

definition clone_form :: "nat \<Rightarrow> string \<Rightarrow> string \<Rightarrow> string \<Rightarrow> (string \<times> string) list" where
  "clone_form vmid name storage pool =
     [(''newid'', dec vmid), (''name'', name), (''full'', ''1''), (''storage'', storage), (''pool'', pool)]"

definition clone_context :: "string \<Rightarrow> string \<Rightarrow> nat \<Rightarrow> string" where
  "clone_context source p vmid = ''Clone submission on '' @ source @ '' ('' @ p @ '', target VMID '' @ dec vmid @ '')''"

fun submission_outcome :: "core_error \<Rightarrow> string" where
  "submission_outcome (PveErr (PveConfig _)) = ''request not sent''"
| "submission_outcome (PveErr (Unreachable _)) = ''request not sent''"
| "submission_outcome (PveErr Unauthorized) = ''request rejected''"
| "submission_outcome (PveErr (Forbidden _)) = ''request rejected''"
| "submission_outcome (PveErr (Api _ _)) = ''request rejected''"
| "submission_outcome _ = ''submission outcome unknown''"

definition not_submitted :: "string \<Rightarrow> core_error \<Rightarrow> core_error" where
  "not_submitted context e =
     Context (context @ '': '' @ submission_outcome e @ '': '' @ error_text e @
       ''. No clone task was established; target presence and allocation are unconfirmed. No automatic cleanup or retry; inspect Proxmox tasks and the target VM before explicit recovery.'') [e]"

definition no_clone_task :: "string \<Rightarrow> core_error \<Rightarrow> core_error" where
  "no_clone_task context e =
     Context (context @ '': '' @ error_text e @
       ''. Clone outcome unknown; no automatic cleanup or retry. Manual reconciliation required.'') [e]"

definition unexpected_task :: "string \<Rightarrow> string \<Rightarrow> core_error" where
  "unexpected_task context task =
     Failed (context @ '' returned unexpected task '' @ task @
       ''; clone outcome unknown. No automatic cleanup or retry; manual reconciliation required.'')"

definition clone_unknown :: "string \<Rightarrow> string \<Rightarrow> core_error \<Rightarrow> core_error" where
  "clone_unknown context task e =
     Context (context @ '', task '' @ task @ '': '' @ error_text e @
       ''. Clone outcome unknown after task inspection; no automatic cleanup or retry. Manual reconciliation required.'') [e]"

definition clone_not_ok :: "string \<Rightarrow> string \<Rightarrow> string \<Rightarrow> core_error" where
  "clone_not_ok context task exit =
     Failed (context @ '', task '' @ task @ '': '' @
       (if exit = [] \<or> exit = ''unknown'' then ''outcome unknown'' else ''confirmed failed'') @ '' ('' @ exit @
       ''). No automatic cleanup or retry; inspect the task and target VM before explicit recovery.'')"

text \<open>A lost answer or a timeout is not a failed clone: only the task itself says how it ended.\<close>

definition inspected_exit :: "core_error + json \<Rightarrow> string option" where
  "inspected_exit status =
     (case status of
        Inl _ \<Rightarrow> None
      | Inr v \<Rightarrow>
          if jidx v ''status'' = JStr ''stopped'' then
            (case as_str (jidx v ''exitstatus'') of
               None \<Rightarrow> None
             | Some x \<Rightarrow> if x = [] \<or> x = ''unknown'' then None else Some x)
          else None)"

definition inspect_clone :: "'w ext \<Rightarrow> string \<Rightarrow> string \<Rightarrow> string \<Rightarrow> core_error \<Rightarrow> ('w, task_result) op" where
  "inspect_clone S context source task e =
     bindE (tryE (api S (status_request source task))) (\<lambda>status.
     case inspected_exit status of
       Some x \<Rightarrow>
         bindE (emit (TaskFinished task x)) (\<lambda>_. returnE \<lparr>tr_upid = task, exitstatus = x\<rparr>)
     | None \<Rightarrow> throwE (clone_unknown context task e))"

definition clone_task ::
  "'w ext \<Rightarrow> string \<Rightarrow> (string \<times> string) list \<Rightarrow> string \<Rightarrow> nat \<Rightarrow> task_wait \<Rightarrow> ('w, string) op" where
  "clone_task S p form source vmid wait =
     (let context = clone_context source p vmid
      in
      bindE (map_errE (not_submitted context) (api S (Post p form))) (\<lambda>answer.
      bindE (liftE (map_err (no_clone_task context) (upid S answer))) (\<lambda>task.
      bindE (unlessE (upid_node task = Some source) (unexpected_task context task)) (\<lambda>_.
      bindE (tryE (wait_task S task wait)) (\<lambda>r.
      bindE (case r of Inr result \<Rightarrow> returnE result | Inl e \<Rightarrow> inspect_clone S context source task e) (\<lambda>result.
      if task_ok result then returnE task else throwE (clone_not_ok context task (exitstatus result))))))))"

section \<open>Removing a failed clone\<close>

record clone_cleanup =
  cc_node :: string
  cc_config :: vm_cfg

definition unstable_keys :: "string list" where
  "unstable_keys = [''digest'', ''ipconfig0'', ''nameserver'', ''ciuser'', ''ciupgrade'', ''sshkeys'', ''cicustom'']"

definition stable_value :: "string \<Rightarrow> string \<Rightarrow> string" where
  "stable_value key v =
     (if is_volume_slot key then
        let parts = split_on (CHR '','') v
        in join '','' (hd parts # sort (filter (\<lambda>f. \<not> starts_with f ''size='') (tl parts)))
      else v)"

definition cleanup_config :: "vm_cfg \<Rightarrow> vm_cfg" where
  "cleanup_config c = map (\<lambda>(k, v). (k, stable_value k v)) (filter (\<lambda>(k, _). k \<notin> set unstable_keys) c)"

definition owner_refused :: "nat \<Rightarrow> string \<Rightarrow> core_error" where
  "owner_refused vmid volume =
     Refused (vm_msg vmid ('' volume '' @ volume @ '' ownership is missing, conflicting or ambiguous; cleanup skipped''))"

definition require_clone_volume_owner :: "json \<Rightarrow> string \<Rightarrow> nat \<Rightarrow> core_error + unit" where
  "require_clone_volume_owner inventory volume vmid =
     bindR (ok_or (as_array inventory) (owner_refused vmid volume)) (\<lambda>entries.
     require (case filter (\<lambda>e. as_str (jidx e ''volid'') = Some volume) entries of
                [e] \<Rightarrow> as_u64 (jidx e ''vmid'') = Some vmid
              | _ \<Rightarrow> False) (owner_refused vmid volume))"

definition clone_volume_step ::
  "nat \<Rightarrow> string list bmap \<Rightarrow> string \<times> string \<Rightarrow> core_error + string list bmap" where
  "clone_volume_step vmid volumes sv =
     (case sv of (slot, v) \<Rightarrow>
       if starts_with slot ''unused'' then Inl (Failed (vm_msg vmid '' has an unexpected unused disk; left alone''))
       else if \<not> is_volume_slot slot \<or> disk_volume v = [] \<or> disk_volume v = ''none'' then Inr volumes
       else
         (case split_once (disk_volume v) '':'' of
            Some (st, n) \<Rightarrow>
              if st \<noteq> [] \<and> n \<noteq> [] then
                Inr (bt_insert st (set_of_list (disk_volume v # (case bt_get volumes st of None \<Rightarrow> [] | Some vs \<Rightarrow> vs))) volumes)
              else Inl (Refused (vm_msg vmid '' has a non-storage disk; cleanup skipped''))
          | None \<Rightarrow> Inl (Refused (vm_msg vmid '' has a non-storage disk; cleanup skipped''))))"

definition clone_volumes :: "nat \<Rightarrow> vm_cfg \<Rightarrow> core_error + string list bmap" where
  "clone_volumes vmid c = fold_res (clone_volume_step vmid) [] c"

definition review_clone_storage :: "'w ext \<Rightarrow> string \<Rightarrow> nat \<Rightarrow> string \<times> string list \<Rightarrow> ('w, unit) op" where
  "review_clone_storage S node vmid sv =
     (case sv of (storage, volumes) \<Rightarrow>
       bindE (api S (storage_status_request node storage)) (\<lambda>state.
       bindE (unlessE (as_u64 (jidx state ''active'') = Some 1 \<and> as_u64 (jidx state ''enabled'') = Some 1)
         (Refused (''Storage '' @ storage @ '' unavailable; cleanup skipped''))) (\<lambda>_.
       bindE (api S (storage_content_request node storage)) (\<lambda>inventory.
       liftE (for_each (\<lambda>volume. require_clone_volume_owner inventory volume vmid) volumes)))))"

definition changed_in_review :: "nat \<Rightarrow> core_error" where
  "changed_in_review vmid = Refused (vm_msg vmid '' changed during ownership review; left alone'')"

definition clone_left_alone :: "config \<Rightarrow> nat \<Rightarrow> string \<Rightarrow> clone_cleanup \<Rightarrow> vm_cfg \<Rightarrow> core_error + unit" where
  "clone_left_alone cfg vmid name clone c =
     bindR (require (bt_get c ''name'' = Some name \<and> cleanup_config c = cc_config clone)
       (Failed (vm_msg vmid '' identity, disks or attachments changed; left alone''))) (\<lambda>_.
     require (\<not> bt_has c ''lock'' \<and> not_template c \<and>
         (case bt_get c (root_disk cfg) of None \<Rightarrow> False | Some v \<Rightarrow> disk_volume v \<noteq> [] \<and> disk_volume v \<noteq> ''none''))
       (Failed (vm_msg vmid '' is locked, a template or missing its root disk; left alone'')))"

definition cleanup_query :: "(string \<times> string) list" where
  "cleanup_query = [(''purge'', ''1''), (''destroy-unreferenced-disks'', ''0'')]"

definition same_placement :: "string \<Rightarrow> string \<Rightarrow> nat \<Rightarrow> resource list \<Rightarrow> bool" where
  "same_placement node pool vmid rs \<longleftrightarrow>
     (case filter (\<lambda>r. r_vmid r = vmid) rs of
        [r] \<Rightarrow> r_node r = node \<and> r_pool r = Some pool
      | _ \<Rightarrow> False)"

text \<open>The review of a clone before its removal, up to its power state.\<close>

definition review_clone :: "'w ext \<Rightarrow> config \<Rightarrow> nat \<Rightarrow> string \<Rightarrow> string \<Rightarrow> clone_cleanup \<Rightarrow> ('w, unit) op" where
  "review_clone S cfg vmid name pool clone =
     bindE (cluster_vm_resources S) (\<lambda>rs.
     bindE (liftE (ok_or (find_vm vmid rs) (Failed (vm_msg vmid '' is not visible; target absence is unconfirmed'')))) (\<lambda>r.
     bindE (unlessE (r_node r = cc_node clone \<and> r_pool r = Some pool) (Failed (vm_msg vmid '' node or pool changed; left alone''))) (\<lambda>_.
     bindE (vm_config S (cc_node clone) vmid) (\<lambda>c.
     bindE (liftE (clone_left_alone cfg vmid name clone c)) (\<lambda>_.
     bindE (liftE (clone_volumes vmid c)) (\<lambda>volumes.
     bindE (mapM_E (review_clone_storage S (cc_node clone) vmid) volumes) (\<lambda>_.
     bindE (cluster_vm_resources S) (\<lambda>rs'.
     bindE (unlessE (same_placement (cc_node clone) pool vmid rs') (changed_in_review vmid)) (\<lambda>_.
     bindE (vm_config S (cc_node clone) vmid) (\<lambda>c'.
     bindE (unlessE (c' = c) (changed_in_review vmid)) (\<lambda>_.
     bindE (vm_status S (cc_node clone) vmid) (\<lambda>status.
     unlessE (status = ''stopped'') (Failed (vm_msg vmid ('' is '' @ status @ ''; left alone'')))))))))))))))"

definition remove_failed_clone :: "'w ext \<Rightarrow> config \<Rightarrow> json \<Rightarrow> clone_cleanup \<Rightarrow> timing \<Rightarrow> ('w, unit) op" where
  "remove_failed_clone S cfg plan clone timing =
     bindE (liftE (vmid_of plan)) (\<lambda>vmid.
     bindE (liftE (plan_text plan ''name'')) (\<lambda>name.
     bindE (liftE (plan_text plan ''pool'')) (\<lambda>pool.
     bindE (review_clone S cfg vmid name pool clone) (\<lambda>_.
     bindE (api S (Delete (qemu_path (cc_node clone) vmid []) cleanup_query)) (\<lambda>answer.
     bindE (liftE (upid S answer)) (\<lambda>u.
     bindE (wait_task S u (wait_for timing 600)) (\<lambda>result.
     unlessE (task_ok result) (Failed (''Destroying VM '' @ dec vmid @ '' failed: '' @ exitstatus result)))))))))"

section \<open>How far a create got\<close>

record create_progress =
  cp_task :: "string option"
  cp_cleanup :: "clone_cleanup option"
  cp_started :: bool

definition no_progress :: create_progress where
  "no_progress = \<lparr>cp_task = None, cp_cleanup = None, cp_started = False\<rparr>"

type_synonym ('w, 'a) pop = "create_progress \<Rightarrow> ('w, (core_error + 'a) \<times> create_progress) op"

definition p_do :: "('w, 'a) op \<Rightarrow> ('w, 'a) pop" where
  "p_do m = (\<lambda>pg. bindE (tryE m) (\<lambda>r. returnE (r, pg)))"

definition p_bind :: "('w, 'a) pop \<Rightarrow> ('a \<Rightarrow> ('w, 'b) pop) \<Rightarrow> ('w, 'b) pop" where
  "p_bind m f = (\<lambda>pg. bindE (m pg) (\<lambda>(r, pg'). case r of Inl e \<Rightarrow> returnE (Inl e, pg') | Inr a \<Rightarrow> f a pg'))"

definition p_set :: "(create_progress \<Rightarrow> create_progress) \<Rightarrow> ('w, unit) pop" where
  "p_set f = (\<lambda>pg. returnE (Inr (), f pg))"

definition p_get :: "('w, create_progress) pop" where
  "p_get = (\<lambda>pg. returnE (Inr pg, pg))"

definition p_step :: "string \<Rightarrow> ('w, 'a) pop \<Rightarrow> ('w, 'a) pop" where
  "p_step name m = (\<lambda>pg.
     bindE (step_started name) (\<lambda>_.
     bindE (m pg) (\<lambda>(r, pg').
     bindE (step_finished name (is_ok r)) (\<lambda>_.
     returnE (r, pg')))))"

definition set_cleanup :: "(vm_cfg \<Rightarrow> vm_cfg) \<Rightarrow> create_progress \<Rightarrow> create_progress" where
  "set_cleanup f pg =
     pg\<lparr>cp_cleanup := map_option (\<lambda>clone. clone\<lparr>cc_config := f (cc_config clone)\<rparr>) (cp_cleanup pg)\<rparr>"

section \<open>The steps\<close>

record create_input =
  ci_vmid :: nat
  ci_node :: string
  ci_name :: string
  ci_ip :: string
  ci_pool :: string
  ci_storage :: string
  ci_home_storage :: string
  ci_label :: string
  ci_mib :: nat

definition create_input_of :: "json \<Rightarrow> core_error + create_input" where
  "create_input_of plan =
     bindR (vmid_of plan) (\<lambda>vmid.
     bindR (plan_text plan ''node'') (\<lambda>node.
     bindR (plan_text plan ''name'') (\<lambda>name.
     bindR (plan_text plan ''ip'') (\<lambda>ip.
     bindR (plan_text plan ''pool'') (\<lambda>pool.
     bindR (plan_text plan ''root_storage'') (\<lambda>storage.
     bindR (plan_text plan ''home_storage'') (\<lambda>home_storage.
     bindR (plan_text plan ''home_label'') (\<lambda>label.
     bindR (plan_number plan ''home_size_mib'') (\<lambda>mib.
     Inr \<lparr>ci_vmid = vmid, ci_node = node, ci_name = name, ci_ip = ip, ci_pool = pool, ci_storage = storage,
       ci_home_storage = home_storage, ci_label = label, ci_mib = mib\<rparr>)))))))))"

definition home_unconfirmed :: "string \<Rightarrow> core_error \<Rightarrow> core_error" where
  "home_unconfirmed volume e =
     Context (error_text e @ ''. Home attachment is unconfirmed; volume '' @ volume @ '' was left for explicit inspection.'') [e]"

definition home_content_form :: "nat \<Rightarrow> string \<Rightarrow> nat \<Rightarrow> (string \<times> string) list" where
  "home_content_form vmid filename mib =
     [(''vmid'', dec vmid), (''filename'', filename), (''size'', dec mib @ ''M''), (''format'', ''raw'')]"

definition storage_content_path :: "string \<Rightarrow> string \<Rightarrow> string" where
  "storage_content_path node storage = ''/nodes/'' @ node @ ''/storage/'' @ storage @ ''/content''"

definition home_spec :: "string \<Rightarrow> string \<Rightarrow> string" where
  "home_spec volume label = volume @ '',discard=on,iothread=1,ssd=1,serial='' @ label"

definition attach_home ::
  "'w ext \<Rightarrow> config \<Rightarrow> string \<Rightarrow> nat \<Rightarrow> string \<Rightarrow> nat \<Rightarrow> string \<Rightarrow> timing \<Rightarrow> ('w, string) op" where
  "attach_home S cfg node vmid storage mib label timing =
     bindE (liftE (home_volume_name vmid (user_name (cfg_user cfg)))) (\<lambda>filename.
     bindE (api S (Post (storage_content_path node storage) (home_content_form vmid filename mib))) (\<lambda>answer.
     let volume = (case as_str answer of None \<Rightarrow> storage @ '':'' @ filename | Some v \<Rightarrow> v); spec = home_spec volume label
     in
     bindE (map_errE (home_unconfirmed volume)
       (post_task S (qemu_path node vmid ''/config'') [(home_disk cfg, spec)] (''Attaching the home of VM '' @ dec vmid)
          (wait_for timing 600))) (\<lambda>_.
     returnE spec)))"

definition full_clone ::
  "'w ext \<Rightarrow> config \<Rightarrow> create_input \<Rightarrow> string \<Rightarrow> string \<Rightarrow> timing \<Rightarrow> ('w, string) op" where
  "full_clone S cfg i source clone_storage timing =
     bindE (step_started ''Full clone'') (\<lambda>_.
     bindE (liftE (configured_gold cfg)) (\<lambda>gold.
     bindE (tryE (clone_task S (clone_path source gold) (clone_form (ci_vmid i) (ci_name i) clone_storage (ci_pool i)) source
       (ci_vmid i) (wait_for timing 3600))) (\<lambda>cloned.
     bindE (step_finished ''Full clone'' (is_ok cloned)) (\<lambda>_.
     liftE cloned))))"

definition clone_identity :: "vm_cfg \<Rightarrow> vm_cfg" where
  "clone_identity c = filter (\<lambda>(k, _). \<not> is_volume_slot k) c"

text \<open>The cleanup record is taken while the clone moves: nothing may be removed then.\<close>

definition move_clone :: "'w ext \<Rightarrow> config \<Rightarrow> json \<Rightarrow> create_input \<Rightarrow> timing \<Rightarrow> ('w, unit) pop" where
  "move_clone S cfg plan i timing =
     p_bind (p_do (step_started ''Migrate to target node'')) (\<lambda>_.
     p_bind p_get (\<lambda>before.
     p_bind (p_set (\<lambda>pg. pg\<lparr>cp_cleanup := None\<rparr>)) (\<lambda>_.
     p_bind (p_do (bindE (tryE (migrate_clone S cfg plan timing)) (\<lambda>r.
       bindE (step_finished ''Migrate to target node'' (is_ok r)) (\<lambda>_. liftE r)))) (\<lambda>_.
     p_bind (p_do (stepE ''Verify migrated clone'' (verify_migrated_clone S cfg plan))) (\<lambda>_.
     p_bind (p_do (vm_config S (ci_node i) (ci_vmid i))) (\<lambda>c.
     case cp_cleanup before of
       None \<Rightarrow> p_set id
     | Some original \<Rightarrow>
         p_bind (p_do (unlessE (clone_identity (cc_config original) = clone_identity (cleanup_config c))
           (Failed ''Clone identity changed during migration; manual reconciliation required''))) (\<lambda>_.
         p_set (\<lambda>pg. pg\<lparr>cp_cleanup := Some \<lparr>cc_node = ci_node i, cc_config = cleanup_config c\<rparr>\<rparr>))))))))"

definition tag_clone :: "'w ext \<Rightarrow> config \<Rightarrow> create_input \<Rightarrow> timing \<Rightarrow> ('w, string) pop" where
  "tag_clone S cfg i timing =
     p_bind (p_do (post_task S (qemu_path (ci_node i) (ci_vmid i) ''/config'') [(''tags'', workspace_tags (ci_pool i))]
       (''Tagging VM '' @ dec (ci_vmid i)) (wait_for timing 600))) (\<lambda>_.
     p_bind (p_set (set_cleanup (bt_insert ''tags'' (workspace_tags (ci_pool i))))) (\<lambda>_.
     p_do (
       bindE (vm_config S (ci_node i) (ci_vmid i)) (\<lambda>c.
       bindE (liftE (verify_workspace_role_tags (ci_vmid i) c)) (\<lambda>_.
       bindE (unlessE (cfg_text c ''net0'' \<noteq> []) (Failed (''Cloned VM '' @ dec (ci_vmid i) @ '' has no net0''))) (\<lambda>_.
       bindE (liftE (ok_or (extract_mac (cfg_text c ''net0''))
         (Failed (''Cloned VM '' @ dec (ci_vmid i) @ '' net0 has no MAC address'')))) (\<lambda>mac.
       bindE (unlessE (disk_option (cfg_text c (home_disk cfg)) ''serial'' = Some (ci_label i))
         (Failed (vm_msg (ci_vmid i) ('' '' @ home_disk cfg @ '' does not have expected serial '' @ ci_label i)))) (\<lambda>_.
       returnE mac))))))))"

definition configure_clone :: "'w ext \<Rightarrow> config \<Rightarrow> create_input \<Rightarrow> string \<Rightarrow> timing \<Rightarrow> ('w, unit) op" where
  "configure_clone S cfg i keys timing =
     bindE (liftE (cloud_init_settings cfg FormatCreate (ci_ip i) (net_cidr (cfg_network cfg)) (net_gateway (cfg_network cfg))
       (Some keys))) (\<lambda>settings.
     bindE (post_task S (qemu_path (ci_node i) (ci_vmid i) ''/config'') settings
       (''Configuring Cloud-Init of VM '' @ dec (ci_vmid i)) (wait_for timing 600)) (\<lambda>_.
     bindE (vm_config S (ci_node i) (ci_vmid i)) (\<lambda>c.
     liftE (verify_workspace_role_tags (ci_vmid i) c))))"

definition key_mismatch :: "key_record list \<Rightarrow> key_record list \<Rightarrow> core_error + unit" where
  "key_mismatch expected actual =
     (let missing = map key_label (filter (\<lambda>r. key_identity r \<notin> set (map key_identity actual)) expected);
          unexpected = map key_label (filter (\<lambda>r. key_identity r \<notin> set (map key_identity expected)) actual)
      in require (missing = [] \<and> unexpected = [])
        (Failed (''Verification failed: SSH public keys mismatch ('' @
          join ''; '' ((if missing \<noteq> [] then [''missing: '' @ join '', '' missing] else []) @
            (if unexpected \<noteq> [] then [''unexpected: '' @ join '', '' unexpected] else [])) @ '')'')))"

definition create_expectation :: "config \<Rightarrow> create_input \<Rightarrow> guest_expectation" where
  "create_expectation cfg i =
     \<lparr>ge_name = ci_name i, ge_address = ci_ip i @ ''/'' @ dec (net_cidr (cfg_network cfg)), ge_user = cfg_user cfg,
      ge_home_label = ci_label i\<rparr>"

definition verify_created :: "'w ext \<Rightarrow> config \<Rightarrow> create_input \<Rightarrow> key_record list \<Rightarrow> timing \<Rightarrow> ('w, string option) op" where
  "verify_created S cfg i expected timing =
     bindE (verify_guest S (ci_node i) (ci_vmid i) (create_expectation cfg i) (tm_verify timing)) (\<lambda>r.
     bindE (liftE (map_err (\<lambda>f. Failed (create_message f (create_expectation cfg i))) r)) (\<lambda>v.
     bindE (liftE (parse_authorized_key_records (user_authorized_keys v))) (\<lambda>actual.
     bindE (liftE (key_mismatch expected actual)) (\<lambda>_.
     returnE (cloud_id v)))))"

definition create_result :: "json \<Rightarrow> string \<Rightarrow> string \<Rightarrow> workspace_keys \<Rightarrow> key_record list \<Rightarrow> string option \<Rightarrow> json" where
  "create_result plan status mac keys expected cid =
     plan_result plan
       [(''status'', JStr status), (''mac'', JStr mac), (''ssh_key_source'', JStr (wk_source keys)),
        (''ssh_public_keys'', JArr (map (\<lambda>r. jobj [(''label'', JStr (key_label r)), (''verified'', JBool True)]) expected)),
        (''cloud_id'', jopt JStr (case cid of None \<Rightarrow> None | Some x \<Rightarrow> if x = [] then None else Some x)),
        (''host_key_changed'', JBool True), (''event'', JStr ''workspace.created'')]"

definition unexpected_home :: core_error where
  "unexpected_home = Failed ''Clone unexpectedly contains a persistent home; manual reconciliation required''"

text \<open>From the cloned VM to its first boot.\<close>

definition prepare_clone ::
  "'w ext \<Rightarrow> config \<Rightarrow> json \<Rightarrow> create_input \<Rightarrow> bool \<Rightarrow> string \<Rightarrow> string \<Rightarrow> timing \<Rightarrow> ('w, string) pop" where
  "prepare_clone S cfg plan i migrated source keys timing =
     p_bind (p_do (bindE (vm_config S source (ci_vmid i)) (\<lambda>c.
       bindE (unlessE (\<not> bt_has c (home_disk cfg)) unexpected_home) (\<lambda>_. returnE c)))) (\<lambda>c.
     p_bind (p_set (\<lambda>pg. pg\<lparr>cp_cleanup := Some \<lparr>cc_node = source, cc_config = cleanup_config c\<rparr>\<rparr>)) (\<lambda>_.
     p_bind (if migrated then move_clone S cfg plan i timing else p_set id) (\<lambda>_.
     p_bind (p_do (stepE ''Persistent home disk''
       (attach_home S cfg (ci_node i) (ci_vmid i) (ci_home_storage i) (ci_mib i) (ci_label i) timing))) (\<lambda>home.
     p_bind (p_set (set_cleanup (\<lambda>c. cleanup_config (bt_insert (home_disk cfg) home c)))) (\<lambda>_.
     p_bind (p_step ''Clone identity'' (tag_clone S cfg i timing)) (\<lambda>mac.
     p_bind (p_do (stepE ''Cloud-Init'' (configure_clone S cfg i keys timing))) (\<lambda>_.
     (\<lambda>pg. returnE (Inr mac, pg)))))))))"

definition create_steps :: "'w ext \<Rightarrow> config \<Rightarrow> json \<Rightarrow> timing \<Rightarrow> ('w, json) pop" where
  "create_steps S cfg plan timing =
     p_bind (p_do (liftE (create_input_of plan))) (\<lambda>i.
     p_bind (p_do (stepE ''SSH keys'' (workspace_authorized_keys S cfg))) (\<lambda>keys.
     p_bind (p_do (liftE (parse_authorized_key_records (wk_keys keys)))) (\<lambda>expected.
     let migrated = (jget plan ''source_metadata'' \<noteq> None)
     in
     p_bind (p_do (liftE (plan_text plan ''source_node''))) (\<lambda>source.
     p_bind (p_do (liftE (if migrated then plan_text plan ''clone_storage'' else Inr (ci_storage i)))) (\<lambda>clone_storage.
     p_bind (p_do (full_clone S cfg i source clone_storage timing)) (\<lambda>task.
     p_bind (p_set (\<lambda>pg. pg\<lparr>cp_task := Some task\<rparr>)) (\<lambda>_.
     p_bind (prepare_clone S cfg plan i migrated source (wk_keys keys) timing) (\<lambda>mac.
     p_bind (p_step ''Boot'' (p_bind (p_set (\<lambda>pg. pg\<lparr>cp_started := True\<rparr>)) (\<lambda>_.
       p_do (start_vm S (ci_node i) (ci_vmid i) (wait_for timing START_TIMEOUT_SECS))))) (\<lambda>_.
     p_bind (p_do (stepE ''Verify workspace'' (verify_created S cfg i expected timing))) (\<lambda>cid.
     p_bind (p_do (vm_status S (ci_node i) (ci_vmid i))) (\<lambda>status.
     (\<lambda>pg. returnE (Inr (create_result plan status mac keys expected cid), pg)))))))))))))"

definition cleanup_incomplete :: "nat \<Rightarrow> string \<Rightarrow> string \<Rightarrow> core_error \<Rightarrow> core_error \<Rightarrow> core_error" where
  "cleanup_incomplete vmid name task e failure =
     Context (error_text e @ ''. Cleanup of VM '' @ dec vmid @ '' ('' @ name @ ''), clone task '' @ task @
       '', was refused or incomplete: '' @ error_text failure @ ''. Inspect the VM and task before explicit recovery.'') [e, failure]"

definition after_failure :: "'w ext \<Rightarrow> config \<Rightarrow> json \<Rightarrow> nat \<Rightarrow> string \<Rightarrow> timing \<Rightarrow> core_error \<Rightarrow> create_progress \<Rightarrow> ('w, json) op" where
  "after_failure S cfg plan vmid name timing e pg =
     (if cp_started pg then throwE e
      else
        case cp_task pg of
          None \<Rightarrow> throwE e
        | Some task \<Rightarrow>
            bindE (tryE (case cp_cleanup pg of
                Some clone \<Rightarrow> remove_failed_clone S cfg plan clone timing
              | None \<Rightarrow> throwE (Failed ''clone configuration or location is uncertain''))) (\<lambda>r.
            case r of
              Inr _ \<Rightarrow> throwE e
            | Inl failure \<Rightarrow> throwE (cleanup_incomplete vmid name task e failure)))"

definition gold_of_plan :: "json \<Rightarrow> core_error + nat" where
  "gold_of_plan plan =
     bindR (plan_number plan ''gold_vmid'') (\<lambda>n.
       if n < u32_bound then Inr n else Inl (Invalid ''Invalid Gold VMID in create plan''))"

definition create_workspace :: "'w ext \<Rightarrow> config \<Rightarrow> json \<Rightarrow> timing \<Rightarrow> ('w, json) op" where
  "create_workspace S cfg0 plan timing =
     bindE (liftE (gold_of_plan plan)) (\<lambda>gold.
     let cfg = cfg0\<lparr>gold_vmid := Some gold\<rparr>
     in
     bindE (liftE (configured_gold cfg)) (\<lambda>_.
     bindE (liftE (vmid_of plan)) (\<lambda>vmid.
     bindE (liftE (plan_text plan ''name'')) (\<lambda>name.
     bindE (if jget plan ''source_metadata'' \<noteq> None then revalidate_source S cfg plan else returnE ()) (\<lambda>_.
     bindE (require_create_capacity S cfg plan) (\<lambda>_.
     bindE (create_steps S cfg plan timing no_progress) (\<lambda>(r, pg).
     case r of
       Inr result \<Rightarrow> returnE result
     | Inl e \<Rightarrow> after_failure S cfg plan vmid name timing e pg)))))))"

section \<open>Sizes and keys\<close>

lemma sizes_Cons: "(\<exists>sizes. Inr k # rs = map Inr sizes \<and> P sizes) \<longleftrightarrow> (\<exists>sizes. rs = map Inr sizes \<and> P (k # sizes))"
proof -
  have "Inr k # rs = map Inr sizes \<longleftrightarrow> (\<exists>t. sizes = k # t \<and> rs = map Inr t)" for sizes by (cases sizes) auto
  then show ?thesis by auto
qed

lemma clone_bytes_from:
  "acc < u64_bound \<Longrightarrow>
   fold_res (\<lambda>acc disk. bindR (clone_disk_bytes pr disk) (\<lambda>n.
     ok_or (checked_add acc n) (Refused ''Gold clone disk sizes exceed the supported byte range''))) acc ds = Inr n \<longleftrightarrow>
   (\<exists>sizes. map (clone_disk_bytes pr) ds = map Inr sizes \<and> n = acc + sum_list sizes \<and> n < u64_bound)"
proof (induction ds arbitrary: acc)
  case Nil
  then show ?case by auto
next
  case (Cons d ds)
  show ?case
  proof (cases "clone_disk_bytes pr d")
    case (Inl e)
    then show ?thesis by (auto simp: Cons_eq_map_conv)
  next
    case (Inr k)
    show ?thesis
    proof (cases "acc + k < u64_bound")
      case True
      show ?thesis using Cons.IH [OF True] Inr True by (simp add: checked_add_def sizes_Cons add.assoc)
    next
      case False
      then show ?thesis using Inr by (simp add: checked_add_def sizes_Cons)
    qed
  qed
qed

text \<open>
  C22. The space a create asks for is exact: the admission computes a number of bytes only when the size
  of every disk of Gold is known and positive and the sum of them and the home fits in 64 bits, and then
  the number is that sum; otherwise it is refused.
\<close>

theorem create_bytes_exact:
  "bindR (clone_bytes pr ds) (\<lambda>clone. create_bytes clone mib) = Inr n \<longleftrightarrow>
     (\<exists>sizes. map (clone_disk_bytes pr) ds = map Inr sizes \<and> n = sum_list sizes + mib * (1024 * 1024) \<and> n < u64_bound)"
proof -
  have "(0 :: nat) < u64_bound" by (simp add: u64_bound_def)
  from clone_bytes_from [OF this] show ?thesis
    by (auto simp: clone_bytes_def create_bytes_def checked_add_def checked_mul_def split: if_splits)
qed

text \<open>
  The keys of the guest are compared as sets of identities: the verification of a created workspace
  accepts the keys it reads exactly when they are the planned ones, whatever their order, comments or
  repetitions; a missing key and an unexpected key are both refused.
\<close>

theorem key_mismatch_exact:
  "key_mismatch expected actual = Inr () \<longleftrightarrow> key_identity ` set expected = key_identity ` set actual"
  by (auto simp: key_mismatch_def Let_def filter_empty_conv)

end
