(* ===== verification/Create_Safety.thy ===== *)
theory Create_Safety
  imports Create Migrate_Safety
begin

text \<open>
  What creating a workspace can do, whatever Proxmox answers: Gold is cloned at most once, and a VM is
  deleted at most once, only before its first boot, only when the task of this very clone is confirmed
  to have succeeded, and only after a review that finds every disk owned by that VM.
\<close>

section \<open>What a removal rests on\<close>

text \<open>The task Proxmox returned for the clone request ran on the source node and succeeded.\<close>

definition task_succeeded :: "json \<Rightarrow> bool" where
  "task_succeeded v \<longleftrightarrow> status_is_stopped v \<and> (status_exit v = ''OK'' \<or> starts_with (status_exit v) ''WARNINGS'')"

definition clone_confirmed :: "string \<Rightarrow> (request \<Rightarrow> bool) \<Rightarrow> (request \<times> answer) list \<Rightarrow> bool" where
  "clone_confirmed source clone h \<longleftrightarrow>
     (\<exists>rq task. clone rq \<and> told rq (\<lambda>v. v = JStr task) h \<and> upid_node task = Some source \<and>
        told (status_request source task) task_succeeded h)"

definition volume_owned :: "string \<Rightarrow> nat \<Rightarrow> string \<Rightarrow> (request \<times> answer) list \<Rightarrow> bool" where
  "volume_owned node vmid volume h \<longleftrightarrow>
     (\<exists>storage rest. split_once volume '':'' = Some (storage, rest) \<and>
        told (storage_content_request node storage) (\<lambda>v. require_clone_volume_owner v volume vmid = Inr ()) h)"

definition clone_reviewed :: "'w ext \<Rightarrow> nat \<Rightarrow> string \<Rightarrow> string \<Rightarrow> string \<Rightarrow> (request \<times> answer) list \<Rightarrow> bool" where
  "clone_reviewed S vmid name pool node h \<longleftrightarrow>
     told vms_request (\<lambda>v. same_placement node pool vmid (resources_in S v)) h \<and>
     told (power_request_of node vmid) (\<lambda>v. power_of S v = ''stopped'') h \<and>
     (\<exists>c. told (vm_config_request node vmid) (\<lambda>v. \<exists>m. v = JObj m \<and> config_of (print_json S) m = c) h \<and>
        bt_get c ''name'' = Some name \<and>
        (\<forall>(slot, v) \<in> set c. \<not> starts_with slot ''unused'' \<and>
           (is_volume_slot slot \<and> disk_volume v \<notin> {[], ''none''} \<longrightarrow> volume_owned node vmid (disk_volume v) h)))"

definition create_rule ::
  "'w ext \<Rightarrow> create_input \<Rightarrow> string \<Rightarrow> (request \<Rightarrow> bool) \<Rightarrow> (request \<times> answer) list \<Rightarrow> request \<times> answer \<Rightarrow> bool" where
  "create_rule S i source clone h c \<longleftrightarrow>
     \<not> is_delete (fst c) \<or>
     (\<exists>node. node \<in> {source, ci_node i} \<and> fst c = Delete (qemu_path node (ci_vmid i) []) cleanup_query \<and>
        clone_confirmed source clone h \<and> start_post (ci_node i) (ci_vmid i) \<notin> fst ` set h \<and>
        clone_reviewed S (ci_vmid i) (ci_name i) (ci_pool i) node h)"

text \<open>The clone request of a plan, and the rule for the deletions of creating from it.\<close>

definition plan_clone_storage :: "json \<Rightarrow> create_input \<Rightarrow> core_error + string" where
  "plan_clone_storage plan i =
     (if jget plan ''source_metadata'' \<noteq> None then plan_text plan ''clone_storage'' else Inr (ci_storage i))"

definition plan_clone_request :: "json \<Rightarrow> request \<Rightarrow> bool" where
  "plan_clone_request plan rq \<longleftrightarrow>
     (\<exists>i source gold st. create_input_of plan = Inr i \<and> plan_text plan ''source_node'' = Inr source \<and>
        gold_of_plan plan = Inr gold \<and> plan_clone_storage plan i = Inr st \<and>
        rq = Post (clone_path source gold) (clone_form (ci_vmid i) (ci_name i) st (ci_pool i)))"

definition removal_rule :: "'w ext \<Rightarrow> json \<Rightarrow> (request \<times> answer) list \<Rightarrow> request \<times> answer \<Rightarrow> bool" where
  "removal_rule S plan h c \<longleftrightarrow>
     \<not> is_delete (fst c) \<or>
     (\<exists>i source. create_input_of plan = Inr i \<and> plan_text plan ''source_node'' = Inr source \<and>
        create_rule S i source (plan_clone_request plan) h c)"

section \<open>Requests of the single operations\<close>

text \<open>Requests that neither delete nor start.\<close>

definition quiet :: "create_input \<Rightarrow> request \<times> answer \<Rightarrow> bool" where
  "quiet i c \<longleftrightarrow> \<not> is_delete (fst c) \<and> fst c \<noteq> start_post (ci_node i) (ci_vmid i)"

lemma quiet_get [simp]: "quiet i (Get p q, a)"
  by (simp add: quiet_def start_post_def)

lemma last_two_neq: "(last (butlast p), last p) \<noteq> (last (butlast q), last q) \<Longrightarrow> p \<noteq> q"
  by auto

lemma quiet_posts [simp]:
  "quiet i (Post (qemu_path n v ''/clone'') f, a)" "quiet i (Post (qemu_path n v ''/migrate'') f, a)"
  "quiet i (Post (qemu_path n v ''/config'') f, a)" "quiet i (Post (storage_content_path n st) f, a)"
  "quiet i (Post (agent n v ''ping'') f, a)"
  unfolding quiet_def start_post_def
  by (auto simp: qemu_path_def storage_content_path_def agent_def butlast_append dest!: arg_cong [where f = "\<lambda>p. (last (butlast p), last p)"])

lemma only_keys_from_files [only_intro]:
  "(\<And>p q a. P (Get p q, a)) \<Longrightarrow> only P (keys_from_files S node gold files)"
proof (induction files)
  case (Cons f fs)
  then show ?case unfolding keys_from_files.simps by (intro only_intro) (simp_all split: sum.split add: only_return)
qed (simp add: only_return)

lemma only_authorized_keys [only_intro]:
  assumes "\<And>p q a. P (Get p q, a)" and "\<And>n g a. P (Post (agent n g ''ping'') [], a)"
  shows "only P (workspace_authorized_keys S cfg)"
  unfolding workspace_authorized_keys_def Let_def
  by (intro only_intro only_qga_ping) (simp_all add: assms vms_request_def vm_config_request_def)

lemma only_node_statuses [only_intro]: "(\<And>p q a. P (Get p q, a)) \<Longrightarrow> only P (cluster_node_statuses S)"
  unfolding cluster_node_statuses_def Let_def by (intro only_intro)

lemma only_node_reads [only_intro]:
  "(\<And>p q a. P (Get p q, a)) \<Longrightarrow> only P (node_storages S node)"
  "(\<And>p q a. P (Get p q, a)) \<Longrightarrow> only P (node_network S node)"
  unfolding node_storages_def node_network_def by (intro only_intro; assumption)+

lemma only_cross_node [only_intro]:
  "(\<And>p q a. P (Get p q, a)) \<Longrightarrow> only P (validate_cross_node_create S cfg target gold_cfg st)"
  unfolding validate_cross_node_create_def Let_def by (intro only_intro)

lemma only_revalidate_source [only_intro]: "(\<And>p q a. P (Get p q, a)) \<Longrightarrow> only P (revalidate_source S cfg plan)"
  unfolding revalidate_source_def by (intro only_intro) (simp add: vm_config_request_def)

lemma only_create_capacity [only_intro]: "(\<And>p q a. P (Get p q, a)) \<Longrightarrow> only P (require_create_capacity S cfg plan)"
  unfolding require_create_capacity_def by (intro only_intro) (simp_all add: vm_config_request_def storage_status_request_def)

lemma only_bridge_use [only_intro]: "(\<And>p q a. P (Get p q, a)) \<Longrightarrow> only P (require_bridge_use S gold c)"
  unfolding require_bridge_use_def Let_def by (intro only_intro)

lemma only_plan_create [only_intro]:
  assumes "\<And>p q a. P (Get p q, a)" and "\<And>n g a. P (Post (agent n g ''ping'') [], a)"
  shows "only P (plan_create S cfg pool rq)"
  unfolding plan_create_def select_gold_def plan_create_sized_def require_free_vmid_def plan_storage_def Let_def
  by (intro only_intro) (simp_all add: assms vms_request_def vm_config_request_def)

lemma only_inspect_clone [only_intro]: "(\<And>p q a. P (Get p q, a)) \<Longrightarrow> only P (inspect_clone S context source task e)"
  unfolding inspect_clone_def by (intro only_intro) (simp add: status_request_def)

lemma only_clone_task [only_intro]:
  assumes "\<And>p q a. P (Get p q, a)" and "\<And>a. P (Post p form, a)"
  shows "only P (clone_task S p form source vmid wait)"
  unfolding clone_task_def Let_def by (intro only_intro) (simp_all add: assms)

lemma only_migrate_offline [only_intro]:
  assumes "\<And>p q a. P (Get p q, a)" and "\<And>f a. P (Post (qemu_path source vmid ''/migrate'') f, a)"
  shows "only P (migrate_offline S source target vmid storage vols timing)"
  unfolding migrate_offline_def by (intro only_intro) (simp_all add: assms migrate_post_def)

lemma only_migrate_clone [only_intro]:
  assumes "\<And>p q a. P (Get p q, a)" and "\<And>n v f a. P (Post (qemu_path n v ''/migrate'') f, a)"
  shows "only P (migrate_clone S cfg plan timing)"
  unfolding migrate_clone_def by (intro only_intro) (simp_all add: assms vm_config_request_def)

lemma only_verify_clone [only_intro]: "(\<And>p q a. P (Get p q, a)) \<Longrightarrow> only P (verify_migrated_clone S cfg plan)"
  unfolding verify_migrated_clone_def Let_def by (intro only_intro) (simp_all add: vms_request_def vm_config_request_def)

lemma only_attach_home [only_intro]:
  assumes "\<And>p q a. P (Get p q, a)" and "\<And>f a. P (Post (storage_content_path node storage) f, a)"
    and "\<And>f a. P (Post (qemu_path node vmid ''/config'') f, a)"
  shows "only P (attach_home S cfg node vmid storage mib label timing)"
  unfolding attach_home_def Let_def by (intro only_intro) (simp_all add: assms)

lemma only_configure_clone [only_intro]:
  assumes "\<And>p q a. P (Get p q, a)" and "\<And>f a. P (Post (qemu_path (ci_node i) (ci_vmid i) ''/config'') f, a)"
  shows "only P (configure_clone S cfg i keys timing)"
  unfolding configure_clone_def by (intro only_intro) (simp_all add: assms vm_config_request_def)

lemma only_step_events [only_intro]: "only P (step_started n)" "only P (step_finished n b)"
  unfolding step_started_def step_finished_def by (rule only_emit)+

lemma only_full_clone [only_intro]:
  assumes "\<And>p q a. P (Get p q, a)" and "\<And>g f a. P (Post (clone_path source g) f, a)"
  shows "only P (full_clone S cfg i source st timing)"
  unfolding full_clone_def by (intro only_intro) (simp_all add: assms)

lemma only_verify_created [only_intro]:
  assumes "\<And>p q a. P (Get p q, a)" and "\<And>a. P (Post (agent (ci_node i) (ci_vmid i) ''ping'') [], a)"
  shows "only P (verify_created S cfg i expected timing)"
  unfolding verify_created_def by (intro only_intro) (simp_all add: assms)

section \<open>The invariant of a create\<close>

text \<open>
  What holds of the progress recorded and the requests sent so far: a recorded clone task is confirmed,
  the recorded clone is on the source or the target node, and the VM was not started before the
  progress says so.
\<close>

definition progress_inv :: "create_input \<Rightarrow> string \<Rightarrow> (request \<Rightarrow> bool) \<Rightarrow> create_progress \<Rightarrow> (request \<times> answer) list \<Rightarrow> bool" where
  "progress_inv i source clone pg h \<longleftrightarrow>
     (cp_task pg \<noteq> None \<longrightarrow> clone_confirmed source clone h) \<and>
     (\<not> cp_started pg \<longrightarrow> start_post (ci_node i) (ci_vmid i) \<notin> fst ` set h) \<and>
     (\<forall>cl. cp_cleanup pg = Some cl \<longrightarrow> cc_node cl \<in> {source, ci_node i})"

lemma clone_confirmed_grows: "clone_confirmed source clone h \<Longrightarrow> clone_confirmed source clone (h @ t)"
  unfolding clone_confirmed_def by (blast intro: told_append)

lemma progress_inv_snoc:
  "progress_inv i source clone pg h \<Longrightarrow> quiet i c \<Longrightarrow> progress_inv i source clone pg (h @ [c])"
  by (auto simp: progress_inv_def quiet_def intro: clone_confirmed_grows)

lemma progress_inv_started:
  "progress_inv i source clone pg h \<Longrightarrow> cp_started pg \<Longrightarrow> progress_inv i source clone pg (h @ t)"
  by (auto simp: progress_inv_def intro: clone_confirmed_grows)

definition p_keeps :: "'w ext \<Rightarrow> create_input \<Rightarrow> string \<Rightarrow> (request \<Rightarrow> bool) \<Rightarrow> ('w, 'a) pop \<Rightarrow> bool" where
  "p_keeps S i source clone m \<longleftrightarrow>
     (\<forall>pg. follows (create_rule S i source clone) (progress_inv i source clone pg) (m pg)
        (\<lambda>(r, pg'). progress_inv i source clone pg'))"

named_theorems keep_intro \<comment> \<open>rules for operations that keep the invariant of a create\<close>

lemma quiet_rule: "quiet i c \<Longrightarrow> create_rule S i source clone h c"
  by (simp add: quiet_def create_rule_def)

lemma follows_quiet:
  "only (quiet i) m \<Longrightarrow> follows (create_rule S i source clone) (progress_inv i source clone pg) m
     (\<lambda>_. progress_inv i source clone pg)"
  by (rule follows_kept [where P = "quiet i"]) (auto intro: quiet_rule progress_inv_snoc)

lemma keeps_do [keep_intro]: "only (quiet i) m \<Longrightarrow> p_keeps S i source clone (p_do m)"
  unfolding p_keeps_def p_do_def
  by (intro allI follows_bind [OF follows_quiet [OF only_try]] follows_return) auto

lemma keeps_bind [keep_intro]:
  assumes "p_keeps S i source clone m" and "\<And>a. p_keeps S i source clone (f a)"
  shows "p_keeps S i source clone (p_bind m f)"
  unfolding p_keeps_def
proof
  fix pg
  let ?R = "create_rule S i source clone" and ?K = "progress_inv i source clone"
  show "follows ?R (?K pg) (p_bind m f pg) (\<lambda>(r, pg'). ?K pg')"
    unfolding p_bind_def
  proof (rule follows_bind)
    show "follows ?R (?K pg) (m pg) (\<lambda>(r, pg'). ?K pg')" using assms(1) by (simp add: p_keeps_def)
    fix x :: "(core_error + 'b) \<times> create_progress"
    obtain r pg' where x: "x = (r, pg')" by fastforce
    show "follows ?R ((\<lambda>(r, pg'). ?K pg') x) (case x of (r, pg') \<Rightarrow> case r of Inl e \<Rightarrow> returnE (Inl e, pg') | Inr a \<Rightarrow> f a pg')
        (\<lambda>(r, pg'). ?K pg')"
      using assms(2) by (cases r) (auto simp: x p_keeps_def intro: follows_return)
  qed
qed

lemma keeps_set [keep_intro]:
  "(\<And>pg h. progress_inv i source clone pg h \<Longrightarrow> progress_inv i source clone (f pg) h) \<Longrightarrow> p_keeps S i source clone (p_set f)"
  unfolding p_keeps_def p_set_def by (intro allI follows_return) auto

lemma keeps_get [keep_intro]: "p_keeps S i source clone p_get"
  unfolding p_keeps_def p_get_def by (intro allI follows_return) auto

lemma keeps_return [keep_intro]: "p_keeps S i source clone (\<lambda>pg. returnE (Inr a, pg))"
  unfolding p_keeps_def by (intro allI follows_return) auto

lemma keeps_step [keep_intro]:
  assumes "p_keeps S i source clone m"
  shows "p_keeps S i source clone (p_step n m)"
  unfolding p_keeps_def p_step_def
proof
  fix pg
  let ?R = "create_rule S i source clone" and ?K = "progress_inv i source clone"
  have ev: "follows ?R (?K pg) (step_started n) (\<lambda>_. ?K pg)" "follows ?R (?K pg) (step_finished n b) (\<lambda>_. ?K pg)" for b pg
    by (rule follows_quiet, rule only_intro)+
  show "follows ?R (?K pg) (bindE (step_started n) (\<lambda>_. bindE (m pg) (\<lambda>(r, pg').
      bindE (step_finished n (is_ok r)) (\<lambda>_. returnE (r, pg'))))) (\<lambda>(r, pg'). ?K pg')"
    by (rule follows_bind [OF ev(1)], rule follows_bind, rule assms [unfolded p_keeps_def, rule_format])
      (auto split: prod.split intro!: follows_bind [OF ev(2)] follows_return)
qed

lemma keeps_if [keep_intro]:
  "(b \<Longrightarrow> p_keeps S i source clone m) \<Longrightarrow> (\<not> b \<Longrightarrow> p_keeps S i source clone n) \<Longrightarrow> p_keeps S i source clone (if b then m else n)"
  by simp

lemma keeps_case_option [keep_intro]:
  "p_keeps S i source clone m \<Longrightarrow> (\<And>a. p_keeps S i source clone (f a)) \<Longrightarrow>
     p_keeps S i source clone (case x of None \<Rightarrow> m | Some a \<Rightarrow> f a)"
  by (cases x) simp_all

section \<open>The steps keep it\<close>

lemma keeps_move_clone: "p_keeps S i source clone (move_clone S cfg plan i timing)"
  unfolding move_clone_def
  by (intro keep_intro only_intro) (auto simp: vm_config_request_def progress_inv_def)

lemma keeps_tag_clone: "p_keeps S i source clone (tag_clone S cfg i timing)"
  unfolding tag_clone_def
  by (intro keep_intro only_intro) (auto simp: vm_config_request_def progress_inv_def set_cleanup_def)

lemma keeps_prepare: "p_keeps S i source clone (prepare_clone S cfg plan i migrated source keys timing)"
  unfolding prepare_clone_def
  by (intro keep_intro keeps_move_clone keeps_tag_clone only_intro)
    (auto simp: vm_config_request_def progress_inv_def set_cleanup_def)

lemma keeps_boot:
  "p_keeps S i source clone (p_step n (p_bind (p_set (\<lambda>pg. pg\<lparr>cp_started := True\<rparr>)) (\<lambda>_.
     p_do (start_vm S (ci_node i) (ci_vmid i) wait))))"
proof (rule keeps_step, unfold p_keeps_def, rule allI)
  fix pg :: create_progress
  let ?R = "create_rule S i source clone" and ?K = "progress_inv i source clone" and ?pg = "pg\<lparr>cp_started := True\<rparr>"
  have o: "only (\<lambda>c. \<not> is_delete (fst c)) (tryE (start_vm S (ci_node i) (ci_vmid i) wait))" by (intro only_intro) simp_all
  have st: "follows ?R (?K ?pg) (tryE (start_vm S (ci_node i) (ci_vmid i) wait)) (\<lambda>_. ?K ?pg)"
    by (rule follows_kept [OF o]) (auto simp: create_rule_def intro: progress_inv_started)
  have "follows ?R (?K ?pg) (bindE (tryE (start_vm S (ci_node i) (ci_vmid i) wait)) (\<lambda>r. returnE (r, ?pg))) (\<lambda>(r, pg'). ?K pg')"
    by (rule follows_bind [OF st], rule follows_return) simp
  then show "follows ?R (?K pg) (p_bind (p_set (\<lambda>pg. pg\<lparr>cp_started := True\<rparr>)) (\<lambda>_.
      p_do (start_vm S (ci_node i) (ci_vmid i) wait)) pg) (\<lambda>(r, pg'). ?K pg')"
    unfolding p_bind_def p_set_def p_do_def bindE_return by (simp, rule follows_pre) (auto simp: progress_inv_def)
qed

lemma inspected_exit_Some:
  "inspected_exit (Inr v) = Some x \<Longrightarrow> status_is_stopped v \<and> status_exit v = x"
  by (auto simp: inspected_exit_def status_is_stopped_def status_exit_def get_str_def jidx_def Option.bind_eq_Some_conv
      split: if_splits option.splits)

lemma inspect_clone_Inr:
  assumes "inspect_clone S context source task e s = (Inr r, s')"
  shows "told (status_request source task) (\<lambda>v. status_is_stopped v \<and> status_exit v = exitstatus r) (trace s')"
proof -
  obtain st s1 where a: "api S (status_request source task) s = (st, s1)" by fastforce
  from assms a obtain x where x: "inspected_exit st = Some x" "exitstatus r = x" "trace s' = trace s1"
    by (auto simp: inspect_clone_def bindE_def tryE_run throwE_run returnE_run emit_run split: option.splits)
  then obtain v where v: "st = Inr v" by (cases st) (auto simp: inspected_exit_def)
  show ?thesis using api_told [OF a [unfolded v]] inspected_exit_Some x v by auto
qed

lemma clone_task_told:
  assumes "clone_task S p form source vmid wait s = (Inr task, s')" and "clone (Post p form)"
  shows "clone_confirmed source clone (trace s')"
proof -
  from assms(1) obtain answer s1 result where
    p: "api S (Post p form) s = (Inr answer, s1)" and u: "upid S answer = Inr task" and n: "upid_node task = Some source"
    and i1: "(case fst (wait_task S task wait s1) of Inr result \<Rightarrow> returnE result
        | Inl e \<Rightarrow> inspect_clone S (clone_context source p vmid) source task e) (snd (wait_task S task wait s1)) = (Inr result, s')"
    and ok: "task_ok result"
    by (auto simp: clone_task_def Let_def bindE_Inr map_errE_Inr liftE_run unlessE_run tryE_run returnE_run throwE_run map_err_def
        split: if_splits sum.splits)
  obtain r s2 where w: "wait_task S task wait s1 = (r, s2)" by fastforce
  note i = i1 [unfolded w fst_conv snd_conv]
  have ans: "answer = JStr task" using u by (cases answer) (auto simp: upid_def)
  have ow: "only (\<lambda>_. True) (wait_task S task wait)" by (intro only_intro) simp
  from only_extends_trace [OF ow w] obtain t where t: "trace s2 = trace s1 @ t" by blast
  have st: "told (status_request source task) task_succeeded (trace s') \<and> (\<exists>t. trace s' = trace s2 @ t)"
  proof (cases r)
    case (Inr res)
    then have eq: "res = result" "s2 = s'" using i by (simp_all add: returnE_run)
    from wait_task_Inr [OF w [unfolded Inr]] obtain fs status where
      "upid_fields task = Some fs" "(status_request (fs ! 1) task, Inr status) \<in> set (trace s2)" "status_is_stopped status"
      "res = \<lparr>tr_upid = task, exitstatus = status_exit status\<rparr>" by metis
    then have "told (status_request source task) task_succeeded (trace s2)"
      using n ok eq(1) by (auto simp: upid_node_def told_def task_succeeded_def task_ok_def)
    then show ?thesis using eq(2) by auto
  next
    case (Inl e)
    then have j: "inspect_clone S (clone_context source p vmid) source task e s2 = (Inr result, s')" using i by simp
    have "only (\<lambda>_. True) (inspect_clone S (clone_context source p vmid) source task e)" by (intro only_intro) simp
    from only_extends_trace [OF this j] have x: "\<exists>t. trace s' = trace s2 @ t" .
    have "told (status_request source task) task_succeeded (trace s')"
      using inspect_clone_Inr [OF j] ok unfolding told_def task_succeeded_def task_ok_def by fastforce
    with x show ?thesis by blast
  qed
  have "told (Post p form) (\<lambda>v. v = JStr task) (trace s1)" by (rule api_told [OF p]) (rule ans)
  then have "told (Post p form) (\<lambda>v. v = JStr task) (trace s')" using t st by (auto intro: told_append)
  then show ?thesis using n st assms(2) unfolding clone_confirmed_def by blast
qed

section \<open>What a review shows\<close>

lemma clone_volumes_covers:
  assumes "clone_volumes vmid c = Inr vols" and "(slot, v) \<in> set c"
  shows "\<not> starts_with slot ''unused'' \<and>
    (is_volume_slot slot \<and> disk_volume v \<notin> {[], ''none''} \<longrightarrow>
       (\<exists>st n vs. split_once (disk_volume v) '':'' = Some (st, n) \<and> (st, vs) \<in> set vols \<and> disk_volume v \<in> set vs))"
proof -
  have "(\<forall>st x. (\<exists>vs. bt_get acc st = Some vs \<and> x \<in> set vs) \<longrightarrow> (\<exists>vs. bt_get vols st = Some vs \<and> x \<in> set vs)) \<and>
      (\<forall>(slot, v) \<in> set c. \<not> starts_with slot ''unused'' \<and>
        (is_volume_slot slot \<and> disk_volume v \<notin> {[], ''none''} \<longrightarrow>
           (\<exists>st n vs. split_once (disk_volume v) '':'' = Some (st, n) \<and> bt_get vols st = Some vs \<and> disk_volume v \<in> set vs)))"
    if "fold_res (clone_volume_step vmid) acc c = Inr vols" for acc
    using that
  proof (induction c arbitrary: acc)
    case (Cons kv c)
    obtain slot v where kv: "kv = (slot, v)" by fastforce
    from Cons.prems kv obtain acc' where st: "clone_volume_step vmid acc (slot, v) = Inr acc'"
      and r: "fold_res (clone_volume_step vmid) acc' c = Inr vols" by auto
    note IH = Cons.IH [OF r]
    have up: "(\<exists>vs. bt_get acc st = Some vs \<and> x \<in> set vs) \<longrightarrow> (\<exists>vs. bt_get acc' st = Some vs \<and> x \<in> set vs)" for st x
      using st by (auto simp: clone_volume_step_def bt_get_insert split: if_splits option.splits prod.splits)
    have here: "\<not> starts_with slot ''unused''"
      "is_volume_slot slot \<and> disk_volume v \<notin> {[], ''none''} \<Longrightarrow>
         \<exists>st n. split_once (disk_volume v) '':'' = Some (st, n) \<and> (\<exists>vs. bt_get acc' st = Some vs \<and> disk_volume v \<in> set vs)"
      using st by (auto simp: clone_volume_step_def bt_get_insert split: if_splits option.splits prod.splits)
    show ?case using IH up here unfolding kv by (simp add: case_prod_beta) blast
  qed simp
  from this [OF assms(1) [unfolded clone_volumes_def]] assms(2) show ?thesis
    by (fastforce dest: bt_get_in_set)
qed

lemma volume_owned_grows [simp]: "grows (volume_owned node vmid volume)"
  by (auto simp: grows_def volume_owned_def intro: told_append)

lemma learns_storage:
  "learns (\<lambda>_. True) (review_clone_storage S node vmid (st, vs))
     (\<lambda>_ h. True \<and> told (storage_content_request node st) (\<lambda>v. \<forall>x \<in> set vs. require_clone_volume_owner v x vmid = Inr ()) h)"
proof (rule learns_only)
  show "only (\<lambda>_. True) (review_clone_storage S node vmid (st, vs))"
    unfolding review_clone_storage_def by simp (intro only_intro, simp_all)
  fix s a s' assume "review_clone_storage S node vmid (st, vs) s = (Inr a, s')"
  then obtain s1 v where v: "api S (storage_content_request node st) s1 = (Inr v, s')"
    and o: "\<forall>x \<in> set vs. require_clone_volume_owner v x vmid = Inr ()"
    by (auto simp: review_clone_storage_def bindE_Inr liftE_run)
  show "told (storage_content_request node st) (\<lambda>v. \<forall>x \<in> set vs. require_clone_volume_owner v x vmid = Inr ()) (trace s')"
    by (rule api_told [OF v]) (rule o)
qed simp

lemma review_clone_shows:
  assumes "review_clone S cfg vmid name pool clone s = (Inr u, s')"
  shows "clone_reviewed S vmid name pool (cc_node clone) (trace s')"
proof -
  let ?n = "cc_node clone"
  from assms obtain c vols us rs s7 s8 s9 s10 where
    la: "clone_left_alone cfg vmid name clone c = Inr ()" and vols: "clone_volumes vmid c = Inr vols"
    and m: "mapM_E (review_clone_storage S ?n vmid) vols s7 = (Inr us, s8)"
    and rs: "cluster_vm_resources S s8 = (Inr rs, s9)" and pl: "same_placement ?n pool vmid rs"
    and c: "vm_config S ?n vmid s9 = (Inr c, s10)" and st: "vm_status S ?n vmid s10 = (Inr ''stopped'', s')"
    by (auto simp: review_clone_def bindE_Inr liftE_run unlessE_run returnE_run throwE_run split: if_splits)
  have o: "only (\<lambda>_. True) (vm_status S ?n vmid)" "only (\<lambda>_. True) (vm_config S ?n vmid)" "only (\<lambda>_. True) (cluster_vm_resources S)"
    by (intro only_intro; simp)+
  have ex: "\<exists>t. trace s' = trace s10 @ t" "\<exists>t. trace s10 = trace s9 @ t" "\<exists>t. trace s9 = trace s8 @ t"
    using only_extends_trace [OF o(1) st] only_extends_trace [OF o(2) c] only_extends_trace [OF o(3) rs] by blast+
  then obtain t1 t2 where t1: "trace s' = trace s9 @ t1" and t2: "trace s' = trace s8 @ t2" by fastforce
  from c obtain cm where cm: "api S (vm_config_request ?n vmid) s9 = (Inr (JObj cm), s10)" "c = config_of (print_json S) cm"
    by (auto simp: vm_config_Inr)
  have "told (vm_config_request ?n vmid) (\<lambda>v. \<exists>m. v = JObj m \<and> config_of (print_json S) m = c) (trace s10)"
    by (rule api_told [OF cm(1)]) (simp add: cm(2))
  then have conf: "told (vm_config_request ?n vmid) (\<lambda>v. \<exists>m. v = JObj m \<and> config_of (print_json S) m = c) (trace s')"
    using ex(1) by (auto intro: told_append)
  from rs obtain rv where rv: "api S vms_request s8 = (Inr rv, s9)" "rs = resources_in S rv" by (rule cluster_vm_resources_Inr)
  have "told vms_request (\<lambda>v. same_placement ?n pool vmid (resources_in S v)) (trace s9)"
    by (rule api_told [OF rv(1)]) (use pl rv(2) in simp)
  then have place: "told vms_request (\<lambda>v. same_placement ?n pool vmid (resources_in S v)) (trace s')"
    by (simp add: t1 told_append)
  have power: "told (power_request_of ?n vmid) (\<lambda>v. power_of S v = ''stopped'') (trace s')"
    by (rule vm_status_told [OF st]) simp
  have "learns (\<lambda>_. True) (mapM_E (review_clone_storage S ?n vmid) vols) (\<lambda>_ h. True \<and> (\<forall>x \<in> set vols.
      told (storage_content_request ?n (fst x)) (\<lambda>v. \<forall>y \<in> set (snd x). require_clone_volume_owner v y vmid = Inr ()) h))"
    unfolding learns_def
    by (rule follows_mapM) (use learns_storage [where S = S and node = ?n and vmid = vmid] in \<open>simp_all add: learns_def split_paired_all\<close>)
  from learns_run [OF this m] have own8: "told (storage_content_request ?n st)
      (\<lambda>v. \<forall>y \<in> set vs. require_clone_volume_owner v y vmid = Inr ()) (trace s8)" if "(st, vs) \<in> set vols" for st vs
    using that by fastforce
  have owned: "volume_owned ?n vmid x (trace s')"
    if "split_once x '':'' = Some (st, n)" "(st, vs) \<in> set vols" "x \<in> set vs" for x st n vs
  proof -
    have "told (storage_content_request ?n st) (\<lambda>v. require_clone_volume_owner v x vmid = Inr ()) (trace s8)"
      using own8 [OF that(2)] that(3) by (auto simp: told_def)
    then show ?thesis unfolding volume_owned_def t2 using that(1) by (blast intro: told_append)
  qed
  have "\<not> starts_with slot ''unused'' \<and>
      (is_volume_slot slot \<and> disk_volume v \<notin> {[], ''none''} \<longrightarrow> volume_owned ?n vmid (disk_volume v) (trace s'))"
    if "(slot, v) \<in> set c" for slot v
    using clone_volumes_covers [OF vols that] owned by blast
  moreover have "bt_get c ''name'' = Some name" using la by (simp add: clone_left_alone_def)
  ultimately show ?thesis using conf place power unfolding clone_reviewed_def by blast
qed

section \<open>The whole create\<close>

lemma p_bind_do: "p_bind (p_do m) f pg = bindE (tryE m) (\<lambda>r. case r of Inl e \<Rightarrow> returnE (Inl e, pg) | Inr a \<Rightarrow> f a pg)"
  by (simp add: p_bind_def p_do_def bindE_assoc)

lemma p_bind_set: "p_bind (p_set g) f pg = f () (g pg)"
  by (simp add: p_bind_def p_set_def)

lemma try_pure: "tryE (returnE a) = returnE (Inr a)" "tryE (throwE e) = returnE (Inl e)"
  by (auto simp: tryE_run returnE_run throwE_run)

lemma keeps_lift:
  "(\<And>a. r = Inr a \<Longrightarrow> p_keeps S i source clone (f a)) \<Longrightarrow> p_keeps S i source clone (p_bind (p_do (liftE r)) f)"
  by (cases r) (auto simp: p_keeps_def p_bind_do try_pure intro: follows_return)

lemma keeps_let: "p_keeps S i source clone (f x) \<Longrightarrow> p_keeps S i source clone (let a = x in f a)"
  by simp

lemma full_clone_confirms:
  assumes "full_clone S cfg i source st timing s = (Inr task, s')"
    and "\<And>gold. configured_gold cfg = Inr gold \<Longrightarrow>
      clone (Post (clone_path source gold) (clone_form (ci_vmid i) (ci_name i) st (ci_pool i)))"
  shows "clone_confirmed source clone (trace s')"
proof -
  from assms(1) obtain gold s1 where g: "configured_gold cfg = Inr gold"
    and c: "fst (clone_task S (clone_path source gold) (clone_form (ci_vmid i) (ci_name i) st (ci_pool i)) source (ci_vmid i)
      (wait_for timing 3600) s1) = Inr task"
    and t: "trace s' = trace (snd (clone_task S (clone_path source gold) (clone_form (ci_vmid i) (ci_name i) st (ci_pool i)) source
      (ci_vmid i) (wait_for timing 3600) s1))"
    by (auto simp: full_clone_def bindE_Inr liftE_run tryE_run step_started_def step_finished_def emit_run)
  show ?thesis unfolding t
    by (rule clone_task_told [where clone = clone]) (use assms(2) [OF g] c in \<open>auto intro: prod_eqI\<close>)
qed

text \<open>The task is recorded only once it is confirmed.\<close>

lemma keeps_full_clone:
  assumes "\<And>gold. configured_gold cfg = Inr gold \<Longrightarrow>
      clone (Post (clone_path source gold) (clone_form (ci_vmid i) (ci_name i) st (ci_pool i)))"
    and rest: "p_keeps S i source clone f"
  shows "p_keeps S i source clone (p_bind (p_do (full_clone S cfg i source st timing)) (\<lambda>task.
     p_bind (p_set (\<lambda>pg. pg\<lparr>cp_task := Some task\<rparr>)) (\<lambda>_. f)))"
  unfolding p_keeps_def
proof
  fix pg :: create_progress
  let ?R = "create_rule S i source clone" and ?K = "progress_inv i source clone" and ?m = "full_clone S cfg i source st timing"
  have o: "only (quiet i) (tryE ?m)" by (intro only_intro) (simp_all add: clone_path_def)
  have conf: "\<forall>task. r = Inr task \<longrightarrow> clone_confirmed source clone (trace s')" if "tryE ?m s = (Inr r, s')" for s r s'
  proof (intro allI impI)
    fix task assume "r = Inr task"
    then have "?m s = (Inr task, s')" using that by (auto simp: tryE_run intro: prod_eqI)
    then show "clone_confirmed source clone (trace s')"
      by (rule full_clone_confirms [where clone = clone]) (rule assms(1))
  qed
  have c: "follows ?R (?K pg) (tryE ?m) (\<lambda>r h. ?K pg h \<and> (\<forall>task. r = Inr task \<longrightarrow> clone_confirmed source clone h))"
    by (rule follows_run [OF follows_quiet [OF o]]) (rule conf)
  show "follows ?R (?K pg) (p_bind (p_do ?m) (\<lambda>task. p_bind (p_set (\<lambda>pg. pg\<lparr>cp_task := Some task\<rparr>)) (\<lambda>_. f)) pg) (\<lambda>(r, pg'). ?K pg')"
    unfolding p_bind_do p_bind_set
  proof (rule follows_bind [OF c])
    fix r :: "core_error + string"
    show "follows ?R (\<lambda>h. ?K pg h \<and> (\<forall>task. r = Inr task \<longrightarrow> clone_confirmed source clone h))
        (case r of Inl e \<Rightarrow> returnE (Inl e, pg) | Inr task \<Rightarrow> f (pg\<lparr>cp_task := Some task\<rparr>)) (\<lambda>(r, pg'). ?K pg')"
    proof (cases r)
      case (Inr task)
      show ?thesis unfolding Inr sum.case
        by (rule follows_pre [OF rest [unfolded p_keeps_def, rule_format]]) (auto simp: progress_inv_def)
    qed (auto intro: follows_return)
  qed
qed

lemma keeps_create_steps:
  assumes i: "\<And>i'. create_input_of plan = Inr i' \<Longrightarrow> i' = i"
    and source: "\<And>n. plan_text plan ''source_node'' = Inr n \<Longrightarrow> n = source"
    and gold: "\<And>g. configured_gold cfg = Inr g \<Longrightarrow> gold_of_plan plan = Inr g"
  shows "p_keeps S i source (plan_clone_request plan) (create_steps S cfg plan timing)"
proof -
  have clone: "plan_clone_request plan (Post (clone_path source g) (clone_form (ci_vmid i) (ci_name i) st (ci_pool i)))"
    if "create_input_of plan = Inr i" "plan_text plan ''source_node'' = Inr source" "configured_gold cfg = Inr g"
      "(if jget plan ''source_metadata'' \<noteq> None then plan_text plan ''clone_storage'' else Inr (ci_storage i)) = Inr st" for g st
    using that gold [OF that(3)] unfolding plan_clone_request_def plan_clone_storage_def by blast
  show ?thesis unfolding create_steps_def Let_def
    apply (rule keeps_lift, frule i, hypsubst, rule keeps_bind, rule keeps_do, intro only_intro only_step)
      apply simp_all[2]
    apply (rule keeps_lift, rule keeps_lift, frule source, hypsubst, rule keeps_lift)
    apply (rule keeps_full_clone)
     apply (rule clone, assumption+)
    apply (intro keeps_bind keeps_prepare keeps_boot keeps_return keeps_do)
     apply (intro only_step only_intro; simp)
    apply (intro only_step only_intro; simp)
    done
qed

lemma follows_removal:
  assumes p: "create_input_of plan = Inr i" "plan_text plan ''source_node'' = Inr source"
    and "cp_task pg \<noteq> None" "\<not> cp_started pg" "cp_cleanup pg = Some cl"
  shows "follows (create_rule S i source clone) (progress_inv i source clone pg) (remove_failed_clone S cfg plan cl timing) (\<lambda>_ _. True)"
proof -
  let ?R = "create_rule S i source clone" and ?K = "progress_inv i source clone pg"
  have f: "vmid_of plan = Inr (ci_vmid i)" "plan_text plan ''name'' = Inr (ci_name i)" "plan_text plan ''pool'' = Inr (ci_pool i)"
    using p(1) by (auto simp: create_input_of_def)
  have "only (quiet i) (review_clone S cfg (ci_vmid i) (ci_name i) (ci_pool i) cl)"
    unfolding review_clone_def review_clone_storage_def
    by (intro only_intro) (auto simp: vms_request_def vm_config_request_def storage_status_request_def storage_content_request_def
        power_request_of_def intro!: only_intro)
  then have rv: "follows ?R ?K (review_clone S cfg (ci_vmid i) (ci_name i) (ci_pool i) cl)
      (\<lambda>_ h. ?K h \<and> clone_reviewed S (ci_vmid i) (ci_name i) (ci_pool i) (cc_node cl) h)"
    by (intro follows_run [OF follows_quiet]) (auto intro: review_clone_shows)
  have dl: "follows ?R (\<lambda>h. ?K h \<and> clone_reviewed S (ci_vmid i) (ci_name i) (ci_pool i) (cc_node cl) h)
      (api S (Delete (qemu_path (cc_node cl) (ci_vmid i) []) cleanup_query)) (\<lambda>_ _. True)"
    by (rule follows_request) (use assms(3-5) in \<open>auto simp: create_rule_def progress_inv_def\<close>)
  have w: "follows ?R (\<lambda>_. True) (bindE (liftE (upid S a)) (\<lambda>u. bindE (wait_task S u wait) (\<lambda>r. unlessE (task_ok r) (e r)))) (\<lambda>_ _. True)"
    for a wait and e :: "task_result \<Rightarrow> core_error"
    by (rule follows_only [where P = "\<lambda>c. \<not> is_delete (fst c)"]) ((intro only_intro; simp), simp_all add: create_rule_def)
  show ?thesis unfolding remove_failed_clone_def f liftE_simps bindE_return
    by (intro follows_bind [OF rv] follows_bind [OF dl] w)
qed

lemma follows_after_failure:
  assumes i: "\<And>i'. create_input_of plan = Inr i' \<Longrightarrow> i' = i" and source: "\<And>n. plan_text plan ''source_node'' = Inr n \<Longrightarrow> n = source"
  shows "follows (create_rule S i source (plan_clone_request plan)) (progress_inv i source (plan_clone_request plan) pg)
    (after_failure S cfg plan vmid name timing e pg) (\<lambda>_ _. True)"
proof -
  let ?R = "create_rule S i source (plan_clone_request plan)" and ?K = "progress_inv i source (plan_clone_request plan) pg"
  have rm: "follows ?R ?K (case cp_cleanup pg of
        Some clone \<Rightarrow> remove_failed_clone S cfg plan clone timing | None \<Rightarrow> throwE e') (\<lambda>_ _. True)"
    if t: "\<not> cp_started pg" "cp_task pg \<noteq> None" for e'
  proof (rule follows_given)
    fix h assume "?K h"
    then show "create_input_of plan = Inr i \<and> plan_text plan ''source_node'' = Inr source"
      using t(2) i source by (auto simp: progress_inv_def clone_confirmed_def plan_clone_request_def)
  next
    assume p: "create_input_of plan = Inr i \<and> plan_text plan ''source_node'' = Inr source"
    show "follows ?R ?K (case cp_cleanup pg of
        Some clone \<Rightarrow> remove_failed_clone S cfg plan clone timing | None \<Rightarrow> throwE e') (\<lambda>_ _. True)"
    proof (cases "cp_cleanup pg")
      case (Some cl)
      show ?thesis unfolding Some option.case by (rule follows_removal) (use p t Some in auto)
    qed (simp add: follows_throw)
  qed
  show ?thesis
  proof (cases "cp_started pg \<or> cp_task pg = None")
    case False
    then obtain task where t: "\<not> cp_started pg" "cp_task pg = Some task" by auto
    have ends: "follows ?R (\<lambda>_. True) (case r of Inr _ \<Rightarrow> throwE e | Inl failure \<Rightarrow> throwE (f failure)) (\<lambda>_ _. True)"
      for r :: "core_error + unit" and f
      by (cases r) (auto intro: follows_throw)
    have rm': "follows ?R ?K (case cp_cleanup pg of
        Some clone \<Rightarrow> remove_failed_clone S cfg plan clone timing
      | None \<Rightarrow> throwE (Failed ''clone configuration or location is uncertain'')) (\<lambda>_ _. True)"
      by (rule rm) (simp_all add: t)
    show ?thesis unfolding after_failure_def t(2) option.case if_not_P [OF t(1)]
      by (rule follows_bind [OF follows_try_any [OF rm'] ends])
  qed (auto simp: after_failure_def follows_throw)
qed

lemma follows_create:
  assumes i: "\<And>i'. create_input_of plan = Inr i' \<Longrightarrow> i' = i" and source: "\<And>n. plan_text plan ''source_node'' = Inr n \<Longrightarrow> n = source"
  shows "follows (create_rule S i source (plan_clone_request plan)) (\<lambda>h. start_post (ci_node i) (ci_vmid i) \<notin> fst ` set h)
    (create_workspace S cfg0 plan timing) (\<lambda>_ _. True)"
proof -
  let ?R = "create_rule S i source (plan_clone_request plan)" and ?K = "progress_inv i source (plan_clone_request plan)"
  have K0: "?K no_progress = (\<lambda>h. start_post (ci_node i) (ci_vmid i) \<notin> fst ` set h)"
    by (simp add: progress_inv_def no_progress_def fun_eq_iff)
  have steps: "follows ?R (?K no_progress) (create_steps S (cfg0\<lparr>gold_vmid := Some gold\<rparr>) plan timing no_progress) (\<lambda>(r, pg). ?K pg)"
    if "gold_of_plan plan = Inr gold" for gold
    by (rule keeps_create_steps [OF i source, unfolded p_keeps_def, rule_format]) (use that in \<open>auto simp: configured_gold_def\<close>)
  have ends: "follows ?R ((\<lambda>(r, pg). ?K pg) x) (case x of (r, pg) \<Rightarrow> case r of
        Inr result \<Rightarrow> returnE result | Inl e \<Rightarrow> after_failure S cfg plan vmid name timing e pg) (\<lambda>_ _. True)" for x cfg vmid name
    by (cases x; cases "fst x") (auto intro: follows_return follows_after_failure [OF i source])
  have o: "only (quiet i) (if b then revalidate_source S cfg plan else returnE ())" "only (quiet i) (require_create_capacity S cfg plan)" for b cfg
    by (intro only_intro; simp)+
  show ?thesis unfolding create_workspace_def Let_def K0 [symmetric]
    by (intro follows_bind_lift follows_bind [OF follows_quiet [OF o(1)]] follows_bind [OF follows_quiet [OF o(2)]] follows_bind [OF steps ends]; assumption)
qed

text \<open>
  C19. Creating a workspace never deletes a VM on suspicion. Whatever Proxmox answers, a VM is deleted
  only if the clone request of this very plan was answered with a task of the source node, that task was
  read as stopped and successful, the VM was not started, and a review found it on the node and in the
  pool of the plan, stopped, under the name of the plan, with no unused disk, and each of its volumes
  owned by that VM; and then on the source or the target node and with no unreferenced disk.
\<close>

theorem create_deletes_own_clone:
  "controlled (removal_rule S plan) (s\<lparr>trace := []\<rparr>) (snd (create_workspace S cfg plan timing (s\<lparr>trace := []\<rparr>)))"
proof -
  let ?i = "projr (create_input_of plan)" and ?source = "projr (plan_text plan ''source_node'')"
  have "follows (create_rule S ?i ?source (plan_clone_request plan)) (\<lambda>h. start_post (ci_node ?i) (ci_vmid ?i) \<notin> fst ` set h)
      (create_workspace S cfg plan timing) (\<lambda>_ _. True)"
    by (rule follows_create) simp_all
  then have "controlled (create_rule S ?i ?source (plan_clone_request plan)) (s\<lparr>trace := []\<rparr>)
      (snd (create_workspace S cfg plan timing (s\<lparr>trace := []\<rparr>)))"
    by (simp add: follows_def ctl_def)
  moreover have "removal_rule S plan h c" if "create_rule S ?i ?source (plan_clone_request plan) h c" for h c
  proof (cases "is_delete (fst c)")
    case True
    then have "\<exists>rq. plan_clone_request plan rq" using that by (auto simp: create_rule_def clone_confirmed_def)
    then have "create_input_of plan = Inr ?i" "plan_text plan ''source_node'' = Inr ?source" by (auto simp: plan_clone_request_def)
    then show ?thesis using that unfolding removal_rule_def by blast
  qed (simp add: removal_rule_def)
  ultimately show ?thesis unfolding controlled_def by blast
qed

section \<open>One clone\<close>

definition is_clone_post :: "request \<Rightarrow> bool" where
  "is_clone_post rq = (case rq of Post p f \<Rightarrow> strip_suffix p ''/clone'' \<noteq> None | _ \<Rightarrow> False)"

lemma not_clone [simp]:
  "\<not> is_clone_post (Get p q)" "\<not> is_clone_post (Delete p q)" "\<not> is_clone_post (Put p f)"
  by (simp_all add: is_clone_post_def)

lemma not_clone_posts [simp]:
  "\<not> is_clone_post (Post (qemu_path n v ''/migrate'') f)" "\<not> is_clone_post (Post (qemu_path n v ''/config'') f)"
  "\<not> is_clone_post (Post (storage_content_path n st) f)" "\<not> is_clone_post (Post (agent n v ''ping'') f)"
  "\<not> is_clone_post (Post (qemu_path n v ''/status/start'') f)"
  by (auto simp: is_clone_post_def strip_suffix_eq_Some qemu_path_def storage_content_path_def agent_def
      dest!: arg_cong [where f = last])

definition p_at_most :: "(request \<Rightarrow> bool) \<Rightarrow> nat \<Rightarrow> ('w, 'a) pop \<Rightarrow> bool" where
  "p_at_most K n m \<longleftrightarrow> (\<forall>pg. at_most K n (m pg))"

named_theorems most_intro \<comment> \<open>rules for how often the steps of a create send a request\<close>

lemma most_return: "at_most K n (returnE a)"
  by (rule at_most_only) (rule only_return)

lemma p_most_do: "at_most K n m \<Longrightarrow> p_at_most K n (p_do m)"
  unfolding p_at_most_def p_do_def by (intro allI at_most_bind [OF at_most_try most_return]) auto

lemma p_most_only [most_intro]: "only (\<lambda>c. \<not> K (fst c)) m \<Longrightarrow> p_at_most K n (p_do m)"
  by (intro p_most_do at_most_only)

lemma p_most_bind:
  assumes "p_at_most K j m" and "\<And>a. p_at_most K k (f a)" and "j + k \<le> n"
  shows "p_at_most K n (p_bind m f)"
  unfolding p_at_most_def p_bind_def
proof
  fix pg
  show "at_most K n (bindE (m pg) (\<lambda>(r, pg'). case r of Inl e \<Rightarrow> returnE (Inl e, pg') | Inr a \<Rightarrow> f a pg'))"
    by (rule at_most_bind [OF _ _ assms(3)]) (use assms(1,2) in \<open>auto simp: p_at_most_def most_return split: prod.split sum.split\<close>)
qed

lemma p_most_bind_none [most_intro]:
  "p_at_most K 0 m \<Longrightarrow> (\<And>a. p_at_most K n (f a)) \<Longrightarrow> p_at_most K n (p_bind m f)"
  by (rule p_most_bind [where j = 0 and k = n]) simp_all

lemma p_most_pure [most_intro]: "p_at_most K n (p_set g)" "p_at_most K n p_get" "p_at_most K n (\<lambda>pg. returnE (Inr a, pg))"
  by (simp_all add: p_at_most_def p_set_def p_get_def most_return)

lemma p_most_step [most_intro]:
  assumes "p_at_most K n m" shows "p_at_most K n (p_step name m)"
  unfolding p_at_most_def p_step_def
proof
  fix pg
  have m: "at_most K n (m pg)" using assms by (simp add: p_at_most_def)
  show "at_most K n (bindE (step_started name) (\<lambda>_. bindE (m pg) (\<lambda>(r, pg'). bindE (step_finished name (is_ok r)) (\<lambda>_. returnE (r, pg')))))"
    by (rule at_most_bind_last [OF only_step_events(1)], rule at_most_bind_first [OF m])
      (auto split: prod.split intro!: only_bind only_step_events only_return)
qed

lemma p_most_cases [most_intro]:
  "p_at_most K n m \<Longrightarrow> p_at_most K n m' \<Longrightarrow> p_at_most K n (if b then m else m')"
  "p_at_most K n m \<Longrightarrow> (\<And>a. p_at_most K n (f a)) \<Longrightarrow> p_at_most K n (case x of None \<Rightarrow> m | Some a \<Rightarrow> f a)"
  by (auto split: option.split)

lemma full_clone_once: "at_most is_clone_post (Suc 0) (full_clone S cfg i source st timing)"
proof -
  have c: "at_most is_clone_post (Suc 0) (clone_task S p form source vmid wait)" for p form vmid wait
    unfolding clone_task_def Let_def
    by (rule at_most_bind_first [OF at_most_map_err [OF at_most_api]]) (intro only_intro; simp)
  show ?thesis unfolding full_clone_def
    by (rule at_most_bind_last [OF only_step_events(1)], rule at_most_bind_last, rule only_intro, rule at_most_bind_first [OF at_most_try [OF c]])
      (intro only_intro)
qed

lemma prepare_quiet:
  "p_at_most is_clone_post 0 (prepare_clone S cfg plan i migrated source keys timing)"
  "p_at_most is_delete 0 (prepare_clone S cfg plan i migrated source keys timing)"
  unfolding prepare_clone_def move_clone_def tag_clone_def
  by (intro most_intro only_intro only_step; simp add: vm_config_request_def)+

lemma create_steps_once:
  "p_at_most is_clone_post (Suc 0) (create_steps S cfg plan timing)" "p_at_most is_delete 0 (create_steps S cfg plan timing)"
proof -
  have fc: "p_at_most is_clone_post (Suc 0) (p_bind (p_do (full_clone S cfg i source st timing)) f)"
    if "\<And>a. p_at_most is_clone_post 0 (f a)" for i source st and f :: "string \<Rightarrow> ('a, json) pop"
    by (rule p_most_bind [OF p_most_do [OF full_clone_once] that]) simp
  have one: "only (\<lambda>c. \<not> is_clone_post (fst c)) (liftE r)" "only (\<lambda>c. \<not> is_clone_post (fst c)) (stepE n (workspace_authorized_keys S cfg))"
    for r :: "core_error + 'b" and n
    by (intro only_intro only_step; simp)+
  show "p_at_most is_clone_post (Suc 0) (create_steps S cfg plan timing)" unfolding create_steps_def Let_def
    by (rule p_most_bind_none [OF p_most_only [OF only_lift]], rule p_most_bind_none [OF p_most_only [OF one(2)]],
        rule p_most_bind_none [OF p_most_only [OF only_lift]], rule p_most_bind_none [OF p_most_only [OF only_lift]],
        rule p_most_bind_none [OF p_most_only [OF only_lift]], rule fc)
      (intro most_intro prepare_quiet only_intro only_step; simp)
  show "p_at_most is_delete 0 (create_steps S cfg plan timing)" unfolding create_steps_def Let_def
    by (intro most_intro prepare_quiet only_intro only_step; simp)
qed


lemma removal_once: "at_most is_delete (Suc 0) (remove_failed_clone S cfg plan clone timing)"
proof -
  have r: "only (\<lambda>c. \<not> is_delete (fst c)) (review_clone S cfg vmid name pool clone)" for vmid name pool
    unfolding review_clone_def review_clone_storage_def
    by (intro only_intro) (auto simp: vms_request_def vm_config_request_def storage_status_request_def storage_content_request_def
        intro!: only_intro)
  show ?thesis unfolding remove_failed_clone_def
    by (rule at_most_bind_last [OF only_lift], rule at_most_bind_last [OF only_lift], rule at_most_bind_last [OF only_lift],
        rule at_most_bind_last [OF r], rule at_most_bind_first [OF at_most_api])
      (intro only_intro; simp)
qed

lemma only_after_failure:
  assumes "\<And>p q a. P (Get p q, a)" and "\<And>p q a. P (Delete p q, a)"
  shows "only P (after_failure S cfg plan vmid name timing e pg)"
  unfolding after_failure_def remove_failed_clone_def review_clone_def review_clone_storage_def
  by (intro only_intro) (auto simp: assms vms_request_def vm_config_request_def storage_status_request_def storage_content_request_def
      split: option.split sum.split intro!: only_intro)

lemma after_failure_once:
  "at_most is_delete (Suc 0) (after_failure S cfg plan vmid name timing e pg)"
proof -
  have t: "at_most is_delete (Suc 0) (throwE e :: ('a, 'b) op)" for e by (rule at_most_only) (rule only_throw)
  have "at_most is_delete (Suc 0) (case cp_cleanup pg of
      Some clone \<Rightarrow> remove_failed_clone S cfg plan clone timing | None \<Rightarrow> throwE e')" for e'
    by (auto simp: t removal_once split: option.split)
  then show ?thesis unfolding after_failure_def
    by (auto simp: t split: option.split intro!: at_most_bind_first at_most_try only_throw split: sum.split)
qed

text \<open>
  C20. A create is never repeated: whatever Proxmox answers, one run sends at most one clone request and
  at most one DELETE. A lost answer, a locked file or a timeout is reported, not retried.
\<close>

theorem create_clones_once:
  "length (filter is_clone_post (requests (create_workspace S cfg plan timing) s)) \<le> 1 \<and>
   length (filter is_delete (requests (create_workspace S cfg plan timing) s)) \<le> 1"
proof -
  have pre: "only (\<lambda>c. \<not> K (fst c)) (if b then revalidate_source S cfg plan else returnE ())"
      "only (\<lambda>c. \<not> K (fst c)) (require_create_capacity S cfg plan)" if "\<And>p q. \<not> K (Get p q)" for K b cfg
    using that by (intro only_intro; simp)+
  have run: "at_most K (Suc 0) (create_workspace S cfg plan timing)"
    if K: "\<And>p q. \<not> K (Get p q)" and st: "\<And>cfg. p_at_most K j (create_steps S cfg plan timing)"
      and af: "\<And>cfg vmid name e pg. at_most K k (after_failure S cfg plan vmid name timing e pg)" and jk: "j + k \<le> Suc 0" for K j k
  proof -
    have ends: "at_most K k (case x of (r, pg) \<Rightarrow> case r of
        Inr result \<Rightarrow> returnE result | Inl e \<Rightarrow> after_failure S cfg plan vmid name timing e pg)" for x cfg vmid name
      by (cases x; cases "fst x") (auto simp: most_return af)
    show ?thesis unfolding create_workspace_def Let_def
      by (rule at_most_bind_last [OF only_lift], rule at_most_bind_last [OF only_lift], rule at_most_bind_last [OF only_lift],
          rule at_most_bind_last [OF only_lift], rule at_most_bind_last, rule pre, rule K, rule at_most_bind_last, rule pre, rule K,
          rule at_most_bind [OF st [unfolded p_at_most_def, rule_format] ends jk])
  qed
  have "at_most is_clone_post (Suc 0) (create_workspace S cfg plan timing)"
    by (rule run [OF _ create_steps_once(1) at_most_only [OF only_after_failure], of 0]) simp_all
  moreover have "at_most is_delete (Suc 0) (create_workspace S cfg plan timing)"
    by (rule run [OF _ create_steps_once(2) after_failure_once]) simp_all
  ultimately show ?thesis using at_most_sent [of _ "Suc 0" "create_workspace S cfg plan timing" s]
    by (simp add: requests_def filter_map comp_def)
qed

text \<open>Planning a create reads, and pings guest agents.\<close>

lemma plan_create_reads:
  "list_all (\<lambda>rq. is_get rq \<or> (\<exists>n g. rq = Post (agent n g ''ping'') [])) (requests (plan_create S cfg pool rq) s)"
  by (rule only_requests, intro only_intro) auto

end
