(* ===== verification/Create_Boot.thy ===== *)
theory Create_Boot
  imports Create_Safety
begin

text \<open>
  The first boot of a created workspace: what the steps before it have shown when the start request goes
  out, followed through the progress record of a create by the rules of \<open>History\<close>.
\<close>

section \<open>The first boot\<close>

text \<open>What the steps up to the first boot have shown when all of them succeeded.\<close>

definition clone_identified :: "'w ext \<Rightarrow> config \<Rightarrow> create_input \<Rightarrow> (request \<times> answer) list \<Rightarrow> bool" where
  "clone_identified S cfg i h \<longleftrightarrow>
     (\<exists>c. told (vm_config_request (ci_node i) (ci_vmid i)) (\<lambda>v. \<exists>m. v = JObj m \<and> config_of (print_json S) m = c) h \<and>
        verify_workspace_role_tags (ci_vmid i) c = Inr () \<and> extract_mac (cfg_text c ''net0'') \<noteq> None \<and>
        disk_option (cfg_text c (home_disk cfg)) ''serial'' = Some (ci_label i))"

definition clone_configured :: "config \<Rightarrow> create_input \<Rightarrow> (request \<times> answer) list \<Rightarrow> bool" where
  "clone_configured cfg i h \<longleftrightarrow>
     (\<exists>keys settings. cloud_init_settings cfg FormatCreate (ci_ip i) (net_cidr (cfg_network cfg)) (net_gateway (cfg_network cfg))
          (Some keys) = Inr settings \<and>
        told (Post (qemu_path (ci_node i) (ci_vmid i) ''/config'') settings) (\<lambda>_. True) h)"

definition is_start_post :: "request \<Rightarrow> bool" where
  "is_start_post rq = (case rq of Post p f \<Rightarrow> strip_suffix p ''/status/start'' \<noteq> None | _ \<Rightarrow> False)"

definition boot_ready :: "'w ext \<Rightarrow> config \<Rightarrow> json \<Rightarrow> string \<Rightarrow> create_input \<Rightarrow> (request \<times> answer) list \<Rightarrow> bool" where
  "boot_ready S cfg plan source i h \<longleftrightarrow>
     clone_confirmed source (plan_clone_request plan) h \<and> clone_identified S cfg i h \<and> clone_configured cfg i h"

definition boot_rule :: "'w ext \<Rightarrow> config \<Rightarrow> json \<Rightarrow> (request \<times> answer) list \<Rightarrow> request \<times> answer \<Rightarrow> bool" where
  "boot_rule S cfg plan h c \<longleftrightarrow>
     \<not> is_start_post (fst c) \<or>
     (\<exists>i source. create_input_of plan = Inr i \<and> plan_text plan ''source_node'' = Inr source \<and>
        fst c = start_post (ci_node i) (ci_vmid i) \<and> boot_ready S cfg plan source i h)"

lemma not_start_posts [simp]:
  "\<not> is_start_post (Get p q)" "\<not> is_start_post (Delete p q)" "\<not> is_start_post (Put p f)"
  "\<not> is_start_post (Post (qemu_path n v ''/migrate'') f)" "\<not> is_start_post (Post (qemu_path n v ''/config'') f)"
  "\<not> is_start_post (Post (storage_content_path n st) f)" "\<not> is_start_post (Post (agent n v ''ping'') f)"
  "\<not> is_start_post (Post (qemu_path n v ''/clone'') f)"
  by (auto simp: is_start_post_def strip_suffix_eq_Some qemu_path_def storage_content_path_def agent_def butlast_append
      dest!: arg_cong [where f = "\<lambda>p. (last (butlast p), last p)"])

lemma only_of_at_most: "at_most K 0 m \<Longrightarrow> only (\<lambda>c. \<not> K (fst c)) m"
  by (auto simp: at_most_def only_def filter_empty_conv)

definition p_follows ::
  "((request \<times> answer) list \<Rightarrow> request \<times> answer \<Rightarrow> bool) \<Rightarrow> ((request \<times> answer) list \<Rightarrow> bool) \<Rightarrow> ('w, 'a) pop \<Rightarrow>
     ('a \<Rightarrow> (request \<times> answer) list \<Rightarrow> bool) \<Rightarrow> bool" where
  "p_follows R I m J \<longleftrightarrow> (\<forall>pg. follows R I (m pg) (\<lambda>(r, pg') h. \<forall>a. r = Inr a \<longrightarrow> J a h))"

lemma p_follows_bind:
  assumes "p_follows R I m J" and "\<And>a. p_follows R (J a) (f a) K"
  shows "p_follows R I (p_bind m f) K"
  unfolding p_follows_def p_bind_def
proof
  fix pg
  show "follows R I (bindE (m pg) (\<lambda>(r, pg'). case r of Inl e \<Rightarrow> returnE (Inl e, pg') | Inr a \<Rightarrow> f a pg'))
      (\<lambda>(r, pg') h. \<forall>a. r = Inr a \<longrightarrow> K a h)"
  proof (rule follows_bind)
    show "follows R I (m pg) (\<lambda>(r, pg') h. \<forall>a. r = Inr a \<longrightarrow> J a h)" using assms(1) by (simp add: p_follows_def)
    fix x
    show "follows R ((\<lambda>(r, pg') h. \<forall>a. r = Inr a \<longrightarrow> J a h) x)
        (case x of (r, pg') \<Rightarrow> case r of Inl e \<Rightarrow> returnE (Inl e, pg') | Inr a \<Rightarrow> f a pg') (\<lambda>(r, pg') h. \<forall>a. r = Inr a \<longrightarrow> K a h)"
      using assms(2) by (cases x; cases "fst x") (auto simp: p_follows_def intro: follows_return)
  qed
qed

lemma p_follows_lift:
  "(\<And>a. r = Inr a \<Longrightarrow> p_follows R I (f a) K) \<Longrightarrow> p_follows R I (p_bind (p_do (liftE r)) f) K"
  by (cases r) (auto simp: p_follows_def p_bind_do try_pure intro: follows_return)

text \<open>A step all of whose requests the rule allows, with what its success shows.\<close>

lemma p_follows_only:
  assumes "\<And>pg. only P (m pg)" and "\<And>h c. I h \<Longrightarrow> P c \<Longrightarrow> R h c" and "grows I"
    and "\<And>pg s a pg' s'. m pg s = (Inr (Inr a, pg'), s') \<Longrightarrow> K a (trace s')"
  shows "p_follows R I m (\<lambda>a h. I h \<and> K a h)"
  unfolding p_follows_def
proof
  fix pg
  have "follows R I (m pg) (\<lambda>_. I)"
    by (rule follows_kept [OF assms(1)]) (use assms(2,3) in \<open>auto simp: grows_def\<close>)
  then show "follows R I (m pg) (\<lambda>(r, pg') h. \<forall>a. r = Inr a \<longrightarrow> I h \<and> K a h)"
    using assms(4) unfolding follows_def ctl_def by fastforce
qed

lemma p_do_run: "p_do m pg s = (Inr (Inr a, pg'), s') \<longleftrightarrow> m s = (Inr a, s') \<and> pg' = pg"
  by (cases "m s") (auto simp: p_do_def bindE_Inr tryE_run returnE_run)

lemma only_p_do: "only P m \<Longrightarrow> only P (p_do m pg)"
  unfolding p_do_def by (intro only_intro)

lemma p_follows_quiet:
  assumes "only (\<lambda>c. \<not> is_start_post (fst c)) m" and "grows I"
    and "\<And>s a s'. m s = (Inr a, s') \<Longrightarrow> K a (trace s')"
  shows "p_follows (boot_rule S cfg plan) I (p_do m) (\<lambda>a h. I h \<and> K a h)"
  by (rule p_follows_only [OF only_p_do [OF assms(1)]]) (auto simp: boot_rule_def assms(2) p_do_run intro: assms(3))

lemma p_bind_run: "p_bind m f pg s = (Inr (Inr b, pg'), s') \<longleftrightarrow>
    (\<exists>a pg1 s1. m pg s = (Inr (Inr a, pg1), s1) \<and> f a pg1 s1 = (Inr (Inr b, pg'), s'))"
proof -
  have "(case x of (r, pg') \<Rightarrow> case r of Inl e \<Rightarrow> returnE (Inl e, pg') | Inr a \<Rightarrow> f a pg') s1 = (Inr (Inr b, pg'), s') \<longleftrightarrow>
      (\<exists>a pg1. x = (Inr a, pg1) \<and> f a pg1 s1 = (Inr (Inr b, pg'), s'))" for x s1
    by (cases x; cases "fst x") (auto simp: returnE_run)
  then show ?thesis by (auto simp: p_bind_def bindE_Inr)
qed

lemma p_set_run: "p_set g pg s = (Inr (Inr a, pg'), s') \<longleftrightarrow> pg' = g pg \<and> s' = s"
  by (auto simp: p_set_def returnE_run)

lemma p_return_run: "returnE (Inr b, pg) s = (Inr (Inr a, pg'), s') \<longleftrightarrow> a = b \<and> pg' = pg \<and> s' = s"
  by (auto simp: returnE_run)

lemma p_step_run:
  assumes "p_step n m pg s = (Inr (Inr a, pg'), s')"
  obtains s0 s1 where "m pg s0 = (Inr (Inr a, pg'), s1)" and "trace s' = trace s1"
  using assms by (auto simp: p_step_def bindE_Inr step_started_def step_finished_def emit_run returnE_run)


lemma post_task_told:
  assumes "post_task S p form what wait s = (Inr u, s')"
  shows "told (Post p form) (\<lambda>_. True) (trace s')"
proof -
  have "follows (\<lambda>_ _. True) (\<lambda>_. True) (run_task S (Post p form) what wait) (\<lambda>_. told (Post p form) (\<lambda>_. True))"
    unfolding run_task_def
  proof (rule follows_bind)
    show "follows (\<lambda>_ _. True) (\<lambda>_. True) (api S (Post p form)) (\<lambda>_. told (Post p form) (\<lambda>_. True))"
      by (rule follows_post [OF follows_api]) (auto simp: told_def)
    show "follows (\<lambda>_ _. True) (told (Post p form) (\<lambda>_. True)) (bindE (liftE (upid S a)) (\<lambda>u. bindE (wait_task S u wait)
        (\<lambda>result. unlessE (task_ok result) (what_failed what (exitstatus result))))) (\<lambda>_. told (Post p form) (\<lambda>_. True))" for a
      by (rule follows_only [where P = "\<lambda>_. True"]) ((intro only_intro; simp), simp_all)
  qed
  from follows_retry [OF this] have "learns (\<lambda>_. True) (post_task S p form what wait) (\<lambda>_. told (Post p form) (\<lambda>_. True))"
    by (simp add: learns_def post_task_def)
  from learns_run [OF this assms] show ?thesis .
qed

lemma tag_clone_shows:
  assumes "tag_clone S cfg i timing pg s = (Inr (Inr mac, pg'), s')"
  shows "clone_identified S cfg i (trace s')"
proof -
  from assms obtain c s1 where c: "vm_config S (ci_node i) (ci_vmid i) s1 = (Inr c, s')"
    and f: "verify_workspace_role_tags (ci_vmid i) c = Inr ()" "extract_mac (cfg_text c ''net0'') \<noteq> None"
      "disk_option (cfg_text c (home_disk cfg)) ''serial'' = Some (ci_label i)"
    by (auto simp: tag_clone_def p_bind_run p_do_run p_set_run bindE_Inr liftE_run unlessE_run returnE_run throwE_run split: if_splits)
  from c obtain m where m: "api S (vm_config_request (ci_node i) (ci_vmid i)) s1 = (Inr (JObj m), s')" "c = config_of (print_json S) m"
    by (auto simp: vm_config_Inr)
  have "told (vm_config_request (ci_node i) (ci_vmid i)) (\<lambda>v. \<exists>m. v = JObj m \<and> config_of (print_json S) m = c) (trace s')"
    by (rule api_told [OF m(1)]) (simp add: m(2))
  then show ?thesis using f unfolding clone_identified_def by blast
qed

lemma configure_clone_shows:
  assumes "configure_clone S cfg i keys timing s = (Inr u, s')"
  shows "clone_configured cfg i (trace s')"
proof -
  from assms obtain settings s1 c s2 where
    s: "cloud_init_settings cfg FormatCreate (ci_ip i) (net_cidr (cfg_network cfg)) (net_gateway (cfg_network cfg)) (Some keys) = Inr settings"
    and p: "post_task S (qemu_path (ci_node i) (ci_vmid i) ''/config'') settings
      (''Configuring Cloud-Init of VM '' @ dec (ci_vmid i)) (wait_for timing 600) s = (Inr (), s1)"
    and c: "vm_config S (ci_node i) (ci_vmid i) s1 = (Inr c, s')"
    by (auto simp: configure_clone_def bindE_Inr liftE_run)
  have "only (\<lambda>_. True) (vm_config S (ci_node i) (ci_vmid i))" by (intro only_intro) simp
  from only_extends_trace [OF this c] obtain t where "trace s' = trace s1 @ t" ..
  then show ?thesis using post_task_told [OF p] s unfolding clone_configured_def by (auto intro: told_append)
qed

lemma prepare_clone_shows:
  assumes "prepare_clone S cfg plan i migrated source keys timing pg s = (Inr (Inr mac, pg'), s')"
  shows "clone_identified S cfg i (trace s') \<and> clone_configured cfg i (trace s')"
proof -
  from assms obtain pg1 s1 pg2 s2 u where t: "p_step ''Clone identity'' (tag_clone S cfg i timing) pg1 s1 = (Inr (Inr mac, pg2), s2)"
    and c: "stepE ''Cloud-Init'' (configure_clone S cfg i keys timing) s2 = (Inr u, s')"
    by (auto simp: prepare_clone_def p_bind_run p_do_run p_set_run p_return_run)
  from p_step_run [OF t] have "clone_identified S cfg i (trace s2)" by (metis tag_clone_shows)
  moreover have "only (\<lambda>_. True) (stepE ''Cloud-Init'' (configure_clone S cfg i keys timing))" by (intro only_step only_intro; simp)
  from only_extends_trace [OF this c] obtain t where "trace s' = trace s2 @ t" ..
  moreover from stepE_run [OF c] have "clone_configured cfg i (trace s')" by (metis configure_clone_shows)
  ultimately show ?thesis unfolding clone_identified_def by (auto intro: told_append)
qed


lemma prepare_no_start: "p_at_most is_start_post 0 (prepare_clone S cfg plan i migrated source keys timing)"
  unfolding prepare_clone_def move_clone_def tag_clone_def
  by (intro most_intro only_intro only_step; simp add: vm_config_request_def)

lemma grows_ready [simp]:
  "grows (clone_confirmed source clone)" "grows (clone_identified S cfg i)" "grows (clone_configured cfg i)"
  by (auto simp: grows_def clone_identified_def clone_configured_def intro: clone_confirmed_grows told_append)

lemma p_follows_post: "p_follows R I m J \<Longrightarrow> (\<And>a h. J a h \<Longrightarrow> J' a h) \<Longrightarrow> p_follows R I m J'"
  unfolding p_follows_def follows_def ctl_def by fastforce

text \<open>The steps from a confirmed clone to the first boot, and the boot.\<close>

lemma prepare_starts_none: "only (\<lambda>c. \<not> is_start_post (fst c)) (prepare_clone S cfg plan i migrated source keys timing pg)"
  by (rule only_of_at_most, rule prepare_no_start [unfolded p_at_most_def, rule_format])

lemma prepare_ready:
  "p_follows (boot_rule S cfg plan) (clone_confirmed source (plan_clone_request plan))
     (prepare_clone S cfg plan i migrated source keys timing) (\<lambda>_. boot_ready S cfg plan source i)"
  unfolding boot_ready_def [abs_def]
  by (rule p_follows_only [where P = "\<lambda>c. \<not> is_start_post (fst c)"])
    (auto simp: boot_rule_def prepare_starts_none dest: prepare_clone_shows)

lemma boot_when_ready:
  assumes p: "create_input_of plan = Inr i" "plan_text plan ''source_node'' = Inr source"
  shows "p_follows (boot_rule S cfg plan) (boot_ready S cfg plan source i) (p_step n (p_bind (p_set (\<lambda>pg. pg\<lparr>cp_started := True\<rparr>)) (\<lambda>_.
       p_do (start_vm S (ci_node i) (ci_vmid i) wait)))) (\<lambda>_ _. True)"
proof -
  let ?P = "\<lambda>c. is_get (fst c) \<or> fst c = start_post (ci_node i) (ci_vmid i)"
  have D: "grows (boot_ready S cfg plan source i)" unfolding boot_ready_def [abs_def] by (intro grows_conj grows_ready)
  have o: "only ?P (p_step n (p_bind (p_set (\<lambda>pg. pg\<lparr>cp_started := True\<rparr>)) (\<lambda>_.
       p_do (start_vm S (ci_node i) (ci_vmid i) wait))) pg)" for pg
    unfolding p_step_def p_bind_set p_do_def by (intro only_intro; (simp add: start_post_def)?)
  show ?thesis
  proof (rule p_follows_post [OF p_follows_only [OF o _ D, where K = "\<lambda>_ _. True"]])
    show "boot_rule S cfg plan h c" if "boot_ready S cfg plan source i h" "is_get (fst c) \<or> fst c = start_post (ci_node i) (ci_vmid i)" for h c
      using that p by (cases "fst c") (auto simp: boot_rule_def)
  qed auto
qed

lemma full_clone_ready:
  assumes gold: "\<And>g. configured_gold cfg = Inr g \<Longrightarrow> gold_of_plan plan = Inr g"
    and p: "create_input_of plan = Inr i" "plan_text plan ''source_node'' = Inr source" "plan_clone_storage plan i = Inr st"
  shows "p_follows (boot_rule S cfg plan) (\<lambda>_. True) (p_do (full_clone S cfg i source st timing))
    (\<lambda>_. clone_confirmed source (plan_clone_request plan))"
proof (rule p_follows_post [OF p_follows_quiet [where I = "\<lambda>_. True" and K = "\<lambda>_. clone_confirmed source (plan_clone_request plan)"]])
  show "only (\<lambda>c. \<not> is_start_post (fst c)) (full_clone S cfg i source st timing)" by (intro only_intro) (simp_all add: clone_path_def)
  show "clone_confirmed source (plan_clone_request plan) (trace s')" if "full_clone S cfg i source st timing s = (Inr a, s')" for s a s'
    by (rule full_clone_confirms [OF that]) (use p gold in \<open>auto simp: plan_clone_request_def\<close>)
qed auto

lemma p_follows_any:
  "only (\<lambda>c. \<not> is_start_post (fst c)) m \<Longrightarrow> p_follows (boot_rule S cfg plan) (\<lambda>_. True) (p_do m) (\<lambda>_ _. True)"
  by (rule p_follows_post [OF p_follows_quiet [where K = "\<lambda>_ _. True" and I = "\<lambda>_. True"]]) auto

lemma p_follows_pure: "p_follows R I (p_set g) (\<lambda>_. I)" "p_follows R I (\<lambda>pg. returnE (Inr b, pg)) (\<lambda>_ _. True)"
  by (auto simp: p_follows_def p_set_def intro: follows_return)

lemma steps_boot_ready:
  assumes gold: "\<And>g. configured_gold cfg = Inr g \<Longrightarrow> gold_of_plan plan = Inr g"
  shows "p_follows (boot_rule S cfg plan) (\<lambda>_. True) (create_steps S cfg plan timing) (\<lambda>_ _. True)"
proof -
  note any = p_follows_bind [OF p_follows_any]
  show ?thesis
    unfolding create_steps_def Let_def plan_clone_storage_def [symmetric]
    apply (rule p_follows_lift, rule any, (intro only_step only_intro; simp), rule p_follows_lift, rule p_follows_lift, rule p_follows_lift)
    apply (rule p_follows_bind [OF full_clone_ready [OF gold]], assumption+)
    apply (rule p_follows_bind [OF p_follows_pure(1)], rule p_follows_bind [OF prepare_ready], rule p_follows_bind [OF boot_when_ready], assumption+)
    apply (rule any, (intro only_step only_intro; simp), rule any, (intro only_step only_intro; simp), rule p_follows_pure(2))
    done
qed

text \<open>
  C21. A workspace boots for the first time only when it is what was planned. Whatever Proxmox answers,
  creating starts no VM but the planned one, and that only after the task of the clone request of the
  plan was confirmed, a reading of its configuration had exactly the workspace role tags, a MAC address
  and the home disk with the planned serial, and the Cloud-Init settings of the plan were accepted.
\<close>

theorem create_boots_ready: "controlled (boot_rule S cfg plan) s (snd (create_workspace S cfg plan timing s))"
proof -
  let ?R = "boot_rule S cfg plan"
  have same: "boot_rule S (cfg\<lparr>gold_vmid := Some g\<rparr>) plan = ?R" for g
    by (simp add: boot_rule_def boot_ready_def clone_identified_def clone_configured_def cloud_init_settings_def cicustom_value_def fun_eq_iff)
  have q: "follows ?R (\<lambda>_. True) m (\<lambda>_ _. True)" if "only (\<lambda>c. \<not> is_start_post (fst c)) m" for m :: "('a, 'c) op"
    by (rule follows_only [OF that]) (auto simp: boot_rule_def)
  have steps: "follows ?R (\<lambda>_. True) (create_steps S (cfg\<lparr>gold_vmid := Some g\<rparr>) plan timing pg) (\<lambda>_ _. True)"
    if "gold_of_plan plan = Inr g" for g pg
  proof -
    have "p_follows ?R (\<lambda>_. True) (create_steps S (cfg\<lparr>gold_vmid := Some g\<rparr>) plan timing) (\<lambda>_ _. True)"
      unfolding same [of g, symmetric] by (rule steps_boot_ready) (use that in \<open>auto simp: configured_gold_def\<close>)
    then show ?thesis unfolding p_follows_def by (intro follows_post [where J' = "\<lambda>_ _. True"]) auto
  qed
  have pre: "only (\<lambda>c. \<not> is_start_post (fst c)) (if b then revalidate_source S cf plan else returnE ())"
      "only (\<lambda>c. \<not> is_start_post (fst c)) (require_create_capacity S cf plan)" for b cf
    by (intro only_intro; simp)+
  have ends: "only (\<lambda>c. \<not> is_start_post (fst c)) (case x of (r, pg) \<Rightarrow> case r of
      Inr result \<Rightarrow> returnE result | Inl e \<Rightarrow> after_failure S cf plan vmid name timing e pg)" for x cf vmid name
    by (cases x; cases "fst x") (auto intro!: only_return only_after_failure)
  have "follows ?R (\<lambda>_. True) (create_workspace S cfg plan timing) (\<lambda>_ _. True)"
    unfolding create_workspace_def Let_def
    by (rule follows_bind_lift, rule follows_bind_lift, rule follows_bind_lift, rule follows_bind_lift,
        rule follows_bind [OF q [OF pre(1)]], rule follows_bind [OF q [OF pre(2)]], rule follows_bind [OF steps], assumption,
        rule q [OF ends])
  then show ?thesis by (rule follows_controlled)
qed

end
