(* ===== verification/Sample_Running.thy ===== *)
theory Sample_Running
  imports Lifecycle
begin

text \<open>
  A running workspace for the witnesses: its \<^verbatim>\<open>authorized_keys\<close> files hold the sample key, and its guest
  agent ends every command at once.
\<close>

definition sample_key :: string where "sample_key = ''ssh-ed25519 AAAA new key''"

definition key_answer :: "string \<Rightarrow> json" where
  "key_answer p =
     (if p = ''/cluster/resources'' then
        JArr [JObj [(''type'', JStr ''qemu''), (''vmid'', JInt 101), (''node'', JStr ''pve1''), (''name'', JStr ''ws''),
              (''status'', JStr ''running''), (''tags'', JStr ''homestack-ws''), (''pool'', JStr ''hs'')]]
      else if p = ''/nodes/pve1/qemu/101/config'' then JObj sample_vm_config
      else if p = ''/nodes/pve1/qemu/101/agent/file-read'' then JObj [(''content'', JStr sample_key)]
      else JNull)"

fun key_serve :: "unit \<Rightarrow> request \<Rightarrow> answer \<times> unit" where
  "key_serve w (Get p q) = (Inr (key_answer p), w)"
| "key_serve w (Post p q) = (Inr (JObj [(''exitcode'', JInt 0), (''exited'', JInt 1)]), w)"
| "key_serve w rq = (Inr JNull, w)"

abbreviation key_vm :: "unit ext" where "key_vm \<equiv> machine key_serve"

lemma key_read: "json_norm (key_answer p) = v \<Longrightarrow> gives () (api key_vm (Get p q)) v ()"
  using gives_get [of key_serve "\<lambda>_. key_answer" "()" p q] by (simp add: serves_def)

definition key_resource :: resource where
  "key_resource = sample_resource\<lparr>r_status := Some ''running''\<rparr>"

lemma key_listing:
  "json_norm (key_answer ''/cluster/resources'') = JArr (the (as_array (json_norm (key_answer ''/cluster/resources''))))"
  by code_simp

lemma key_vms: "gives () (cluster_vm_resources key_vm) [key_resource] ()"
proof -
  have "sort_key r_vmid (map (resource_of (print_json key_vm)) (List.map_filter qemu_entry
     (the (as_array (json_norm (key_answer ''/cluster/resources'')))))) = [key_resource]" by code_simp
  from gives_eval [OF gives_vms [unfolded vms_request_def, OF key_read [OF key_listing]] this] show ?thesis .
qed

lemma key_pool: "gives () (require_pool key_vm 101 ''hs'') () ()"
proof -
  let ?items = "the (as_array (json_norm (key_answer ''/cluster/resources'')))"
  have m: "gives () (cluster_vm_maps key_vm) (List.map_filter qemu_entry ?items) ()"
    unfolding cluster_vm_maps_def vms_request_def
    by (rule gives_bind [OF key_read [OF key_listing]]) (simp add: gives_return)
  have f: "List.find (\<lambda>(i, _). i = 101) (List.map_filter qemu_entry ?items) = Some (hd (List.map_filter qemu_entry ?items))"
    and t: "text_or_none (print_json key_vm) (bt_get (snd (hd (List.map_filter qemu_entry ?items))) ''pool'') = Some ''hs''"
    by code_simp+
  have "gives () (vm_pool key_vm 101) (Some ''hs'') ()"
    unfolding vm_pool_def
    by (rule gives_bind [OF m], rule gives_bind [OF gives_lift], unfold f, simp,
        simp add: case_prod_beta t, rule gives_return)
  then show ?thesis unfolding require_pool_def by (rule gives_bind) (simp add: gives_unless)
qed

lemma key_config: "gives () (vm_config key_vm ''pve1'' 101) sample_cfg ()"
proof -
  have r: "vm_config_request ''pve1'' 101 = Get ''/nodes/pve1/qemu/101/config'' []" by code_simp
  have a: "json_norm (key_answer ''/nodes/pve1/qemu/101/config'') = JObj sample_vm_config" by code_simp
  have c: "config_of (print_json key_vm) sample_vm_config = sample_cfg" by code_simp
  show ?thesis using gives_config [of "()" key_vm "''pve1''" 101 sample_vm_config] key_read [OF a, of "[]"] unfolding r c by blast
qed

lemma key_usage: "gives () (workspace_home_usage key_vm ''pve1'' 101 ''running'' opt) (sized opt) ()"
proof -
  have a: "json_norm (key_answer (qemu_path ''pve1'' 101 ''/agent/get-fsinfo'')) = JNull" by code_simp
  have "home_label 101 = Inr (the_ok (home_label 101))" by code_simp
  then have "gives () (find_home_filesystem key_vm ''pve1'' 101) None ()"
    unfolding find_home_filesystem_def
    by (intro gives_bind [OF gives_try [OF key_read [OF a]]]) (simp add: gives_return split: sum.split)
  then show ?thesis unfolding workspace_home_usage_def Let_def 
    by simp (rule gives_bind, assumption, simp add: gives_return)
qed

lemma key_existing: "\<exists>w. gives () (resolve_existing_workspace key_vm sample_config 101) w () \<and>
  ew_node w = ''pve1'' \<and> ew_status w = ''running'' \<and> ew_config w = sample_cfg"
proof -
  have d: "existing_disks sample_config 101 sample_cfg = Inr (the_ok (existing_disks sample_config 101 sample_cfg))"
    and f: "find_vm 101 [key_resource] = Some key_resource"
    and g: "Some 101 \<noteq> gold_vmid sample_config"
    and r: "r_node key_resource = ''pve1''" "r_status key_resource = Some ''running''" by code_simp+
  obtain n rt hm l where q: "the_ok (existing_disks sample_config 101 sample_cfg) = (n, rt, hm, l)" by (metis prod_cases4)
  let ?w = "\<lparr>ew_vmid = 101, ew_name = n, ew_node = ''pve1'', ew_status = ''running'', ew_config = sample_cfg,
       ew_root_volume = rt, ew_root_storage = disk_storage (Some (cfg_text sample_cfg (root_disk sample_config))),
       ew_home_volume = hm, ew_home_storage = disk_storage (Some (cfg_text sample_cfg (home_disk sample_config))),
       ew_home_label = l, ew_home_usage = sized (cfg_text sample_cfg (home_disk sample_config))\<rparr>"
  have "gives () (resolve_existing_workspace key_vm sample_config 101) ?w ()"
    unfolding resolve_existing_workspace_def
    by (rule gives_bind [OF gives_unless [OF g]], rule gives_bind [OF key_vms], rule gives_bind [OF gives_lift],
        simp add: f, rule gives_bind [OF gives_unless], simp add: r, simp add: r,
        rule gives_bind [OF key_config], rule gives_bind [OF gives_lift [OF d]], unfold q prod.case,
        rule gives_bind [OF key_usage], rule gives_return)
  then show ?thesis by (intro exI [of _ ?w]) simp
qed

lemma gives_now: "(\<And>t. gives w (f t) a w') \<Longrightarrow> gives w (bindE nowE f) a w'"
  by (auto simp: gives_def bindE_def nowE_run)

end
