(* ===== verification/Addkey.thy ===== *)
theory Addkey
  imports Verify History Sample_Running
begin

text \<open>
  Giving a workspace one more SSH key (\<^verbatim>\<open>hs-core/src/addkey.rs\<close>): reading and merging keys, the script that
  appends them in the guest, the plan and the operation. Parsing JSON text is a parameter \<open>pj\<close>. Of the text
  of a rejected key type only ASCII characters are escaped, as \<open>debug_char\<close> does.
\<close>

section \<open>Keys\<close>

record addkey_request =
  ar_vmid :: nat
  ar_key :: "string option"
  ar_restart :: bool

record public_key =
  pk_type :: string
  pk_blob :: string
  pk_comment :: string
  pk_line :: string

definition escape_debug :: "string \<Rightarrow> string" where
  "escape_debug s = concat (map (\<lambda>c. if c = APOS then [CHR 0x5C, APOS] else debug_char c) s)"

definition type_ok :: "string \<Rightarrow> bool" where
  "type_ok t \<longleftrightarrow> list_all (\<lambda>c. is_alnum c \<or> c \<in> set ''@.-'') t"

definition blob_ok :: "string \<Rightarrow> bool" where
  "blob_ok b \<longleftrightarrow> list_all (\<lambda>c. is_alnum c \<or> c \<in> set ''+/='') b"

text \<open>\<^verbatim>\<open>char::is_control\<close> on UTF-8 text: U+0000 to U+001F, U+007F, and U+0080 to U+009F (two bytes); tabs are allowed.\<close>

fun has_control :: "string \<Rightarrow> bool" where
  "has_control [] \<longleftrightarrow> False"
| "has_control (c # cs) \<longleftrightarrow>
     (of_char c < (0x20 :: nat) \<and> c \<noteq> CHR 0x09) \<or> c = CHR 0x7F \<or>
     (c = CHR 0xC2 \<and> (case cs of d # _ \<Rightarrow> 0x80 \<le> (of_char d :: nat) \<and> of_char d \<le> (0x9F :: nat) | [] \<Rightarrow> False)) \<or>
     has_control cs"

definition check_record :: "key_record \<Rightarrow> core_error + key_record" where
  "check_record r =
     (if \<not> type_ok (key_type r) \<or> \<not> blob_ok (key_blob r)
      then Inl (Invalid (''Invalid public key of type '' @ [APOS] @ escape_debug (key_type r) @ [APOS]))
      else if has_control (key_comment_text r)
      then Inl (Invalid (''The comment of key '' @ key_identity r @ '' has control characters''))
      else Inr r)"

definition checked_records :: "string \<Rightarrow> core_error + key_record list" where
  "checked_records text = bindR (parse_authorized_key_records text) (map_res check_record)"

definition key_line :: "key_record \<Rightarrow> string" where
  "key_line r = (if key_comment_text r = [] then key_identity r else key_identity r @ '' '' @ key_comment_text r)"

definition no_comment :: core_error where
  "no_comment = Invalid ''The public key has no comment; give the key a name, for example ssh-keygen -C trezor-vm''"

definition read_public_key :: "string \<Rightarrow> core_error + public_key" where
  "read_public_key text =
     bindR (checked_records text) (\<lambda>records.
       case records of
         [r] \<Rightarrow>
           if key_comment_text r = [] then Inl no_comment
           else Inr \<lparr>pk_type = key_type r, pk_blob = key_blob r, pk_comment = key_comment_text r, pk_line = key_line r\<rparr>
       | _ \<Rightarrow> Inl (Invalid (''The public key must be exactly one key, found '' @ dec (length records))))"

definition sshkeys_records :: "nat \<Rightarrow> string \<Rightarrow> core_error + key_record list" where
  "sshkeys_records vmid current =
     (let text = unquote current
      in if list_all key_comment (map trim (lines_of text)) then Inr []
         else map_err (\<lambda>e. Refused (''The Proxmox sshkeys of VM '' @ dec vmid @ '' are not usable: '' @ error_text e))
                (checked_records text))"

definition merge_sshkeys :: "key_record list \<Rightarrow> public_key \<Rightarrow> key_record list \<times> bool" where
  "merge_sshkeys current key =
     (let identity = pk_type key @ '' '' @ pk_blob key
      in if \<exists>r \<in> set current. key_identity r = identity then (current, True)
         else (current @ [\<lparr>key_type = pk_type key, key_blob = pk_blob key, key_comment_text = pk_comment key,
                 key_label = pk_comment key, key_identity = identity\<rparr>], False))"

section \<open>The script for the guest\<close>

definition ENSURE_MARKER :: string where "ENSURE_MARKER = ''# HomeStack ensure-keys''"
definition ENSURE_DONE :: string where "ENSURE_DONE = ''HomeStack: ensured SSH keys from Cloud-Init''"

definition ENSURE_LOOP :: string where \<open>
  ENSURE_LOOP = concat (map (\<lambda>l. l @ [NL])
    [''    [ -d "$dir" ] || continue'',
     ''    owner=$(stat -c %U "$dir")'',
     ''    group=$(stat -c %G "$dir")'',
     ''    f="$dir/.ssh/authorized_keys"'',
     ''    install -d -m 700 -o "$owner" -g "$group" "$dir/.ssh"'',
     ''    [ -f "$f" ] || install -m 600 -o "$owner" -g "$group" /dev/null "$f"'',
     ''    [ -z "$(tail -c1 "$f")" ] || echo >> "$f"'',
     ''    printf '%s'' @ [CHR 0x5C] @ ''n' "$keys" | while IFS= read -r key; do'',
     ''        [ -n "$key" ] || continue'',
     ''        id=$(printf '%s' "$key" | awk '{print $1 " " $2}')'',
     ''        awk -v id="$id" '$1 !~ /^#/ { for (i = 1; i < NF; i++) if ($i ~ /^(ssh-|ecdsa-|sk-)/) { if ($i " " $(i + 1) == id) found = 1; break } } END { exit !found }' "$f" || printf '%s'' @ [CHR 0x5C] @ ''n' "$key" >> "$f"'',
     ''    done''])\<close>

definition ensure_keys_script :: "key_record list \<Rightarrow> string \<Rightarrow> string" where
  "ensure_keys_script keys user =
     ENSURE_MARKER @ [NL] @ ''set -eu'' @ [NL] @ ''keys='' @ shell_quote (join [NL] (map key_line keys)) @ [NL] @
     ''for dir in /root '' @ shell_quote (''/home/'' @ user) @ ''; do'' @ [NL] @ ENSURE_LOOP @ ''done'' @ [NL] @
     ''echo '' @ [APOS] @ ENSURE_DONE @ [APOS, NL]"

section \<open>Planning\<close>

definition jkey :: "public_key \<Rightarrow> json" where
  "jkey k = jobj [(''comment'', JStr (pk_comment k)), (''type'', JStr (pk_type k)), (''line'', JStr (pk_line k)), (''blob'', JStr (pk_blob k))]"

definition addkey_label :: "public_key option \<Rightarrow> key_record list \<Rightarrow> string" where
  "addkey_label key keys = (case key of None \<Rightarrow> join '', '' (map key_label keys) | Some k \<Rightarrow> pk_comment k)"

definition addkey_steps :: "public_key option \<Rightarrow> string \<Rightarrow> string \<Rightarrow> bool \<Rightarrow> bool \<Rightarrow> bool \<Rightarrow> bool \<Rightarrow> string list" where
  "addkey_steps key label user present keep_snippet is_running restart =
     [(case key of
         Some _ \<Rightarrow> if present then ''Add the key to the Proxmox sshkeys of the VM (already there)''
                  else ''Add the key to the Proxmox sshkeys of the VM''
       | None \<Rightarrow> ''Keep the Proxmox sshkeys as they are: '' @ label),
      (if keep_snippet then ''Keep the keep vendor snippet, which cannot rewrite authorized_keys or home''
       else ''Replace custom Cloud-Init snippets with the HomeStack keep vendor snippet; Proxmox generates user, network and meta data'')] @
     (if is_running then
        [''Append missing keys to root and '' @ user @ '' authorized_keys now through the guest agent; nothing is removed'',
         ''Check that every key is in root and '' @ user @ '' authorized_keys'',
         (if restart then ''Restart the VM, then check the keys again'' else ''The VM is NOT restarted'')]
      else
        [''The VM is stopped and stays stopped; Cloud-Init appends missing keys to root and '' @ user @ '' authorized_keys at its next start'']) @
     (if present then []
      else [''The new sshkeys start a new Cloud-Init instance at the next start: the VM gets new SSH host keys''])"

definition planned_keys :: "nat \<Rightarrow> public_key option \<Rightarrow> key_record list \<Rightarrow> core_error + key_record list \<times> bool" where
  "planned_keys vmid key existing =
     (case key of
        Some k \<Rightarrow> Inr (merge_sshkeys existing k)
      | None \<Rightarrow>
          if existing = [] then Inl (Refused (''VM '' @ dec vmid @ '' has no keys in its Proxmox sshkeys; give a key''))
          else Inr (existing, True))"

definition addkey_plan ::
  "config \<Rightarrow> string \<Rightarrow> addkey_request \<Rightarrow> public_key option \<Rightarrow> existing_workspace \<Rightarrow> string \<Rightarrow> key_record list \<Rightarrow> bool \<Rightarrow> json" where
  "addkey_plan cfg pool rq key info ip keys present =
     (let user = user_name (cfg_user cfg); label = addkey_label key keys; cicustom = cfg_text (ew_config info) ''cicustom'';
          keep_snippet = (cicustom = cicustom_value cfg FormatKeep)
      in jobj
        [(''command'', JStr ''addkey''), (''vmid'', jnat (ar_vmid rq)), (''name'', JStr (ew_name info)), (''node'', JStr (ew_node info)),
         (''pool'', JStr pool), (''status'', JStr (ew_status info)), (''ip'', JStr ip), (''user'', JStr user), (''key'', jopt jkey key),
         (''label'', JStr label), (''key_already_in_sshkeys'', JBool present), (''keep_snippet'', JBool keep_snippet),
         (''original_cicustom'', JStr cicustom), (''original_sshkeys'', JStr (cfg_text (ew_config info) ''sshkeys'')),
         (''keys'', JArr (map (JStr \<circ> key_line) keys)), (''restart'', JBool (ar_restart rq)),
         (''steps'', JArr (map JStr (addkey_steps key label user present keep_snippet (ew_status info = ''running'') (ar_restart rq))))])"

definition plan_addkey :: "'w ext \<Rightarrow> config \<Rightarrow> string \<Rightarrow> addkey_request \<Rightarrow> ('w, json) op" where
  "plan_addkey S cfg pool rq =
     bindE (liftE (case ar_key rq of None \<Rightarrow> Inr None | Some t \<Rightarrow> bindR (read_public_key t) (\<lambda>k. Inr (Some k)))) (\<lambda>key.
     bindE (require_pool S (ar_vmid rq) pool) (\<lambda>_.
     bindE (resolve_existing_workspace S cfg (ar_vmid rq)) (\<lambda>info.
     bindE (liftE (parse_ipconfig0 (cfg_text (ew_config info) ''ipconfig0''))) (\<lambda>(ip, _, _).
     bindE (liftE (sshkeys_records (ar_vmid rq) (cfg_text (ew_config info) ''sshkeys''))) (\<lambda>existing.
     bindE (liftE (planned_keys (ar_vmid rq) key existing)) (\<lambda>(keys, present).
     returnE (addkey_plan cfg pool rq key info ip keys present)))))))"

section \<open>Checks in the guest\<close>

definition missing_keys :: "'w ext \<Rightarrow> string \<Rightarrow> nat \<Rightarrow> string \<Rightarrow> key_record list \<Rightarrow> ('w, string list) op" where
  "missing_keys S node vmid file keys =
     bindE (read_text S node vmid file) (\<lambda>t.
     let installed = installed_key_identities (or_empty t)
     in returnE (map key_label (filter (\<lambda>r. key_identity r \<notin> installed) keys)))"

definition root_keys_file :: string where "root_keys_file = ''/root/.ssh/authorized_keys''"
definition user_keys_file :: "string \<Rightarrow> string" where "user_keys_file user = ''/home/'' @ user @ ''/.ssh/authorized_keys''"

definition keys_not_there :: "string \<Rightarrow> nat \<Rightarrow> string list \<Rightarrow> core_error" where
  "keys_not_there user vmid lost =
     Failed (''Not all keys are in root and '' @ user @ '' authorized_keys of VM '' @ dec vmid @ '': '' @ join ''; '' lost)"

definition verify_keys :: "'w ext \<Rightarrow> string \<Rightarrow> nat \<Rightarrow> string \<Rightarrow> key_record list \<Rightarrow> ('w, unit) op" where
  "verify_keys S node vmid user keys =
     bindE (missing_keys S node vmid root_keys_file keys) (\<lambda>r.
     bindE (missing_keys S node vmid (user_keys_file user) keys) (\<lambda>u.
     let lost = map (\<lambda>c. c @ '' in '' @ root_keys_file) r @ map (\<lambda>c. c @ '' in '' @ user_keys_file user) u
     in unlessE (lost = []) (keys_not_there user vmid lost)))"

definition ADDKEY_AGENT_TIMEOUT :: nat where "ADDKEY_AGENT_TIMEOUT = 300000"
definition ADDKEY_CLOUD_INIT_TIMEOUT :: nat where "ADDKEY_CLOUD_INIT_TIMEOUT = 300000"
definition ADDKEY_CLOUD_INIT_POLL :: nat where "ADDKEY_CLOUD_INIT_POLL = 2000"

definition not_done :: "nat \<Rightarrow> string \<Rightarrow> core_error" where
  "not_done vmid why =
     Failed (''Cloud-Init on VM '' @ dec vmid @ '' did not report '' @ quoted ''done'' @ '' after the restart: '' @ why)"

function (sequential) done_loop :: "'w ext \<Rightarrow> string \<Rightarrow> nat \<Rightarrow> nat \<Rightarrow> 'w st \<Rightarrow> (core_error + string) \<times> 'w st" where
  "done_loop S node vmid deadline s =
     (case read_text S node vmid ''/run/cloud-init/result.json'' s of
        (Inl e, s1) \<Rightarrow> (Inl e, s1)
      | (Inr (Some text), s1) \<Rightarrow> (Inr text, s1)
      | (Inr None, s1) \<Rightarrow>
          if deadline \<le> clock s1
          then (Inl (not_done vmid (''no result within '' @ dec (ADDKEY_CLOUD_INIT_TIMEOUT div 1000) @ ''s'')), s1)
          else done_loop S node vmid deadline (snd (sleep S ADDKEY_CLOUD_INIT_POLL s1)))"
  by pat_completeness auto
termination
proof (relation "measure (\<lambda>(S, node, vmid, deadline, s). deadline - clock s)", goal_cases)
  case 1
  show ?case by simp
next
  case (2 S node vmid deadline s r s1 x)
  have "clock s \<le> clock s1" using forwardD [OF forward_read_text] 2(1) by metis
  then show ?case using 2 by (auto simp: sleep_def split: prod.splits)
qed

declare done_loop.simps [simp del]

definition cloud_init_errors :: "(string \<Rightarrow> json option) \<Rightarrow> string \<Rightarrow> json list option" where
  "cloud_init_errors pj text =
     Option.bind (pj text) (\<lambda>v. Option.bind (jget v ''v1'') (\<lambda>w. Option.bind (jget w ''errors'') as_array))"

definition wait_cloud_init_done :: "'w ext \<Rightarrow> (string \<Rightarrow> json option) \<Rightarrow> string \<Rightarrow> nat \<Rightarrow> ('w, unit) op" where
  "wait_cloud_init_done S pj node vmid =
     bindE (\<lambda>s. done_loop S node vmid (clock s + ADDKEY_CLOUD_INIT_TIMEOUT) s) (\<lambda>text.
     unlessE (cloud_init_errors pj text = Some []) (not_done vmid (take_chars 200 (trim text))))"

section \<open>The operation\<close>

record addkey_inputs =
  ai_vmid :: nat
  ai_node :: string
  ai_status :: string
  ai_user :: string
  ai_keys :: "key_record list"
  ai_present :: bool
  ai_keep_snippet :: bool
  ai_restart :: bool

definition plan_flag :: "json \<Rightarrow> string \<Rightarrow> bool" where
  "plan_flag plan k = (case Option.bind (jget plan k) as_bool of None \<Rightarrow> False | Some b \<Rightarrow> b)"

definition plan_lines :: "json \<Rightarrow> string list" where
  "plan_lines plan = (case Option.bind (jget plan ''keys'') as_array of None \<Rightarrow> [] | Some xs \<Rightarrow> List.map_filter as_str xs)"

definition addkey_read :: "json \<Rightarrow> core_error + addkey_inputs" where
  "addkey_read plan =
     bindR (vmid_of plan) (\<lambda>vmid.
     bindR (plan_text plan ''node'') (\<lambda>node.
     bindR (plan_text plan ''status'') (\<lambda>status.
     bindR (plan_text plan ''user'') (\<lambda>user.
     bindR (require (plan_lines plan \<noteq> []) (Unusable ''The plan has no keys'')) (\<lambda>_.
     bindR (map_err (\<lambda>e. Unusable (''The plan'' @ [APOS] @ ''s keys are not usable: '' @ error_text e))
       (checked_records (join [NL] (plan_lines plan)))) (\<lambda>keys.
     Inr \<lparr>ai_vmid = vmid, ai_node = node, ai_status = status, ai_user = user, ai_keys = keys,
       ai_present = plan_flag plan ''key_already_in_sshkeys'', ai_keep_snippet = plan_flag plan ''keep_snippet'',
       ai_restart = plan_flag plan ''restart''\<rparr>))))))"

definition addkey_changed :: "nat \<Rightarrow> core_error" where
  "addkey_changed vmid =
     Refused (vm_msg vmid '' Cloud-Init snippets or SSH keys changed after planning; generate a new plan'')"

definition addkey_current :: "'w ext \<Rightarrow> config \<Rightarrow> string \<Rightarrow> json \<Rightarrow> addkey_inputs \<Rightarrow> ('w, existing_workspace) op" where
  "addkey_current S cfg pool plan i =
     bindE (resolve_existing_workspace S cfg (ai_vmid i)) (\<lambda>info.
     bindE (require_pool S (ai_vmid i) pool) (\<lambda>_.
     bindE (unlessE (ew_node info = ai_node i) (Refused (vm_msg (ai_vmid i) ('' is on '' @ ew_node info @ '', not on '' @
       ai_node i @ '' as planned; generate a new plan'')))) (\<lambda>_.
     bindE (unlessE (ew_status info = ai_status i) (Refused (vm_msg (ai_vmid i) ('' is '' @ ew_status info @ '', not '' @
       ai_status i @ '' as planned; generate a new plan'')))) (\<lambda>_.
     bindE (liftE (plan_text plan ''original_cicustom'')) (\<lambda>oc.
     bindE (unlessE (cfg_text (ew_config info) ''cicustom'' = oc) (addkey_changed (ai_vmid i))) (\<lambda>_.
     bindE (liftE (plan_text plan ''original_sshkeys'')) (\<lambda>ok.
     bindE (unlessE (cfg_text (ew_config info) ''sshkeys'' = ok) (addkey_changed (ai_vmid i))) (\<lambda>_.
     returnE info))))))))"

definition keys_form :: "config \<Rightarrow> addkey_inputs \<Rightarrow> vm_cfg \<Rightarrow> (string \<times> string) list" where
  "keys_form cfg i c =
     (if ai_present i then [] else [(''sshkeys'', quote_sshkeys (join [NL] (map key_line (ai_keys i)) @ [NL]))]) @
     (if ai_keep_snippet i then [] else [(''cicustom'', cicustom_value cfg FormatKeep)]) @
     (case bt_get c ''digest'' of None \<Rightarrow> [] | Some d \<Rightarrow> if d = [] then [] else [(''digest'', d)])"

definition configure_keys :: "'w ext \<Rightarrow> config \<Rightarrow> addkey_inputs \<Rightarrow> existing_workspace \<Rightarrow> timing \<Rightarrow> ('w, unit) op" where
  "configure_keys S cfg i info timing =
     bindE (post_task S (qemu_path (ai_node i) (ai_vmid i) ''/config'') (keys_form cfg i (ew_config info))
       (''Setting the SSH keys of VM '' @ dec (ai_vmid i)) (wait_for timing 600)) (\<lambda>_.
     bindE (vm_config S (ai_node i) (ai_vmid i)) (\<lambda>written.
     bindE (liftE (sshkeys_records (ai_vmid i) (cfg_text written ''sshkeys''))) (\<lambda>written_keys.
     unlessE (written_keys = ai_keys i \<and> bt_get written ''cicustom'' = Some (cicustom_value cfg FormatKeep))
       (Failed (vm_msg (ai_vmid i) '' does not hold the planned sshkeys and keep vendor snippet after the change'')))))"

definition agent_silent :: "nat \<Rightarrow> string" where
  "agent_silent vmid =
     ''The QEMU Guest Agent of VM '' @ dec vmid @ '' did not answer; the keys are added at its next start''"

definition agent_keys :: "'w ext \<Rightarrow> addkey_inputs \<Rightarrow> ('w, string option) op" where
  "agent_keys S i =
     bindE (tryE (qga_ping S (ai_node i) (ai_vmid i))) (\<lambda>r.
     if \<not> is_ok r then returnE (Some (agent_silent (ai_vmid i)))
     else
       bindE (guest_exec S (ai_node i) (ai_vmid i) (ensure_keys_script (ai_keys i) (ai_user i)) True GUEST_EXEC_TIMEOUT) (\<lambda>_.
       bindE (verify_keys S (ai_node i) (ai_vmid i) (ai_user i) (ai_keys i)) (\<lambda>_.
       returnE None)))"

definition cycle_vm :: "'w ext \<Rightarrow> addkey_inputs \<Rightarrow> timing \<Rightarrow> ('w, unit) op" where
  "cycle_vm S i timing =
     bindE (shutdown_vm S (ai_node i) (ai_vmid i) SHUTDOWN_TIMEOUT_SECS (wait_for timing 600)) (\<lambda>_.
     start_vm S (ai_node i) (ai_vmid i) (wait_for timing START_TIMEOUT_SECS))"

definition checked_restart :: "'w ext \<Rightarrow> (string \<Rightarrow> json option) \<Rightarrow> addkey_inputs \<Rightarrow> ('w, unit) op" where
  "checked_restart S pj i =
     bindE (wait_for_qga S (ai_node i) (ai_vmid i) ADDKEY_AGENT_TIMEOUT) (\<lambda>_.
     bindE (wait_cloud_init_done S pj (ai_node i) (ai_vmid i)) (\<lambda>_.
     verify_keys S (ai_node i) (ai_vmid i) (ai_user i) (ai_keys i)))"

definition addkey_result :: "json \<Rightarrow> addkey_inputs \<Rightarrow> bool \<Rightarrow> bool \<Rightarrow> bool \<Rightarrow> string option \<Rightarrow> json" where
  "addkey_result plan i is_running restarted verified note =
     jobj ([(''ok'', JBool True), (''command'', JStr ''addkey''), (''vmid'', jnat (ai_vmid i)), (''name'', jidx plan ''name''),
        (''ip'', jidx plan ''ip''), (''key'', jidx plan ''label''), (''restarted'', JBool restarted),
        (''pending_restart'', JBool (is_running \<and> \<not> verified)), (''verified'', JBool verified),
        (''new_instance_at_next_start'', JBool (\<not> ai_present i \<and> \<not> restarted))] @
       (case note of None \<Rightarrow> [] | Some n \<Rightarrow> [(''note'', JStr n)]) @ [(''event'', JStr ''workspace.key_added'')])"

definition addkey_agent :: "'w ext \<Rightarrow> addkey_inputs \<Rightarrow> bool \<Rightarrow> ('w, string option \<times> bool) op" where
  "addkey_agent S i is_running =
     (if is_running then
        bindE (stepE ''Add keys through the guest agent'' (agent_keys S i)) (\<lambda>n. returnE (n, n = None))
      else returnE (None, False))"

definition addkey_restart ::
  "'w ext \<Rightarrow> (string \<Rightarrow> json option) \<Rightarrow> addkey_inputs \<Rightarrow> bool \<Rightarrow> bool \<Rightarrow> timing \<Rightarrow> ('w, bool) op" where
  "addkey_restart S pj i restarted verified timing =
     (if restarted then
        bindE (stepE ''Restart workspace'' (cycle_vm S i timing)) (\<lambda>_.
        bindE (stepE ''Verify keys after the restart'' (checked_restart S pj i)) (\<lambda>_.
        returnE True))
      else returnE verified)"

definition addkey_finish ::
  "'w ext \<Rightarrow> (string \<Rightarrow> json option) \<Rightarrow> json \<Rightarrow> addkey_inputs \<Rightarrow> bool \<Rightarrow> timing \<Rightarrow> ('w, json) op" where
  "addkey_finish S pj plan i is_running timing =
     (let restarted = (is_running \<and> ai_restart i) in
     bindE (addkey_agent S i is_running) (\<lambda>(n, verified).
     bindE (addkey_restart S pj i restarted verified timing) (\<lambda>verified.
     returnE (addkey_result plan i is_running restarted verified n))))"

definition add_key ::
  "'w ext \<Rightarrow> (string \<Rightarrow> json option) \<Rightarrow> config \<Rightarrow> string \<Rightarrow> json \<Rightarrow> timing \<Rightarrow> ('w, json) op" where
  "add_key S pj cfg pool plan timing =
     bindE (liftE (addkey_read plan)) (\<lambda>i.
     bindE (addkey_current S cfg pool plan i) (\<lambda>info.
     bindE (if \<not> ai_present i \<or> \<not> ai_keep_snippet i
            then stepE ''Cloud-Init keys'' (configure_keys S cfg i info timing) else returnE ()) (\<lambda>_.
     addkey_finish S pj plan i (ew_status info = ''running'') timing)))"


section \<open>What is written is read back\<close>

text \<open>A record as the checks leave it.\<close>

definition key_wf :: "key_record \<Rightarrow> bool" where
  "key_wf r \<longleftrightarrow> key_start (key_type r) \<and> type_ok (key_type r) \<and> key_blob r \<noteq> [] \<and> blob_ok (key_blob r) \<and>
     trim (key_comment_text r) = key_comment_text r \<and> \<not> has_control (key_comment_text r) \<and>
     key_label r = (if key_comment_text r = [] then key_type r @ '' '' @ take_chars 12 (key_blob r) else key_comment_text r) \<and>
     key_identity r = key_type r @ '' '' @ key_blob r"

lemma alnum_not_ws: "is_alnum c \<Longrightarrow> \<not> is_ws c"
  by (auto simp: is_alnum_def is_ws_def is_digit_def is_alpha_def is_lower_def is_upper_def)

lemma ok_no_ws:
  "type_ok t \<Longrightarrow> \<forall>c \<in> set t. \<not> is_ws c" "blob_ok b \<Longrightarrow> \<forall>c \<in> set b. \<not> is_ws c"
proof -
  have "\<forall>c \<in> set ''@.-+/=''. \<not> is_ws c" by code_simp
  then show "type_ok t \<Longrightarrow> \<forall>c \<in> set t. \<not> is_ws c" "blob_ok b \<Longrightarrow> \<forall>c \<in> set b. \<not> is_ws c"
    using alnum_not_ws by (auto simp: type_ok_def blob_ok_def list_all_iff)
qed

lemma trim_id:
  assumes "s \<noteq> []" and "\<not> is_ws (hd s)" and "\<not> is_ws (last s)"
  shows "trim s = s"
proof -
  have "trim_start s = s" using assms by (cases s) (auto simp: trim_start_def)
  moreover have "trim_end s = s" using assms by (cases s rule: rev_cases) (auto simp: trim_end_def)
  ultimately show ?thesis by (simp add: trim_def)
qed

lemma trim_ends: "trim s = s \<Longrightarrow> s \<noteq> [] \<Longrightarrow> \<not> is_ws (last s)"
  using trim_end_last [of "trim_start s"] by (simp add: trim_def)

lemma split_field_word:
  assumes "x \<noteq> []" and "\<forall>c \<in> set x. \<not> is_ws c" and "rest = [] \<or> is_ws (hd rest)"
  shows "split_field (x @ rest) = (x, rest)"
proof -
  have "trim_start (x @ rest) = x @ rest" using assms by (cases x) (auto simp: trim_start_def)
  then show ?thesis using assms by (cases rest) (auto simp: split_field_def takeWhile_append dropWhile_append)
qed

lemma split_field_space: "split_field (CHR '' '' # s) = split_field s"
  by (simp add: split_field_def trim_start_def is_ws_def)

lemma trim_space: "trim (CHR '' '' # s) = trim s"
  by (simp add: trim_def trim_start_def is_ws_def)

lemma ws_space: "is_ws (CHR '' '')"
  by (simp add: is_ws_def)

lemma control_no_NL: "\<not> has_control s \<Longrightarrow> NL \<notin> set s"
  by (induction s rule: has_control.induct) (auto simp: NL_def)

lemma key_start_append: "key_start s \<Longrightarrow> key_start (s @ t)"
  by (auto simp: key_start_def starts_with_iff) (metis append_assoc)

lemma key_wf_line:
  assumes "key_wf r"
  shows "key_record_of (key_line r) = Inr r" "check_record r = Inr r" "key_start (key_line r)"
    "trim (key_line r) = key_line r" "NL \<notin> set (key_line r)"
proof -
  have t: "key_type r \<noteq> []" "\<forall>c \<in> set (key_type r). \<not> is_ws c" and b: "key_blob r \<noteq> []" "\<forall>c \<in> set (key_blob r). \<not> is_ws c"
    using assms ok_no_ws by (auto simp: key_wf_def key_start_def key_prefixes_def starts_with_def)
  let ?c = "key_comment_text r"
  let ?rest = "if ?c = [] then [] else CHR '' '' # ?c"
  have l: "key_line r = key_type r @ CHR '' '' # key_blob r @ ?rest"
    using assms by (simp add: key_line_def key_wf_def)
  have "split_field (key_line r) = (key_type r, CHR '' '' # key_blob r @ ?rest)"
    unfolding l by (rule split_field_word) (use t in \<open>simp_all add: ws_space\<close>)
  moreover have "split_field (CHR '' '' # key_blob r @ ?rest) = (key_blob r, ?rest)"
    unfolding split_field_space by (rule split_field_word) (use b in \<open>simp_all add: ws_space\<close>)
  moreover have "trim ?rest = ?c" using assms by (simp add: key_wf_def trim_space) (simp add: trim_def trim_start_def trim_end_def)
  ultimately show "key_record_of (key_line r) = Inr r"
    using assms b by (auto simp: key_record_of_def key_wf_def Let_def intro!: key_record.equality)
  show "check_record r = Inr r" using assms by (simp add: check_record_def key_wf_def)
  show "key_start (key_line r)" unfolding l using assms
    by (simp add: key_wf_def key_start_append)
  have "last (key_line r) = (if ?c = [] then last (key_blob r) else last ?c)" unfolding l using b by auto
  moreover have "?c \<noteq> [] \<Longrightarrow> \<not> is_ws (last ?c)" using assms trim_ends by (simp add: key_wf_def)
  ultimately have "\<not> is_ws (last (key_line r))" using b by auto
  moreover have "\<not> is_ws (hd (key_line r))" unfolding l using t by (cases "key_type r") auto
  moreover have "key_line r \<noteq> []" unfolding l by simp
  ultimately show "trim (key_line r) = key_line r" using trim_id by blast
  have "NL \<notin> set (key_type r)" "NL \<notin> set (key_blob r)" using t b by (auto simp: NL_def is_ws_def)
  then show "NL \<notin> set (key_line r)" unfolding l using assms control_no_NL by (auto simp: key_wf_def NL_def)
qed

lemma map_res_Inr: "map_res f xs = Inr ys \<longleftrightarrow> list_all2 (\<lambda>x y. f x = Inr y) xs ys"
  by (induction xs arbitrary: ys) (auto simp: list_all2_Cons1)

lemma key_start_field: "key_start line \<Longrightarrow> trim line = line \<Longrightarrow> key_start (fst (split_field line))"
proof -
  assume k: "key_start line" and t: "trim line = line"
  from k obtain p u where p: "p \<in> set key_prefixes" "line = p @ u" by (auto simp: key_start_def starts_with_iff)
  have w: "\<forall>c \<in> set p. \<not> is_ws c" and n: "p \<noteq> []" using p(1) by (auto simp: key_prefixes_def is_ws_def)
  have "trim_start line = line" using w n p(2) by (cases p) (auto simp: trim_start_def)
  then have "fst (split_field line) = p @ takeWhile (\<lambda>c. \<not> is_ws c) u"
    using w by (simp add: split_field_def p(2) takeWhile_append)
  then show ?thesis using p(1) by (auto simp: key_start_def starts_with_iff)
qed

lemma checked_key:
  assumes "key_record_of line = Inr r" and "check_record r = Inr r'" and "key_start line" and "trim line = line"
  shows "r' = r \<and> key_wf r"
proof -
  have "key_start (key_type r)" using key_start_field [OF assms(3,4)] assms(1)
    by (auto simp: key_record_of_def Let_def split: prod.splits if_splits)
  then show ?thesis using assms(1,2)
    by (auto simp: key_record_of_def check_record_def key_wf_def Let_def split: prod.splits if_splits) (metis trim_idem)+
qed

lemma checked_records_wf:
  assumes "checked_records text = Inr keys"
  shows "keys \<noteq> [] \<and> (\<forall>r \<in> set keys. key_wf r)"
proof -
  from assms obtain out records where v: "validate_authorized_keys text = Inr out"
    and r: "map_res key_record_of (lines_of out) = Inr records" and c: "map_res check_record records = Inr keys"
    by (auto simp: checked_records_def parse_authorized_key_records_def)
  from v obtain ks where ks: "ks = filter (\<lambda>l. \<not> key_comment l) (map trim (lines_of text))" "\<forall>k \<in> set ks. key_start k" "ks \<noteq> []"
    "out = join [NL] ks @ [NL]" by (auto simp: validate_keys_Inr)
  have ls: "lines_of out = ks" "map trim ks = ks" using validated_lines [OF ks(1,3)] ks(4) by auto
  have len: "length records = length ks" "length keys = length ks"
    using r c ls(1) list_all2_lengthD unfolding map_res_Inr by metis+
  have "key_wf (keys ! n)" if n: "n < length keys" for n
  proof -
    have "key_record_of (ks ! n) = Inr (records ! n)" "check_record (records ! n) = Inr (keys ! n)"
      using r c ls(1) n len by (auto simp: map_res_Inr list_all2_conv_all_nth)
    moreover have "key_start (ks ! n)" "trim (ks ! n) = ks ! n"
      using ks(2) ls(2) n len nth_mem [of n ks] by (auto, metis nth_map)
    ultimately show ?thesis using checked_key by metis
  qed
  then show ?thesis using len ks(3) by (auto simp: in_set_conv_nth)
qed

lemma lines_of_unended:
  assumes "ks \<noteq> []" and "\<forall>k \<in> set ks. NL \<notin> set k \<and> strip_cr k = k \<and> k \<noteq> []"
  shows "lines_of (join [NL] ks) = ks"
proof -
  have "split_on NL (join [NL] ks) = ks" using assms by (intro split_on_joined) auto
  moreover have "map strip_cr (butlast ks) = butlast ks" using assms(2) by (intro map_idI) (auto dest: in_set_butlastD)
  ultimately show ?thesis using assms last_in_set [OF assms(1)] by (auto simp: lines_of_def Let_def)
qed

lemma checked_records_lines:
  assumes "keys \<noteq> []" and "\<forall>r \<in> set keys. key_wf r" and "lines_of text = map key_line keys"
  shows "checked_records text = Inr keys"
proof -
  let ?ks = "map key_line keys"
  have k: "\<forall>k \<in> set ?ks. NL \<notin> set k \<and> strip_cr k = k \<and> key_start k \<and> trim k = k"
    using assms(2) key_wf_line strip_cr_trim by (metis (no_types, lifting) imageE list.set_map)
  then have "filter (\<lambda>l. \<not> key_comment l) (map trim ?ks) = ?ks"
    using key_start_not_comment by (auto simp: map_idI filter_id_conv)
  then have "validate_authorized_keys text = Inr (join [NL] ?ks @ [NL])"
    using assms k by (auto simp: validate_keys_Inr)
  moreover have "lines_of (join [NL] ?ks @ [NL]) = ?ks" using k assms(1) by (intro lines_of_join) auto
  moreover have "map_res key_record_of ?ks = Inr keys" "map_res check_record keys = Inr keys"
    using assms(2) key_wf_line by (auto simp: map_res_Inr list_all2_map1 list_all2_same)
  ultimately show ?thesis by (simp add: checked_records_def parse_authorized_key_records_def)
qed

lemma written_keys_read:
  assumes "keys \<noteq> []" and "\<forall>r \<in> set keys. key_wf r"
  shows "checked_records (join [NL] (map key_line keys)) = Inr keys"
    and "utf8_lossy (join [NL] (map key_line keys) @ [NL]) = join [NL] (map key_line keys) @ [NL] \<Longrightarrow>
      sshkeys_records vmid (quote_sshkeys (join [NL] (map key_line keys) @ [NL])) = Inr keys"
proof -
  let ?ks = "map key_line keys"
  have k: "\<forall>k \<in> set ?ks. NL \<notin> set k \<and> strip_cr k = k \<and> k \<noteq> [] \<and> key_start k \<and> trim k = k"
    using assms(2) key_wf_line strip_cr_trim key_start_not_comment unfolding key_comment_def
    by (metis (no_types, lifting) imageE list.set_map)
  show "checked_records (join [NL] ?ks) = Inr keys"
    using k assms(1) by (intro checked_records_lines [OF assms] lines_of_unended) auto
  assume u: "utf8_lossy (join [NL] ?ks @ [NL]) = join [NL] ?ks @ [NL]"
  have l: "lines_of (join [NL] ?ks @ [NL]) = ?ks" using k assms(1) by (intro lines_of_join) auto
  have "\<not> list_all key_comment (map trim ?ks)"
    using k assms(1) key_start_not_comment by (cases keys) auto
  then show "sshkeys_records vmid (quote_sshkeys (join [NL] ?ks @ [NL])) = Inr keys"
    using checked_records_lines [OF assms l] u l quote_sshkeys_roundtrip by (simp add: sshkeys_records_def Let_def map_err_def)
qed

lemma sshkeys_wf: "sshkeys_records vmid current = Inr keys \<Longrightarrow> \<forall>r \<in> set keys. key_wf r"
  using checked_records_wf by (auto simp: sshkeys_records_def Let_def map_err_def split: if_splits sum.splits)

lemma read_key_wf:
  assumes "read_public_key text = Inr k"
  shows "key_wf \<lparr>key_type = pk_type k, key_blob = pk_blob k, key_comment_text = pk_comment k, key_label = pk_comment k,
    key_identity = pk_type k @ '' '' @ pk_blob k\<rparr>"
proof -
  from assms obtain r where r: "checked_records text = Inr [r]" "key_comment_text r \<noteq> []"
    "k = \<lparr>pk_type = key_type r, pk_blob = key_blob r, pk_comment = key_comment_text r, pk_line = key_line r\<rparr>"
  proof -
    from assms obtain rs where rs: "checked_records text = Inr rs"
      "(case rs of [r] \<Rightarrow>
          if key_comment_text r = [] then Inl no_comment
          else Inr \<lparr>pk_type = key_type r, pk_blob = key_blob r, pk_comment = key_comment_text r, pk_line = key_line r\<rparr>
        | _ \<Rightarrow> Inl (Invalid (''The public key must be exactly one key, found '' @ dec (length rs)))) = Inr k"
      unfolding read_public_key_def by (cases "checked_records text") auto
    then show ?thesis using that by (cases rs rule: remdups_adj.cases) (auto split: if_splits)
  qed
  have "key_wf r" using checked_records_wf [OF r(1)] by simp
  then show ?thesis using r(2,3) by (simp add: key_wf_def)
qed


definition sample_old :: key_record where
  "sample_old = \<lparr>key_type = ''ssh-rsa'', key_blob = ''BBBB'', key_comment_text = [], key_label = ''ssh-rsa BBBB'', key_identity = ''ssh-rsa BBBB''\<rparr>"

definition sample_new :: key_record where
  "sample_new = \<lparr>key_type = ''ssh-ed25519'', key_blob = ''AAAA'', key_comment_text = ''new key'', key_label = ''new key'',
     key_identity = ''ssh-ed25519 AAAA''\<rparr>"


section \<open>What the operation sends\<close>

lemma only_done_loop:
  assumes "\<And>p q a. P (Get p q, a)"
  shows "only P (done_loop S node vmid deadline)"
  unfolding only_R
proof
  fix s
  show "R_only P s (snd (done_loop S node vmid deadline s))"
  proof (induction S node vmid deadline s rule: done_loop.induct)
    case (1 S node vmid deadline s)
    obtain r s1 where a: "read_text S node vmid ''/run/cloud-init/result.json'' s = (r, s1)" by fastforce
    have "only P (read_text S node vmid ''/run/cloud-init/result.json'')"
      unfolding read_text_def by (intro only_intro) (simp add: file_read_request_def assms)
    then have r1: "R_only P s s1" using R_only_run a by blast
    obtain u s2 where z: "sleep S ADDKEY_CLOUD_INIT_POLL s1 = (u, s2)" by fastforce
    have r2: "R_only P s s2" using R_only_trans [OF r1 R_only_run [OF only_sleep z]] .
    have "R_only P s (snd (done_loop S node vmid deadline s2))" if "r = Inr None" "\<not> deadline \<le> clock s1"
      using R_only_trans [OF r2] 1 [OF a [symmetric] that(1) HOL.refl that(2)] z by simp
    then show ?case using a r1 z by (simp add: done_loop.simps [of S _ _ _ s] split: sum.splits option.splits)
  qed
qed

lemma only_verify_keys [only_intro]:
  assumes "\<And>p q a. P (Get p q, a)"
  shows "only P (verify_keys S node vmid user keys)"
  unfolding verify_keys_def missing_keys_def read_text_def Let_def
  by (intro only_intro) (simp_all add: file_read_request_def assms)

lemma only_checked_restart [only_intro]:
  assumes "\<And>p q a. P (Get p q, a)" and "\<And>a. P (Post (agent (ai_node i) (ai_vmid i) ''ping'') [], a)"
  shows "only P (checked_restart S pj i)"
  unfolding checked_restart_def wait_cloud_init_done_def
  by (intro only_intro only_dep [where g = "\<lambda>s. done_loop S (ai_node i) (ai_vmid i) (clock s + ADDKEY_CLOUD_INIT_TIMEOUT)"] only_done_loop)
    (simp_all add: assms)

lemma only_agent_keys [only_intro]:
  assumes "\<And>p q a. P (Get p q, a)" and "\<And>a. P (Post (agent (ai_node i) (ai_vmid i) ''ping'') [], a)"
    and "\<And>a. P (Post (agent (ai_node i) (ai_vmid i) ''exec'') (exec_form (ensure_keys_script (ai_keys i) (ai_user i)) None), a)"
  shows "only P (agent_keys S i)"
  unfolding agent_keys_def by (intro only_intro only_qga_ping) (simp_all add: assms)

lemma only_cycle_vm [only_intro]:
  assumes "\<And>p q a. P (Get p q, a)" and "\<And>a. P (Post (qemu_path (ai_node i) (ai_vmid i) ''/status/start'') [], a)"
    and "\<And>a. P (Post (qemu_path (ai_node i) (ai_vmid i) ''/status/shutdown'') [(''timeout'', dec SHUTDOWN_TIMEOUT_SECS)], a)"
  shows "only P (cycle_vm S i timing)"
  unfolding cycle_vm_def by (intro only_intro) (simp_all add: assms)

lemma only_addkey_current [only_intro]:
  assumes "\<And>p q a. P (Get p q, a)"
  shows "only P (addkey_current S cfg pool plan i)"
  unfolding addkey_current_def by (intro only_intro) (simp_all add: assms vms_request_def)

lemma only_configure_keys [only_intro]:
  assumes "\<And>p q a. P (Get p q, a)"
    and "\<And>a. P (Post (qemu_path (ai_node i) (ai_vmid i) ''/config'') (keys_form cfg i (ew_config info)), a)"
  shows "only P (configure_keys S cfg i info timing)"
  unfolding configure_keys_def by (intro only_intro) (simp_all add: assms vm_config_request_def)

definition addkey_request_ok :: "config \<Rightarrow> addkey_inputs \<Rightarrow> request \<Rightarrow> bool" where
  "addkey_request_ok cfg i rq \<longleftrightarrow> is_get rq \<or>
     (\<exists>c. rq = Post (qemu_path (ai_node i) (ai_vmid i) ''/config'') (keys_form cfg i c) \<and> \<not> (ai_present i \<and> ai_keep_snippet i)) \<or>
     (ai_status i = ''running'' \<and>
       (rq = Post (agent (ai_node i) (ai_vmid i) ''ping'') [] \<or>
        rq = Post (agent (ai_node i) (ai_vmid i) ''exec'') (exec_form (ensure_keys_script (ai_keys i) (ai_user i)) None) \<or>
        (ai_restart i \<and>
          (rq = Post (qemu_path (ai_node i) (ai_vmid i) ''/status/shutdown'') [(''timeout'', dec SHUTDOWN_TIMEOUT_SECS)] \<or>
           rq = Post (qemu_path (ai_node i) (ai_vmid i) ''/status/start'') []))))"

lemma addkey_current_status:
  "addkey_current S cfg pool plan i s = (Inr info, s') \<Longrightarrow> ew_status info = ai_status i"
  by (auto simp: addkey_current_def bindE_Inr unlessE_run returnE_run liftE_run split: if_splits)

lemma plan_addkey_reads: "list_all is_get (requests (plan_addkey S cfg pool rq) s)"
  unfolding plan_addkey_def by (rule only_requests, intro only_intro) (simp_all add: vms_request_def)

text \<open>
  C24. Adding a key does nothing else: whatever Proxmox answers, every request of the operation is a read,
  the change of the SSH keys and the vendor snippet of the planned VM (only when the plan calls for one), or, on a
  VM the plan saw running, a ping of its guest agent, the script that appends the planned keys, and, only
  when a restart was asked for, the graceful shutdown and the start of that VM.
\<close>

theorem addkey_only_adds:
  assumes "addkey_read plan = Inr i"
  shows "list_all (addkey_request_ok cfg i) (requests (add_key S pj cfg pool plan timing) s)"
proof (rule only_requests)
  have g: "addkey_request_ok cfg i (Get p q)" for p q by (simp add: addkey_request_ok_def)
  show "only (\<lambda>c. addkey_request_ok cfg i (fst c)) (add_key S pj cfg pool plan timing)"
    unfolding add_key_def
  proof (rule only_bind_known [OF only_lift])
    fix j s s'
    assume "liftE (addkey_read plan) s = (Inr j, s')"
    then have j: "j = i" using assms by (simp add: liftE_run returnE_run)
    show "only (\<lambda>c. addkey_request_ok cfg i (fst c))
      (bindE (addkey_current S cfg pool plan j) (\<lambda>info.
       bindE (if \<not> ai_present j \<or> \<not> ai_keep_snippet j
              then stepE ''Cloud-Init keys'' (configure_keys S cfg j info timing) else returnE ()) (\<lambda>_.
       addkey_finish S pj plan j (ew_status info = ''running'') timing)))"
      unfolding j addkey_finish_def addkey_agent_def addkey_restart_def Let_def
      by (rule only_bind_known, (intro only_intro; simp add: g), drule addkey_current_status,
          intro only_intro; simp add: g; auto simp: addkey_request_ok_def)
  qed
qed

section \<open>What a verified result rests on\<close>

definition file_holds :: "'w ext \<Rightarrow> string \<Rightarrow> nat \<Rightarrow> string \<Rightarrow> key_record list \<Rightarrow> (request \<times> answer) list \<Rightarrow> bool" where
  "file_holds S node vmid file keys h \<longleftrightarrow>
     (\<exists>answer b. (file_read_request node vmid file 0 FILE_LIMIT, Inr answer) \<in> set h \<and>
        b64_decode S (text_of (jget answer ''content'')) = Some b \<and>
        (\<forall>r \<in> set keys. key_identity r \<in> installed_key_identities (utf8_lossy b)))"

lemma file_holds_append: "file_holds S node vmid file keys h \<Longrightarrow> file_holds S node vmid file keys (h @ t)"
  by (auto simp: file_holds_def)

lemma missing_keys_none:
  assumes "missing_keys S node vmid file keys s = (Inr [], s')" and "keys \<noteq> []"
  shows "file_holds S node vmid file keys (trace s')"
proof -
  from assms(1) obtain b where r: "read_file S node vmid file 0 FILE_LIMIT s = (Inr b, s')"
    and k: "\<forall>r \<in> set keys. key_identity r \<in> installed_key_identities (or_empty (map_option utf8_lossy b))"
    by (auto simp: missing_keys_def read_text_def Let_def bindE_Inr returnE_run filter_empty_conv)
  have "installed_key_identities [] = {}" by (simp add: installed_key_identities_def lines_of_def)
  then have "b \<noteq> None" using k assms(2) by (cases keys; cases b) (auto simp: or_empty_def)
  with r obtain x answer where "b = Some x" "api S (file_read_request node vmid file 0 FILE_LIMIT) s = (Inr answer, s')"
      "b64_decode S (text_of (jget answer ''content'')) = Some x"
    by (auto simp: read_file_def bindE_Inr tryE_run liftE_run returnE_run throwE_run split: sum.splits if_splits option.splits)
      (metis prod.collapse)
  then show ?thesis using k api_trace [of S] unfolding file_holds_def or_empty_def
    by (fastforce simp: map_err_Inr)
qed

lemma verify_keys_holds:
  assumes "verify_keys S node vmid user keys s = (Inr u, s')" and "keys \<noteq> []"
  shows "file_holds S node vmid root_keys_file keys (trace s') \<and> file_holds S node vmid (user_keys_file user) keys (trace s')"
proof -
  from assms(1) obtain s1 where a: "missing_keys S node vmid root_keys_file keys s = (Inr [], s1)"
    and b: "missing_keys S node vmid (user_keys_file user) keys s1 = (Inr [], s')"
    by (auto simp: verify_keys_def Let_def bindE_Inr unlessE_run split: if_splits)
  have "only (\<lambda>_. True) (missing_keys S node vmid (user_keys_file user) keys)"
    unfolding missing_keys_def Let_def by (intro only_intro) simp
  from only_extends_trace [OF this b] obtain t where "trace s' = trace s1 @ t" ..
  then show ?thesis using missing_keys_none [OF a assms(2)] missing_keys_none [OF b assms(2)] file_holds_append by auto
qed

text \<open>
  C25. A result that says the keys are verified is right: both \<^verbatim>\<open>authorized_keys\<close> files, root's and the user's,
  were read from the guest of the planned VM and every planned key was among the keys installed there.
\<close>

theorem addkey_verified:
  assumes "addkey_read plan = Inr i" and "add_key S pj cfg pool plan timing s = (Inr v, s')"
    and "jget v ''verified'' = Some (JBool True)"
  shows "file_holds S (ai_node i) (ai_vmid i) root_keys_file (ai_keys i) (trace s') \<and>
    file_holds S (ai_node i) (ai_vmid i) (user_keys_file (ai_user i)) (ai_keys i) (trace s')"
proof -
  let ?H = "\<lambda>h. file_holds S (ai_node i) (ai_vmid i) root_keys_file (ai_keys i) h \<and>
    file_holds S (ai_node i) (ai_vmid i) (user_keys_file (ai_user i)) (ai_keys i) h"
  have ne: "ai_keys i \<noteq> []"
    using assms(1) checked_records_wf by (auto simp: addkey_read_def map_err_def split: sum.splits)
  from assms(1,2) obtain b s2 where f: "addkey_finish S pj plan i b timing s2 = (Inr v, s')"
    unfolding add_key_def by (auto simp: bindE_Inr liftE_run returnE_run)
  then obtain s3 nt verified verified' where v: "v = addkey_result plan i b (b \<and> ai_restart i) verified' nt"
    and a: "addkey_agent S i b s2 = (Inr (nt, verified), s3)"
    and b: "addkey_restart S pj i (b \<and> ai_restart i) verified timing s3 = (Inr verified', s')"
    unfolding addkey_finish_def by (auto simp: bindE_Inr returnE_run Let_def)
  have v': verified' using assms(3) by (cases nt) (simp_all add: v addkey_result_def jget_jobj)
  show ?thesis
  proof (cases "b \<and> ai_restart i")
    case True
    with b obtain s4 where "stepE ''Verify keys after the restart'' (checked_restart S pj i) s4 = (Inr (), s')"
      by (auto simp: addkey_restart_def bindE_Inr returnE_run)
    then obtain s5 s6 where c: "checked_restart S pj i s5 = (Inr (), s6)" "trace s' = trace s6" by (rule stepE_run)
    then obtain s7 where "verify_keys S (ai_node i) (ai_vmid i) (ai_user i) (ai_keys i) s7 = (Inr (), s6)"
      by (auto simp: checked_restart_def bindE_Inr)
    from verify_keys_holds [OF this ne] c(2) show ?thesis by simp
  next
    case False
    with b v' have s': "s' = s3" "verified" by (auto simp: addkey_restart_def returnE_run)
    with a have "stepE ''Add keys through the guest agent'' (agent_keys S i) s2 = (Inr None, s3)"
      by (auto simp: addkey_agent_def bindE_Inr returnE_run split: if_splits)
    then obtain s5 s6 where c: "agent_keys S i s5 = (Inr None, s6)" "trace s3 = trace s6" by (rule stepE_run)
    then obtain s7 where "verify_keys S (ai_node i) (ai_vmid i) (ai_user i) (ai_keys i) s7 = (Inr (), s6)"
      by (auto simp: agent_keys_def bindE_Inr returnE_run split: if_splits)
    from verify_keys_holds [OF this ne] c(2) s'(1) show ?thesis by simp
  qed
qed

section \<open>A whole run\<close>

definition key_plan :: json where
  "key_plan = jobj [(''vmid'', JInt 101), (''node'', JStr ''pve1''), (''status'', JStr ''running''), (''user'', JStr ''ann''),
     (''keys'', JArr [JStr sample_key]), (''key_already_in_sshkeys'', JBool True), (''keep_snippet'', JBool True),
     (''original_cicustom'', JStr []), (''original_sshkeys'', JStr [])]"

definition key_inputs :: addkey_inputs where
  "key_inputs = \<lparr>ai_vmid = 101, ai_node = ''pve1'', ai_status = ''running'', ai_user = ''ann'', ai_keys = [sample_new],
     ai_present = True, ai_keep_snippet = True, ai_restart = False\<rparr>"

lemma key_verify: "gives () (verify_keys key_vm ''pve1'' 101 ''ann'' [sample_new]) () ()"
proof -
  have p: "agent ''pve1'' 101 ''file-read'' = ''/nodes/pve1/qemu/101/agent/file-read''"
    and a: "json_norm (key_answer ''/nodes/pve1/qemu/101/agent/file-read'') = JObj [(''content'', JStr sample_key)]" by code_simp+
  have u: "utf8_lossy sample_key = sample_key" "key_identity sample_new \<in> installed_key_identities sample_key" by code_simp+
  have r: "gives () (read_file key_vm ''pve1'' 101 f 0 FILE_LIMIT) (Some sample_key) ()" for f
    unfolding read_file_def file_read_request_def p
    by (rule gives_bind [OF gives_try [OF key_read [OF a]]]) (simp add: text_of_def machine_def gives_return)
  have "gives () (missing_keys key_vm ''pve1'' 101 f [sample_new]) [] ()" for f
    unfolding missing_keys_def read_text_def
    by (rule gives_bind [OF gives_bind [OF r gives_return]]) (simp add: u or_empty_def gives_return)
  then show ?thesis unfolding verify_keys_def
    by (rule gives_bind) (rule gives_bind, fact, simp add: gives_unless)
qed

lemma key_agent: "gives () (agent_keys key_vm key_inputs) None ()"
proof -
  let ?v = "JObj [(''exitcode'', JInt 0), (''exited'', JInt 1)]"
  have post: "gives () (api key_vm (Post p q)) ?v ()" for p q
    by (rule gives_eval [OF gives_api]) (simp, code_simp)
  have ping: "gives () (qga_ping key_vm ''pve1'' 101) () ()"
    unfolding gives_def by (simp add: qga_ping_def bindE_def within_time_def api_def machine_def QGA_PING_TIMEOUT_def returnE_run map_err_def answer_norm_def)
  have e: "exec_finish 101 ''pve1'' cmd True ?v = Inr \<lparr>exited = True, exitcode = 0, out_data = [], err_data = []\<rparr>" for cmd
    by (simp add: exec_finish_def text_of_def)
  have x: "gives () (guest_exec key_vm ''pve1'' 101 cmd True t) \<lparr>exited = True, exitcode = 0, out_data = [], err_data = []\<rparr> ()" for cmd t
    unfolding guest_exec_def guest_exec_with_input_def
    by (rule gives_now, rule gives_bind [OF gives_map_err [OF post]]) (simp add: e gives_return)
  show ?thesis
    unfolding agent_keys_def key_inputs_def addkey_inputs.simps
    by (rule gives_bind [OF gives_try [OF ping]], simp, rule gives_bind [OF x], rule gives_bind [OF key_verify], rule gives_return)
qed

lemma key_plan_read: "addkey_read key_plan = Inr key_inputs"
  by code_simp

lemma key_run:
  "gives () (add_key key_vm pj sample_config ''hs'' key_plan sample_timing) (addkey_result key_plan key_inputs True False True None) ()"
proof -
  obtain w where w: "gives () (resolve_existing_workspace key_vm sample_config 101) w ()" "ew_node w = ''pve1''"
    "ew_status w = ''running''" "ew_config w = sample_cfg" using key_existing by blast
  have t: "plan_text key_plan ''original_cicustom'' = Inr []" "plan_text key_plan ''original_sshkeys'' = Inr []"
    "cfg_text sample_cfg ''cicustom'' = []" "cfg_text sample_cfg ''sshkeys'' = []" by code_simp+
  have i: "ai_vmid key_inputs = 101" "ai_node key_inputs = ''pve1''" "ai_status key_inputs = ''running''"
    "ai_present key_inputs" "ai_keep_snippet key_inputs" "\<not> ai_restart key_inputs" by (simp_all add: key_inputs_def)
  have c: "gives () (addkey_current key_vm sample_config ''hs'' key_plan key_inputs) w ()"
    unfolding addkey_current_def i t
    by (rule gives_bind [OF w(1)], rule gives_bind [OF key_pool], rule gives_bind [OF gives_unless [OF w(2)]],
        rule gives_bind [OF gives_unless [OF w(3)]], rule gives_bind [OF gives_lift [OF refl]],
        rule gives_bind [OF gives_unless], simp add: w t, rule gives_bind [OF gives_lift [OF refl]],
        rule gives_bind [OF gives_unless], simp add: w t, rule gives_return)
  have f: "gives () (addkey_finish key_vm pj key_plan key_inputs True sample_timing)
      (addkey_result key_plan key_inputs True False True None) ()"
    unfolding addkey_finish_def addkey_agent_def addkey_restart_def Let_def
    by (simp add: i, rule gives_bind [OF gives_bind [OF gives_step [OF key_agent] gives_return]]) (simp add: gives_return)
  show ?thesis
    unfolding add_key_def
    by (rule gives_bind [OF gives_lift [OF key_plan_read]], rule gives_bind [OF c]) (simp add: i w f)
qed

theorem addkey_only_adds_witness:
  "list_all (addkey_request_ok sample_config key_inputs)
     (requests (add_key key_vm (\<lambda>_. None) sample_config ''hs'' key_plan sample_timing) (start_state ())) \<and>
   \<not> addkey_request_ok sample_config key_inputs (Delete ''/nodes/pve1/qemu/101'' []) \<and>
   \<not> addkey_request_ok sample_config key_inputs (Post (qemu_path ''pve1'' 101 ''/status/shutdown'') [])"
proof (intro conjI addkey_only_adds [OF key_plan_read])
  have "agent ''pve1'' 101 ''ping'' \<noteq> qemu_path ''pve1'' 101 ''/status/shutdown''"
    "agent ''pve1'' 101 ''exec'' \<noteq> qemu_path ''pve1'' 101 ''/status/shutdown''" by code_simp+
  then show "\<not> addkey_request_ok sample_config key_inputs (Post (qemu_path ''pve1'' 101 ''/status/shutdown'') [])"
    by (auto simp: addkey_request_ok_def key_inputs_def)
qed (simp add: addkey_request_ok_def)

theorem addkey_verified_witness:
  "let h = trace (snd (add_key key_vm (\<lambda>_. None) sample_config ''hs'' key_plan sample_timing (start_state ())))
   in file_holds key_vm ''pve1'' 101 root_keys_file [sample_new] h \<and>
      file_holds key_vm ''pve1'' 101 (user_keys_file ''ann'') [sample_new] h"
proof -
  obtain s' where r: "add_key key_vm (\<lambda>_. None) sample_config ''hs'' key_plan sample_timing (start_state ()) =
      (Inr (addkey_result key_plan key_inputs True False True None), s')"
    using gives_run [OF key_run, of "start_state ()"] by auto
  have v: "jget (addkey_result key_plan key_inputs True False True None) ''verified'' = Some (JBool True)"
    by (simp add: addkey_result_def jget_jobj)
  from addkey_verified [OF key_plan_read r v] show ?thesis by (simp add: key_inputs_def r)
qed

end
