(* ===== verification/Resize.thy ===== *)
theory Resize
  imports Verify History Sample_Running
begin

text \<open>
  Growing the root or home disk of a workspace (\<^verbatim>\<open>hs-core/src/resize.rs\<close>): planning, the LUKS access, the
  resize in Proxmox and the steps in the guest. The inspection of the guest (\<^verbatim>\<open>resize_guest.rs\<close>) is an
  argument \<open>look\<close> of planning, so are the \<^verbatim>\<open>serde\<close> forms of its result (\<open>enc_layout\<close>, \<open>dec_layout\<close>) and the text of a
  fractional size (\<open>show_f64\<close>). Sizes in GiB are exact rationals.
\<close>

section \<open>Data\<close>

datatype role = RoleRoot | RoleHome

fun role_str :: "role \<Rightarrow> string" where
  "role_str RoleRoot = ''root''"
| "role_str RoleHome = ''home''"

datatype crypt_auth = AuthKeyfile | AuthPassphrase

record crypt_layer =
  cl_name :: string
  cl_device :: string
  cl_key_file :: "string option"
  cl_auth :: crypt_auth

record lvm_layer =
  lv_path :: string
  pv_path :: string
  lv_size_bytes :: nat
  extent_size_bytes :: nat
  vg_name :: string

record guest_layout =
  gl_device :: string
  gl_parent :: string
  gl_partition :: "nat option"
  gl_size_bytes :: nat
  gl_partition_device :: "string option"
  gl_crypt :: "crypt_layer option"
  gl_lvm :: "lvm_layer option"
  gl_filesystem :: string
  gl_mount :: string
  gl_btrfs_devid :: "nat option"

text \<open>The numbers of a layout are within the widths declared in the code.\<close>

definition layout_fits :: "guest_layout \<Rightarrow> bool" where
  "layout_fits g \<longleftrightarrow> gl_size_bytes g < u64_bound \<and> pred_option (\<lambda>n. n < u32_bound) (gl_partition g) \<and>
     pred_option (\<lambda>n. n < u64_bound) (gl_btrfs_devid g) \<and>
     pred_option (\<lambda>l. lv_size_bytes l < u64_bound \<and> extent_size_bytes l < u64_bound) (gl_lvm g)"

datatype inspect_error = InspectGuest string | InspectCore core_error

record resize_request =
  zr_vmid :: nat
  zr_root_size :: "string option"
  zr_home_size :: "string option"

definition LUKS_PASSPHRASE :: string where "LUKS_PASSPHRASE = ''luks_passphrase''"
definition RESIZE_TIMEOUT :: nat where "RESIZE_TIMEOUT = 300000"
definition DISK_SIZE_READS :: nat where "DISK_SIZE_READS = 15"

definition format_g :: "(rat \<Rightarrow> string) \<Rightarrow> rat \<Rightarrow> string" where
  "format_g show_f64 x = (if of_int \<lfloor>x\<rfloor> = x \<and> \<bar>x\<bar> < 10 ^ 15 then dec_int \<lfloor>x\<rfloor> else show_f64 x)"

definition mount_of :: "config \<Rightarrow> role \<Rightarrow> string" where
  "mount_of cfg r = (case r of RoleRoot \<Rightarrow> ''/'' | RoleHome \<Rightarrow> ''/home/'' @ user_name (cfg_user cfg))"

section \<open>Planning\<close>

definition inspect_guest ::
  "(string \<Rightarrow> nat \<Rightarrow> string \<Rightarrow> role \<Rightarrow> string \<Rightarrow> ('w, inspect_error + guest_layout) op) \<Rightarrow> config \<Rightarrow> string \<Rightarrow> nat \<Rightarrow> role \<Rightarrow> string \<Rightarrow>
     ('w, guest_layout) op" where
  "inspect_guest look cfg node vmid r label =
     bindE (look node vmid (mount_of cfg r) r label) (\<lambda>res.
       case res of
         Inr layout \<Rightarrow> returnE layout
       | Inl e \<Rightarrow>
           (case e of
              InspectGuest reason \<Rightarrow>
                throwE (Failed (''Cannot inspect '' @ role_str r @ '' disk in VM '' @ dec vmid @ '': '' @ trim reason))
            | InspectCore err \<Rightarrow> throwE err))"

definition data_disk_key :: "string \<Rightarrow> bool" where
  "data_disk_key key \<longleftrightarrow>
     (\<exists>bus \<in> set [''scsi'', ''virtio'', ''sata'', ''ide''].
        case strip_prefix key bus of None \<Rightarrow> False | Some number \<Rightarrow> number \<noteq> [] \<and> list_all is_digit number)"

definition data_disks :: "vm_cfg \<Rightarrow> string set" where
  "data_disks c =
     set (map fst (filter (\<lambda>(k, v). data_disk_key k \<and> \<not> contains v ''media=cdrom'' \<and> \<not> contains v ''cloudinit'') c))"

definition require_growth_space :: "'w ext \<Rightarrow> string \<Rightarrow> string \<Rightarrow> rat \<Rightarrow> rat \<Rightarrow> ('w, json) op" where
  "require_growth_space S node volume current target =
     (let growth = gib_bytes target - gib_bytes current
      in if growth = 0 then returnE JNull
         else
           bindE (liftE (ok_or (case split_once volume '':'' of
                                  None \<Rightarrow> None | Some (st, _) \<Rightarrow> if st = [] then None else Some st)
             (Refused (''Cannot determine the storage of volume '' @ volume)))) (\<lambda>st.
           require_space S node st growth))"

definition locked_or_gold :: "vm_cfg \<Rightarrow> bool" where
  "locked_or_gold c \<longleftrightarrow> cfg_text c ''lock'' \<noteq> [] \<or> bt_get c ''template'' = Some ''1'' \<or> has_tag (bt_get c ''tags'') GOLD_TAG"

definition layout_secrets :: "guest_layout \<Rightarrow> string list" where
  "layout_secrets g =
     (case gl_crypt g of Some l \<Rightarrow> if cl_auth l = AuthPassphrase then [LUKS_PASSPHRASE] else [] | None \<Rightarrow> [])"

definition resize_plan ::
  "(guest_layout \<Rightarrow> json) \<Rightarrow> string \<Rightarrow> nat \<Rightarrow> role \<Rightarrow> existing_workspace \<Rightarrow> string \<Rightarrow> string \<Rightarrow> rat \<Rightarrow> string \<Rightarrow> rat \<Rightarrow>
     guest_layout \<Rightarrow> json \<Rightarrow> json" where
  "resize_plan enc_layout pool vmid r info disk volume current sz target g cap =
     jobj [(''command'', JStr ''resize''), (''vmid'', jnat vmid), (''name'', JStr (ew_name info)), (''node'', JStr (ew_node info)),
       (''pool'', JStr pool), (''role'', JStr (role_str r)), (''disk'', JStr disk), (''volume'', JStr volume),
       (''current_size_gib'', JFloat current), (''size'', JStr sz), (''target_size_gib'', JFloat target),
       (''guest'', enc_layout g), (''secrets_required'', JArr (map JStr (layout_secrets g))), (''capacity'', cap)]"

definition resize_checked ::
  "(rat \<Rightarrow> string) \<Rightarrow> config \<Rightarrow> role \<Rightarrow> existing_workspace \<Rightarrow> string \<Rightarrow> rat \<Rightarrow> core_error + string \<times> rat" where
  "resize_checked show_f64 cfg r info sz target =
     (let c = ew_config info; disk = (case r of RoleRoot \<Rightarrow> root_disk cfg | RoleHome \<Rightarrow> home_disk cfg)
      in
      bindR (require (ew_status info = ''running'') (Refused ''Resize requires a running VM with a working QEMU Guest Agent'')) (\<lambda>_.
      bindR (require (\<not> locked_or_gold c) (Refused ''Cannot resize a locked VM or Gold/template VM'')) (\<lambda>_.
      bindR (require (data_disks c = {root_disk cfg, home_disk cfg})
        (Refused ''Resize requires exactly the configured root and home data disks'')) (\<lambda>_.
      bindR (ok_or (parse_disk_size_gb (cfg_text c disk)) (Unusable (''Cannot determine current disk size for '' @ disk))) (\<lambda>current.
      bindR (require (current \<le> target) (Refused (''Shrinking is not supported: '' @ disk @ '' is '' @ format_g show_f64 current @
        ''G, requested '' @ sz))) (\<lambda>_.
      Inr (disk, current)))))))"

definition plan_resize_sized ::
  "'w ext \<Rightarrow> (string \<Rightarrow> nat \<Rightarrow> string \<Rightarrow> role \<Rightarrow> string \<Rightarrow> ('w, inspect_error + guest_layout) op) \<Rightarrow> (guest_layout \<Rightarrow> json) \<Rightarrow>
     (rat \<Rightarrow> string) \<Rightarrow> config \<Rightarrow> string \<Rightarrow> nat \<Rightarrow> role \<Rightarrow> string \<Rightarrow> nat \<Rightarrow> ('w, json) op" where
  "plan_resize_sized S look enc_layout show_f64 cfg pool vmid r sz mib =
     (let target = of_nat mib / 1024 in
     bindE (require_pool S vmid pool) (\<lambda>_.
     bindE (resolve_existing_workspace S cfg vmid) (\<lambda>info.
     bindE (liftE (resize_checked show_f64 cfg r info sz target)) (\<lambda>(disk, current).
     let volume = disk_volume (cfg_text (ew_config info) disk) in
     bindE (require_growth_space S (ew_node info) volume current target) (\<lambda>cap.
     bindE (inspect_guest look cfg (ew_node info) vmid r (ew_home_label info)) (\<lambda>g.
     bindE (unlessE (gl_size_bytes g = gib_bytes current)
       (Refused ''Guest disk size does not match Proxmox; wait for the guest to detect the disk size'')) (\<lambda>_.
     returnE (resize_plan enc_layout pool vmid r info disk volume current sz target g cap))))))))"

text \<open>\<open>None\<close> when the size makes \<open>parse_home_size\<close> panic.\<close>

definition plan_resize ::
  "'w ext \<Rightarrow> (string \<Rightarrow> nat \<Rightarrow> string \<Rightarrow> role \<Rightarrow> string \<Rightarrow> ('w, inspect_error + guest_layout) op) \<Rightarrow> (guest_layout \<Rightarrow> json) \<Rightarrow>
     (rat \<Rightarrow> string) \<Rightarrow> config \<Rightarrow> string \<Rightarrow> resize_request \<Rightarrow> ('w, json option) op" where
  "plan_resize S look enc_layout show_f64 cfg pool rq =
     bindE (liftE (case (zr_root_size rq, zr_home_size rq) of
                     (Some sz, None) \<Rightarrow> Inr (RoleRoot, sz)
                   | (None, Some sz) \<Rightarrow> Inr (RoleHome, sz)
                   | _ \<Rightarrow> Inl (Invalid ''Specify exactly one of root_size or home_size''))) (\<lambda>(r, requested).
     case parse_home_size requested of
       None \<Rightarrow> returnE None
     | Some parsed \<Rightarrow>
         bindE (liftE parsed) (\<lambda>(sz, mib).
         bindE (plan_resize_sized S look enc_layout show_f64 cfg pool (zr_vmid rq) r sz mib) (\<lambda>plan. returnE (Some plan))))"

section \<open>The LUKS layer\<close>

datatype crypt_key = KeyFile string | KeyPassphrase string

record crypt =
  cr_layer :: crypt_layer
  cr_key :: crypt_key

definition crypt_command :: "crypt \<Rightarrow> string list \<Rightarrow> string" where
  "crypt_command c action =
     shell_join ([''cryptsetup'', ''--batch-mode'', ''--key-file'', (case cr_key c of KeyFile f \<Rightarrow> f | KeyPassphrase _ \<Rightarrow> ''-'')] @ action)"

definition crypt_input :: "crypt \<Rightarrow> string option" where
  "crypt_input c = (case cr_key c of KeyFile _ \<Rightarrow> None | KeyPassphrase p \<Rightarrow> Some p)"

definition key_file_failed :: string where
  "key_file_failed = ''LUKS authentication or resize failed; verify the configured key file in the VM''"

definition crypt_run :: "'w ext \<Rightarrow> crypt \<Rightarrow> string \<Rightarrow> nat \<Rightarrow> string list \<Rightarrow> string \<Rightarrow> ('w, unit) op" where
  "crypt_run S c node vmid action withheld =
     bindE (guest_exec_with_input S node vmid (crypt_command c action) (crypt_input c) False GUEST_EXEC_TIMEOUT) (\<lambda>r.
     unlessE (exited r \<and> exitcode r = 0) (Failed (case cr_key c of KeyFile _ \<Rightarrow> key_file_failed | KeyPassphrase _ \<Rightarrow> withheld)))"

definition test_action :: "crypt \<Rightarrow> string list" where
  "test_action c = [''open'', ''--type'', ''luks'', ''--test-passphrase'', cl_device (cr_layer c)]"

definition crypt_test :: "'w ext \<Rightarrow> crypt \<Rightarrow> string \<Rightarrow> nat \<Rightarrow> ('w, unit) op" where
  "crypt_test S c node vmid =
     crypt_run S c node vmid (test_action c) ''LUKS passphrase verification failed; no disk changes made''"

definition crypt_grow :: "'w ext \<Rightarrow> crypt \<Rightarrow> string \<Rightarrow> nat \<Rightarrow> ('w, unit) op" where
  "crypt_grow S c node vmid =
     crypt_run S c node vmid [''resize'', cl_name (cr_layer c)] ''LUKS resize failed; guest command output withheld''"

definition crypt_access :: "crypt_layer \<Rightarrow> string option \<Rightarrow> core_error + crypt" where
  "crypt_access layer passphrase =
     (case cl_auth layer of
        AuthKeyfile \<Rightarrow>
          bindR (ok_or (cl_key_file layer) (Invalid (''The plan'' @ [APOS] @ ''s LUKS layer has no key file''))) (\<lambda>f.
          Inr \<lparr>cr_layer = layer, cr_key = KeyFile f\<rparr>)
      | AuthPassphrase \<Rightarrow>
          (case passphrase of
             None \<Rightarrow> Inl (Refused (''LUKS requires a passphrase. Apply the plan with secrets.'' @ LUKS_PASSPHRASE @ ''; no disk changes made''))
           | Some p \<Rightarrow>
               if p = [] then Inl (Refused ''Empty LUKS passphrase; no disk changes made'')
               else Inr \<lparr>cr_layer = layer, cr_key = KeyPassphrase p\<rparr>))"

section \<open>The operation\<close>

record resize_inputs =
  rz_vmid :: nat
  rz_node :: string
  rz_disk :: string
  rz_volume :: string
  rz_size :: string
  rz_role :: string
  rz_current :: rat
  rz_target :: rat
  rz_guest :: guest_layout

definition plan_float :: "json \<Rightarrow> string \<Rightarrow> core_error + rat" where
  "plan_float plan key = ok_or (Option.bind (jget plan key) as_f64) (Invalid (''The plan has no '' @ key))"

definition resize_read :: "(json \<Rightarrow> guest_layout option) \<Rightarrow> json \<Rightarrow> core_error + resize_inputs" where
  "resize_read dec_layout plan =
     bindR (vmid_of plan) (\<lambda>vmid.
     bindR (plan_text plan ''node'') (\<lambda>node.
     bindR (plan_text plan ''disk'') (\<lambda>disk.
     bindR (plan_text plan ''volume'') (\<lambda>volume.
     bindR (plan_text plan ''size'') (\<lambda>sz.
     bindR (plan_text plan ''role'') (\<lambda>r.
     bindR (plan_float plan ''current_size_gib'') (\<lambda>current.
     bindR (plan_float plan ''target_size_gib'') (\<lambda>target.
     bindR (ok_or (dec_layout (jidx plan ''guest'')) (Invalid ''The plan has no guest inspection'')) (\<lambda>g.
     Inr \<lparr>rz_vmid = vmid, rz_node = node, rz_disk = disk, rz_volume = volume, rz_size = sz, rz_role = r, rz_current = current,
       rz_target = target, rz_guest = g\<rparr>)))))))))"

definition disk_is :: "resize_inputs \<Rightarrow> rat \<Rightarrow> vm_cfg \<Rightarrow> bool" where
  "disk_is i gib c \<longleftrightarrow> disk_volume (cfg_text c (rz_disk i)) = rz_volume i \<and> parse_disk_size_gb (cfg_text c (rz_disk i)) = Some gib"

definition resize_current :: "'w ext \<Rightarrow> resize_inputs \<Rightarrow> ('w, string) op" where
  "resize_current S i =
     bindE (vm_config S (rz_node i) (rz_vmid i)) (\<lambda>c.
     bindE (unlessE (disk_volume (cfg_text c (rz_disk i)) = rz_volume i)
       (Refused ''Workspace volume changed after resize confirmation; generate a new plan'')) (\<lambda>_.
     bindE (unlessE (parse_disk_size_gb (cfg_text c (rz_disk i)) = Some (rz_current i))
       (Refused ''Workspace current_size_gib changed after resize confirmation; generate a new plan'')) (\<lambda>_.
     bindE (unlessE (cfg_text c ''digest'' \<noteq> []) (Failed ''Missing Proxmox configuration digest; cannot safely resize'')) (\<lambda>_.
     returnE (cfg_text c ''digest'')))))"

definition resize_put :: "resize_inputs \<Rightarrow> string \<Rightarrow> request" where
  "resize_put i dg =
     Put (qemu_path (rz_node i) (rz_vmid i) ''/resize'') [(''disk'', rz_disk i), (''size'', rz_size i), (''digest'', dg)]"

definition grow_disk :: "'w ext \<Rightarrow> resize_inputs \<Rightarrow> string \<Rightarrow> timing \<Rightarrow> ('w, unit) op" where
  "grow_disk S i dg timing =
     retry_while_locked S (tm_poll timing)
       (bindE (api S (resize_put i dg)) (\<lambda>answer.
        case as_str answer of
          None \<Rightarrow> returnE ()
        | Some u \<Rightarrow>
            bindE (wait_task S u \<lparr>poll = tm_poll timing, timeout = RESIZE_TIMEOUT\<rparr>) (\<lambda>r.
            unlessE (task_ok r) (Failed (''Disk resize failed: '' @ exitstatus r)))))"

definition guest_command :: "'w ext \<Rightarrow> string \<Rightarrow> nat \<Rightarrow> string list \<Rightarrow> ('w, string) op" where
  "guest_command S node vmid words = guest_out S node vmid (shell_join words) True GUEST_EXEC_TIMEOUT"

text \<open>\<open>left\<close> reads of the size of the disk in the guest are left.\<close>

fun size_loop :: "'w ext \<Rightarrow> resize_inputs \<Rightarrow> nat \<Rightarrow> nat \<Rightarrow> ('w, unit) op" where
  "size_loop S i pl 0 = throwE (Failed ''Guest has not detected the enlarged disk'')"
| "size_loop S i pl (Suc left) =
     bindE (guest_command S (rz_node i) (rz_vmid i) [''blockdev'', ''--getsize64'', gl_parent (rz_guest i)]) (\<lambda>out.
     bindE (liftE (ok_or (parse_uint u64_bound (trim out))
       (Failed (''blockdev printed '' @ debug_str out @ '' for '' @ gl_parent (rz_guest i))))) (\<lambda>seen.
     if gib_bytes (rz_target i) \<le> seen then returnE ()
     else if left = 0 then throwE (Failed ''Guest has not detected the enlarged disk'')
     else bindE (sleep S pl) (\<lambda>_. size_loop S i pl left)))"

definition grow_partition :: "'w ext \<Rightarrow> resize_inputs \<Rightarrow> ('w, unit) op" where
  "grow_partition S i =
     (case gl_partition (rz_guest i) of
        None \<Rightarrow> returnE ()
      | Some n \<Rightarrow>
          let command = shell_join [''growpart'', gl_parent (rz_guest i), dec n] in
          bindE (guest_exec S (rz_node i) (rz_vmid i) command False GUEST_EXEC_TIMEOUT) (\<lambda>r.
          let output = out_data r @ err_data r in
          unlessE (exitcode r = 0 \<or> (exitcode r = 1 \<and> starts_with output ''NOCHANGE:''))
            (Failed (''Guest command failed in '' @ vm_context (rz_vmid i) (rz_node i) @ '' (exit='' @ dec_int (exitcode r) @ ''): '' @
              command @ [NL] @ trim output))))"

definition grow_lvm :: "'w ext \<Rightarrow> resize_inputs \<Rightarrow> ('w, unit) op" where
  "grow_lvm S i =
     (case gl_lvm (rz_guest i) of
        None \<Rightarrow> returnE ()
      | Some l \<Rightarrow>
          bindE (guest_command S (rz_node i) (rz_vmid i) [''pvresize'', pv_path l]) (\<lambda>_.
          bindE (guest_command S (rz_node i) (rz_vmid i) [''vgs'', ''--noheadings'', ''-o'', ''vg_free_count'', vg_name l]) (\<lambda>free.
          if (case parse_i64 (trim free) of None \<Rightarrow> False | Some n \<Rightarrow> 0 < n)
          then bindE (guest_command S (rz_node i) (rz_vmid i) [''lvextend'', ''--extents'', ''+100%FREE'', lv_path l]) (\<lambda>_. returnE ())
          else returnE ())))"

definition grow_filesystem :: "'w ext \<Rightarrow> resize_inputs \<Rightarrow> ('w, unit) op" where
  "grow_filesystem S i =
     (if gl_filesystem (rz_guest i) = ''btrfs'' then
        bindE (liftE (ok_or (gl_btrfs_devid (rz_guest i)) (Invalid (''The plan'' @ [APOS] @ ''s btrfs layer has no device id'')))) (\<lambda>devid.
        bindE (guest_command S (rz_node i) (rz_vmid i)
          [''btrfs'', ''filesystem'', ''resize'', dec devid @ '':max'', gl_mount (rz_guest i)]) (\<lambda>_. returnE ()))
      else bindE (guest_command S (rz_node i) (rz_vmid i) [''resize2fs'', gl_device (rz_guest i)]) (\<lambda>_. returnE ()))"

definition grow_layers :: "'w ext \<Rightarrow> resize_inputs \<Rightarrow> crypt option \<Rightarrow> timing \<Rightarrow> ('w, unit) op" where
  "grow_layers S i c timing =
     bindE (size_loop S i (tm_poll timing) DISK_SIZE_READS) (\<lambda>_.
     bindE (grow_partition S i) (\<lambda>_.
     bindE (case c of None \<Rightarrow> returnE () | Some k \<Rightarrow> crypt_grow S k (rz_node i) (rz_vmid i)) (\<lambda>_.
     bindE (grow_lvm S i) (\<lambda>_.
     grow_filesystem S i))))"

definition grow_guest :: "'w ext \<Rightarrow> resize_inputs \<Rightarrow> crypt option \<Rightarrow> timing \<Rightarrow> ('w, unit) op" where
  "grow_guest S i c timing =
     bindE (vm_config S (rz_node i) (rz_vmid i)) (\<lambda>conf.
     bindE (unlessE (disk_is i (rz_target i) conf) (Failed ''Proxmox disk size or identity verification failed'')) (\<lambda>_.
     grow_layers S i c timing))"

definition incomplete_growth :: "resize_inputs \<Rightarrow> core_error \<Rightarrow> core_error" where
  "incomplete_growth i e =
     Context (''Disk growth may already be applied; filesystem growth is incomplete. Re-run resize '' @ dec (rz_vmid i) @ '' --'' @
       rz_role i @ ''-size '' @ rz_size i @ '' to finish. '' @ error_text e) [e]"

definition resize_grow :: "'w ext \<Rightarrow> resize_inputs \<Rightarrow> string \<Rightarrow> timing \<Rightarrow> ('w, unit) op" where
  "resize_grow S i dg timing =
     (if rz_current i < rz_target i then
        stepE ''Grow the disk in Proxmox''
          (bindE (require_growth_space S (rz_node i) (rz_volume i) (rz_current i) (rz_target i)) (\<lambda>_.
           grow_disk S i dg timing))
      else returnE ())"

definition resize_workspace ::
  "'w ext \<Rightarrow> (json \<Rightarrow> guest_layout option) \<Rightarrow> json \<Rightarrow> string option \<Rightarrow> timing \<Rightarrow> ('w, json) op" where
  "resize_workspace S dec_layout plan passphrase timing =
     bindE (liftE (resize_read dec_layout plan)) (\<lambda>i.
     bindE (resize_current S i) (\<lambda>dg.
     bindE (liftE (case gl_crypt (rz_guest i) of
                     None \<Rightarrow> Inr None | Some l \<Rightarrow> bindR (crypt_access l passphrase) (\<lambda>c. Inr (Some c)))) (\<lambda>c.
     bindE (case c of
              None \<Rightarrow> returnE ()
            | Some k \<Rightarrow> stepE ''Check the LUKS key in the guest'' (crypt_test S k (rz_node i) (rz_vmid i))) (\<lambda>_.
     bindE (resize_grow S i dg timing) (\<lambda>_.
     bindE (map_errE (incomplete_growth i)
       (stepE ''Grow the partition and filesystem in the guest'' (grow_guest S i c timing))) (\<lambda>_.
     returnE (plan_result plan
       [(''ok'', JBool True), (''status'', JStr ''resized''), (''event'', JStr ''workspace.resized'')])))))))"

section \<open>What a resize may do\<close>

definition seen_disk :: "'w ext \<Rightarrow> resize_inputs \<Rightarrow> rat \<Rightarrow> (vm_cfg \<Rightarrow> bool) \<Rightarrow> (request \<times> answer) list \<Rightarrow> bool" where
  "seen_disk S i gib Q h \<longleftrightarrow>
     told (vm_config_request (rz_node i) (rz_vmid i))
       (\<lambda>v. \<exists>m. v = JObj m \<and> disk_is i gib (config_of (print_json S) m) \<and> Q (config_of (print_json S) m)) h"

definition resize_ok :: "'w ext \<Rightarrow> resize_inputs \<Rightarrow> (request \<times> answer) list \<Rightarrow> request \<Rightarrow> bool" where
  "resize_ok S i h rq \<longleftrightarrow> is_get rq \<or>
     (\<exists>k. rq = Post (agent (rz_node i) (rz_vmid i) ''exec'') (exec_form (crypt_command k (test_action k)) (crypt_input k))) \<or>
     (\<exists>dg. rq = resize_put i dg \<and> rz_current i < rz_target i \<and> seen_disk S i (rz_current i) (\<lambda>c. cfg_text c ''digest'' = dg) h) \<or>
     (\<exists>command input. rq = Post (agent (rz_node i) (rz_vmid i) ''exec'') (exec_form command input) \<and>
        seen_disk S i (rz_target i) (\<lambda>_. True) h)"

abbreviation resize_rule :: "'w ext \<Rightarrow> resize_inputs \<Rightarrow> (request \<times> answer) list \<Rightarrow> request \<times> answer \<Rightarrow> bool" where
  "resize_rule S i \<equiv> \<lambda>h c. resize_ok S i h (fst c)"

lemma seen_disk_grows [simp]: "grows (seen_disk S i gib Q)"
  unfolding seen_disk_def by simp

lemma resize_ok_get [simp]: "is_get rq \<Longrightarrow> resize_ok S i h rq"
  by (simp add: resize_ok_def)

lemma vm_config_seen:
  assumes "vm_config S (rz_node i) (rz_vmid i) s = (Inr c, s')" and "disk_is i gib c" and "Q c"
  shows "seen_disk S i gib Q (trace s')"
proof -
  from assms(1) obtain m where m: "api S (vm_config_request (rz_node i) (rz_vmid i)) s = (Inr (JObj m), s')" "c = config_of (print_json S) m"
    by (auto simp: vm_config_Inr)
  show ?thesis unfolding seen_disk_def by (rule api_told [OF m(1)]) (use assms(2,3) m(2) in simp)
qed

lemma only_resize_current: "only (\<lambda>c. is_get (fst c)) (resize_current S i)"
  unfolding resize_current_def by (intro only_intro) (simp add: vm_config_request_def)

lemma resize_current_seen:
  "resize_current S i s = (Inr dg, s') \<Longrightarrow> seen_disk S i (rz_current i) (\<lambda>c. cfg_text c ''digest'' = dg) (trace s')"
  by (auto simp: resize_current_def bindE_Inr unlessE_run returnE_run disk_is_def intro!: vm_config_seen split: if_splits)

lemma only_growth_space: "only (\<lambda>c. is_get (fst c)) (require_growth_space S node volume current target)"
  unfolding require_growth_space_def require_space_def Let_def
  by (intro only_intro) (simp_all add: storage_status_request_def)

lemma follows_grow_disk:
  assumes "rz_current i < rz_target i"
  shows "follows (resize_rule S i) (seen_disk S i (rz_current i) (\<lambda>c. cfg_text c ''digest'' = dg)) (grow_disk S i dg timing) (\<lambda>_ _. True)"
proof -
  let ?I = "seen_disk S i (rz_current i) (\<lambda>c. cfg_text c ''digest'' = dg)"
  have "follows (resize_rule S i) ?I (grow_disk S i dg timing) (\<lambda>_. ?I)"
    unfolding grow_disk_def
  proof (rule follows_retry [OF follows_posted])
    show "resize_rule S i h (resize_put i dg, a)" if "?I h" for h a using that assms by (auto simp: resize_ok_def)
  qed (auto intro!: only_intro)
  then show ?thesis by (rule follows_post) simp
qed

lemma follows_resize_grow:
  "follows (resize_rule S i) (seen_disk S i (rz_current i) (\<lambda>c. cfg_text c ''digest'' = dg)) (resize_grow S i dg timing) (\<lambda>_ _. True)"
  unfolding resize_grow_def
  by (rule follows_if, rule follows_step, rule follows_bind [OF follows_only [OF only_growth_space]])
    (auto intro: follows_grow_disk follows_return)

lemma only_guest_command [only_intro]:
  assumes "\<And>p q a. P (Get p q, a)" and "\<And>command input a. P (Post (agent node vmid ''exec'') (exec_form command input), a)"
  shows "only P (guest_command S node vmid words)" "only P (crypt_run S c node vmid action m)"
  unfolding guest_command_def guest_out_def crypt_run_def by (intro only_intro; simp add: assms)+

lemma only_grow_layers:
  assumes "\<And>p q a. P (Get p q, a)" and "\<And>command input a. P (Post (agent (rz_node i) (rz_vmid i) ''exec'') (exec_form command input), a)"
  shows "only P (grow_layers S i c timing)"
proof -
  have "only P (size_loop S i pl n)" for pl n
    by (induction n) (simp_all only: size_loop.simps, (intro only_intro; simp add: assms)+)
  then show ?thesis
    unfolding grow_layers_def grow_partition_def grow_lvm_def grow_filesystem_def crypt_grow_def Let_def
    by (intro only_intro; simp add: assms)
qed

lemma follows_grow_guest:
  "follows (resize_rule S i) (\<lambda>_. True) (grow_guest S i c timing) (\<lambda>_. seen_disk S i (rz_target i) (\<lambda>_. True))"
proof -
  let ?J = "seen_disk S i (rz_target i) (\<lambda>_. True)"
  let ?P = "\<lambda>c :: request \<times> answer. is_get (fst c) \<or> (\<exists>command input. fst c = Post (agent (rz_node i) (rz_vmid i) ''exec'') (exec_form command input))"
  have layers: "follows (resize_rule S i) ?J (grow_layers S i c timing) (\<lambda>_. ?J)"
  proof (rule follows_kept [where P = ?P])
    show "only ?P (grow_layers S i c timing)" by (rule only_grow_layers) auto
    show "?J (h @ [x])" if "?J h" for h x using that seen_disk_grows unfolding grows_def by blast
  qed (auto simp: resize_ok_def)
  have "follows (resize_rule S i) (\<lambda>_. True) (vm_config S (rz_node i) (rz_vmid i))
      (\<lambda>conf h. True \<and> (disk_is i (rz_target i) conf \<longrightarrow> ?J h))"
    by (rule follows_only_post [where P = "\<lambda>c. is_get (fst c)"])
      (auto intro!: only_intro vm_config_seen simp: vm_config_request_def)
  then show ?thesis unfolding grow_guest_def
    by (rule follows_bind) (rule follows_bind_unless, rule follows_pre [OF layers], simp)
qed

lemma follows_resize:
  assumes "resize_read dec_layout plan = Inr i"
  shows "follows (resize_rule S i) (\<lambda>_. True) (resize_workspace S dec_layout plan passphrase timing)
    (\<lambda>_. seen_disk S i (rz_target i) (\<lambda>_. True))"
proof -
  let ?J = "seen_disk S i (rz_target i) (\<lambda>_. True)"
  let ?D = "\<lambda>dg. seen_disk S i (rz_current i) (\<lambda>c. cfg_text c ''digest'' = dg)"
  have cur: "follows (resize_rule S i) (\<lambda>_. True) (resize_current S i) (\<lambda>dg h. True \<and> ?D dg h)"
    by (rule follows_only_post [OF only_resize_current]) (auto intro: resize_current_seen)
  have luks: "follows (resize_rule S i) (?D dg) (case c of None \<Rightarrow> returnE ()
      | Some k \<Rightarrow> stepE ''Check the LUKS key in the guest'' (crypt_test S k (rz_node i) (rz_vmid i))) (\<lambda>_. ?D dg)" for dg c
  proof (cases c)
    case (Some k)
    let ?P = "\<lambda>c :: request \<times> answer. is_get (fst c) \<or>
      fst c = Post (agent (rz_node i) (rz_vmid i) ''exec'') (exec_form (crypt_command k (test_action k)) (crypt_input k))"
    have "only ?P (stepE ''Check the LUKS key in the guest'' (crypt_test S k (rz_node i) (rz_vmid i)))"
      unfolding crypt_test_def crypt_run_def by (intro only_intro) auto
    then have "follows (resize_rule S i) (?D dg) (stepE ''Check the LUKS key in the guest'' (crypt_test S k (rz_node i) (rz_vmid i))) (\<lambda>_. ?D dg)"
      by (rule follows_only) (auto simp: resize_ok_def)
    then show ?thesis using Some by simp
  qed (simp add: follows_return)
  have guest: "follows (resize_rule S i) (\<lambda>_. True) (map_errE (incomplete_growth i)
      (stepE ''Grow the partition and filesystem in the guest'' (grow_guest S i c timing))) (\<lambda>_. ?J)" for c
    by (rule follows_map_err, rule follows_step, rule follows_grow_guest)
  show ?thesis
    unfolding resize_workspace_def assms
    by (rule follows_bind_lift, simp, rule follows_bind [OF cur], rule follows_bind_lift,
        rule follows_bind, rule follows_pre [OF luks], simp, rule follows_bind [OF follows_resize_grow],
        rule follows_bind [OF guest], rule follows_return)
qed

text \<open>
  C26. A resize only grows the planned disk: whatever Proxmox and the guest answer, the one request that
  changes the disk names the planned VM, disk and size, is sent only when the target is larger than the current
  size, and carries the digest of a configuration read before in which the disk was the planned volume at the
  planned current size; and commands in the guest other than the test of the LUKS key run only after
  the configuration showed that volume at the target size. A resize that succeeds has seen it at the target size.
\<close>

theorem resize_grows_only:
  assumes "resize_read dec_layout plan = Inr i"
  shows "controlled (\<lambda>h c. resize_ok S i h (fst c)) s (snd (resize_workspace S dec_layout plan passphrase timing s)) \<and>
    (is_ok (fst (resize_workspace S dec_layout plan passphrase timing s)) \<longrightarrow>
       seen_disk S i (rz_target i) (\<lambda>_. True) (trace (snd (resize_workspace S dec_layout plan passphrase timing s))))"
proof
  show "controlled (\<lambda>h c. resize_ok S i h (fst c)) s (snd (resize_workspace S dec_layout plan passphrase timing s))"
    by (rule follows_controlled [OF follows_resize [OF assms]])
  show "is_ok (fst (resize_workspace S dec_layout plan passphrase timing s)) \<longrightarrow>
       seen_disk S i (rz_target i) (\<lambda>_. True) (trace (snd (resize_workspace S dec_layout plan passphrase timing s)))"
    by (cases "resize_workspace S dec_layout plan passphrase timing s") (auto simp: is_ok_iff dest: follows_reached [OF follows_resize [OF assms]])
qed

lemma inspect_guest_Inr:
  assumes "inspect_guest look cfg node vmid r label s = (Inr g, s')"
  shows "look node vmid (mount_of cfg r) r label s = (Inr (Inr g), s')"
proof -
  from assms obtain res s1 where l: "look node vmid (mount_of cfg r) r label s = (Inr res, s1)"
    and k: "(case res of Inr layout \<Rightarrow> returnE layout | Inl e \<Rightarrow>
        (case e of InspectGuest reason \<Rightarrow>
             throwE (Failed (''Cannot inspect '' @ role_str r @ '' disk in VM '' @ dec vmid @ '': '' @ trim reason))
         | InspectCore err \<Rightarrow> throwE err)) s1 = (Inr g, s')"
    unfolding inspect_guest_def bindE_Inr by blast
  show ?thesis using l k
    by (cases res) (auto simp: returnE_run throwE_run split: inspect_error.splits)
qed

lemma resize_plan_read:
  assumes "dec_layout (enc_layout g) = Some g" and "vmid < u32_bound"
  shows "resize_read dec_layout (resize_plan enc_layout pool vmid r info disk volume current sz target g cap) =
    Inr \<lparr>rz_vmid = vmid, rz_node = ew_node info, rz_disk = disk, rz_volume = volume, rz_size = sz, rz_role = role_str r,
      rz_current = current, rz_target = target, rz_guest = g\<rparr>"
proof -
  have "vmid < 2 ^ 64" using assms(2) by (simp add: u32_bound_def)
  then show ?thesis using assms
    by (simp add: resize_read_def resize_plan_def vmid_of_def plan_number_def plan_text_def plan_float_def get_u64_def get_str_def
        jget_jobj jidx_def jnat_def)
qed

text \<open>
  C27. What a resize plans is what it executes, and never a smaller disk: a plan is read back by the execution
  as one for the requested VM, whose target is exactly the requested size in GiB and at least the current size
  of the root or home disk, and whose guest saw the disk at its current size. Of the encoding of the inspected
  layout only that a layout with numbers of the declared widths can be decoded is used.
\<close>

theorem resize_plan_grows:
  assumes "plan_resize S look enc_layout show_f64 cfg pool rq s = (Inr (Some plan), s')"
    and "\<forall>g. layout_fits g \<longrightarrow> dec_layout (enc_layout g) = Some g"
    and "\<forall>n v m r l s g s'. look n v m r l s = (Inr (Inr g), s') \<longrightarrow> layout_fits g" and "zr_vmid rq < u32_bound"
  shows "\<exists>i mib. resize_read dec_layout plan = Inr i \<and> rz_vmid i = zr_vmid rq \<and> rz_current i \<le> rz_target i \<and>
    rz_target i = of_nat mib / 1024 \<and> gl_size_bytes (rz_guest i) = gib_bytes (rz_current i) \<and>
    (if zr_home_size rq = None
     then rz_disk i = root_disk cfg \<and> parse_home_size (the (zr_root_size rq)) = Some (Inr (rz_size i, mib))
     else rz_disk i = home_disk cfg \<and> parse_home_size (the (zr_home_size rq)) = Some (Inr (rz_size i, mib)))"
proof -
  from assms(1) obtain r requested sz mib s1 where r: "(case (zr_root_size rq, zr_home_size rq) of
        (Some sz, None) \<Rightarrow> Inr (RoleRoot, sz) | (None, Some sz) \<Rightarrow> Inr (RoleHome, sz)
      | _ \<Rightarrow> Inl (Invalid ''Specify exactly one of root_size or home_size'')) = Inr (r, requested)"
    and p: "parse_home_size requested = Some (Inr (sz, mib))"
    and m: "plan_resize_sized S look enc_layout show_f64 cfg pool (zr_vmid rq) r sz mib s1 = (Inr plan, s')"
    by (auto simp: plan_resize_def bindE_Inr liftE_run returnE_run split: option.splits)
  let ?t = "of_nat mib / 1024 :: rat"
  from m obtain info disk current g cap where c: "resize_checked show_f64 cfg r info sz ?t = Inr (disk, current)"
    and g: "gl_size_bytes g = gib_bytes current" and f: "layout_fits g"
    and plan: "plan = resize_plan enc_layout pool (zr_vmid rq) r info disk (disk_volume (cfg_text (ew_config info) disk)) current sz ?t g cap"
    using assms(3) by (auto simp: plan_resize_sized_def Let_def bindE_Inr liftE_run unlessE_run returnE_run split: if_splits
        dest!: inspect_guest_Inr) metis
  note reread = resize_plan_read [of dec_layout enc_layout g, OF assms(2) [rule_format, OF f] assms(4)]
  have d: "disk = (case r of RoleRoot \<Rightarrow> root_disk cfg | RoleHome \<Rightarrow> home_disk cfg)" "current \<le> ?t"
    using c by (auto simp: resize_checked_def Let_def)
  have "zr_home_size rq = None \<and> r = RoleRoot \<and> zr_root_size rq = Some requested \<or>
      zr_home_size rq = Some requested \<and> r = RoleHome"
    using r by (auto split: option.splits)
  then show ?thesis
  proof
    assume "zr_home_size rq = None \<and> r = RoleRoot \<and> zr_root_size rq = Some requested"
    then show ?thesis using d g p by (simp add: plan reread)
  next
    assume "zr_home_size rq = Some requested \<and> r = RoleHome"
    then show ?thesis using d g p by (simp add: plan reread)
  qed
qed

section \<open>Witnesses\<close>

definition crypt_json :: "crypt_layer \<Rightarrow> json" where
  "crypt_json l = jobj [(''name'', JStr (cl_name l)), (''device'', JStr (cl_device l)), (''key_file'', jopt JStr (cl_key_file l)),
     (''auth'', JStr (case cl_auth l of AuthKeyfile \<Rightarrow> ''keyfile'' | AuthPassphrase \<Rightarrow> ''passphrase''))]"

definition lvm_json :: "lvm_layer \<Rightarrow> json" where
  "lvm_json l = jobj [(''lv_path'', JStr (lv_path l)), (''pv_path'', JStr (pv_path l)), (''lv_size_bytes'', jnat (lv_size_bytes l)),
     (''extent_size_bytes'', jnat (extent_size_bytes l)), (''vg_name'', JStr (vg_name l))]"

definition layout_json :: "guest_layout \<Rightarrow> json" where
  "layout_json g = jobj [(''device'', JStr (gl_device g)), (''parent'', JStr (gl_parent g)), (''partition'', jopt jnat (gl_partition g)),
     (''size_bytes'', jnat (gl_size_bytes g)), (''partition_device'', jopt JStr (gl_partition_device g)),
     (''crypt'', jopt crypt_json (gl_crypt g)), (''lvm'', jopt lvm_json (gl_lvm g)), (''filesystem'', JStr (gl_filesystem g)),
     (''mount'', JStr (gl_mount g)), (''btrfs_devid'', jopt jnat (gl_btrfs_devid g))]"

definition unopt :: "(json \<Rightarrow> 'a option) \<Rightarrow> json \<Rightarrow> 'a option option" where
  "unopt f v = (if v = JNull then Some None else map_option Some (f v))"

definition crypt_of :: "json \<Rightarrow> crypt_layer option" where
  "crypt_of v =
     Option.bind (get_str v ''name'') (\<lambda>n. Option.bind (get_str v ''device'') (\<lambda>d.
     Option.bind (unopt as_str (jidx v ''key_file'')) (\<lambda>k. Option.bind (get_str v ''auth'') (\<lambda>a.
     Some \<lparr>cl_name = n, cl_device = d, cl_key_file = k, cl_auth = (if a = ''keyfile'' then AuthKeyfile else AuthPassphrase)\<rparr>))))"

definition lvm_of :: "json \<Rightarrow> lvm_layer option" where
  "lvm_of v =
     Option.bind (get_str v ''lv_path'') (\<lambda>l. Option.bind (get_str v ''pv_path'') (\<lambda>p.
     Option.bind (get_u64 v ''lv_size_bytes'') (\<lambda>s. Option.bind (get_u64 v ''extent_size_bytes'') (\<lambda>e.
     Option.bind (get_str v ''vg_name'') (\<lambda>g.
     Some \<lparr>lv_path = l, pv_path = p, lv_size_bytes = s, extent_size_bytes = e, vg_name = g\<rparr>)))))"

definition layout_of :: "json \<Rightarrow> guest_layout option" where
  "layout_of v =
     Option.bind (get_str v ''device'') (\<lambda>d. Option.bind (get_str v ''parent'') (\<lambda>p.
     Option.bind (unopt as_u64 (jidx v ''partition'')) (\<lambda>n. Option.bind (get_u64 v ''size_bytes'') (\<lambda>s.
     Option.bind (unopt as_str (jidx v ''partition_device'')) (\<lambda>pd. Option.bind (unopt crypt_of (jidx v ''crypt'')) (\<lambda>c.
     Option.bind (unopt lvm_of (jidx v ''lvm'')) (\<lambda>l. Option.bind (get_str v ''filesystem'') (\<lambda>f.
     Option.bind (get_str v ''mount'') (\<lambda>m. Option.bind (unopt as_u64 (jidx v ''btrfs_devid'')) (\<lambda>b.
     Some \<lparr>gl_device = d, gl_parent = p, gl_partition = n, gl_size_bytes = s, gl_partition_device = pd, gl_crypt = c, gl_lvm = l,
       gl_filesystem = f, gl_mount = m, gl_btrfs_devid = b\<rparr>))))))))))"

lemma unopt_jopt: "(\<And>x. q = Some x \<Longrightarrow> f (e x) = Some x \<and> e x \<noteq> JNull) \<Longrightarrow> unopt f (jopt e q) = Some q"
  by (cases q) (auto simp: unopt_def jopt_def)

lemma layer_json_not_null [simp]: "crypt_json c \<noteq> JNull" "lvm_json l \<noteq> JNull"
  by (simp_all add: crypt_json_def lvm_json_def jobj_def)

lemma crypt_of_json [simp]: "crypt_of (crypt_json l) = Some l"
  by (cases "cl_auth l"; cases "cl_key_file l")
    (simp_all add: crypt_of_def crypt_json_def get_str_def jidx_def jget_jobj unopt_def jopt_def)

lemma lvm_of_json: "lv_size_bytes l < u64_bound \<Longrightarrow> extent_size_bytes l < u64_bound \<Longrightarrow> lvm_of (lvm_json l) = Some l"
  by (simp add: lvm_of_def lvm_json_def get_str_def get_u64_def jget_jobj jnat_def u64_bound_def)

lemma layout_of_json: "layout_fits g \<Longrightarrow> layout_of (layout_json g) = Some g"
proof -
  assume f: "layout_fits g"
  have "unopt as_u64 (jopt jnat (gl_partition g)) = Some (gl_partition g)"
    "unopt as_u64 (jopt jnat (gl_btrfs_devid g)) = Some (gl_btrfs_devid g)"
    "unopt as_str (jopt JStr (gl_partition_device g)) = Some (gl_partition_device g)"
    "unopt crypt_of (jopt crypt_json (gl_crypt g)) = Some (gl_crypt g)"
    "unopt lvm_of (jopt lvm_json (gl_lvm g)) = Some (gl_lvm g)"
    using f by (auto intro!: unopt_jopt lvm_of_json simp: layout_fits_def jnat_def u64_bound_def u32_bound_def)
  then show ?thesis using f
    by (simp add: layout_of_def layout_json_def get_str_def get_u64_def jidx_def jget_jobj layout_fits_def jnat_def u64_bound_def)
qed

definition sample_layout :: guest_layout where
  "sample_layout = \<lparr>gl_device = ''/dev/sda1'', gl_parent = ''/dev/sda'', gl_partition = Some 1, gl_size_bytes = 34359738368,
     gl_partition_device = Some ''/dev/sda1'', gl_crypt = None, gl_lvm = None, gl_filesystem = ''ext4'', gl_mount = ''/'',
     gl_btrfs_devid = None\<rparr>"

definition grown_inputs :: resize_inputs where
  "grown_inputs = \<lparr>rz_vmid = 101, rz_node = ''pve1'', rz_disk = ''scsi0'', rz_volume = ''fast:vm-101-disk-0'', rz_size = ''40G'',
     rz_role = ''root'', rz_current = 32, rz_target = 40, rz_guest = sample_layout\<rparr>"

definition grown_plan :: json where
  "grown_plan = jobj [(''vmid'', jnat 101), (''node'', JStr ''pve1''), (''disk'', JStr ''scsi0''), (''volume'', JStr ''fast:vm-101-disk-0''),
     (''size'', JStr ''40G''), (''role'', JStr ''root''), (''current_size_gib'', JFloat 32), (''target_size_gib'', JFloat 40),
     (''guest'', layout_json sample_layout)]"

lemma sample_layout_fits: "layout_fits sample_layout"
  by (simp add: layout_fits_def sample_layout_def u64_bound_def u32_bound_def)

lemma grown_plan_read: "resize_read layout_of grown_plan = Inr grown_inputs"
  using layout_of_json [OF sample_layout_fits]
  by (simp add: resize_read_def grown_plan_def grown_inputs_def vmid_of_def plan_number_def plan_text_def plan_float_def get_u64_def
      get_str_def jget_jobj jidx_def jnat_def u32_bound_def)

theorem resize_grows_only_witness:
  "controlled (\<lambda>h c. resize_ok key_vm grown_inputs h (fst c)) (start_state ())
     (snd (resize_workspace key_vm layout_of grown_plan None sample_timing (start_state ()))) \<and>
   \<not> resize_ok key_vm grown_inputs [] (resize_put grown_inputs ''d1'') \<and>
   \<not> resize_ok key_vm grown_inputs [] (Delete ''/nodes/pve1/qemu/101'' [])"
  using resize_grows_only [OF grown_plan_read, of key_vm "start_state ()" None sample_timing]
  by (simp add: resize_ok_def resize_put_def seen_disk_def told_def)

definition same_request :: resize_request where
  "same_request = \<lparr>zr_vmid = 101, zr_root_size = Some ''32G'', zr_home_size = None\<rparr>"

lemma same_plan: "\<exists>plan. gives () (plan_resize key_vm (\<lambda>_ _ _ _ _. returnE (Inr sample_layout)) layout_json (\<lambda>_. []) sample_config ''hs''
  same_request) (Some plan) ()"
proof -
  obtain w where w: "gives () (resolve_existing_workspace key_vm sample_config 101) w ()" "ew_node w = ''pve1''" "ew_status w = ''running''"
      "ew_config w = sample_cfg" using key_existing by blast
  have p: "parse_home_size ''32G'' = Some (Inr (''32G'', 32768))" by code_simp
  have c: "resize_checked (\<lambda>_. []) sample_config RoleRoot w ''32G'' 32 = Inr (''scsi0'', 32)"
  proof -
    have "\<not> locked_or_gold sample_cfg" "data_disks sample_cfg = {''scsi0'', ''scsi1''}"
      "parse_disk_size_gb (cfg_text sample_cfg ''scsi0'') = Some 32" by code_simp+
    then show ?thesis using w by (simp add: resize_checked_def sample_config_def)
  qed
  have z: "gl_size_bytes sample_layout = gib_bytes 32" by code_simp
  have "\<exists>plan. gives () (plan_resize_sized key_vm (\<lambda>_ _ _ _ _. returnE (Inr sample_layout)) layout_json (\<lambda>_. []) sample_config ''hs'' 101
    RoleRoot ''32G'' 32768) plan ()"
    unfolding plan_resize_sized_def Let_def inspect_guest_def require_growth_space_def
    by (intro exI, rule gives_bind [OF key_pool], rule gives_bind [OF w(1)], rule gives_bind [OF gives_lift], simp add: c,
        simp add: bindE_return, rule gives_bind [OF gives_unless], rule z, rule gives_return)
  then obtain plan where m: "gives () (plan_resize_sized key_vm (\<lambda>_ _ _ _ _. returnE (Inr sample_layout)) layout_json (\<lambda>_. [])
    sample_config ''hs'' 101 RoleRoot ''32G'' 32768) plan ()" ..
  have "gives () (plan_resize key_vm (\<lambda>_ _ _ _ _. returnE (Inr sample_layout)) layout_json (\<lambda>_. []) sample_config ''hs''
    same_request) (Some plan) ()"
    unfolding plan_resize_def same_request_def resize_request.simps option.case prod.case
    by (rule gives_bind [OF gives_lift [OF refl]], unfold prod.case p option.case,
        rule gives_bind [OF gives_lift [OF refl]], unfold prod.case, rule gives_bind [OF m], rule gives_return)
  then show ?thesis ..
qed

theorem resize_plan_grows_witness:
  "\<exists>plan s' i. plan_resize key_vm (\<lambda>_ _ _ _ _. returnE (Inr sample_layout)) layout_json (\<lambda>_. []) sample_config ''hs'' same_request
      (start_state ()) = (Inr (Some plan), s') \<and>
    resize_read layout_of plan = Inr i \<and> rz_disk i = ''scsi0'' \<and> rz_target i = 32"
proof -
  obtain plan s' where r: "plan_resize key_vm (\<lambda>_ _ _ _ _. returnE (Inr sample_layout)) layout_json (\<lambda>_. []) sample_config ''hs''
      same_request (start_state ()) = (Inr (Some plan), s')"
    using same_plan gives_run [of "()" _ _ "()" "start_state ()"] by fastforce
  have p: "parse_home_size ''32G'' = Some (Inr (''32G'', 32768))" by code_simp
  have "\<exists>i mib. resize_read layout_of plan = Inr i \<and> rz_vmid i = zr_vmid same_request \<and> rz_current i \<le> rz_target i \<and>
    rz_target i = of_nat mib / 1024 \<and> gl_size_bytes (rz_guest i) = gib_bytes (rz_current i) \<and>
    (if zr_home_size same_request = None
     then rz_disk i = root_disk sample_config \<and> parse_home_size (the (zr_root_size same_request)) = Some (Inr (rz_size i, mib))
     else rz_disk i = home_disk sample_config \<and> parse_home_size (the (zr_home_size same_request)) = Some (Inr (rz_size i, mib)))"
    using resize_plan_grows [OF r] layout_of_json sample_layout_fits by (simp add: returnE_run same_request_def u32_bound_def)
  then show ?thesis using r by (auto simp: same_request_def p sample_config_def)
qed

end
