(* ===== verification/Jobs.thy ===== *)
theory Jobs
  imports Pve
begin

text \<open>
  Plans, jobs and errors as the server keeps and reports them (\<^verbatim>\<open>hs-model/src/jobs.rs\<close>,
  \<^verbatim>\<open>hs-model/src/error.rs\<close>, \<^verbatim>\<open>hs-server/src/error.rs\<close>, and the events of
  \<^verbatim>\<open>hs-server/src/operations.rs\<close>). Times are texts, as the server prints them.
\<close>

section \<open>Data\<close>

record plan =
  pl_id :: string
  pl_operation :: string
  pl_digest :: string
  pl_created_at :: string
  pl_expires_at :: string
  pl_targets :: "nat list"
  pl_summary :: json

datatype job_state = Queued | JobRunning | Succeeded | JobFailed

fun job_finished :: "job_state \<Rightarrow> bool" where
  "job_finished Succeeded = True"
| "job_finished JobFailed = True"
| "job_finished Queued = False"
| "job_finished JobRunning = False"

datatype step_state = StepRunning | StepDone | StepFailed

record job_step =
  js_name :: string
  js_state :: step_state

datatype task_status = TaskRunning | TaskStopped

record job_task =
  jt_node :: string
  jt_upid :: string
  jt_kind :: string
  jt_vmid :: "nat option"
  jt_status :: task_status
  jt_exitstatus :: "string option"

record job_progress =
  jp_percent :: rat
  jp_detail :: string

record job_error =
  je_code :: string
  je_message :: string

record job =
  j_id :: string
  j_operation :: string
  j_plan_id :: string
  j_state :: job_state
  j_created_at :: string
  j_started_at :: "string option"
  j_finished_at :: "string option"
  j_steps :: "job_step list"
  j_tasks :: "job_task list"
  j_progress :: "job_progress option"
  j_log :: "string list"
  j_result :: "json option"
  j_error :: "job_error option"

section \<open>Errors\<close>

datatype error_code =
    EUnauthorized | ENotFound | EMethodNotAllowed | EValidationFailed | EPayloadTooLarge | EPreconditionRequired
  | EPreconditionFailed | EConfigInvalid | EConfigMissing | EConfigVersionMismatch | EPveUnavailable | EPveAuthFailed
  | EPveTokenMissing | EPvePermissionDenied | EPveNodeUnavailable | EPveError | EPlanChanged | EPlanApplied
  | ESecretRequired | EBusy | EOutsidePool | EOperationRefused | EInternal

text \<open>The codes as \<^verbatim>\<open>serde\<close> writes them (\<^verbatim>\<open>snake_case\<close>).\<close>

fun error_code_text :: "error_code \<Rightarrow> string" where
  "error_code_text EUnauthorized = ''unauthorized''"
| "error_code_text ENotFound = ''not_found''"
| "error_code_text EMethodNotAllowed = ''method_not_allowed''"
| "error_code_text EValidationFailed = ''validation_failed''"
| "error_code_text EPayloadTooLarge = ''payload_too_large''"
| "error_code_text EPreconditionRequired = ''precondition_required''"
| "error_code_text EPreconditionFailed = ''precondition_failed''"
| "error_code_text EConfigInvalid = ''config_invalid''"
| "error_code_text EConfigMissing = ''config_missing''"
| "error_code_text EConfigVersionMismatch = ''config_version_mismatch''"
| "error_code_text EPveUnavailable = ''pve_unavailable''"
| "error_code_text EPveAuthFailed = ''pve_auth_failed''"
| "error_code_text EPveTokenMissing = ''pve_token_missing''"
| "error_code_text EPvePermissionDenied = ''pve_permission_denied''"
| "error_code_text EPveNodeUnavailable = ''pve_node_unavailable''"
| "error_code_text EPveError = ''pve_error''"
| "error_code_text EPlanChanged = ''plan_changed''"
| "error_code_text EPlanApplied = ''plan_applied''"
| "error_code_text ESecretRequired = ''secret_required''"
| "error_code_text EBusy = ''busy''"
| "error_code_text EOutsidePool = ''outside_pool''"
| "error_code_text EOperationRefused = ''operation_refused''"
| "error_code_text EInternal = ''internal''"

fun http_status :: "error_code \<Rightarrow> nat" where
  "http_status EUnauthorized = 401"
| "http_status ENotFound = 404"
| "http_status EMethodNotAllowed = 405"
| "http_status EValidationFailed = 422"
| "http_status EConfigInvalid = 422"
| "http_status ESecretRequired = 422"
| "http_status EPayloadTooLarge = 413"
| "http_status EPreconditionRequired = 428"
| "http_status EPreconditionFailed = 412"
| "http_status EConfigMissing = 409"
| "http_status EConfigVersionMismatch = 409"
| "http_status EPlanChanged = 409"
| "http_status EPlanApplied = 409"
| "http_status EBusy = 409"
| "http_status EOutsidePool = 409"
| "http_status EOperationRefused = 409"
| "http_status EPveUnavailable = 503"
| "http_status EPveNodeUnavailable = 503"
| "http_status EPveTokenMissing = 503"
| "http_status EPveAuthFailed = 502"
| "http_status EPvePermissionDenied = 502"
| "http_status EPveError = 502"
| "http_status EInternal = 500"

definition retryable :: "error_code \<Rightarrow> bool" where
  "retryable c \<longleftrightarrow> c \<in> {EPveUnavailable, EPveNodeUnavailable, EBusy}"

fun public_pve_error :: "pve_error \<Rightarrow> error_code \<times> string" where
  "public_pve_error (Unreachable _) = (EPveUnavailable, ''No Proxmox API endpoint is reachable.'')"
| "public_pve_error Unauthorized = (EPveAuthFailed, ''Proxmox rejected the server'' @ [CHR 0x27] @ ''s API token.'')"
| "public_pve_error (Forbidden _) =
     (EPvePermissionDenied, ''The server'' @ [CHR 0x27] @ ''s Proxmox API token lacks a required privilege.'')"
| "public_pve_error (NodeUnreachable _) = (EPveNodeUnavailable, ''Proxmox could not reach the requested node.'')"
| "public_pve_error (Api _ _) = (EPveError, ''Proxmox returned an error or an unusable response.'')"
| "public_pve_error (Response _) = (EPveError, ''Proxmox returned an error or an unusable response.'')"
| "public_pve_error (PveConfig _) = (EInternal, ''The server is misconfigured.'')"

datatype op_failure =
    OpInvalid string
  | OpNotFound string
  | OpCore core_error

text \<open>What a job reports of a failure: a Proxmox cause keeps the public code and text only.\<close>

definition job_error_of :: "op_failure \<Rightarrow> job_error" where
  "job_error_of f =
     (case (case f of OpCore e \<Rightarrow> pve_error_of e | _ \<Rightarrow> None) of
        Some e \<Rightarrow> \<lparr>je_code = error_code_text (fst (public_pve_error e)), je_message = snd (public_pve_error e)\<rparr>
      | None \<Rightarrow>
          (case f of
             OpInvalid m \<Rightarrow> \<lparr>je_code = ''operation_failed'', je_message = m\<rparr>
           | OpNotFound m \<Rightarrow> \<lparr>je_code = ''operation_failed'', je_message = m\<rparr>
           | OpCore e \<Rightarrow>
               (case e of
                  OutsidePool _ \<Rightarrow> \<lparr>je_code = ''outside_pool'', je_message = error_text e\<rparr>
                | Busy _ \<Rightarrow> \<lparr>je_code = ''busy'', je_message = error_text e\<rparr>
                | _ \<Rightarrow> \<lparr>je_code = ''operation_failed'', je_message = error_text e\<rparr>)))"

record api_error =
  ae_code :: error_code
  ae_message :: string
  ae_field :: "string option"

definition api_error_of_pve :: "pve_error \<Rightarrow> api_error" where
  "api_error_of_pve e = \<lparr>ae_code = fst (public_pve_error e), ae_message = snd (public_pve_error e), ae_field = None\<rparr>"

definition plan_error :: "op_failure \<Rightarrow> api_error" where
  "plan_error f =
     (case (case f of OpCore e \<Rightarrow> pve_error_of e | _ \<Rightarrow> None) of
        Some e \<Rightarrow> api_error_of_pve e
      | None \<Rightarrow>
          (case f of
             OpInvalid m \<Rightarrow> \<lparr>ae_code = EValidationFailed, ae_message = m, ae_field = None\<rparr>
           | OpNotFound m \<Rightarrow> \<lparr>ae_code = ENotFound, ae_message = m, ae_field = None\<rparr>
           | OpCore e \<Rightarrow>
               (case e of
                  PveErr e \<Rightarrow> api_error_of_pve e
                | Invalid m \<Rightarrow> \<lparr>ae_code = EValidationFailed, ae_message = m, ae_field = None\<rparr>
                | NotFound m \<Rightarrow> \<lparr>ae_code = ENotFound, ae_message = m, ae_field = None\<rparr>
                | OutsidePool m \<Rightarrow> \<lparr>ae_code = EOutsidePool, ae_message = m, ae_field = None\<rparr>
                | Busy m \<Rightarrow> \<lparr>ae_code = EBusy, ae_message = m, ae_field = None\<rparr>
                | Refused m \<Rightarrow> \<lparr>ae_code = EOperationRefused, ae_message = m, ae_field = None\<rparr>
                | Failed m \<Rightarrow> \<lparr>ae_code = EOperationRefused, ae_message = m, ae_field = None\<rparr>
                | Context m _ \<Rightarrow> \<lparr>ae_code = EOperationRefused, ae_message = m, ae_field = None\<rparr>
                | _ \<Rightarrow> \<lparr>ae_code = EValidationFailed, ae_message = ''The operation cannot be planned in this state.'', ae_field = None\<rparr>)))"

section \<open>What a running operation reports\<close>

definition LOG_LINES :: nat where "LOG_LINES = 200"

fun update_first :: "('a \<Rightarrow> bool) \<Rightarrow> ('a \<Rightarrow> 'a) \<Rightarrow> 'a list \<Rightarrow> 'a list" where
  "update_first P f [] = []"
| "update_first P f (x # xs) = (if P x then f x # xs else x # update_first P f xs)"

definition update_last :: "('a \<Rightarrow> bool) \<Rightarrow> ('a \<Rightarrow> 'a) \<Rightarrow> 'a list \<Rightarrow> 'a list" where
  "update_last P f xs = rev (update_first P f (rev xs))"

fun apply_event :: "job \<Rightarrow> job_event \<Rightarrow> job" where
  "apply_event job (StepStarted name) = job\<lparr>j_steps := j_steps job @ [\<lparr>js_name = name, js_state = StepRunning\<rparr>]\<rparr>"
| "apply_event job (StepFinished name ok) =
     job\<lparr>j_steps := update_last (\<lambda>s. js_name s = name) (\<lambda>s. s\<lparr>js_state := if ok then StepDone else StepFailed\<rparr>) (j_steps job),
         j_progress := None\<rparr>"
| "apply_event job (TaskStarted node upid kind vmid) =
     job\<lparr>j_tasks := j_tasks job @ [\<lparr>jt_node = node, jt_upid = upid, jt_kind = kind, jt_vmid = vmid, jt_status = TaskRunning,
       jt_exitstatus = None\<rparr>]\<rparr>"
| "apply_event job (TaskLog upid lines) =
     (let log = j_log job @ lines in job\<lparr>j_log := drop (length log - LOG_LINES) log\<rparr>)"
| "apply_event job (TaskFinished upid exitstatus) =
     job\<lparr>j_tasks := update_first (\<lambda>t. jt_upid t = upid) (\<lambda>t. t\<lparr>jt_status := TaskStopped, jt_exitstatus := Some exitstatus\<rparr>)
       (j_tasks job)\<rparr>"
| "apply_event job (ProgressAt p d) = job\<lparr>j_progress := Some \<lparr>jp_percent = p, jp_detail = d\<rparr>\<rparr>"

section \<open>Properties\<close>

fun log_lines :: "job_event \<Rightarrow> string list" where
  "log_lines (TaskLog upid lines) = lines"
| "log_lines _ = []"

definition last_lines :: "nat \<Rightarrow> 'a list \<Rightarrow> 'a list" where
  "last_lines n xs = drop (length xs - n) xs"

lemma last_lines_append: "last_lines n (last_lines n xs @ ys) = last_lines n (xs @ ys)"
  by (cases "length xs \<le> n") (auto simp: last_lines_def add.commute)

lemma last_lines_short: "length xs \<le> n \<Longrightarrow> last_lines n xs = xs"
  by (simp add: last_lines_def)

lemma apply_event_log:
  "length (j_log job) \<le> LOG_LINES \<Longrightarrow> j_log (apply_event job e) = last_lines LOG_LINES (j_log job @ log_lines e)"
  by (cases e) (simp_all add: last_lines_short, simp add: last_lines_def Let_def)

lemma job_log_events:
  "length (j_log job) \<le> LOG_LINES \<Longrightarrow>
   j_log (fold (\<lambda>e job. apply_event job e) evs job) = last_lines LOG_LINES (j_log job @ concat (map log_lines evs))"
proof (induction evs arbitrary: job)
  case (Cons e evs)
  note l = apply_event_log [OF Cons.prems, of e]
  have "length (j_log (apply_event job e)) \<le> LOG_LINES" unfolding l by (simp add: last_lines_def)
  from Cons.IH [OF this] show ?case unfolding l by (simp add: last_lines_append)
qed (simp add: last_lines_short)

text \<open>
  C39. The log of a job is the tail of what its operation reported: after any sequence of events on an
  empty log it is exactly the last 200 of all reported lines, in order, although the code only ever
  holds 200 lines and drops from the front after every event.
\<close>

theorem job_log_tail:
  "j_log (fold (\<lambda>e job. apply_event job e) evs (job\<lparr>j_log := []\<rparr>)) = last_lines LOG_LINES (concat (map log_lines evs))"
  by (subst job_log_events) simp_all

text \<open>
  C40. What Proxmox answered stays in the server's log: when a failure has a Proxmox cause, however deep
  under recovery context, the job and the planning request report one of six fixed texts with the
  same code, whatever the answer, the context and the other causes say.
\<close>

theorem pve_errors_public:
  "(case f of OpCore e \<Rightarrow> pve_error_of e | _ \<Rightarrow> None) = Some err \<Longrightarrow>
   je_code (job_error_of f) = error_code_text (ae_code (plan_error f)) \<and> je_message (job_error_of f) = ae_message (plan_error f) \<and>
   ae_message (plan_error f) \<in> snd ` public_pve_error `
     {Unreachable [], Unauthorized, Forbidden [], NodeUnreachable [], Response [], PveConfig []}"
proof -
  assume f: "(case f of OpCore e \<Rightarrow> pve_error_of e | _ \<Rightarrow> None) = Some err"
  have "snd (public_pve_error err) \<in> snd ` public_pve_error `
      {Unreachable [], Unauthorized, Forbidden [], NodeUnreachable [], Response [], PveConfig []}" by (cases err) simp_all
  with f show ?thesis by (simp add: job_error_of_def plan_error_def api_error_of_pve_def)
qed

theorem pve_errors_public_witness:
  "ae_message (plan_error (OpCore (Context ''x'' [Failed ''y'', PveErr (Api 500 ''secret'')]))) =
     ''Proxmox returned an error or an unusable response.'' \<and>
   je_code (job_error_of (OpCore (Context ''x'' [Failed ''y'', PveErr (Api 500 ''secret'')]))) = ''pve_error''"
  using pve_errors_public [of "OpCore (Context ''x'' [Failed ''y'', PveErr (Api 500 ''secret'')])" "Api 500 ''secret''"]
  by (simp add: plan_error_def api_error_of_pve_def)

end
