(* ===== verification/Operations.thy ===== *)
theory Operations
  imports Destroy Jobs
begin

text \<open>
  The operation model of the server (\<^verbatim>\<open>hs-server/src/operations.rs\<close>): plans kept for a while, applied under
  admission, jobs and the VMs they work on. Every critical section of the code (the parts that hold the
  mutex) is one function on \<open>ops\<close>; what happens between them is interleaved in \<open>Operation_Protocol\<close>.
  The hash and the printed JSON are parameters, and so is the time.
\<close>

section \<open>State\<close>

definition MAX_PLANS :: nat where "MAX_PLANS = 128"
definition MAX_CONCURRENT_JOBS :: nat where "MAX_CONCURRENT_JOBS = 32"

record planned =
  pd_targets :: "nat list"
  pd_summary :: json

record stored_plan =
  sp_plan :: plan
  sp_parameters :: json
  sp_config_version :: "string option"
  sp_operation :: string
  sp_expires :: nat

datatype apply_refusal =
    PlanUnknown
  | PlanChanged
  | ConfigChanged
  | PlanApplied
  | TargetBusy "string option"
  | SecretsWrong string
  | ApplyFailure op_failure

record ops =
  op_plans :: "stored_plan bmap"
  op_jobs :: "job list"
  op_busy :: "nat set"
  op_free :: nat

definition ops_new :: ops where
  "ops_new = \<lparr>op_plans = [], op_jobs = [], op_busy = {}, op_free = MAX_CONCURRENT_JOBS\<rparr>"

section \<open>The digest of a plan\<close>

fun remove_available :: "string list \<Rightarrow> json \<Rightarrow> json" where
  "remove_available [] (JObj m) = JObj (bt_remove ''available_bytes'' m)"
| "remove_available (k # ks) (JObj m) =
     (case bt_get m k of None \<Rightarrow> JObj m | Some v \<Rightarrow> JObj (bt_insert k (remove_available ks v) m))"
| "remove_available ks v = v"

definition signed_summary :: "json \<Rightarrow> json" where
  "signed_summary summary =
     fold remove_available [[''capacity''], [''capacity'', ''target''], [''capacity'', ''source_clone'']] summary"

definition canonical :: "string \<Rightarrow> json \<Rightarrow> string option \<Rightarrow> planned \<Rightarrow> json" where
  "canonical operation parameters version p =
     jobj [(''operation'', JStr operation), (''parameters'', parameters), (''config_version'', jopt JStr version),
       (''targets'', JArr (map jnat (pd_targets p))), (''summary'', signed_summary (pd_summary p))]"

definition digest :: "(json \<Rightarrow> string) \<Rightarrow> string \<Rightarrow> json \<Rightarrow> string option \<Rightarrow> planned \<Rightarrow> string" where
  "digest sha operation parameters version p = sha (canonical operation parameters version p)"

section \<open>Critical sections\<close>

definition lock :: "nat \<Rightarrow> ops \<Rightarrow> ops" where
  "lock now s = s\<lparr>op_plans := filter (\<lambda>(_, sp). now < sp_expires sp) (op_plans s)\<rparr>"

definition running :: "ops \<Rightarrow> string \<Rightarrow> bool" where
  "running s jid \<longleftrightarrow> list_ex (\<lambda>j. j_id j = jid \<and> \<not> job_finished (j_state j)) (op_jobs s)"

text \<open>Newest first: every active job and the newest finished ones.\<close>

fun trim_from :: "nat \<Rightarrow> nat \<Rightarrow> job list \<Rightarrow> job list" where
  "trim_from retained n [] = []"
| "trim_from retained n (j # js) =
     (if \<not> job_finished (j_state j) then j # trim_from retained n js
      else if Suc n \<le> max retained 1 then j # trim_from retained (Suc n) js
      else trim_from retained (Suc n) js)"

definition trim_jobs :: "nat \<Rightarrow> ops \<Rightarrow> ops" where
  "trim_jobs retained s = s\<lparr>op_jobs := trim_from retained 0 (op_jobs s)\<rparr>"

definition release_targets :: "nat \<Rightarrow> nat \<Rightarrow> nat list \<Rightarrow> ops \<Rightarrow> ops" where
  "release_targets now retained targets s =
     trim_jobs retained ((lock now s)\<lparr>op_busy := op_busy s - set targets\<rparr>)"

text \<open>Dropping an admission: the targets first, then the permit.\<close>

definition drop_admission :: "nat \<Rightarrow> nat \<Rightarrow> nat list \<Rightarrow> ops \<Rightarrow> ops" where
  "drop_admission now retained targets s = (let s' = release_targets now retained targets s in s'\<lparr>op_free := Suc (op_free s')\<rparr>)"

definition store_plan :: "nat \<Rightarrow> stored_plan \<Rightarrow> ops \<Rightarrow> (op_failure + plan) \<times> ops" where
  "store_plan now sp s =
     (let s' = lock now s
      in if MAX_PLANS \<le> length (op_plans s')
         then (Inl (OpCore (Busy ''This instance already holds 128 plans; apply one or wait for expiry.'')), s')
         else (Inr (sp_plan sp), s'\<lparr>op_plans := bt_insert (pl_id (sp_plan sp)) sp (op_plans s')\<rparr>))"

definition get_plan :: "nat \<Rightarrow> string \<Rightarrow> ops \<Rightarrow> plan option" where
  "get_plan now pid s = map_option sp_plan (bt_get (op_plans (lock now s)) pid)"

definition secrets_required :: "json \<Rightarrow> string set" where
  "secrets_required summary =
     (case Option.bind (jget summary ''secrets_required'') as_array of
        None \<Rightarrow> {}
      | Some names \<Rightarrow> set (List.map_filter as_str names))"

definition admit_stored ::
  "string option \<Rightarrow> string set \<Rightarrow> string \<Rightarrow> stored_plan \<Rightarrow> nat set \<Rightarrow> apply_refusal + unit" where
  "admit_stored version given client_digest sp taken =
     bindR (require (pl_digest (sp_plan sp) = client_digest) PlanChanged) (\<lambda>_.
     bindR (require (sp_config_version sp = version) ConfigChanged) (\<lambda>_.
     bindR (require (secrets_required (pl_summary (sp_plan sp)) \<subseteq> given)
       (SecretsWrong (''The plan needs a secret the request did not send; see the plan'' @ [CHR 0x27] @ ''s secrets_required.''))) (\<lambda>_.
     bindR (require (given \<subseteq> secrets_required (pl_summary (sp_plan sp)))
       (SecretsWrong ''The request sends a secret the plan does not need.'')) (\<lambda>_.
     require (set (pl_targets (sp_plan sp)) \<inter> taken = {}) (TargetBusy None)))))"

text \<open>The permit is taken first and given back by every refusal.\<close>

definition apply_admit ::
  "nat \<Rightarrow> string option \<Rightarrow> string set \<Rightarrow> string \<Rightarrow> string \<Rightarrow> ops \<Rightarrow> (apply_refusal + stored_plan) \<times> ops" where
  "apply_admit now version given pid client_digest s =
     (if op_free s = 0
      then (Inl (TargetBusy (Some ''This instance already admits 32 jobs; wait for one to finish.'')), s)
      else
        let s' = lock now s
        in if list_ex (\<lambda>j. j_plan_id j = pid) (op_jobs s') then (Inl PlanApplied, s')
           else
             (case bt_get (op_plans s') pid of
                None \<Rightarrow> (Inl PlanUnknown, s')
              | Some sp \<Rightarrow>
                  (case admit_stored version given client_digest sp (op_busy s') of
                     Inl e \<Rightarrow> (Inl e, s')
                   | Inr _ \<Rightarrow>
                       (Inr sp, s'\<lparr>op_busy := op_busy s' \<union> set (pl_targets (sp_plan sp)), op_free := op_free s' - 1\<rparr>))))"

definition replanned ::
  "(json \<Rightarrow> string) \<Rightarrow> string option \<Rightarrow> stored_plan \<Rightarrow> op_failure + planned \<Rightarrow> apply_refusal + planned" where
  "replanned sha version sp r =
     bindR (map_err ApplyFailure r) (\<lambda>p.
     bindR (require (digest sha (pl_operation (sp_plan sp)) (sp_parameters sp) version p = pl_digest (sp_plan sp)) PlanChanged) (\<lambda>_.
     Inr p))"

definition new_job :: "string \<Rightarrow> plan \<Rightarrow> string \<Rightarrow> job" where
  "new_job jid plan created =
     \<lparr>j_id = jid, j_operation = pl_operation plan, j_plan_id = pl_id plan, j_state = Queued, j_created_at = created,
      j_started_at = None, j_finished_at = None, j_steps = [], j_tasks = [], j_progress = None, j_log = [], j_result = None,
      j_error = None\<rparr>"

definition publish :: "nat \<Rightarrow> nat \<Rightarrow> job \<Rightarrow> ops \<Rightarrow> ops" where
  "publish now retained job s =
     (let s' = lock now s
      in trim_jobs retained (s'\<lparr>op_plans := bt_remove (j_plan_id job) (op_plans s'), op_jobs := job # op_jobs s'\<rparr>))"

definition modify_job :: "string \<Rightarrow> (job \<Rightarrow> job) \<Rightarrow> ops \<Rightarrow> ops" where
  "modify_job jid f s = s\<lparr>op_jobs := map (\<lambda>j. if j_id j = jid then f j else j) (op_jobs s)\<rparr>"

definition start_job :: "string \<Rightarrow> job \<Rightarrow> job" where
  "start_job at_time job = job\<lparr>j_state := JobRunning, j_started_at := Some at_time\<rparr>"

definition panic_failure :: op_failure where
  "panic_failure = OpCore (Failed ''The operation stopped on an internal error; see the server log.'')"

text \<open>The outcome is \<open>None\<close> when the operation panicked.\<close>

definition finish_job :: "string \<Rightarrow> (op_failure + json) option \<Rightarrow> job \<Rightarrow> job" where
  "finish_job at_time outcome job =
     (let job' = job\<lparr>j_finished_at := Some at_time, j_progress := None\<rparr>
      in case (case outcome of None \<Rightarrow> Inl panic_failure | Some r \<Rightarrow> r) of
           Inr result \<Rightarrow> job'\<lparr>j_state := Succeeded, j_result := Some result\<rparr>
         | Inl failure \<Rightarrow> job'\<lparr>j_state := JobFailed, j_error := Some (job_error_of failure)\<rparr>)"

section \<open>Leases of a job\<close>

definition job_holder :: "string \<Rightarrow> string \<Rightarrow> string \<Rightarrow> nat \<Rightarrow> (string \<Rightarrow> bool) \<Rightarrow> holder" where
  "job_holder inst jid operation now runs =
     \<lparr>h_instance = inst, h_job = jid, h_operation = operation, h_now = now, h_ttl = LEASE_TTL, h_running = runs\<rparr>"

text \<open>The clock and the running jobs are read anew for every target: \<open>H\<close> gives the holder for each.\<close>

definition check_leases :: "'w ext \<Rightarrow> codec \<Rightarrow> (nat \<Rightarrow> holder) \<Rightarrow> nat list \<Rightarrow> ('w, unit) op" where
  "check_leases S C H targets = bindE (mapM_E (\<lambda>vmid. check_free S C vmid (H vmid)) targets) (\<lambda>_. returnE ())"

definition release_leases :: "'w ext \<Rightarrow> codec \<Rightarrow> string \<Rightarrow> string \<Rightarrow> nat list \<Rightarrow> ('w, unit) op" where
  "release_leases S C inst jid targets = bindE (mapM_E (\<lambda>vmid. tryE (release S C vmid inst jid)) targets) (\<lambda>_. returnE ())"

definition acquire_one :: "'w ext \<Rightarrow> codec \<Rightarrow> holder \<Rightarrow> nat \<Rightarrow> json \<Rightarrow> ('w, json) op" where
  "acquire_one S C h vmid summary =
     bindE (acquire S C vmid h) (\<lambda>acquired.
     if h_operation h = ''workspace.destroy'' then
       bindE (liftE (ok_or acquired (Refused ''Workspace disappeared before its destroy lease was acquired''))) (\<lambda>a.
       liftE (authorize_destroy_lease C summary a))
     else returnE summary)"

text \<open>On a failure the leases of the targets tried so far, the failed one included, are released.\<close>

fun acquire_from ::
  "'w ext \<Rightarrow> codec \<Rightarrow> (nat \<Rightarrow> holder) \<Rightarrow> string \<Rightarrow> string \<Rightarrow> nat list \<Rightarrow> nat list \<Rightarrow> json \<Rightarrow> ('w, json) op" where
  "acquire_from S C H inst jid tried [] summary = returnE summary"
| "acquire_from S C H inst jid tried (vmid # targets) summary =
     bindE (tryE (acquire_one S C (H vmid) vmid summary)) (\<lambda>r.
     case r of
       Inr summary' \<Rightarrow> acquire_from S C H inst jid (tried @ [vmid]) targets summary'
     | Inl e \<Rightarrow> bindE (release_leases S C inst jid (tried @ [vmid])) (\<lambda>_. throwE e))"

definition acquire_leases ::
  "'w ext \<Rightarrow> codec \<Rightarrow> (nat \<Rightarrow> holder) \<Rightarrow> string \<Rightarrow> string \<Rightarrow> planned \<Rightarrow> ('w, planned) op" where
  "acquire_leases S C H inst jid p =
     bindE (acquire_from S C H inst jid [] (pd_targets p) (pd_summary p)) (\<lambda>summary. returnE (p\<lparr>pd_summary := summary\<rparr>))"

definition lease_refusal :: "core_error \<Rightarrow> apply_refusal" where
  "lease_refusal e = (case e of Busy m \<Rightarrow> TargetBusy (Some m) | _ \<Rightarrow> ApplyFailure (OpCore e))"

definition refusal_error :: "apply_refusal \<Rightarrow> api_error" where
  "refusal_error r =
     (case r of
        PlanUnknown \<Rightarrow> \<lparr>ae_code = ENotFound, ae_message = ''No such plan; plans expire.'', ae_field = None\<rparr>
      | PlanChanged \<Rightarrow>
          \<lparr>ae_code = EPlanChanged, ae_message = ''The cluster changed since the plan was made, or the digest differs; make a new plan.'', ae_field = None\<rparr>
      | ConfigChanged \<Rightarrow>
          \<lparr>ae_code = EConfigVersionMismatch, ae_message = ''The configuration changed since the plan was made; make a new plan.'', ae_field = None\<rparr>
      | PlanApplied \<Rightarrow> \<lparr>ae_code = EPlanApplied, ae_message = ''The plan was already applied.'', ae_field = None\<rparr>
      | TargetBusy None \<Rightarrow> \<lparr>ae_code = EBusy, ae_message = ''Another job is working on a VM of this plan.'', ae_field = None\<rparr>
      | TargetBusy (Some m) \<Rightarrow> \<lparr>ae_code = EBusy, ae_message = m, ae_field = None\<rparr>
      | SecretsWrong m \<Rightarrow> \<lparr>ae_code = ESecretRequired, ae_message = m, ae_field = None\<rparr>
      | ApplyFailure f \<Rightarrow> plan_error f)"

section \<open>What runs is what was reviewed\<close>

lemma remove_available_other: "k \<noteq> k' \<Longrightarrow> jget (remove_available (k # ks) v) k' = jget v k'"
  by (cases v) (auto simp: bt_get_insert split: option.split)

lemma signed_summary_other: "k \<noteq> ''capacity'' \<Longrightarrow> jget (signed_summary v) k = jget v k"
  by (simp add: signed_summary_def remove_available_other del: remove_available.simps)

lemma canonical_inject:
  assumes "canonical op1 ps v p = canonical op1 ps v q"
  shows "pd_targets p = pd_targets q \<and> signed_summary (pd_summary p) = signed_summary (pd_summary q)"
proof -
  have "jget (canonical op1 ps v p) ''targets'' = jget (canonical op1 ps v q) ''targets''"
    "jget (canonical op1 ps v p) ''summary'' = jget (canonical op1 ps v q) ''summary''" using assms by simp_all
  moreover have "inj jnat" by (simp add: inj_def jnat_def)
  ultimately show ?thesis by (simp add: canonical_def jget_jobj inj_map_eq_map)
qed


definition sample_planned :: "nat \<Rightarrow> planned" where
  "sample_planned free =
     \<lparr>pd_targets = [101], pd_summary = jobj [(''name'', JStr ''w''),
        (''capacity'', jobj [(''required_bytes'', jnat 5), (''available_bytes'', jnat free)])]\<rparr>"

definition sample_sign :: "json \<Rightarrow> string" where
  "sample_sign v = (if v = canonical ''o'' JNull None (sample_planned 0) then ''d'' else ''e'')"

definition sample_plan_stored :: stored_plan where
  "sample_plan_stored =
     \<lparr>sp_plan = \<lparr>pl_id = ''a'', pl_operation = ''o'', pl_digest = ''d'', pl_created_at = [], pl_expires_at = [], pl_targets = [101],
        pl_summary = pd_summary (sample_planned 7)\<rparr>,
      sp_parameters = JNull, sp_config_version = None, sp_operation = ''o'', sp_expires = 900\<rparr>"


end
