(* ===== verification/Operation_Protocol.thy ===== *)
theory Operation_Protocol
  imports Operations "HOL-Library.Multiset"
begin

text \<open>
  Any number of requests plan, apply and follow jobs at the same time. A step is one critical section of
  \<^verbatim>\<open>hs-server/src/operations.rs\<close> or one update of a job; between the steps of one apply, those of others run.
  What an operation plans and how it ends is arbitrary. Identifiers of plans and jobs are new
  (\<^verbatim>\<open>Uuid::new_v4\<close>), and the clock does not go back (\<^verbatim>\<open>Instant\<close>).
\<close>

section \<open>Steps\<close>

text \<open>An apply that was admitted: it replans and takes leases, then its job works, then it is done.\<close>

datatype act_phase = Admitted | Working string | JobDone string

record activity =
  ac_stored :: stored_plan
  ac_phase :: act_phase

definition ac_targets :: "activity \<Rightarrow> nat set" where
  "ac_targets a = set (pl_targets (sp_plan (ac_stored a)))"

definition ac_plan_id :: "activity \<Rightarrow> string" where
  "ac_plan_id a = pl_id (sp_plan (ac_stored a))"

text \<open>
  Next to the state of the server: the admitted applies, the plans ever made under each identifier,
  the identifiers of the jobs so far, and the plans applied so far.
\<close>

record system =
  sy_ops :: ops
  sy_now :: nat
  sy_acts :: "activity list"
  sy_made :: "string \<Rightarrow> stored_plan option"
  sy_jids :: "string set"
  sy_applied :: "string list"

definition system_new :: system where
  "system_new = \<lparr>sy_ops = ops_new, sy_now = 0, sy_acts = [], sy_made = (\<lambda>_. None), sy_jids = {}, sy_applied = []\<rparr>"

inductive ops_step :: "(json \<Rightarrow> string) \<Rightarrow> nat \<Rightarrow> nat \<Rightarrow> system \<Rightarrow> system \<Rightarrow> bool" for sha ttl retained where
  tick: "sy_now s \<le> t \<Longrightarrow> ops_step sha ttl retained s (s\<lparr>sy_now := t\<rparr>)"
| make: "pid = pl_id (sp_plan sp) \<Longrightarrow> sy_made s pid = None \<Longrightarrow> sp_expires sp = sy_now s + ttl \<Longrightarrow>
     store_plan (sy_now s) sp (sy_ops s) = (r, o') \<Longrightarrow>
     ops_step sha ttl retained s (s\<lparr>sy_ops := o', sy_made := (sy_made s)(pid := Some sp)\<rparr>)"
| admit: "apply_admit (sy_now s) version given pid client_digest (sy_ops s) = (Inr sp, o') \<Longrightarrow>
     ops_step sha ttl retained s (s\<lparr>sy_ops := o', sy_acts := \<lparr>ac_stored = sp, ac_phase = Admitted\<rparr> # sy_acts s\<rparr>)"
| refuse: "apply_admit (sy_now s) version given pid client_digest (sy_ops s) = (Inl e, o') \<Longrightarrow>
     ops_step sha ttl retained s (s\<lparr>sy_ops := o'\<rparr>)"
| give_up: "sy_acts s = xs @ a # ys \<Longrightarrow> ac_phase a = Admitted \<Longrightarrow>
     ops_step sha ttl retained s
       (s\<lparr>sy_ops := drop_admission (sy_now s) retained (pl_targets (sp_plan (ac_stored a))) (sy_ops s), sy_acts := xs @ ys\<rparr>)"
| start_work: "sy_acts s = xs @ a # ys \<Longrightarrow> ac_phase a = Admitted \<Longrightarrow> jid \<notin> sy_jids s \<Longrightarrow>
     replanned sha (sp_config_version (ac_stored a)) (ac_stored a) r = Inr p \<Longrightarrow>
     ops_step sha ttl retained s
       (s\<lparr>sy_ops := publish (sy_now s) retained (new_job jid (sp_plan (ac_stored a)) created) (sy_ops s),
          sy_acts := xs @ a\<lparr>ac_phase := Working jid\<rparr> # ys, sy_jids := insert jid (sy_jids s),
          sy_applied := ac_plan_id a # sy_applied s\<rparr>)"
| started: "a \<in> set (sy_acts s) \<Longrightarrow> ac_phase a = Working jid \<Longrightarrow>
     ops_step sha ttl retained s (s\<lparr>sy_ops := modify_job jid (start_job at_time) (sy_ops s)\<rparr>)"
| event: "a \<in> set (sy_acts s) \<Longrightarrow> ac_phase a = Working jid \<Longrightarrow>
     ops_step sha ttl retained s (s\<lparr>sy_ops := modify_job jid (\<lambda>j. apply_event j ev) (sy_ops s)\<rparr>)"
| finish: "sy_acts s = xs @ a # ys \<Longrightarrow> ac_phase a = Working jid \<Longrightarrow>
     ops_step sha ttl retained s
       (s\<lparr>sy_ops := modify_job jid (finish_job at_time outcome) (sy_ops s), sy_acts := xs @ a\<lparr>ac_phase := JobDone jid\<rparr> # ys\<rparr>)"
| drop_done: "sy_acts s = xs @ a # ys \<Longrightarrow> ac_phase a = JobDone jid \<Longrightarrow>
     ops_step sha ttl retained s
       (s\<lparr>sy_ops := drop_admission (sy_now s) retained (pl_targets (sp_plan (ac_stored a))) (sy_ops s), sy_acts := xs @ ys\<rparr>)"

inductive ops_reachable :: "(json \<Rightarrow> string) \<Rightarrow> nat \<Rightarrow> nat \<Rightarrow> system \<Rightarrow> bool" for sha ttl retained where
  init: "ops_reachable sha ttl retained system_new"
| step: "ops_reachable sha ttl retained s \<Longrightarrow> ops_step sha ttl retained s s' \<Longrightarrow> ops_reachable sha ttl retained s'"

inductive_cases ops_stepE: "ops_step sha ttl retained s s'"

section \<open>Admissions\<close>

definition held :: "activity list \<Rightarrow> nat set" where
  "held as = (\<Union>a \<in> set as. ac_targets a)"

definition apart :: "activity list \<Rightarrow> bool" where
  "apart as \<longleftrightarrow> sorted_wrt (\<lambda>a b. ac_targets a \<inter> ac_targets b = {}) as"

definition admission_inv :: "system \<Rightarrow> bool" where
  "admission_inv s \<longleftrightarrow>
     op_free (sy_ops s) + length (sy_acts s) = MAX_CONCURRENT_JOBS \<and> op_busy (sy_ops s) = held (sy_acts s) \<and> apart (sy_acts s)"

lemma lock_fields [simp]:
  "op_free (lock now s) = op_free s" "op_busy (lock now s) = op_busy s" "op_jobs (lock now s) = op_jobs s"
  "op_free (trim_jobs r s) = op_free s" "op_busy (trim_jobs r s) = op_busy s" "op_plans (trim_jobs r s) = op_plans s"
  "op_free (modify_job jid f s) = op_free s" "op_busy (modify_job jid f s) = op_busy s" "op_plans (modify_job jid f s) = op_plans s"
  by (simp_all add: lock_def trim_jobs_def modify_job_def)

lemma publish_fields [simp]:
  "op_free (publish now r job s) = op_free s" "op_busy (publish now r job s) = op_busy s"
  by (simp_all add: publish_def Let_def)

lemma drop_admission_fields [simp]:
  "op_free (drop_admission now r ts s) = Suc (op_free s)" "op_busy (drop_admission now r ts s) = op_busy s - set ts"
  by (simp_all add: drop_admission_def release_targets_def Let_def)

lemma store_plan_fields:
  "store_plan now sp s = (r, s') \<Longrightarrow> op_free s' = op_free s \<and> op_busy s' = op_busy s \<and> op_jobs s' = op_jobs s"
  by (auto simp: store_plan_def Let_def split: if_splits)

lemma apply_admit_Inl: "apply_admit now version given pid d s = (Inl e, s') \<Longrightarrow> s' = s \<or> s' = lock now s"
  by (auto simp: apply_admit_def Let_def split: if_splits option.splits sum.splits)

lemma apply_admit_Inr:
  assumes "apply_admit now version given pid d s = (Inr sp, s')"
  shows "0 < op_free s \<and> bt_get (op_plans (lock now s)) pid = Some sp \<and> \<not> list_ex (\<lambda>j. j_plan_id j = pid) (op_jobs s) \<and>
    set (pl_targets (sp_plan sp)) \<inter> op_busy s = {} \<and>
    s' = (lock now s)\<lparr>op_busy := op_busy s \<union> set (pl_targets (sp_plan sp)), op_free := op_free s - 1\<rparr>"
  using assms by (auto simp: apply_admit_def admit_stored_def Let_def split: if_splits option.splits sum.splits)

lemma held_simps [simp]:
  "held [] = {}" "held (a # as) = ac_targets a \<union> held as" "held (xs @ ys) = held xs \<union> held ys"
  by (auto simp: held_def)

lemma ac_targets_phase [simp]: "ac_targets (a\<lparr>ac_phase := p\<rparr>) = ac_targets a" "ac_plan_id (a\<lparr>ac_phase := p\<rparr>) = ac_plan_id a"
  by (simp_all add: ac_targets_def ac_plan_id_def)

lemma apart_mid: "apart (xs @ a # ys) \<longleftrightarrow> apart (xs @ ys) \<and> ac_targets a \<inter> held (xs @ ys) = {}"
  unfolding apart_def held_def sorted_wrt_append sorted_wrt.simps by auto blast+

lemma apart_Cons: "apart (a # as) \<longleftrightarrow> ac_targets a \<inter> held as = {} \<and> apart as"
  by (auto simp: apart_def held_def)

lemma admission_step:
  assumes "ops_step sha ttl retained s s'" and "admission_inv s"
  shows "admission_inv s'"
  using assms
proof (cases rule: ops_step.cases)
  case (make pid sp r o')
  then show ?thesis using assms(2) by (auto simp: admission_inv_def dest: store_plan_fields)
next
  case (admit version given pid client_digest sp o')
  from apply_admit_Inr [OF admit(2)] show ?thesis using assms(2) unfolding admit(1) admission_inv_def
    by (auto simp: apart_Cons ac_targets_def)
next
  case (refuse version given pid client_digest e o')
  from apply_admit_Inl [OF refuse(2)] show ?thesis using assms(2) unfolding refuse(1) admission_inv_def by (elim disjE) simp_all
next
  case (give_up xs a ys)
  then show ?thesis using assms(2) by (auto simp: admission_inv_def apart_mid simp flip: ac_targets_def)
next
  case (drop_done xs a ys jid)
  then show ?thesis using assms(2) by (auto simp: admission_inv_def apart_mid simp flip: ac_targets_def)
qed (auto simp: admission_inv_def apart_mid)

lemma reachable_admission: "ops_reachable sha ttl retained s \<Longrightarrow> admission_inv s"
proof (induction rule: ops_reachable.induct)
  case init
  show ?case by (simp add: system_new_def ops_new_def admission_inv_def apart_def)
qed (rule admission_step)

section \<open>Plans\<close>

text \<open>A plan is what was made under its identifier; one that was applied is not kept.\<close>

definition plans_ok :: "(string \<Rightarrow> stored_plan option) \<Rightarrow> string list \<Rightarrow> stored_plan bmap \<Rightarrow> bool" where
  "plans_ok made applied plans \<longleftrightarrow>
     bt_wf plans \<and> length plans \<le> MAX_PLANS \<and>
     (\<forall>(pid, sp) \<in> set plans. pl_id (sp_plan sp) = pid \<and> made pid = Some sp \<and> pid \<notin> set applied)"

definition acts_ok :: "(string \<Rightarrow> stored_plan option) \<Rightarrow> string list \<Rightarrow> activity list \<Rightarrow> bool" where
  "acts_ok made applied acts \<longleftrightarrow>
     (\<forall>a \<in> set acts. made (ac_plan_id a) = Some (ac_stored a) \<and>
        (ac_phase a = Admitted \<and> ac_targets a \<noteq> {} \<longrightarrow> ac_plan_id a \<notin> set applied))"

text \<open>The applied plans that change a VM.\<close>

definition changing :: "(string \<Rightarrow> stored_plan option) \<Rightarrow> string \<Rightarrow> bool" where
  "changing made pid \<longleftrightarrow> (case made pid of None \<Rightarrow> False | Some sp \<Rightarrow> pl_targets (sp_plan sp) \<noteq> [])"

definition plans_inv :: "system \<Rightarrow> bool" where
  "plans_inv s \<longleftrightarrow>
     plans_ok (sy_made s) (sy_applied s) (op_plans (sy_ops s)) \<and> acts_ok (sy_made s) (sy_applied s) (sy_acts s) \<and>
     (\<forall>pid \<in> set (sy_applied s). sy_made s pid \<noteq> None) \<and> distinct (filter (changing (sy_made s)) (sy_applied s))"

lemma plans_ok_lock: "plans_ok made applied (op_plans s) \<Longrightarrow> plans_ok made applied (op_plans (lock now s))"
  by (auto simp: plans_ok_def lock_def bt_wf_def sorted_wrt_map intro: sorted_wrt_filter order_trans [OF length_filter_le])

lemma drop_admission_plans: "op_plans (drop_admission now r ts s) = op_plans (lock now s)"
  by (simp add: drop_admission_def release_targets_def Let_def)

lemma publish_plans: "op_plans (publish now r job s) = bt_remove (j_plan_id job) (op_plans (lock now s))"
  by (simp add: publish_def Let_def)

lemma bt_insert_bounds: "length (bt_insert k v m) \<le> Suc (length m)" "set (bt_insert k v m) \<subseteq> insert (k, v) (set m)"
  by (induction k v m rule: bt_insert.induct) auto

lemma bt_remove_bounds: "length (bt_remove k m) \<le> length m" "set (bt_remove k m) \<subseteq> set m"
  by (induction k m rule: bt_remove.induct) auto

lemma plans_ok_remove:
  assumes "plans_ok made applied plans"
  shows "plans_ok made (pid # applied) (bt_remove pid plans)"
proof -
  have wf: "bt_wf plans" using assms by (simp add: plans_ok_def)
  have "k \<noteq> pid" if "(k, v) \<in> set (bt_remove pid plans)" for k v
    using that bt_get_eq_iff [OF bt_wf_remove [OF wf]] bt_get_remove [OF wf] by (metis option.distinct(1))
  then show ?thesis
    using assms bt_remove_bounds [of pid plans] bt_wf_remove [OF wf]
    by (auto simp: plans_ok_def dest!: subsetD)
qed

lemma plans_ok_made: "plans_ok made applied plans \<Longrightarrow> made pid = None \<Longrightarrow> plans_ok (made(pid := Some sp)) applied plans"
  unfolding plans_ok_def by (auto simp: Ball_def split_paired_all split: if_splits)

lemma store_plan_ok:
  assumes "store_plan now sp s = (r, s')" and "plans_ok made applied (op_plans s)" and "pid = pl_id (sp_plan sp)" and "made pid = None"
    and "\<forall>q \<in> set applied. made q \<noteq> None"
  shows "plans_ok (made(pid := Some sp)) applied (op_plans s')"
proof -
  note l = plans_ok_lock [OF assms(2), of now]
  have l': "plans_ok (made(pid := Some sp)) applied (op_plans (lock now s))"
    using l assms(4) by (intro plans_ok_made)
  show ?thesis
  proof (cases "MAX_PLANS \<le> length (op_plans (lock now s))")
    case True
    then show ?thesis using assms(1) l' by (auto simp: store_plan_def Let_def)
  next
    case False
    then have s': "op_plans s' = bt_insert pid sp (op_plans (lock now s))"
      using assms(1,3) by (auto simp: store_plan_def Let_def)
    show ?thesis unfolding s' plans_ok_def
    proof (intro conjI)
      show "bt_wf (bt_insert pid sp (op_plans (lock now s)))" using l' by (simp add: plans_ok_def bt_wf_insert)
      show "length (bt_insert pid sp (op_plans (lock now s))) \<le> MAX_PLANS"
        using bt_insert_bounds(1) [of pid sp "op_plans (lock now s)"] False by simp
      show "\<forall>(q, x) \<in> set (bt_insert pid sp (op_plans (lock now s))). pl_id (sp_plan x) = q \<and> (made(pid := Some sp)) q = Some x \<and> q \<notin> set applied"
      proof (rule ballI)
        fix x assume "x \<in> set (bt_insert pid sp (op_plans (lock now s)))"
        then have "x = (pid, sp) \<or> x \<in> set (op_plans (lock now s))" using bt_insert_bounds(2) by fast
        then show "case x of (q, x) \<Rightarrow> pl_id (sp_plan x) = q \<and> (made(pid := Some sp)) q = Some x \<and> q \<notin> set applied"
          using l' assms(3-5) unfolding plans_ok_def by auto
      qed
    qed
  qed
qed


lemma acts_ok_sub: "acts_ok made applied as \<Longrightarrow> set as' \<subseteq> set as \<Longrightarrow> acts_ok made applied as'"
  by (auto simp: acts_ok_def)

lemma acts_ok_made: "acts_ok made applied as \<Longrightarrow> made pid = None \<Longrightarrow> acts_ok (made(pid := Some sp)) applied as"
  unfolding acts_ok_def by (metis fun_upd_apply option.distinct(1))

lemma changing_made: "made pid = None \<Longrightarrow> \<forall>q \<in> set applied. made q \<noteq> None \<Longrightarrow>
    filter (changing (made(pid := Some sp))) applied = filter (changing made) applied"
  by (rule filter_cong) (auto simp: changing_def)

text \<open>The steps from an admission to its job.\<close>

lemma start_work_acts:
  assumes "acts_ok made applied (xs @ a # ys)" and "apart (xs @ a # ys)" and "ac_phase a = Admitted"
  shows "acts_ok made (ac_plan_id a # applied) (xs @ a\<lparr>ac_phase := Working jid\<rparr> # ys)"
proof -
  have "ac_plan_id b \<noteq> ac_plan_id a" if b: "b \<in> set (xs @ ys)" "ac_targets b \<noteq> {}" for b
  proof
    assume e: "ac_plan_id b = ac_plan_id a"
    have "made (ac_plan_id a) = Some (ac_stored a)" "made (ac_plan_id b) = Some (ac_stored b)"
      using assms(1) b(1) by (auto simp: acts_ok_def)
    then have "ac_targets b = ac_targets a" using e by (simp add: ac_targets_def)
    moreover have "ac_targets a \<inter> ac_targets b = {}" using assms(2) b(1) unfolding apart_mid held_def by blast
    ultimately show False using b(2) by simp
  qed
  then show ?thesis using assms(1) by (auto simp: acts_ok_def)
qed

lemma plans_step:
  assumes st: "ops_step sha ttl retained s s'" and inv: "plans_inv s" "admission_inv s"
  shows "plans_inv s'"
  using st
proof (cases rule: ops_step.cases)
  case (make pid sp r o')
  have i: "plans_ok (sy_made s) (sy_applied s) (op_plans (sy_ops s))" "acts_ok (sy_made s) (sy_applied s) (sy_acts s)"
    "\<forall>q \<in> set (sy_applied s). sy_made s q \<noteq> None" "distinct (filter (changing (sy_made s)) (sy_applied s))"
    using inv(1) by (simp_all add: plans_inv_def)
  show ?thesis unfolding plans_inv_def make(1)
    using store_plan_ok [OF make(5) i(1) make(2,3) i(3)] acts_ok_made [OF i(2) make(3), of sp] changing_made [OF make(3) i(3), of sp] i(3,4)
    by simp
next
  case (admit version given pid client_digest sp o')
  note a = apply_admit_Inr [OF admit(2)]
  have p: "plans_ok (sy_made s) (sy_applied s) (op_plans (lock (sy_now s) (sy_ops s)))"
    using inv(1) by (auto simp: plans_inv_def intro: plans_ok_lock)
  have "(pid, sp) \<in> set (op_plans (lock (sy_now s) (sy_ops s)))" by (rule bt_get_in_set) (rule a [THEN conjunct2, THEN conjunct1])
  then have "sy_made s (pl_id (sp_plan sp)) = Some sp" "pl_id (sp_plan sp) \<notin> set (sy_applied s)"
    using p by (auto simp: plans_ok_def)
  then show ?thesis using inv(1) p a admit(1) by (auto simp: plans_inv_def acts_ok_def ac_plan_id_def)
next
  case (refuse version given pid client_digest e o')
  from apply_admit_Inl [OF refuse(2)] show ?thesis using inv(1) plans_ok_lock unfolding refuse(1) plans_inv_def by (elim disjE) simp_all
next
  case (give_up xs a ys)
  then show ?thesis using inv(1) by (auto simp: plans_inv_def drop_admission_plans intro: plans_ok_lock elim: acts_ok_sub)
next
  case (start_work xs a ys jid r p created)
  have acts: "acts_ok (sy_made s) (sy_applied s) (xs @ a # ys)" "apart (xs @ a # ys)"
    using inv start_work(2) by (auto simp: plans_inv_def admission_inv_def)
  have m: "sy_made s (ac_plan_id a) = Some (ac_stored a)" using acts(1) by (auto simp: acts_ok_def)
  have "changing (sy_made s) (ac_plan_id a) \<Longrightarrow> ac_plan_id a \<notin> set (sy_applied s)"
    using acts(1) start_work(3) m by (auto simp: acts_ok_def changing_def ac_targets_def)
  moreover have "plans_ok (sy_made s) (ac_plan_id a # sy_applied s) (bt_remove (ac_plan_id a) (op_plans (lock (sy_now s) (sy_ops s))))"
    using inv(1) by (auto simp: plans_inv_def intro!: plans_ok_remove plans_ok_lock)
  moreover note start_work_acts [OF acts start_work(3), of jid]
  ultimately show ?thesis using inv(1) start_work(1) m
    by (auto simp: plans_inv_def publish_plans new_job_def ac_plan_id_def)
next
  case (finish xs a ys jid at_time outcome)
  then show ?thesis using inv(1) by (auto simp: plans_inv_def acts_ok_def)
next
  case (drop_done xs a ys jid)
  then show ?thesis using inv(1) by (auto simp: plans_inv_def drop_admission_plans intro: plans_ok_lock elim: acts_ok_sub)
qed (use inv(1) in \<open>auto simp: plans_inv_def\<close>)

lemma reachable_plans: "ops_reachable sha ttl retained s \<Longrightarrow> plans_inv s"
proof (induction rule: ops_reachable.induct)
  case init
  show ?case by (simp add: system_new_def ops_new_def plans_inv_def plans_ok_def acts_ok_def)
next
  case (step s s')
  then show ?case using plans_step reachable_admission by blast
qed


section \<open>Jobs\<close>

abbreviation done_job :: "job \<Rightarrow> bool" where
  "done_job j \<equiv> job_finished (j_state j)"

fun phase_job :: "act_phase \<Rightarrow> string option" where
  "phase_job Admitted = None"
| "phase_job (Working jid) = Some jid"
| "phase_job (JobDone jid) = Some jid"

fun is_done :: "act_phase \<Rightarrow> bool" where
  "is_done (JobDone jid) = True"
| "is_done _ = False"

definition act_jobs :: "activity list \<Rightarrow> string list" where
  "act_jobs as = List.map_filter (\<lambda>a. phase_job (ac_phase a)) as"

definition works :: "activity list \<Rightarrow> job \<Rightarrow> bool" where
  "works as j \<longleftrightarrow> (\<exists>a \<in> set as. ac_phase a = Working (j_id j) \<and> ac_plan_id a = j_plan_id j)"

definition jobs_ok :: "string set \<Rightarrow> job list \<Rightarrow> activity list \<Rightarrow> bool" where
  "jobs_ok jids jobs acts \<longleftrightarrow>
     distinct (map j_id jobs) \<and> j_id ` set jobs \<subseteq> jids \<and> distinct (act_jobs acts) \<and> set (act_jobs acts) \<subseteq> jids \<and>
     (\<forall>j \<in> set jobs. if done_job j then \<forall>a \<in> set acts. ac_phase a \<noteq> Working (j_id j) else works acts j)"

definition done_count :: "nat \<Rightarrow> job list \<Rightarrow> activity list \<Rightarrow> bool" where
  "done_count retained jobs acts \<longleftrightarrow>
     length (filter done_job jobs) \<le> max retained 1 + length (filter (\<lambda>a. is_done (ac_phase a)) acts)"

definition jobs_inv :: "nat \<Rightarrow> system \<Rightarrow> bool" where
  "jobs_inv retained s \<longleftrightarrow>
     jobs_ok (sy_jids s) (op_jobs (sy_ops s)) (sy_acts s) \<and> done_count retained (op_jobs (sy_ops s)) (sy_acts s)"

lemma trim_from_facts:
  "filter (\<lambda>j. \<not> done_job j) (trim_from r n js) = filter (\<lambda>j. \<not> done_job j) js"
  "length (filter done_job (trim_from r n js)) \<le> max r 1 - n"
  "set (trim_from r n js) \<subseteq> set js" "distinct (map j_id js) \<Longrightarrow> distinct (map j_id (trim_from r n js))"
proof -
  show "set (trim_from r n js) \<subseteq> set js"
    by (induction r n js rule: trim_from.induct) auto
  show "filter (\<lambda>j. \<not> done_job j) (trim_from r n js) = filter (\<lambda>j. \<not> done_job j) js"
    "length (filter done_job (trim_from r n js)) \<le> max r 1 - n"
    by (induction r n js rule: trim_from.induct) auto
  have all: "set (trim_from r n js) \<subseteq> set js" for r n js by (induction r n js rule: trim_from.induct) auto
  show "distinct (map j_id js) \<Longrightarrow> distinct (map j_id (trim_from r n js))"
    by (induction r n js rule: trim_from.induct) (use all in \<open>auto dest!: subsetD\<close>)
qed

lemma act_jobs_simps [simp]:
  "act_jobs [] = []" "act_jobs (a # as) = (case phase_job (ac_phase a) of None \<Rightarrow> [] | Some jid \<Rightarrow> [jid]) @ act_jobs as"
  "act_jobs (xs @ ys) = act_jobs xs @ act_jobs ys"
  by (auto simp: act_jobs_def List.map_filter_def split: option.splits)


lemma jobs_ok_trim: "jobs_ok jids jobs acts \<Longrightarrow> jobs_ok jids (trim_from r n jobs) acts"
  using trim_from_facts(3,4) [where r = r and n = n and js = jobs] unfolding jobs_ok_def by blast

lemma done_count_trim: "done_count r (trim_from r 0 jobs) acts"
  using trim_from_facts(2) [where r = r and n = 0 and js = jobs] by (simp add: done_count_def)

lemma jobs_fields [simp]:
  "op_jobs (drop_admission now r ts s) = trim_from r 0 (op_jobs s)" "op_jobs (publish now r j s) = trim_from r 0 (j # op_jobs s)"
  "op_jobs (modify_job jid f s) = map (\<lambda>j. if j_id j = jid then f j else j) (op_jobs s)"
  by (simp_all add: drop_admission_def release_targets_def publish_def trim_jobs_def modify_job_def Let_def)

lemma act_jobs_iff: "jid \<in> set (act_jobs as) \<longleftrightarrow> (\<exists>a \<in> set as. ac_phase a = Working jid \<or> ac_phase a = JobDone jid)"
proof -
  have "phase_job p = Some jid \<longleftrightarrow> p = Working jid \<or> p = JobDone jid" for p by (cases p) auto
  then show ?thesis by (force simp: act_jobs_def List.map_filter_def)
qed

lemma works_sub: "works as j \<Longrightarrow> set as \<subseteq> set bs \<Longrightarrow> works bs j"
  by (auto simp: works_def)

text \<open>An activity with no job comes and goes.\<close>

lemma jobs_ok_add: "jobs_ok jids jobs as \<Longrightarrow> ac_phase a = Admitted \<Longrightarrow> jobs_ok jids jobs (a # as)"
  unfolding jobs_ok_def by (auto simp: works_def split: if_splits)

lemma jobs_ok_remove:
  assumes "jobs_ok jids jobs (xs @ a # ys)" and "\<And>jid. ac_phase a \<noteq> Working jid"
  shows "jobs_ok jids jobs (xs @ ys)"
proof -
  have "works (xs @ ys) j" if "works (xs @ a # ys) j" for j using that assms(2) by (auto simp: works_def)
  then show ?thesis using assms(1) unfolding jobs_ok_def by (auto split: if_splits)
qed

lemma jobs_ok_start:
  assumes "jobs_ok jids jobs (xs @ a # ys)" and "ac_phase a = Admitted" and "jid \<notin> jids" and "j_id j = jid" "j_plan_id j = ac_plan_id a" "\<not> done_job j"
  shows "jobs_ok (insert jid jids) (j # jobs) (xs @ a\<lparr>ac_phase := Working jid\<rparr> # ys)"
proof -
  have w: "works (xs @ a\<lparr>ac_phase := Working jid\<rparr> # ys) k" if "works (xs @ a # ys) k" for k
    using that assms(2) by (auto simp: works_def)
  have n: "j_id k \<noteq> jid" if "k \<in> set jobs" for k using assms(1,3) that by (auto simp: jobs_ok_def)
  have "jid \<notin> set (act_jobs (xs @ ys))" using assms(1,3) by (auto simp: jobs_ok_def)
  moreover have "works (xs @ a\<lparr>ac_phase := Working jid\<rparr> # ys) j" using assms(4,5) by (auto simp: works_def)
  ultimately show ?thesis using assms w n unfolding jobs_ok_def by (auto split: if_splits)
qed

lemma jobs_ok_update:
  assumes "jobs_ok jids jobs acts" and "a \<in> set acts" "ac_phase a = Working jid"
    and f: "\<And>j. j_id (f j) = j_id j \<and> j_plan_id (f j) = j_plan_id j \<and> (\<not> done_job j \<longrightarrow> \<not> done_job (f j))"
  shows "jobs_ok jids (map (\<lambda>j. if j_id j = jid then f j else j) jobs) acts"
    and "filter done_job (map (\<lambda>j. if j_id j = jid then f j else j) jobs) = filter done_job jobs"
proof -
  have nd: "\<not> done_job j" if "j \<in> set jobs" "j_id j = jid" for j
    using assms(1-3) that unfolding jobs_ok_def by metis
  have id: "map j_id (map (\<lambda>j. if j_id j = jid then f j else j) jobs) = map j_id jobs" using f by auto
  have "works acts (f j)" if "works acts j" for j using that f by (simp add: works_def)
  then show "jobs_ok jids (map (\<lambda>j. if j_id j = jid then f j else j) jobs) acts"
    using assms(1) f nd unfolding jobs_ok_def id by (auto split: if_splits)
  show "filter done_job (map (\<lambda>j. if j_id j = jid then f j else j) jobs) = filter done_job jobs"
    using nd f by (induction jobs) auto
qed

lemma jobs_ok_finish:
  assumes ok: "jobs_ok jids jobs (xs @ a # ys)" and a: "ac_phase a = Working jid"
    and f: "\<And>j. j_id (f j) = j_id j \<and> done_job (f j)"
  shows "jobs_ok jids (map (\<lambda>j. if j_id j = jid then f j else j) jobs) (xs @ a\<lparr>ac_phase := JobDone jid\<rparr> # ys)"
    and "length (filter done_job (map (\<lambda>j. if j_id j = jid then f j else j) jobs)) \<le> Suc (length (filter done_job jobs))"
proof -
  have id: "map j_id (map (\<lambda>j. if j_id j = jid then f j else j) jobs) = map j_id jobs" using f by auto
  have only: "jid \<notin> set (act_jobs (xs @ ys))" using ok a by (auto simp: jobs_ok_def)
  have w: "works (xs @ a\<lparr>ac_phase := JobDone jid\<rparr> # ys) j" if "works (xs @ a # ys) j" "j_id j \<noteq> jid" for j
    using that a by (auto simp: works_def)
  have n: "\<forall>b \<in> set (xs @ a\<lparr>ac_phase := JobDone jid\<rparr> # ys). ac_phase b \<noteq> Working jid"
    using only by (auto simp: act_jobs_iff)
  show "jobs_ok jids (map (\<lambda>j. if j_id j = jid then f j else j) jobs) (xs @ a\<lparr>ac_phase := JobDone jid\<rparr> # ys)"
    using ok a f w n unfolding jobs_ok_def id by (auto split: if_splits)
  have "distinct (map j_id jobs)" using ok by (simp add: jobs_ok_def)
  then show "length (filter done_job (map (\<lambda>j. if j_id j = jid then f j else j) jobs)) \<le> Suc (length (filter done_job jobs))"
  proof (induction jobs)
    case (Cons j js)
    show ?case
    proof (cases "j_id j = jid")
      case True
      have "\<forall>x \<in> set js. j_id x \<noteq> jid" using Cons.prems True by (auto simp: image_iff)
      then have "map (\<lambda>j. if j_id j = jid then f j else j) js = js" by (auto intro!: map_idI)
      then show ?thesis using True by simp
    qed (use Cons in auto)
  qed simp
qed


lemma event_keeps: "j_id (apply_event j ev) = j_id j \<and> j_plan_id (apply_event j ev) = j_plan_id j \<and> j_state (apply_event j ev) = j_state j"
  by (cases ev) (simp_all add: Let_def)

lemma finish_finishes: "j_id (finish_job t r j) = j_id j \<and> done_job (finish_job t r j)"
  by (auto simp: finish_job_def Let_def split: sum.splits)

lemma jobs_step:
  assumes "ops_step sha ttl retained s s'" and "jobs_inv retained s"
  shows "jobs_inv retained s'"
  using assms(1)
proof (cases rule: ops_step.cases)
  case (make pid sp r o')
  then show ?thesis using assms(2) store_plan_fields [OF make(5)] by (simp add: jobs_inv_def)
next
  case (admit version given pid client_digest sp o')
  then show ?thesis using assms(2) apply_admit_Inr [OF admit(2)] by (auto simp: jobs_inv_def done_count_def intro: jobs_ok_add)
next
  case (refuse version given pid client_digest e o')
  from apply_admit_Inl [OF refuse(2)] show ?thesis using assms(2) unfolding refuse(1) jobs_inv_def by (elim disjE) simp_all
next
  case (give_up xs a ys)
  then show ?thesis using assms(2) by (auto simp: jobs_inv_def intro!: jobs_ok_trim done_count_trim elim: jobs_ok_remove)
next
  case (start_work xs a ys jid r p created)
  have "jobs_ok (insert jid (sy_jids s)) (new_job jid (sp_plan (ac_stored a)) created # op_jobs (sy_ops s)) (xs @ a\<lparr>ac_phase := Working jid\<rparr> # ys)"
    by (rule jobs_ok_start) (use assms(2) start_work(2-4) in \<open>auto simp: jobs_inv_def new_job_def ac_plan_id_def\<close>)
  then show ?thesis using start_work(1) by (simp add: jobs_inv_def jobs_ok_trim done_count_trim del: trim_from.simps)
next
  case (started a jid at_time)
  have ok: "jobs_ok (sy_jids s) (op_jobs (sy_ops s)) (sy_acts s)" using assms(2) by (simp add: jobs_inv_def)
  have f: "j_id (start_job at_time j) = j_id j \<and> j_plan_id (start_job at_time j) = j_plan_id j \<and> (\<not> done_job j \<longrightarrow> \<not> done_job (start_job at_time j))" for j
    by (simp add: start_job_def)
  show ?thesis using jobs_ok_update [OF ok started(2,3) f] assms(2) unfolding started(1) by (simp add: jobs_inv_def done_count_def)
next
  case (event a jid ev)
  have ok: "jobs_ok (sy_jids s) (op_jobs (sy_ops s)) (sy_acts s)" using assms(2) by (simp add: jobs_inv_def)
  have f: "j_id (apply_event j ev) = j_id j \<and> j_plan_id (apply_event j ev) = j_plan_id j \<and> (\<not> done_job j \<longrightarrow> \<not> done_job (apply_event j ev))" for j
    using event_keeps by simp
  show ?thesis using jobs_ok_update [OF ok event(2,3) f] assms(2) unfolding event(1) by (simp add: jobs_inv_def done_count_def)
next
  case (finish xs a ys jid at_time outcome)
  have ok: "jobs_ok (sy_jids s) (op_jobs (sy_ops s)) (xs @ a # ys)" using assms(2) finish(2) by (simp add: jobs_inv_def)
  note f = jobs_ok_finish [OF ok finish(3), where f = "finish_job at_time outcome", OF finish_finishes]
  show ?thesis using f assms(2) finish(2,3) unfolding finish(1)
    by (simp add: jobs_inv_def done_count_def)
next
  case (drop_done xs a ys jid)
  then show ?thesis using assms(2) by (auto simp: jobs_inv_def intro!: jobs_ok_trim done_count_trim elim: jobs_ok_remove)
qed (use assms(2) in \<open>simp add: jobs_inv_def\<close>)

lemma reachable_jobs: "ops_reachable sha ttl retained s \<Longrightarrow> jobs_inv retained s"
proof (induction rule: ops_reachable.induct)
  case init
  show ?case by (simp add: system_new_def ops_new_def jobs_inv_def jobs_ok_def done_count_def)
qed (rule jobs_step)


section \<open>Properties\<close>

definition plan_targets :: "system \<Rightarrow> string \<Rightarrow> nat set" where
  "plan_targets s pid = (case sy_made s pid of None \<Rightarrow> {} | Some sp \<Rightarrow> set (pl_targets (sp_plan sp)))"

definition active :: "system \<Rightarrow> job list" where
  "active s = filter (\<lambda>j. \<not> done_job j) (op_jobs (sy_ops s))"

lemma active_works:
  assumes "ops_reachable sha ttl retained s" and "j \<in> set (active s)"
  obtains a where "a \<in> set (sy_acts s)" "ac_phase a = Working (j_id j)" "plan_targets s (j_plan_id j) = ac_targets a"
proof -
  from reachable_jobs [OF assms(1)] assms(2) have "works (sy_acts s) j"
    by (auto simp: jobs_inv_def jobs_ok_def active_def split: if_splits)
  then obtain a where a: "a \<in> set (sy_acts s)" "ac_phase a = Working (j_id j)" "ac_plan_id a = j_plan_id j" by (auto simp: works_def)
  then have "sy_made s (j_plan_id j) = Some (ac_stored a)"
    using reachable_plans [OF assms(1)] by (auto simp: plans_inv_def acts_ok_def)
  then show ?thesis using that a by (simp add: plan_targets_def ac_targets_def)
qed

lemma working_le: "length (filter (\<lambda>j. \<not> done_job j) jobs) + length (filter (\<lambda>a. is_done (ac_phase a)) acts) \<le> length acts"
  if "jobs_ok jids jobs acts"
proof -
  let ?w = "filter (\<lambda>a. \<not> is_done (ac_phase a)) acts"
  let ?ids = "map j_id (filter (\<lambda>j. \<not> done_job j) jobs)"
  have d: "distinct ?ids" using that by (simp add: jobs_ok_def distinct_map_filter)
  have "set ?ids \<subseteq> (\<lambda>a. the (phase_job (ac_phase a))) ` set ?w"
  proof
    fix x assume "x \<in> set ?ids"
    then obtain j where j: "j \<in> set jobs" "\<not> done_job j" "x = j_id j" by auto
    then have "works acts j" using that by (auto simp: jobs_ok_def split: if_splits)
    then obtain a where "a \<in> set acts" "ac_phase a = Working x" using j(3) by (auto simp: works_def)
    then show "x \<in> (\<lambda>a. the (phase_job (ac_phase a))) ` set ?w" by (intro image_eqI [of _ _ a]) auto
  qed
  then have "card (set ?ids) \<le> card ((\<lambda>a. the (phase_job (ac_phase a))) ` set ?w)" by (intro card_mono) simp_all
  also have "\<dots> \<le> card (set ?w)" by (rule card_image_le) simp
  also have "\<dots> \<le> length ?w" by (rule card_length)
  finally have "length (filter (\<lambda>j. \<not> done_job j) jobs) \<le> length ?w" using distinct_card [OF d] by simp
  moreover have "length ?w + length (filter (\<lambda>a. is_done (ac_phase a)) acts) = length acts"
    using sum_length_filter_compl [of "\<lambda>a. is_done (ac_phase a)" acts] by simp
  ultimately show ?thesis by simp
qed


text \<open>
  C2. A plan is applied at most once: among all applications since the server started, no plan that
  changes a VM occurs twice, even when it is applied from several requests at the same time, and
  even after its job is no longer kept.
\<close>

theorem plan_applied_once:
  assumes "ops_reachable sha ttl retained s"
  shows "distinct (filter (\<lambda>pid. plan_targets s pid \<noteq> {}) (sy_applied s))"
proof -
  have "changing (sy_made s) = (\<lambda>pid. plan_targets s pid \<noteq> {})"
    by (auto simp: changing_def plan_targets_def split: option.splits)
  then show ?thesis using reachable_plans [OF assms] by (simp add: plans_inv_def)
qed

text \<open>
  C37. What the server keeps in memory is bounded: at most 128 plans, and at most the configured number
  of finished jobs (one at least) and 32 more.
\<close>

theorem server_bounded:
  assumes "ops_reachable sha ttl retained s"
  shows "length (op_plans (sy_ops s)) \<le> MAX_PLANS \<and> length (op_jobs (sy_ops s)) \<le> max retained 1 + MAX_CONCURRENT_JOBS"
proof -
  have inv: "admission_inv s" "jobs_ok (sy_jids s) (op_jobs (sy_ops s)) (sy_acts s)" "done_count retained (op_jobs (sy_ops s)) (sy_acts s)"
    using reachable_admission [OF assms] reachable_jobs [OF assms] by (auto simp: jobs_inv_def)
  have "length (op_jobs (sy_ops s)) = length (filter done_job (op_jobs (sy_ops s))) + length (filter (\<lambda>j. \<not> done_job j) (op_jobs (sy_ops s)))"
    by (simp add: sum_length_filter_compl)
  then show ?thesis using working_le [OF inv(2)] inv(1,3) reachable_plans [OF assms]
    by (simp add: plans_inv_def plans_ok_def done_count_def admission_inv_def)
qed

section \<open>The server as a lock manager\<close>

text \<open>
  What the server promises about VMs, with no plans, jobs or time: sets of VMs are taken, each disjoint from
  those held and at most 32 at a time, and given back whole.
\<close>

inductive vm_lock_step :: "nat set multiset \<Rightarrow> nat set multiset \<Rightarrow> bool" where
  skip: "vm_lock_step L L"
| take: "size L < MAX_CONCURRENT_JOBS \<Longrightarrow> (\<And>T. T \<in># L \<Longrightarrow> A \<inter> T = {}) \<Longrightarrow> vm_lock_step L (add_mset A L)"
| give: "vm_lock_step (add_mset A L) L"

definition locks :: "system \<Rightarrow> nat set multiset" where
  "locks s = mset (map ac_targets (sy_acts s))"

text \<open>
  C3. The operation model refines the lock manager: seen through the VMs its admissions hold, every step
  of the server, from every state it can reach, takes one set of free VMs, gives one back, or changes
  nothing; a set is taken only with an admission and given back only at its end.
\<close>

theorem ops_refines_locks:
  assumes "ops_reachable sha ttl retained s" and "ops_step sha ttl retained s s'"
  shows "vm_lock_step (locks s) (locks s')"
  using assms(2)
proof (cases rule: ops_step.cases)
  case (admit version given pid client_digest sp o')
  note a = apply_admit_Inr [OF admit(2)] and inv = reachable_admission [OF assms(1)]
  have "locks s' = add_mset (set (pl_targets (sp_plan sp))) (locks s)" unfolding admit(1) by (simp add: locks_def ac_targets_def)
  moreover have "size (locks s) < MAX_CONCURRENT_JOBS" using a inv by (simp add: locks_def admission_inv_def)
  moreover have "set (pl_targets (sp_plan sp)) \<inter> T = {}" if "T \<in># locks s" for T
    using a inv that by (auto simp: locks_def admission_inv_def held_def)
  ultimately show ?thesis by (simp add: vm_lock_step.take)
next
  case (give_up xs a ys)
  then show ?thesis by (simp add: locks_def vm_lock_step.give)
next
  case (drop_done xs a ys jid)
  then show ?thesis by (simp add: locks_def vm_lock_step.give)
qed (simp_all add: locks_def vm_lock_step.skip)

section \<open>Nothing stays locked\<close>

fun phase_weight :: "act_phase \<Rightarrow> nat" where
  "phase_weight Admitted = 1"
| "phase_weight (Working jid) = 2"
| "phase_weight (JobDone jid) = 1"

lemma drain:
  assumes "ops_reachable sha ttl retained s"
  shows "\<exists>s'. (ops_step sha ttl retained)\<^sup>*\<^sup>* s s' \<and> ops_reachable sha ttl retained s' \<and> sy_acts s' = []"
  using assms
proof (induction "sum_list (map (\<lambda>a. phase_weight (ac_phase a)) (sy_acts s))" arbitrary: s rule: less_induct)
  case less
  show ?case
  proof (cases "sy_acts s")
    case Nil
    then show ?thesis using less.prems by blast
  next
    case (Cons a ys)
    then have e: "sy_acts s = [] @ a # ys" by simp
    have "\<exists>s1. ops_step sha ttl retained s s1 \<and>
        sum_list (map (\<lambda>a. phase_weight (ac_phase a)) (sy_acts s1)) < sum_list (map (\<lambda>a. phase_weight (ac_phase a)) (sy_acts s))"
    proof (cases "ac_phase a")
      case Admitted
      show ?thesis using ops_step.give_up [OF e Admitted] Cons Admitted by force
    next
      case (Working jid)
      show ?thesis using ops_step.finish [OF e Working] Cons Working by force
    next
      case (JobDone jid)
      show ?thesis using ops_step.drop_done [OF e JobDone] Cons JobDone by force
    qed
    then obtain s1 where s1: "ops_step sha ttl retained s s1"
        "sum_list (map (\<lambda>a. phase_weight (ac_phase a)) (sy_acts s1)) < sum_list (map (\<lambda>a. phase_weight (ac_phase a)) (sy_acts s))" by blast
    from less.hyps [OF s1(2) ops_reachable.step [OF less.prems s1(1)]] show ?thesis
      using s1(1) by (meson converse_rtranclp_into_rtranclp)
  qed
qed

text \<open>
  C4. No VM stays locked and no permit is lost: from every state the server can reach, the applies and
  jobs under way can end, each by its own steps alone, and when they have, no VM is busy, all 32
  permits are free and no job is active.
\<close>

theorem locks_end:
  assumes "ops_reachable sha ttl retained s"
  shows "\<exists>s'. (ops_step sha ttl retained)\<^sup>*\<^sup>* s s' \<and> op_busy (sy_ops s') = {} \<and> op_free (sy_ops s') = MAX_CONCURRENT_JOBS \<and> active s' = []"
proof -
  from drain [OF assms] obtain s' where s': "(ops_step sha ttl retained)\<^sup>*\<^sup>* s s'" "ops_reachable sha ttl retained s'" "sy_acts s' = []" by blast
  have "active s' = []" using reachable_jobs [OF s'(2)] s'(3)
    by (auto simp: active_def jobs_inv_def jobs_ok_def works_def filter_empty_conv split: if_splits)
  then show ?thesis using s' reachable_admission [OF s'(2)] by (auto simp: admission_inv_def)
qed

section \<open>A sample run\<close>

text \<open>Two plans for different VMs are made, applied and become jobs.\<close>

definition sample_sha :: "json \<Rightarrow> string" where "sample_sha v = ''d''"

definition sample_stored :: "string \<Rightarrow> nat \<Rightarrow> stored_plan" where
  "sample_stored pid vmid =
     \<lparr>sp_plan = \<lparr>pl_id = pid, pl_operation = ''vm.start'', pl_digest = ''d'', pl_created_at = [], pl_expires_at = [],
        pl_targets = [vmid], pl_summary = JNull\<rparr>,
      sp_parameters = JNull, sp_config_version = None, sp_operation = ''vm.start'', sp_expires = 900\<rparr>"

definition do_make :: "stored_plan \<Rightarrow> system \<Rightarrow> system" where
  "do_make sp s = s\<lparr>sy_ops := snd (store_plan (sy_now s) sp (sy_ops s)), sy_made := (sy_made s)(pl_id (sp_plan sp) := Some sp)\<rparr>"

definition do_admit :: "stored_plan \<Rightarrow> system \<Rightarrow> system" where
  "do_admit sp s = s\<lparr>sy_ops := snd (apply_admit (sy_now s) None {} (pl_id (sp_plan sp)) ''d'' (sy_ops s)),
     sy_acts := \<lparr>ac_stored = sp, ac_phase = Admitted\<rparr> # sy_acts s\<rparr>"

definition do_start :: "string \<Rightarrow> stored_plan \<Rightarrow> activity list \<Rightarrow> system \<Rightarrow> system" where
  "do_start jid sp rest s = s\<lparr>sy_ops := publish (sy_now s) 100 (new_job jid (sp_plan sp) []) (sy_ops s),
     sy_acts := \<lparr>ac_stored = sp, ac_phase = Working jid\<rparr> # rest, sy_jids := insert jid (sy_jids s),
     sy_applied := pl_id (sp_plan sp) # sy_applied s\<rparr>"

definition run1 :: system where "run1 = do_make (sample_stored ''a'' 101) system_new"
definition run2 :: system where "run2 = do_admit (sample_stored ''a'' 101) run1"
definition run3 :: system where "run3 = do_start ''j'' (sample_stored ''a'' 101) [] run2"
definition run4 :: system where "run4 = do_make (sample_stored ''b'' 102) run3"
definition run5 :: system where "run5 = do_admit (sample_stored ''b'' 102) run4"
definition run6 :: system where "run6 = do_start ''k'' (sample_stored ''b'' 102) (sy_acts run4) run5"

lemma do_make_step: "sy_made s (pl_id (sp_plan sp)) = None \<Longrightarrow> sp_expires sp = sy_now s + 900 \<Longrightarrow> ops_step sha 900 100 s (do_make sp s)"
  unfolding do_make_def by (rule ops_step.make [where r = "fst (store_plan (sy_now s) sp (sy_ops s))"]) simp_all

lemma do_admit_step:
  "fst (apply_admit (sy_now s) None {} (pl_id (sp_plan sp)) ''d'' (sy_ops s)) = Inr sp \<Longrightarrow> ops_step sha 900 100 s (do_admit sp s)"
  unfolding do_admit_def by (rule ops_step.admit [where version = None and given = "{}" and pid = "pl_id (sp_plan sp)" and client_digest = "''d''"])
    (simp add: prod_eq_iff)

lemma do_start_step:
  assumes "sy_acts s = \<lparr>ac_stored = sp, ac_phase = Admitted\<rparr> # rest" and "jid \<notin> sy_jids s" and "pl_digest (sp_plan sp) = ''d''"
  shows "ops_step sample_sha 900 100 s (do_start jid sp rest s)"
proof -
  have "replanned sample_sha (sp_config_version sp) sp (Inr \<lparr>pd_targets = [], pd_summary = JNull\<rparr>) = Inr \<lparr>pd_targets = [], pd_summary = JNull\<rparr>"
    using assms(3) by (simp add: replanned_def map_err_def digest_def sample_sha_def)
  then show ?thesis
    using ops_step.start_work [where xs = "[]" and ys = rest and s = s and a = "\<lparr>ac_stored = sp, ac_phase = Admitted\<rparr>" and jid = jid
        and sha = sample_sha and ttl = 900 and retained = 100 and created = "[]"] assms(1,2)
    by (simp add: do_start_def ac_plan_id_def)
qed

lemma run_admits: "ops_step sample_sha 900 100 run1 run2"
  unfolding run2_def by (rule do_admit_step) code_simp

lemma run_reachable:
  "ops_reachable sample_sha 900 100 run1" "ops_reachable sample_sha 900 100 run2" "ops_reachable sample_sha 900 100 run6"
proof -
  have s1: "ops_step sample_sha 900 100 system_new run1" unfolding run1_def by (rule do_make_step) code_simp+
  have s3: "ops_step sample_sha 900 100 run2 run3" unfolding run3_def by (rule do_start_step) code_simp+
  have s4: "ops_step sample_sha 900 100 run3 run4" unfolding run4_def by (rule do_make_step) code_simp+
  have s5: "ops_step sample_sha 900 100 run4 run5" unfolding run5_def by (rule do_admit_step) code_simp
  have s6: "ops_step sample_sha 900 100 run5 run6" unfolding run6_def by (rule do_start_step) code_simp+
  show r1: "ops_reachable sample_sha 900 100 run1" by (rule ops_reachable.step [OF ops_reachable.init s1])
  show r2: "ops_reachable sample_sha 900 100 run2" by (rule ops_reachable.step [OF r1 run_admits])
  show "ops_reachable sample_sha 900 100 run6"
    by (rule ops_reachable.step [OF ops_reachable.step [OF ops_reachable.step [OF ops_reachable.step [OF r2 s3] s4] s5] s6])
qed


theorem plan_applied_once_witness:
  "sy_applied run6 = [''b'', ''a''] \<and> distinct (filter (\<lambda>pid. plan_targets run6 pid \<noteq> {}) (sy_applied run6))"
  using plan_applied_once [OF run_reachable(3)] by (intro conjI) code_simp

theorem server_bounded_witness:
  "length (op_jobs (sy_ops run6)) = 2 \<and> length (op_jobs (sy_ops run6)) \<le> max 100 1 + MAX_CONCURRENT_JOBS"
  using server_bounded [OF run_reachable(3)] by (intro conjI) code_simp+

theorem ops_refines_locks_witness: "locks run2 \<noteq> locks run1 \<and> vm_lock_step (locks run1) (locks run2)"
proof
  have "sy_acts run1 = []" "length (sy_acts run2) = 1" by code_simp+
  then have "size (locks run1) = 0" "size (locks run2) = 1" unfolding locks_def by simp_all
  then show "locks run2 \<noteq> locks run1" by auto
  show "vm_lock_step (locks run1) (locks run2)" by (rule ops_refines_locks [OF run_reachable(1) run_admits])
qed

theorem locks_end_witness:
  "op_busy (sy_ops run6) = {101, 102} \<and>
   (\<exists>s'. (ops_step sample_sha 900 100)\<^sup>*\<^sup>* run6 s' \<and> op_busy (sy_ops s') = {} \<and> op_free (sy_ops s') = MAX_CONCURRENT_JOBS \<and> active s' = [])"
  by (intro conjI, code_simp) (rule locks_end [OF run_reachable(3)])

end
