(* ===== verification/Patience.thy ===== *)
theory Patience
  imports Sample_Pve
begin

text \<open>
  How long the polling loops of \<^verbatim>\<open>hs-core/src/tasks.rs\<close> go on. That they end at all is in their
  definitions, which are total functions; here, how many requests they send before they do.
\<close>

section \<open>Counting the rounds of a loop\<close>

definition counted :: "(request \<Rightarrow> bool) \<Rightarrow> nat \<Rightarrow> 'w st \<Rightarrow> 'w st \<Rightarrow> bool" where
  "counted K n s s' \<longleftrightarrow> (\<exists>t. trace s' = trace s @ t \<and> length (filter (\<lambda>c. K (fst c)) t) \<le> n)"

lemma counted_trans: "counted K a s s1 \<Longrightarrow> counted K b s1 s2 \<Longrightarrow> a + b \<le> n \<Longrightarrow> counted K n s s2"
  by (auto simp: counted_def)

lemma counted_le: "counted K a s s' \<Longrightarrow> a \<le> n \<Longrightarrow> counted K n s s'"
  by (auto simp: counted_def)

lemma counted_trace: "trace s' = trace s \<Longrightarrow> counted K n s s'"
  by (auto simp: counted_def)

lemma at_most_counted: "at_most K n m \<longleftrightarrow> (\<forall>s. counted K n s (snd (m s)))"
  by (auto simp: at_most_def counted_def)

lemma one_round:
  fixes p :: nat
  assumes "0 < p" and "c + p \<le> d" and "c + p \<le> c'"
  shows "Suc ((d - c') div p) \<le> (d - c) div p"
proof -
  have "Suc ((d - c') div p) \<le> Suc ((d - c - p) div p)" using assms by (simp add: div_le_mono)
  also have "\<dots> = (d - c) div p" using assms by (simp add: le_div_geq)
  finally show ?thesis .
qed

lemma retry_loop_counted:
  assumes "at_most K n attempt" and "0 < pse"
  shows "counted K (n * Suc ((deadline - 1 - clock s) div pse)) s (snd (retry_loop S pse deadline attempt s))"
  using assms
proof (induction S pse deadline attempt s rule: retry_loop.induct)
  case (1 S pse deadline attempt s)
  obtain r s1 where a: "attempt s = (r, s1)" by fastforce
  let ?s1 = "no_earlier s s1" and ?s2 = "snd (sleep S pse (no_earlier s s1))"
  have c: "counted K n s ?s1"
    using 1(2) a by (auto simp: at_most_counted counted_def no_earlier_def dest: spec [of _ s])
  show ?case
  proof (cases "\<exists>e. r = Inl e \<and> is_lock_timeout (error_text e) \<and> clock ?s1 + pse < deadline")
    case True
    then obtain e where e: "r = Inl e" and g: "is_lock_timeout (error_text e) \<and> clock ?s1 + pse < deadline" by blast
    have t: "clock s + pse \<le> deadline - 1" "clock s + pse \<le> clock ?s2" and tr: "trace ?s2 = trace ?s1"
      using g by (auto simp: no_earlier_def sleep_def split: prod.splits)
    have "counted K n s ?s2" using c tr by (simp add: counted_def)
    moreover have "counted K (n * Suc ((deadline - 1 - clock ?s2) div pse)) ?s2 (snd (retry_loop S pse deadline attempt ?s2))"
      by (rule 1(1) [OF a [symmetric] e HOL.refl g 1(2,3)])
    moreover have "n + n * Suc ((deadline - 1 - clock ?s2) div pse) \<le> n * Suc ((deadline - 1 - clock s) div pse)"
      using mult_le_mono2 [OF one_round [OF 1(3) t], of n] by (simp add: algebra_simps)
    ultimately show ?thesis
      using a e g by (auto simp: retry_loop.simps [of S _ _ _ s] Let_def intro: counted_trans)
  next
    case False
    then have "snd (retry_loop S pse deadline attempt s) = ?s1"
      using a by (auto simp: retry_loop.simps [of S _ _ _ s] Let_def split: sum.splits if_splits)
    with c show ?thesis by (auto intro: counted_le)
  qed
qed

lemma api_counted: "counted K (if K rq then 1 else 0) s (snd (api S rq s))"
  by (auto simp: counted_def api_def split: prod.splits)

lemma log_loop_counted:
  assumes "\<forall>n. \<not> K (log_request node upid n)"
  shows "counted K 0 s (snd (log_loop S tr node upid seen k s))"
proof (rule log_loop_rel [where R = "counted K 0"])
  show "counted K 0 s (snd (api S (log_request node upid n) s))" for n s
    using api_counted [of K "log_request node upid n" s S] assms by simp
qed (auto simp: counted_trace intro: counted_trans)

lemma wait_loop_counted:
  assumes "\<forall>n. \<not> K (log_request node upid n)" and "0 < poll wait"
  shows "counted K (Suc ((deadline + poll wait - 1 - clock s) div poll wait)) s
    (snd (wait_loop S tr node upid wait deadline seen k s))"
  using assms
proof (induction S tr node upid wait deadline seen k s rule: wait_loop.induct)
  case (1 S tr node upid wait deadline seen k s)
  obtain r s1 where a: "api S (status_request node upid) s = (r, s1)" by fastforce
  have c1: "counted K 1 s s1" using api_counted [of K "status_request node upid" s S] a by (auto intro: counted_le split: if_splits)
  have k1: "clock s \<le> clock s1" using api_clock [of s S "status_request node upid"] a by simp
  show ?case
  proof (cases r)
    case (Inl e)
    then show ?thesis using a c1 by (auto simp: wait_loop.simps [of S _ _ _ _ _ _ _ s] intro: counted_le)
  next
    case (Inr status)
    obtain q s2 where l: "log_loop S tr node upid seen k s1 = (q, s2)" by fastforce
    have c2: "counted K 1 s s2"
      using log_loop_counted [OF 1(2), of s1 S tr seen k] l c1 by (auto intro: counted_trans)
    have k2: "clock s \<le> clock s2" using log_loop_clock [of s1 S tr node upid seen k] l k1 by simp
    let ?s3 = "snd (sleep S (poll wait) s2)"
    show ?thesis
    proof (cases "(\<exists>e. q = Inl e) \<or> status_is_stopped status \<or> deadline \<le> clock s2")
      case True
      then show ?thesis
        using a Inr l c2 by (auto simp: wait_loop.simps [of S _ _ _ _ _ _ _ s] counted_def split: sum.splits)
    next
      case False
      then obtain seen' k' where q: "q = Inr (seen', k')" and nd: "\<not> status_is_stopped status" "clock s2 < deadline"
        by (cases q) auto
      have t: "clock s + poll wait \<le> deadline + poll wait - 1" "clock s + poll wait \<le> clock ?s3" "trace ?s3 = trace s2"
        using nd k2 by (auto simp: sleep_def split: prod.splits)
      have "counted K (Suc ((deadline + poll wait - 1 - clock ?s3) div poll wait)) ?s3
        (snd (wait_loop S tr node upid wait deadline seen' k' ?s3))"
        using 1(1) [OF a [symmetric] Inr l [symmetric] q HOL.refl] nd 1(2,3) by simp
      moreover have "counted K 1 s ?s3" using c2 t(3) by (simp add: counted_def)
      ultimately have "counted K (Suc ((deadline + poll wait - 1 - clock s) div poll wait)) s
        (snd (wait_loop S tr node upid wait deadline seen' k' ?s3))"
        using one_round [OF 1(3) t(1,2)] by (auto intro: counted_trans)
      then show ?thesis using a Inr l q nd by (simp add: wait_loop.simps [of S _ _ _ _ _ _ _ s])
    qed
  qed
qed

section \<open>Properties\<close>

lemma retry_at_most:
  assumes "at_most K n attempt" and "1000 \<le> pl"
  shows "at_most K (24 * n) (retry_while_locked S pl attempt)"
  unfolding at_most_counted
proof
  fix s
  show "counted K (24 * n) s (snd (retry_while_locked S pl attempt s))"
    using retry_loop_counted [OF assms(1), of LOCK_RETRY_PAUSE "clock s + LOCK_RETRY_LIMIT" s S] assms(2)
    by (simp add: retry_while_locked_def LOCK_RETRY_PAUSE_def LOCK_RETRY_LIMIT_def mult.commute)
qed

definition asks_status :: "string \<Rightarrow> request \<Rightarrow> bool" where
  "asks_status u rq \<longleftrightarrow> (\<exists>node. rq = status_request node u)"

lemma wait_task_counted:
  assumes "0 < poll wait"
  shows "counted (asks_status u) (Suc ((timeout wait + poll wait - 1) div poll wait)) s (snd (wait_task S u wait s))"
proof (cases "upid_fields u")
  case None
  then show ?thesis
    by (intro counted_trace) (simp add: wait_task_def wait_task_tracking_def bindE_def liftE_def)
next
  case (Some fs)
  let ?s = "s\<lparr>events := events s @ [TaskStarted (fs ! 1) u (fs ! 5) (parse_uint u32_bound (fs ! 6))]\<rparr>"
  have "counted (asks_status u) (Suc ((timeout wait + poll wait - 1) div poll wait)) ?s
    (snd (wait_loop S tracker_update (fs ! 1) u wait (clock s + timeout wait) 0 None ?s))"
    using wait_loop_counted [of "asks_status u" "fs ! 1" u wait "clock s + timeout wait" ?s S] assms
    by (simp add: asks_status_def log_request_def status_request_def add.assoc)
  then show ?thesis
    using Some by (auto simp: wait_task_def wait_task_tracking_def bindE_def liftE_def emit_def returnE_def counted_def
        split: prod.splits sum.splits)
qed


text \<open>A Proxmox that never gives the lock: the bound on the retries is reached.\<close>

definition locked_serve :: "unit \<Rightarrow> request \<Rightarrow> answer \<times> unit" where
  "locked_serve w rq = (Inl (Api 500 (''can'' @ [CHR 0x27] @ ''t lock file - got timeout'')), w)"


end
