(* ===== verification/Spec2Isabelle.thy ===== *)
theory Spec2Isabelle
  imports Lease_Protocol Destroy Refresh_Safety Migrate_Safety Create_Boot Addkey Resize Operation_Protocol Patience
begin

text \<open>
  HomeStack manages disposable development VMs (workspaces) on a Proxmox VE cluster: a workspace has a
  root disk cloned from a Gold VM and a home disk that outlives it. This development models the part of
  the system that changes the cluster and the part of the server that decides when it may, and proves
  what keeps homes, workspaces and concurrent jobs safe.

  \<^bold>\<open>The program.\<close> A client asks the server (\<^verbatim>\<open>crates/hs-server\<close>) to plan an operation; the server plans it from
  the cluster as it is (\<^verbatim>\<open>plan_*\<close> of \<^verbatim>\<open>crates/hs-core\<close>), keeps the plan and returns its digest. Applying the plan
  admits a job (one job per VM, 32 at once), plans again, compares the digests, writes a lease into
  the description of every VM concerned, so that other server instances stay away, and runs the operation: a
  sequence of named steps that talk to Proxmox through the trait \<^verbatim>\<open>Pve\<close>. An operation that can be
  interrupted half way (refresh) also keeps a journal in the description of the VM.

  \<^bold>\<open>How the model is built.\<close> An operation is a state-passing function \<open>('w, 'a) op\<close> from a state with
  the opaque outside world, a clock in milliseconds, the requests answered so far (\<open>trace\<close>) and the events
  reported so far, to a result (\<open>Inl\<close> an error, \<open>Inr\<close> a value) and the next state. Everything not under \<^verbatim>\<open>src/\<close> is an
  argument: the answers of Proxmox and the time they take (\<open>ext\<close>), printing and parsing of JSON, Base64 and
  calendar times (\<open>codec\<close>, with the laws \<open>codec_ok\<close> and \<open>journal_codec_ok\<close>), the hash, and fresh identifiers. No law
  is assumed of the answers of Proxmox: the safety theorems hold for every cluster, including one that
  changes between any two requests or answers nonsense. Strings are the bytes of their UTF-8 text; \<^verbatim>\<open>BTreeMap\<close> is a sorted
  association list; unsigned integers are naturals with the bound of their width checked where the code checks it
  (\<open>checked_add\<close>, \<open>parse_uint\<close>), addresses are 32-bit words; the percentages of transfer logs and disk sizes are exact
  rationals instead of \<^verbatim>\<open>f64\<close>; case folding is that of ASCII.

  \<^bold>\<open>Loops.\<close> No fuel is used. Loops over time are total functions whose measure is the time left until
  their deadline (a sleep takes at least one millisecond), the loop over the pages of a log has the distance of the
  last line number to \<^verbatim>\<open>u64::MAX\<close> as its measure, all others are structural. \<open>Patience\<close> bounds the requests they send.

  \<^bold>\<open>Foundations.\<close>
  \<^item> \<open>Prelude\<close>, \<open>BTree\<close>, \<open>Json\<close>: results, text and number parsing, the ordered map (locale \<open>ordered_map\<close>, interpreted on the
    sorted association list), JSON values and their readers.
  \<^item> \<open>Pve\<close>: requests, errors (\<^verbatim>\<open>hs-core/src/pve.rs\<close>, \<^verbatim>\<open>error.rs\<close>, \<^verbatim>\<open>hs-pve/src/error.rs\<close>), the operation type, and the
    predicates on traces: \<open>only\<close> (every request satisfies a condition), \<open>at_most\<close> (a bound on their number).
  \<^item> \<open>History\<close>: a logic for facts that the requests sent and answered so far establish; the safety properties
    of destroy, refresh, migrate, create and resize are instances of it.
  \<^item> \<open>Sample_Pve\<close>, \<open>Sample_Running\<close>, \<open>Samples\<close>: the concrete cluster and encodings at which theorems with hypotheses are applied.

  \<^bold>\<open>Parts of hs-core.\<close>
  \<^item> \<open>Tasks\<close> (\<^verbatim>\<open>tasks.rs\<close>), \<open>Patience\<close>: retrying while a VM is locked, following a task and its log; waiting ends and how many
    requests it takes.
  \<^item> \<open>Inventory\<close>, \<open>Status\<close>, \<open>Gold_Config\<close>, \<open>Address\<close> (\<^verbatim>\<open>inventory.rs\<close>, \<^verbatim>\<open>status.rs\<close>, \<^verbatim>\<open>gold.rs\<close>, \<^verbatim>\<open>hs-model/src/address.rs\<close>): the readings of
    the cluster and of VM configurations; the address of a VMID is valid and read back to the VMID.
  \<^item> \<open>Vm_Power\<close>, \<open>Guest\<close>, \<open>Verify\<close>, \<open>Keys\<close>, \<open>Cloudinit\<close> (\<^verbatim>\<open>power.rs\<close>, \<^verbatim>\<open>capacity.rs\<close>, \<^verbatim>\<open>guest.rs\<close>, \<^verbatim>\<open>verify.rs\<close>, \<^verbatim>\<open>keys.rs\<close>,
    \<^verbatim>\<open>cloudinit.rs\<close>): starting and stopping, the guest agent, the checks of a started guest, keys and Cloud-Init options
    with their round trips.
  \<^item> \<open>Description\<close> (\<^verbatim>\<open>description.rs\<close>): the marked blocks in a description. The locales \<open>block_marker\<close> and \<open>two_markers\<close> give the
    laws of one block and of two side by side; they are interpreted for the lease and the journal.
  \<^item> \<open>Lease\<close>, \<open>Lease_Protocol\<close> (\<^verbatim>\<open>lease.rs\<close>): the lease, and mutual exclusion of any number of jobs of any number of
    instances under every interleaving of their reads and writes.
  \<^item> \<open>Lifecycle\<close>, \<open>Destroy\<close> (\<^verbatim>\<open>lifecycle.rs\<close>, \<^verbatim>\<open>workspace_destroy.rs\<close>): helpers, the power operation, and destroy: only the
    reviewed VM is deleted, once, right after a fresh review.
  \<^item> \<open>Journal\<close>, \<open>Refresh\<close>, \<open>Refresh_Safety\<close> (\<^verbatim>\<open>refresh.rs\<close>): the journal, every step of refresh and recovery, and the
    proof that the home is never deleted (locale \<open>unlink_policy\<close>, interpreted for three policies).
  \<^item> \<open>Migrate\<close>, \<open>Migrate_Safety\<close> (\<^verbatim>\<open>migrate.rs\<close>): a VM is moved only when it was read as stopped, and what a success shows.
  \<^item> \<open>Create_Transfer\<close>, \<open>Create\<close>, \<open>Create_Safety\<close>, \<open>Create_Boot\<close> (\<^verbatim>\<open>create_transfer.rs\<close>, \<^verbatim>\<open>lifecycle.rs\<close>): create up to the
    verified guest, the removal of a failed clone, and what has been checked before the first boot.
  \<^item> \<open>Addkey\<close> (\<^verbatim>\<open>addkey.rs\<close>): one more SSH key; no key is lost, what is written is read back, and nothing else is done to the VM.
  \<^item> \<open>Resize\<close> (\<^verbatim>\<open>resize.rs\<close>): growing a disk in Proxmox and its layers in the guest; a disk never shrinks, and only the reviewed
    volume at the reviewed size is resized. The inspection of the guest is an argument.

  \<^bold>\<open>The server.\<close>
  \<^item> \<open>Jobs\<close> (\<^verbatim>\<open>hs-model/src/jobs.rs\<close>, \<^verbatim>\<open>hs-model/src/error.rs\<close>, \<^verbatim>\<open>hs-server/src/error.rs\<close>, \<^verbatim>\<open>jobs.rs\<close>): plans, jobs, their events and the
    errors reported; Proxmox details never get out, the log of a job is the tail of what was reported.
  \<^item> \<open>Operations\<close> (\<^verbatim>\<open>hs-server/src/operations.rs\<close>): every critical section of the operation model as a function on its state, the
    digest and the leases of a job; what is applied is what was reviewed.
  \<^item> \<open>Operation_Protocol\<close>: these sections interleaved as a step relation: jobs exclude each other, a plan is applied
    once, the server refines an abstract lock manager, everything locked can be released, memory is bounded.

  \<^bold>\<open>Not modelled.\<close> The clients (\<^verbatim>\<open>hs-cli\<close> with its TUI, \<^verbatim>\<open>hs-client\<close>), installation and deployment (\<^verbatim>\<open>hs-install\<close>, \<^verbatim>\<open>hs-deploy\<close>,
  \<^verbatim>\<open>hs-config\<close>), the monitoring services (\<^verbatim>\<open>hs-usage\<close>, \<^verbatim>\<open>hs-metrics\<close>, \<^verbatim>\<open>hs-pve-agent\<close>, \<^verbatim>\<open>hs-agent-accounts\<close>, \<^verbatim>\<open>hs-service-status\<close>), the
  simulator and the end-to-end tests (\<^verbatim>\<open>pve-sim\<close>, \<^verbatim>\<open>hs-e2e\<close>): they display, drive external programs or serve tests, and
  change a workspace only through the server. Of \<^verbatim>\<open>hs-server\<close>: the HTTP layer (routes, authentication, TLS,
  stores of configuration and secrets). Of \<^verbatim>\<open>hs-core\<close>: the reports of \<^verbatim>\<open>status.rs\<close>, the readiness check of \<^verbatim>\<open>gold.rs\<close> inside the
  guest, the inspection of the disks inside a guest (\<^verbatim>\<open>resize_guest.rs\<close>), and the service discovery, registry and prefetch modules.
\<close>

section \<open>Properties of all operations\<close>

text \<open>
  C36. Planning changes nothing, as the server requires of every operation: whatever the cluster
  answers, planning a power operation, a destruction, a refresh, a migration or a new key sends only reads,
  planning a create only reads and pings of guest agents, and so does the validation of a destruction.
\<close>

theorem planning_reads:
  "list_all is_get (requests (plan_power S cfg pool gold_pool vmid start) s) \<and>
   list_all is_get (requests (plan_destroy S cfg pool vmid) s) \<and>
   list_all is_get (requests (validate S cfg pool plan stopped) s) \<and>
   list_all is_get (requests (plan_refresh S C cfg pool vmid gold force) s) \<and>
   list_all is_get (requests (plan_migrate S cfg pool rq) s) \<and>
   list_all is_get (requests (plan_addkey S cfg pool arq) s) \<and>
   list_all (\<lambda>rq. is_get rq \<or> (\<exists>n g. rq = Post (agent n g ''ping'') [])) (requests (plan_create S cfg pool creq) s)"
  by (intro conjI only_requests [OF only_plan_power] destroy_planning_reads [THEN conjunct1] destroy_planning_reads [THEN conjunct2]
      plan_refresh_reads plan_migrate_reads plan_addkey_reads plan_create_reads) simp

end
